(* ===== verification/Prelude.thy ===== *)
theory Prelude
  imports Main "HOL-Library.Multiset" "HOL-Library.AList" "HOL-Library.List_Lexorder" "HOL-Library.Char_ord"
begin

text \<open>
  The ground the components stand on: the parts of the Go standard library the source
  uses (strings as byte lists, UTF-8 runes, \<open>strings.TrimSpace\<close>, \<open>strings.Split\<close>,
  \<open>fmt.Sscanf\<close> of one integer, \<open>strconv.Atoi\<close>, \<open>time\<close> values and saturating
  durations), error values, and the lemmas on lists and association lists that the
  component theories share.

  A Go string is a list of bytes, and so is \<^typ>\<open>string\<close> (a \<^typ>\<open>char\<close> has 256
  values). An instant of type \<open>time.Time\<close> is the number of nanoseconds since Go's
  zero time, so \<open>IsZero\<close> is equality with 0.
\<close>

named_theorems go_defs \<open>definitions of small standard-library functions\<close>

type_synonym time = int
type_synonym duration = int

subsection \<open>Errors\<close>

text \<open>
  The error values that code under \<open>src/internal\<close> tells apart: \<open>sql.ErrNoRows\<close>,
  the server's \<open>inputError\<close>, an error of the database driver, an error wrapped by
  \<open>fmt.Errorf\<close> with a prefix, any other error with a fixed text, and a Go panic (an
  outcome no \<open>if err != nil\<close> of the source sees).
\<close>

datatype err =
    ErrNoRows
  | InputError string
  | DriverError string
  | WrapErr string err
  | OtherError string
  | Panic string

type_synonym 'a res = "err + 'a"

text \<open>\<open>errors.Is(err, sql.ErrNoRows)\<close> and \<open>errors.As(err, &inputError)\<close>: both
  look through wrapping.\<close>

fun is_no_rows :: "err \<Rightarrow> bool" where
  "is_no_rows ErrNoRows = True"
| "is_no_rows (WrapErr _ e) = is_no_rows e"
| "is_no_rows _ = False"

fun as_input_error :: "err \<Rightarrow> string option" where
  "as_input_error (InputError m) = Some m"
| "as_input_error (WrapErr _ e) = as_input_error e"
| "as_input_error _ = None"

fun is_panic :: "err \<Rightarrow> bool" where
  "is_panic (Panic _) = True"
| "is_panic (WrapErr _ e) = is_panic e"
| "is_panic _ = False"

text \<open>\<open>err.Error()\<close>.\<close>

fun err_text :: "err \<Rightarrow> string" where
  "err_text ErrNoRows = ''sql: no rows in result set''"
| "err_text (InputError m) = m"
| "err_text (DriverError m) = m"
| "err_text (WrapErr p e) = p @ '': '' @ err_text e"
| "err_text (OtherError m) = m"
| "err_text (Panic m) = m"

subsection \<open>Operations on a state that may fail\<close>

text \<open>
  An operation takes the state and returns a result and the new state: \<open>ret\<close> is
  \<open>return x, nil\<close>, \<open>fail\<close> is \<open>return err\<close>, \<open>and_then\<close> is a call followed by
  \<open>if err != nil { return err }\<close>, \<open>wrap\<close> adds a prefix by \<open>fmt.Errorf\<close>, \<open>attempt\<close>
  hands the outcome, an error included, to what follows.
\<close>

type_synonym ('s, 'a) op = "'s \<Rightarrow> 'a res \<times> 's"

definition ret :: "'a \<Rightarrow> ('s, 'a) op" where
  "ret x s = (Inr x, s)"

definition fail :: "err \<Rightarrow> ('s, 'a) op" where
  "fail e s = (Inl e, s)"

definition and_then :: "('s, 'a) op \<Rightarrow> ('a \<Rightarrow> ('s, 'b) op) \<Rightarrow> ('s, 'b) op" where
  "and_then m f s = (case m s of (Inl e, s1) \<Rightarrow> (Inl e, s1) | (Inr x, s1) \<Rightarrow> f x s1)"

definition wrap :: "string \<Rightarrow> ('s, 'a) op \<Rightarrow> ('s, 'a) op" where
  "wrap p m s = (case m s of (Inl e, s1) \<Rightarrow> (Inl (WrapErr p e), s1) | (Inr x, s1) \<Rightarrow> (Inr x, s1))"

definition attempt :: "('s, 'a) op \<Rightarrow> ('a res \<Rightarrow> ('s, 'b) op) \<Rightarrow> ('s, 'b) op" where
  "attempt m f s = (case m s of (r, s1) \<Rightarrow> f r s1)"

definition get_state :: "('s, 's) op" where
  "get_state s = (Inr s, s)"

text \<open>A \<open>for\<close> loop whose body may return an error.\<close>

fun for_each :: "('a \<Rightarrow> ('s, unit) op) \<Rightarrow> 'a list \<Rightarrow> ('s, unit) op" where
  "for_each f [] = ret ()"
| "for_each f (x # xs) = and_then (f x) (\<lambda>_. for_each f xs)"

lemmas op_defs = ret_def fail_def and_then_def wrap_def attempt_def get_state_def

text \<open>
  \<open>keeps R m\<close>: whatever the outcome, the state before and the state after \<open>m\<close> are in
  relation \<open>R\<close>. The rules for a reflexive and transitive \<open>R\<close> follow the shape of an
  operation.
\<close>

definition keeps :: "('s \<Rightarrow> 's \<Rightarrow> bool) \<Rightarrow> ('s, 'a) op \<Rightarrow> bool" where
  "keeps R m \<longleftrightarrow> (\<forall>s. R s (snd (m s)))"

named_theorems keeps_rules \<open>rules of the form keeps R m\<close>

locale state_relation =
  fixes R :: "'s \<Rightarrow> 's \<Rightarrow> bool"
  assumes refl: "R s s"
    and trans: "R s t \<Longrightarrow> R t u \<Longrightarrow> R s u"
begin

lemma keeps_ret: "keeps R (ret x)"
  by (simp add: keeps_def ret_def refl)

lemma keeps_fail: "keeps R (fail e)"
  by (simp add: keeps_def fail_def refl)

lemma keeps_get_state: "keeps R get_state"
  by (simp add: keeps_def get_state_def refl)

lemma keeps_and_then:
  assumes "keeps R m" and "\<And>x. keeps R (f x)"
  shows "keeps R (and_then m f)"
  unfolding keeps_def
proof
  fix s
  have m: "R s (snd (m s))" using assms(1) by (simp add: keeps_def)
  have f: "R t (snd (f x t))" for x t using assms(2) by (simp add: keeps_def)
  obtain r s1 where e: "m s = (r, s1)" by (cases "m s")
  show "R s (snd (and_then m f s))"
    using m f trans by (cases r) (auto simp: and_then_def e)
qed

lemma keeps_wrap: "keeps R m \<Longrightarrow> keeps R (wrap p m)"
  by (auto simp: keeps_def wrap_def split: prod.splits sum.splits) (metis snd_conv)+

lemma keeps_attempt:
  assumes "keeps R m" and "\<And>x. keeps R (f x)"
  shows "keeps R (attempt m f)"
  unfolding keeps_def
proof
  fix s
  have m: "R s (snd (m s))" using assms(1) by (simp add: keeps_def)
  have f: "R t (snd (f x t))" for x t using assms(2) by (simp add: keeps_def)
  obtain r s1 where e: "m s = (r, s1)" by (cases "m s")
  show "R s (snd (attempt m f s))"
    using m f [of s1 r] trans by (auto simp: attempt_def e)
qed

lemma keeps_for_each: "(\<And>x. keeps R (f x)) \<Longrightarrow> keeps R (for_each f xs)"
  by (induction xs) (auto intro: keeps_ret keeps_and_then)

lemmas keeps_ops = keeps_ret keeps_fail keeps_get_state keeps_and_then keeps_wrap keeps_attempt
  keeps_for_each

end

text \<open>
  \<open>returns I m Q\<close>: from a state in \<open>I\<close>, \<open>m\<close> ends in a state in \<open>I\<close>, whatever its outcome,
  and a result satisfies \<open>Q\<close>.
\<close>

definition returns :: "('s \<Rightarrow> bool) \<Rightarrow> ('s, 'a) op \<Rightarrow> ('a \<Rightarrow> bool) \<Rightarrow> bool" where
  "returns I m Q \<longleftrightarrow> (\<forall>s. I s \<longrightarrow> I (snd (m s)) \<and> (\<forall>x. fst (m s) = Inr x \<longrightarrow> Q x))"

abbreviation any :: "'a \<Rightarrow> bool" where "any \<equiv> \<lambda>_. True"

lemma returns_mono: "returns I m P \<Longrightarrow> (\<And>x. P x \<Longrightarrow> Q x) \<Longrightarrow> returns I m Q"
  by (auto simp: returns_def)

lemma returns_any: "returns I m P \<Longrightarrow> returns I m any"
  by (simp add: returns_def)

lemma returns_ret: "Q x \<Longrightarrow> returns I (ret x) Q"
  by (simp add: returns_def ret_def)

lemma returns_fail: "returns I (fail e) Q"
  by (simp add: returns_def fail_def)

lemma returns_get_state: "returns I get_state I"
  by (simp add: returns_def get_state_def)

lemma returns_and_then:
  assumes "returns I m P" and "\<And>x. P x \<Longrightarrow> returns I (f x) Q"
  shows "returns I (and_then m f) Q"
  unfolding returns_def
proof (intro allI impI)
  fix s assume I: "I s"
  obtain r s1 where e: "m s = (r, s1)" by (cases "m s")
  show "I (snd (and_then m f s)) \<and> (\<forall>x. fst (and_then m f s) = Inr x \<longrightarrow> Q x)"
  proof (cases r)
    case (Inl er)
    have "I s1" using assms(1) I e by (auto simp: returns_def dest!: spec [of _ s])
    then show ?thesis by (simp add: and_then_def e Inl)
  next
    case (Inr x)
    have "P x" "I s1" using assms(1) I e Inr by (auto simp: returns_def dest!: spec [of _ s])
    then show ?thesis using assms(2) [of x] by (simp add: and_then_def e Inr returns_def)
  qed
qed

lemma returns_wrap: "returns I m Q \<Longrightarrow> returns I (wrap p m) Q"
  by (auto simp: returns_def wrap_def split: prod.splits sum.splits)

lemma returns_attempt:
  assumes "returns I m P" and "\<And>e. returns I (f (Inl e)) Q"
    and "\<And>x. P x \<Longrightarrow> returns I (f (Inr x)) Q"
  shows "returns I (attempt m f) Q"
  unfolding returns_def
proof (intro allI impI)
  fix s assume I: "I s"
  obtain r s1 where e: "m s = (r, s1)" by (cases "m s")
  have I1: "I s1" using assms(1) I e by (auto simp: returns_def dest!: spec [of _ s])
  show "I (snd (attempt m f s)) \<and> (\<forall>x. fst (attempt m f s) = Inr x \<longrightarrow> Q x)"
  proof (cases r)
    case (Inl er)
    then show ?thesis using assms(2) [of er] I1 by (simp add: attempt_def e returns_def)
  next
    case (Inr x)
    have "P x" using assms(1) I e Inr by (auto simp: returns_def dest!: spec [of _ s])
    then show ?thesis using assms(3) [of x] I1 by (simp add: attempt_def e Inr returns_def)
  qed
qed

lemma returns_for_each: "(\<And>x. returns I (f x) any) \<Longrightarrow> returns I (for_each f xs) any"
  by (induction xs) (auto intro: returns_ret returns_and_then)

subsection \<open>Strings\<close>

definition has_prefix :: "string \<Rightarrow> string \<Rightarrow> bool" where
  [go_defs]: "has_prefix s p \<longleftrightarrow> take (length p) s = p"

definition trim_prefix :: "string \<Rightarrow> string \<Rightarrow> string" where
  [go_defs]: "trim_prefix s p = (if has_prefix s p then drop (length p) s else s)"

definition has_suffix :: "string \<Rightarrow> string \<Rightarrow> bool" where
  [go_defs]: "has_suffix s p \<longleftrightarrow> has_prefix (rev s) (rev p)"

definition trim_suffix :: "string \<Rightarrow> string \<Rightarrow> string" where
  [go_defs]: "trim_suffix s p = (if has_suffix s p then take (length s - length p) s else s)"

lemma has_prefix_append [simp]: "has_prefix (p @ s) p"
  by (simp add: has_prefix_def)

lemma trim_prefix_append [simp]: "trim_prefix (p @ s) p = s"
  by (simp add: trim_prefix_def)

lemma has_prefixE: "has_prefix s p \<Longrightarrow> (\<And>t. s = p @ t \<Longrightarrow> P) \<Longrightarrow> P"
  unfolding has_prefix_def by (metis append_take_drop_id)

lemma has_prefix_iff: "has_prefix s p \<longleftrightarrow> (\<exists>t. s = p @ t)"
  by (auto elim: has_prefixE)

text \<open>\<open>strings.Index\<close> of a one-byte separator: \<^const>\<open>None\<close> stands for \<open>-1\<close>.\<close>

fun index_byte :: "char \<Rightarrow> string \<Rightarrow> nat option" where
  "index_byte c [] = None"
| "index_byte c (x # xs) = (if x = c then Some 0 else map_option Suc (index_byte c xs))"

lemma index_byte_None: "index_byte c s = None \<longleftrightarrow> c \<notin> set s"
  by (induction s) auto

lemma index_byte_Some:
  "index_byte c s = Some i \<Longrightarrow> i < length s \<and> s ! i = c \<and> c \<notin> set (take i s)"
  by (induction s arbitrary: i) (auto split: if_splits)

lemma index_byte_append: "c \<notin> set p \<Longrightarrow> index_byte c (p @ c # s) = Some (length p)"
  by (induction p) auto

text \<open>\<open>strings.Split\<close> by a one-byte separator, \<open>strings.Join\<close> and \<open>strings.Cut\<close>.\<close>

fun split_byte :: "char \<Rightarrow> string \<Rightarrow> string list" where
  "split_byte c [] = [[]]"
| "split_byte c (x # xs) =
     (if x = c then [] # split_byte c xs
      else (case split_byte c xs of [] \<Rightarrow> [[x]] | y # ys \<Rightarrow> (x # y) # ys))"

fun join_str :: "string \<Rightarrow> string list \<Rightarrow> string" where
  "join_str sep [] = []"
| "join_str sep [x] = x"
| "join_str sep (x # y # ys) = x @ sep @ join_str sep (y # ys)"

lemma split_byte_not_Nil [simp]: "split_byte c s \<noteq> []"
  by (induction s) (auto split: list.splits)

lemma join_split: "join_str [c] (split_byte c s) = s"
proof (induction s)
  case Nil
  then show ?case by simp
next
  case (Cons x s)
  obtain y ys where sp: "split_byte c s = y # ys"
    by (cases "split_byte c s") auto
  with Cons show ?case by (cases ys) auto
qed

lemma split_byte_no_sep: "c \<notin> set s \<Longrightarrow> split_byte c s = [s]"
  by (induction s) auto

lemma split_byte_append_sep:
  "c \<notin> set p \<Longrightarrow> split_byte c (p @ c # s) = p # split_byte c s"
  by (induction p) auto

lemma split_byte_elem: "x \<in> set (split_byte c s) \<Longrightarrow> c \<notin> set x"
  by (induction s arbitrary: x) (auto split: if_splits list.splits)

definition cut_byte :: "char \<Rightarrow> string \<Rightarrow> (string \<times> string) option" where
  "cut_byte c s =
     (case index_byte c s of None \<Rightarrow> None | Some i \<Rightarrow> Some (take i s, drop (Suc i) s))"

subsection \<open>UTF-8\<close>

text \<open>
  \<open>utf8.DecodeRuneInString\<close>: the first rune of a non-empty string and its width; a byte
  that starts no valid encoding is \<open>RuneError\<close> (65533) of width 1.
\<close>

definition byte :: "char \<Rightarrow> nat" where
  "byte c = of_char c"

definition cont_byte :: "nat \<Rightarrow> bool" where
  "cont_byte b \<longleftrightarrow> 128 \<le> b \<and> b \<le> 191"

definition decode_rune :: "char \<Rightarrow> string \<Rightarrow> nat \<times> nat" where
  "decode_rune c cs =
     (let b0 = byte c; bs = map byte (take 3 cs); bad = (65533, 1) in
      if b0 < 128 then (b0, 1)
      else if 194 \<le> b0 \<and> b0 \<le> 223 then
        (case bs of b1 # _ \<Rightarrow>
           if cont_byte b1 then ((b0 - 192) * 64 + (b1 - 128), 2) else bad
         | _ \<Rightarrow> bad)
      else if 224 \<le> b0 \<and> b0 \<le> 239 then
        (case bs of b1 # b2 # _ \<Rightarrow>
           if (if b0 = 224 then 160 else 128) \<le> b1 \<and> b1 \<le> (if b0 = 237 then 159 else 191)
              \<and> cont_byte b2
           then ((b0 - 224) * 4096 + (b1 - 128) * 64 + (b2 - 128), 3) else bad
         | _ \<Rightarrow> bad)
      else if 240 \<le> b0 \<and> b0 \<le> 244 then
        (case bs of b1 # b2 # b3 # _ \<Rightarrow>
           if (if b0 = 240 then 144 else 128) \<le> b1 \<and> b1 \<le> (if b0 = 244 then 143 else 191)
              \<and> cont_byte b2 \<and> cont_byte b3
           then ((b0 - 240) * 262144 + (b1 - 128) * 4096 + (b2 - 128) * 64 + (b3 - 128), 4)
           else bad
         | _ \<Rightarrow> bad)
      else bad)"

text \<open>A string as its runes, each with the bytes that encode it.\<close>

function runes :: "string \<Rightarrow> (nat \<times> string) list" where
  "runes [] = []"
| "runes (c # cs) =
     (let (r, n) = decode_rune c cs
      in (r, c # take (n - 1) cs) # runes (drop (n - 1) cs))"
  by pat_completeness auto
termination
  by (relation "measure length") (auto simp: less_Suc_eq_le)

lemma concat_runes: "concat (map snd (runes s)) = s"
  by (induction s rule: runes.induct) (auto simp: Let_def split: prod.splits)

declare runes.simps(2) [simp del]

lemma byte_Char [simp]:
  "byte (Char b0 b1 b2 b3 b4 b5 b6 b7) =
   horner_sum of_bool 2 [b0, b1, b2, b3, b4, b5, b6, b7]"
  by (simp add: byte_def)

lemma runes_ascii [simp]: "byte c < 128 \<Longrightarrow> runes (c # cs) = (byte c, [c]) # runes cs"
  by (simp add: runes.simps(2) decode_rune_def)

definition rune_count :: "string \<Rightarrow> nat" where
  "rune_count s = length (runes s)"

text \<open>\<open>unicode.IsSpace\<close> (also the white space of package \<open>fmt\<close>'s scanner).\<close>

definition is_space_rune :: "nat \<Rightarrow> bool" where
  "is_space_rune r \<longleftrightarrow>
     (9 \<le> r \<and> r \<le> 13) \<or> r = 32 \<or> r = 133 \<or> r = 160 \<or> r = 5760
     \<or> (8192 \<le> r \<and> r \<le> 8202) \<or> r = 8232 \<or> r = 8233 \<or> r = 8239 \<or> r = 8287 \<or> r = 12288"

text \<open>\<open>strings.TrimSpace\<close>.\<close>

definition trim_space :: "string \<Rightarrow> string" where
  "trim_space s =
     concat (map snd (rev (dropWhile (is_space_rune \<circ> fst)
       (rev (dropWhile (is_space_rune \<circ> fst) (runes s))))))"

lemma trim_space_Nil [simp]: "trim_space [] = []"
  by (simp add: trim_space_def)

subsection \<open>Decimal integers\<close>

definition is_digit :: "char \<Rightarrow> bool" where
  "is_digit c \<longleftrightarrow> 48 \<le> byte c \<and> byte c \<le> 57"

definition digits_val :: "string \<Rightarrow> int" where
  "digits_val ds = foldl (\<lambda>n c. 10 * n + (int (byte c) - 48)) 0 ds"

definition int64_ok :: "int \<Rightarrow> bool" where
  "int64_ok n \<longleftrightarrow> - (2 ^ 63) \<le> n \<and> n < 2 ^ 63"

text \<open>
  \<open>strconv.Atoi\<close>: an optional sign and at least one digit, nothing else, in the range of
  a 64-bit \<open>int\<close>.
\<close>

definition atoi :: "string \<Rightarrow> int option" where
  "atoi s =
     (let neg = has_prefix s ''-''; ds = (if neg \<or> has_prefix s ''+'' then tl s else s);
          n = (if neg then - digits_val ds else digits_val ds)
      in if ds \<noteq> [] \<and> list_all is_digit ds \<and> int64_ok n then Some n else None)"

text \<open>
  \<open>fmt.Sscanf(s, "g%d", &n)\<close> once the leading \<open>g\<close> of \<open>s\<close> has matched the
  literal of the format: \<open>%d\<close> skips white space (a newline is an error), takes an
  optional sign and as many digits as follow, and leaves the rest unread. Only the
  longest run of digits decides success: trailing input is not an error.
\<close>

definition sscan_int :: "string \<Rightarrow> int option" where
  "sscan_int s =
     (let rs = dropWhile (\<lambda>(r, _). is_space_rune r \<and> r \<noteq> 10) (runes s);
          t = concat (map snd rs);
          neg = has_prefix t ''-'';
          u = (if neg \<or> has_prefix t ''+'' then tl t else t);
          ds = takeWhile is_digit u;
          n = (if neg then - digits_val ds else digits_val ds)
      in if ds \<noteq> [] \<and> int64_ok n then Some n else None)"

text \<open>\<open>%d\<close> and \<open>%q\<close> of package \<open>fmt\<close> (a non-ASCII rune is taken to be
  printable, so \<open>%q\<close> keeps it) and \<open>%v\<close> of a slice of strings.\<close>

definition digit_char :: "nat \<Rightarrow> char" where
  "digit_char n = char_of (if n < 10 then 48 + n else 87 + n)"

fun show_nat :: "nat \<Rightarrow> string" where
  "show_nat n = (if n < 10 then [digit_char n] else show_nat (n div 10) @ [digit_char (n mod 10)])"

declare show_nat.simps [simp del]

definition show_int :: "int \<Rightarrow> string" where
  "show_int n = (if n < 0 then ''-'' @ show_nat (nat (- n)) else show_nat (nat n))"

definition quote_rune :: "nat \<times> string \<Rightarrow> string" where
  "quote_rune x =
     (case x of (r, bs) \<Rightarrow>
        if r = 34 \<or> r = 92 then char_of (92::nat) # bs
        else if r = 7 then [char_of (92::nat), CHR ''a'']
        else if r = 8 then [char_of (92::nat), CHR ''b'']
        else if r = 9 then [char_of (92::nat), CHR ''t'']
        else if r = 10 then [char_of (92::nat), CHR ''n'']
        else if r = 11 then [char_of (92::nat), CHR ''v'']
        else if r = 12 then [char_of (92::nat), CHR ''f'']
        else if r = 13 then [char_of (92::nat), CHR ''r'']
        else if r < 32 \<or> r = 127 \<or> (r = 65533 \<and> length bs = 1) then
          (let b = byte (hd bs)
           in [char_of (92::nat), CHR ''x'', digit_char (b div 16), digit_char (b mod 16)])
        else bs)"

definition go_quote :: "string \<Rightarrow> string" where
  "go_quote s = ''\"'' @ concat (map quote_rune (runes s)) @ ''\"''"

definition show_strings :: "string list \<Rightarrow> string" where
  "show_strings xs = ''['' @ join_str '' '' xs @ '']''"

subsection \<open>Times\<close>

text \<open>\<open>t.Sub(u)\<close> saturates at the ends of the 64-bit range of a \<open>time.Duration\<close>.\<close>

definition time_sub :: "time \<Rightarrow> time \<Rightarrow> duration" where
  "time_sub t u = max (- (2 ^ 63)) (min (2 ^ 63 - 1) (t - u))"

lemma time_sub_exact: "0 \<le> t - u \<Longrightarrow> t - u < 2 ^ 63 \<Longrightarrow> time_sub t u = t - u"
  by (simp add: time_sub_def)

lemma time_sub_self [simp]: "time_sub t t = 0"
  by (simp add: time_sub_def)

definition second :: duration where "second = 1000000000"
definition minute :: duration where "minute = 60 * second"
definition hour :: duration where "hour = 60 * minute"

lemmas duration_defs = second_def minute_def hour_def

subsection \<open>Lists and association lists\<close>

text \<open>
  A Go map with string keys is an association list with distinct keys; \<open>m[k] = v\<close> is
  \<^const>\<open>AList.update\<close>. A \<open>for k, v := range m\<close> visits the entries in the order of
  the list, and a theorem for every such list covers every order the runtime may pick.
\<close>

definition put_all :: "('k \<times> 'v) list \<Rightarrow> ('k \<times> 'v) list \<Rightarrow> ('k \<times> 'v) list" where
  "put_all kvs m = foldl (\<lambda>m (k, v). AList.update k v m) m kvs"

lemma put_all_Nil [simp]: "put_all [] m = m"
  by (simp add: put_all_def)

lemma put_all_Cons [simp]: "put_all ((k, v) # kvs) m = put_all kvs (AList.update k v m)"
  by (simp add: put_all_def)

lemma map_of_put_all: "map_of (put_all kvs m) = map_of m ++ map_of (rev kvs)"
proof (induction kvs arbitrary: m)
  case Nil
  then show ?case by simp
next
  case (Cons kv kvs)
  then show ?case
    by (cases kv) (simp add: update_conv' map_add_def fun_eq_iff split: option.splits)
qed

lemma map_of_rev_distinct: "distinct (map fst xs) \<Longrightarrow> map_of (rev xs) = map_of xs"
  by (simp add: map_of_inject_set rev_map [symmetric])

lemma update_map_value:
  "AList.update k (f v) (map (map_prod (\<lambda>k. k) f) m) = map (map_prod (\<lambda>k. k) f) (AList.update k v m)"
  by (induction m) auto

lemma put_all_map_value:
  "put_all (map (map_prod (\<lambda>k. k) f) kvs) (map (map_prod (\<lambda>k. k) f) m) =
   map (map_prod (\<lambda>k. k) f) (put_all kvs m)"
  by (induction kvs arbitrary: m) (auto simp: update_map_value)

lemma map_of_map_snd: "map_of (map (map_prod (\<lambda>a. a) f) xs) k = map_option f (map_of xs k)"
  by (induction xs) auto

lemma update_fresh: "k \<notin> fst ` set m \<Longrightarrow> AList.update k v m = m @ [(k, v)]"
  by (induction m) auto

lemma put_all_fresh:
  "distinct (map fst kvs) \<Longrightarrow> fst ` set m \<inter> fst ` set kvs = {} \<Longrightarrow> put_all kvs m = m @ kvs"
proof (induction kvs arbitrary: m)
  case Nil
  then show ?case by simp
next
  case (Cons kv kvs)
  obtain k v where kv: "kv = (k, v)" by (cases kv)
  from Cons.prems have "k \<notin> fst ` set m" by (simp add: kv)
  then have "put_all (kv # kvs) m = put_all kvs (m @ [(k, v)])"
    by (simp add: kv update_fresh)
  also have "\<dots> = (m @ [(k, v)]) @ kvs"
    by (rule Cons.IH) (use Cons.prems in \<open>auto simp: kv\<close>)
  finally show ?case by (simp add: kv)
qed

lemma put_all_distinct_Nil: "distinct (map fst kvs) \<Longrightarrow> put_all kvs [] = kvs"
  by (simp add: put_all_fresh)

lemma distinct_put_all: "distinct (map fst m) \<Longrightarrow> distinct (map fst (put_all kvs m))"
  by (induction kvs arbitrary: m) (auto simp: distinct_update)

lemma keys_put_all: "fst ` set (put_all kvs m) = fst ` set m \<union> fst ` set kvs"
proof (induction kvs arbitrary: m)
  case Nil
  then show ?case by simp
next
  case (Cons kv kvs)
  obtain k v where kv: "kv = (k, v)" by (cases kv)
  have "fst ` set (AList.update k v m) = insert k (fst ` set m)"
    using dom_update [of k v m] by (simp add: dom_map_of_conv_image_fst)
  then show ?case by (simp add: Cons kv)
qed

text \<open>\<open>m[k] = append(m[k], x)\<close>, and the loop that groups rows by a key.\<close>

definition add_to :: "'k \<Rightarrow> 'v \<Rightarrow> ('k \<times> 'v list) list \<Rightarrow> ('k \<times> 'v list) list" where
  "add_to k x m = AList.update k ((case map_of m k of None \<Rightarrow> [] | Some xs \<Rightarrow> xs) @ [x]) m"

definition group_rows :: "('v \<Rightarrow> 'k) \<Rightarrow> 'v list \<Rightarrow> ('k \<times> 'v list) list" where
  "group_rows key xs = foldl (\<lambda>m x. add_to (key x) x m) [] xs"

text \<open>\<open>m[k]\<close> where a missing key reads as the zero value.\<close>

definition slice_at :: "('k \<times> 'v list) list \<Rightarrow> 'k \<Rightarrow> 'v list" where
  "slice_at m k = (case map_of m k of None \<Rightarrow> [] | Some xs \<Rightarrow> xs)"

lemma slice_at_Nil [simp]: "slice_at [] k = []"
  by (simp add: slice_at_def)

lemma slice_at_add_to: "slice_at (add_to j x m) k = slice_at m k @ (if j = k then [x] else [])"
  by (simp add: slice_at_def add_to_def update_conv')

lemma distinct_add_to: "distinct (map fst m) \<Longrightarrow> distinct (map fst (add_to k x m))"
  by (simp add: add_to_def distinct_update)

lemma slice_at_group_rows [simp]: "slice_at (group_rows key xs) k = filter (\<lambda>x. key x = k) xs"
proof -
  have "slice_at (foldl (\<lambda>m x. add_to (key x) x m) m xs) k =
        slice_at m k @ filter (\<lambda>x. key x = k) xs" for m
    by (induction xs arbitrary: m) (auto simp: slice_at_add_to)
  then show ?thesis by (simp add: group_rows_def)
qed

lemma distinct_group_rows: "distinct (map fst (group_rows key xs))"
proof -
  have "distinct (map fst m) \<Longrightarrow> distinct (map fst (foldl (\<lambda>m x. add_to (key x) x m) m xs))" for m
    by (induction xs arbitrary: m) (auto simp: distinct_add_to)
  then show ?thesis by (simp add: group_rows_def)
qed

text \<open>Removing duplicates from the front, as the label and set loops of the source do.\<close>

fun dedup_from :: "'a list \<Rightarrow> 'a list \<Rightarrow> 'a list" where
  "dedup_from seen [] = []"
| "dedup_from seen (x # xs) =
     (if x \<in> set seen then dedup_from seen xs else x # dedup_from (x # seen) xs)"

lemma set_dedup_from: "set (dedup_from seen xs) = set xs - set seen"
  by (induction xs arbitrary: seen) auto

lemma distinct_dedup_from: "distinct (dedup_from seen xs)"
  by (induction xs arbitrary: seen) (auto simp: set_dedup_from)

lemma filter_eq_NilD: "filter P xs = [] \<Longrightarrow> x \<in> set xs \<Longrightarrow> \<not> P x"
  by (auto simp: filter_empty_conv)

lemma find_Some_mem: "List.find P xs = Some x \<Longrightarrow> x \<in> set xs \<and> P x"
  by (auto simp: find_Some_iff)

lemma find_unique:
  "distinct (map f xs) \<Longrightarrow> x \<in> set xs \<Longrightarrow> List.find (\<lambda>y. f y = f x) xs = Some x"
  by (induction xs) (auto simp: image_iff)

lemma find_key_iff:
  "distinct (map f xs) \<Longrightarrow> List.find (\<lambda>y. f y = k) xs = Some x \<longleftrightarrow> x \<in> set xs \<and> f x = k"
  using find_unique [of f xs x] find_Some_mem [of "\<lambda>y. f y = k" xs x] by blast

lemma map_if_key:
  "(\<And>x. key (f x) = key x) \<Longrightarrow> map key (map (\<lambda>x. if P x then f x else x) xs) = map key xs"
  by (induction xs) auto

lemma image_if_key:
  "(\<And>x. key (f x) = key x) \<Longrightarrow> key ` (\<lambda>x. if P x then f x else x) ` A = key ` A"
proof -
  assume "\<And>x. key (f x) = key x"
  then have "key \<circ> (\<lambda>x. if P x then f x else x) = key" by (auto simp: fun_eq_iff)
  then show ?thesis by (metis image_comp)
qed

lemma find_map_if:
  "(\<And>x. key (f x) = key x) \<Longrightarrow>
   List.find (\<lambda>x. key x = k) (map (\<lambda>x. if key x = j then f x else x) xs) =
   map_option (\<lambda>x. if key x = j then f x else x) (List.find (\<lambda>x. key x = k) xs)"
  by (induction xs) auto

lemma find_append: "List.find P (xs @ ys) = (case List.find P xs of None \<Rightarrow> List.find P ys | r \<Rightarrow> r)"
  by (induction xs) auto

lemma find_filter_other: "(\<And>x. P x \<Longrightarrow> Q x) \<Longrightarrow> List.find P (filter Q xs) = List.find P xs"
  by (induction xs) auto

lemma filter_other: "j \<noteq> i \<Longrightarrow> filter (\<lambda>x. f x \<noteq> i \<and> f x = j) xs = filter (\<lambda>x. f x = j) xs"
  by (rule filter_cong) auto

text \<open>The rows of a join.\<close>

lemma set_join:
  "x \<in> set (concat (map (\<lambda>d. map (\<lambda>_. f d) (filter (P d) bs)) ds)) \<longleftrightarrow>
   (\<exists>d \<in> set ds. \<exists>b \<in> set bs. P d b \<and> x = f d)"
  by auto

text \<open>Stable sorting by an integer or string key, ascending or descending.\<close>

definition sort_dir :: "bool \<Rightarrow> ('a \<Rightarrow> 'k::linorder) \<Rightarrow> 'a list \<Rightarrow> 'a list" where
  "sort_dir desc f xs = (if desc then rev (sort_key f (rev xs)) else sort_key f xs)"

lemma mset_sort_dir [simp]: "mset (sort_dir desc f xs) = mset xs"
  by (simp add: sort_dir_def)

lemma set_sort_dir [simp]: "set (sort_dir desc f xs) = set xs"
  by (simp add: sort_dir_def)

lemma length_sort_dir [simp]: "length (sort_dir desc f xs) = length xs"
  by (simp add: sort_dir_def)

definition dir_le :: "bool \<Rightarrow> ('a \<Rightarrow> 'k::linorder) \<Rightarrow> 'a \<Rightarrow> 'a \<Rightarrow> bool" where
  "dir_le desc f x y \<longleftrightarrow> (if desc then f y \<le> f x else f x \<le> f y)"

lemma sorted_sort_dir: "sorted_wrt (dir_le desc f) (sort_dir desc f xs)"
proof -
  have "sorted_wrt (\<lambda>x y. f x \<le> f y) (sort_key f ys)" for ys
    using sorted_sort_key [of f ys] by (simp add: sorted_map)
  then show ?thesis by (simp add: sort_dir_def dir_le_def [abs_def] sorted_wrt_rev)
qed

lemma distinct_map_sort_dir: "distinct (map g (sort_dir d f xs)) = distinct (map g xs)"
proof -
  have "mset (map g (sort_dir d f xs)) = mset (map g xs)"
    by simp
  then show ?thesis by (metis mset_eq_imp_distinct_iff)
qed

end
