(* ===== verification/Json.thy ===== *)
theory Json
  imports Prelude
begin

text \<open>
  JSON as the source sees it through \<open>encoding/json\<close>: the value a text denotes
  (\<open>json\<close>), a \<open>json.RawMessage\<close> that may be absent, empty, malformed or the text
  of a value (\<open>raw\<close>), decoding into \<open>map[string]any\<close> and into Go scalars, and
  encoding of such a map.

  A number is an integer literal (within the range where a \<open>float64\<close> is exact) or a
  \<open>float64\<close> \<open>m * 2 ^ e\<close>. The text layer itself (white space, escapes) is the
  standard library's and is not represented: a text is identified with its value.
\<close>

datatype json =
    JNull
  | JBool bool
  | JInt int
  | JFloat int int
  | JStr string
  | JArr "json list"
  | JObj "(string \<times> json) list"

text \<open>
  \<open>nil\<close>, a non-nil slice of length 0, a text that is not JSON, the text of a value.
\<close>

datatype raw = RawNil | RawEmpty | RawBad | Raw json

definition raw_empty :: "raw \<Rightarrow> bool" where
  "raw_empty r \<longleftrightarrow> r = RawNil \<or> r = RawEmpty"

text \<open>\<open>json.Valid\<close>.\<close>

definition json_valid :: "raw \<Rightarrow> bool" where
  "json_valid r \<longleftrightarrow> (case r of Raw _ \<Rightarrow> True | _ \<Rightarrow> False)"

lemma json_valid_simps [simp]:
  "json_valid (Raw j)" "\<not> json_valid RawBad" "\<not> json_valid RawNil" "\<not> json_valid RawEmpty"
  "\<not> raw_empty (Raw j)" "\<not> raw_empty RawBad" "raw_empty RawNil" "raw_empty RawEmpty"
  by (simp_all add: json_valid_def raw_empty_def)

text \<open>
  \<open>m * 2 ^ e\<close> is an integer (\<open>n == math.Trunc(n)\<close>), and which one.
\<close>

definition float_is_int :: "int \<Rightarrow> int \<Rightarrow> bool" where
  "float_is_int m e \<longleftrightarrow> 0 \<le> e \<or> m mod 2 ^ nat (- e) = 0"

definition float_trunc :: "int \<Rightarrow> int \<Rightarrow> int" where
  "float_trunc m e =
     (if 0 \<le> e then m * 2 ^ nat e else sgn m * (\<bar>m\<bar> div 2 ^ nat (- e)))"

text \<open>
  Decoding into \<open>any\<close>: objects become maps (the last of several equal keys wins), all
  numbers become \<open>float64\<close>. The result is again of type \<open>json\<close>, with distinct keys
  in every object and an integral \<open>float64\<close> written as the integer it is.
\<close>

primrec decode_any :: "json \<Rightarrow> json" where
  "decode_any JNull = JNull"
| "decode_any (JBool b) = JBool b"
| "decode_any (JInt n) = JInt n"
| "decode_any (JFloat m e) = (if float_is_int m e then JInt (float_trunc m e) else JFloat m e)"
| "decode_any (JStr s) = JStr s"
| "decode_any (JArr xs) = JArr (map decode_any xs)"
| "decode_any (JObj kvs) = JObj (put_all (map (map_prod (\<lambda>k. k) decode_any) kvs) [])"

text \<open>
  A JSONB column keeps the last of several equal keys of an object and forgets the order
  of the keys; no other information is lost. (Postgres orders the keys by a rule of its
  own, on which no code of the repository depends; the model keeps the given order.)
\<close>

primrec jsonb :: "json \<Rightarrow> json" where
  "jsonb JNull = JNull"
| "jsonb (JBool b) = JBool b"
| "jsonb (JInt n) = JInt n"
| "jsonb (JFloat m e) = JFloat m e"
| "jsonb (JStr s) = JStr s"
| "jsonb (JArr xs) = JArr (map jsonb xs)"
| "jsonb (JObj kvs) = JObj (put_all (map (map_prod (\<lambda>k. k) jsonb) kvs) [])"

lemma put_all_decode_again:
  assumes "\<And>k v. (k, v) \<in> set kvs \<Longrightarrow> decode_any (g v) = decode_any v"
  shows "map (map_prod (\<lambda>k. k) decode_any) (put_all (map (map_prod (\<lambda>k. k) g) kvs) []) =
         put_all (map (map_prod (\<lambda>k. k) decode_any) kvs) []"
proof -
  have "map (map_prod (\<lambda>k. k) decode_any) (put_all (map (map_prod (\<lambda>k. k) g) kvs) []) =
        put_all (map (map_prod (\<lambda>k. k) decode_any) (map (map_prod (\<lambda>k. k) g) kvs)) []"
    using put_all_map_value [of decode_any "map (map_prod (\<lambda>k. k) g) kvs" "[]"] by simp
  also have "map (map_prod (\<lambda>k. k) decode_any) (map (map_prod (\<lambda>k. k) g) kvs) =
             map (map_prod (\<lambda>k. k) decode_any) kvs"
    using assms by auto
  finally show ?thesis by simp
qed

lemma put_all_idem: "put_all (put_all kvs []) [] = put_all kvs []"
  by (rule put_all_distinct_Nil) (rule distinct_put_all, simp)

lemma decode_any_jsonb: "decode_any (jsonb j) = decode_any j"
proof (induction j)
  case (JObj kvs)
  have "map (map_prod (\<lambda>k. k) decode_any) (put_all (map (map_prod (\<lambda>k. k) jsonb) kvs) []) =
        put_all (map (map_prod (\<lambda>k. k) decode_any) kvs) []"
    by (rule put_all_decode_again) (use JObj in fastforce)
  then show ?case by (simp add: put_all_idem)
qed auto

lemma decode_any_idem: "decode_any (decode_any j) = decode_any j"
proof (induction j)
  case (JObj kvs)
  have "map (map_prod (\<lambda>k. k) decode_any) (put_all (map (map_prod (\<lambda>k. k) decode_any) kvs) []) =
        put_all (map (map_prod (\<lambda>k. k) decode_any) kvs) []"
    by (rule put_all_decode_again) (use JObj in fastforce)
  then show ?case by (simp add: put_all_idem)
qed auto

text \<open>
  A Go value of type \<open>map[string]any\<close>: \<open>nil\<close> is \<^const>\<open>None\<close>, which is different
  from an empty map only when it is written to.
\<close>

type_synonym gomap = "(string \<times> json) list option"

definition gomap_list :: "gomap \<Rightarrow> (string \<times> json) list" where
  "gomap_list m = (case m of None \<Rightarrow> [] | Some kvs \<Rightarrow> kvs)"

lemma gomap_list_simps [simp]: "gomap_list None = []" "gomap_list (Some kvs) = kvs"
  by (simp_all add: gomap_list_def)

text \<open>
  \<open>json.Unmarshal(raw, &m)\<close> for a map \<open>m\<close>: the new value of \<open>m\<close> and whether there
  was no error. \<open>null\<close> sets the map to \<open>nil\<close>; a value that is not an object is a type
  error that leaves the map alone; an object is added entry by entry.
\<close>

definition unmarshal_map :: "raw \<Rightarrow> gomap \<Rightarrow> gomap \<times> bool" where
  "unmarshal_map r m =
     (case r of
        Raw JNull \<Rightarrow> (None, True)
      | Raw (JObj kvs) \<Rightarrow>
          (Some (put_all (map (map_prod (\<lambda>k. k) decode_any) kvs) (gomap_list m)), True)
      | _ \<Rightarrow> (m, False))"

lemma unmarshal_map_simps [simp]:
  "unmarshal_map (Raw JNull) m = (None, True)"
  "unmarshal_map (Raw (JObj kvs)) m =
     (Some (put_all (map (map_prod (\<lambda>k. k) decode_any) kvs) (gomap_list m)), True)"
  "unmarshal_map RawNil m = (m, False)"
  "unmarshal_map RawEmpty m = (m, False)"
  "unmarshal_map RawBad m = (m, False)"
  by (simp_all add: unmarshal_map_def)

text \<open>
  \<open>json.Marshal\<close> of a \<open>map[string]any\<close>: the keys in ascending order; \<open>nil\<close> is
  \<open>null\<close>.
\<close>

definition marshal_map :: "gomap \<Rightarrow> raw" where
  "marshal_map m = (case m of None \<Rightarrow> Raw JNull | Some kvs \<Rightarrow> Raw (JObj (sort_key fst kvs)))"

lemma marshal_map_valid [simp]: "json_valid (marshal_map m)" "\<not> raw_empty (marshal_map m)"
  by (auto simp: marshal_map_def split: option.splits)

lemma distinct_sort_key_fst:
  "distinct (map fst kvs) \<Longrightarrow> distinct (map fst (sort_key fst kvs))"
  by (metis mset_eq_imp_distinct_iff mset_map mset_sort)

lemma map_of_sort_key_fst:
  "distinct (map fst kvs) \<Longrightarrow> map_of (sort_key fst kvs) = map_of kvs"
  by (subst map_of_inject_set) (simp_all add: distinct_sort_key_fst)

text \<open>
  A loop \<open>for k, v := range src { dst[k] = v }\<close>: a write to a \<open>nil\<close> map panics, but
  an empty loop writes nothing.
\<close>

definition assign_all :: "(string \<times> json) list \<Rightarrow> gomap \<Rightarrow> gomap res" where
  "assign_all kvs m =
     (case m of
        None \<Rightarrow> (if kvs = [] then Inr None else Inl (Panic ''assignment to entry in nil map''))
      | Some old \<Rightarrow> Inr (Some (put_all kvs old)))"

lemma assign_all_Some [simp]: "assign_all kvs (Some old) = Inr (Some (put_all kvs old))"
  by (simp add: assign_all_def)

text \<open>The value at a key of a decoded object, \<open>m[k]\<close> with its presence flag.\<close>

definition raw_field :: "raw \<Rightarrow> string \<Rightarrow> json option" where
  "raw_field r k = map_of (gomap_list (fst (unmarshal_map r None))) k"

text \<open>
  Decoding an object into a struct: the keys are matched ignoring case, each entry updates
  the struct in order, and one entry of the wrong type fails the whole \<open>Unmarshal\<close>.
\<close>

definition ascii_upper :: "char \<Rightarrow> char" where
  "ascii_upper c = (if 97 \<le> byte c \<and> byte c \<le> 122 then char_of (byte c - 32) else c)"

definition fold_eq :: "string \<Rightarrow> string \<Rightarrow> bool" where
  "fold_eq k n \<longleftrightarrow> map ascii_upper k = map ascii_upper n"

fun fold_opt :: "('a \<Rightarrow> 's \<Rightarrow> 's option) \<Rightarrow> 'a list \<Rightarrow> 's \<Rightarrow> 's option" where
  "fold_opt f [] s = Some s"
| "fold_opt f (x # xs) s = (case f x s of None \<Rightarrow> None | Some s' \<Rightarrow> fold_opt f xs s')"

definition decode_string :: "json \<Rightarrow> string \<Rightarrow> string option" where
  "decode_string j old =
     (case j of JStr s \<Rightarrow> Some s | JNull \<Rightarrow> Some old | _ \<Rightarrow> None)"

definition decode_bool :: "json \<Rightarrow> bool \<Rightarrow> bool option" where
  "decode_bool j old = (case j of JBool b \<Rightarrow> Some b | JNull \<Rightarrow> Some old | _ \<Rightarrow> None)"

definition decode_int :: "json \<Rightarrow> int \<Rightarrow> int option" where
  "decode_int j old =
     (case j of JInt n \<Rightarrow> if int64_ok n then Some n else None | JNull \<Rightarrow> Some old | _ \<Rightarrow> None)"

definition decode_strings :: "json \<Rightarrow> string list option" where
  "decode_strings j =
     (case j of
        JNull \<Rightarrow> Some []
      | JArr xs \<Rightarrow> those (map (\<lambda>x. decode_string x []) xs)
      | _ \<Rightarrow> None)"

definition decode_struct :: "(string \<Rightarrow> json \<Rightarrow> 's \<Rightarrow> 's option) \<Rightarrow> raw \<Rightarrow> 's \<Rightarrow> 's option" where
  "decode_struct f r s =
     (case r of
        Raw JNull \<Rightarrow> Some s
      | Raw (JObj kvs) \<Rightarrow> fold_opt (\<lambda>(k, v). f k v) kvs s
      | _ \<Rightarrow> None)"

subsection \<open>Facts about merging\<close>

lemma distinct_unmarshal_map:
  "distinct (map fst (gomap_list m)) \<Longrightarrow> distinct (map fst (gomap_list (fst (unmarshal_map r m))))"
  by (auto simp: unmarshal_map_def distinct_put_all split: raw.splits json.splits)

lemma raw_field_marshal:
  "distinct (map fst kvs) \<Longrightarrow>
   raw_field (marshal_map (Some kvs)) k = map_option decode_any (map_of kvs k)"
proof -
  assume d: "distinct (map fst kvs)"
  have s: "distinct (map fst (sort_key fst kvs))"
    by (rule distinct_sort_key_fst [OF d])
  have "raw_field (marshal_map (Some kvs)) k =
        map_of (rev (map (map_prod (\<lambda>k. k) decode_any) (sort_key fst kvs))) k"
    by (simp add: raw_field_def marshal_map_def map_of_put_all)
  also have "\<dots> = map_of (map (map_prod (\<lambda>k. k) decode_any) (sort_key fst kvs)) k"
    by (rule fun_cong [OF map_of_rev_distinct]) (use s in \<open>simp add: comp_def\<close>)
  also have "\<dots> = map_option decode_any (map_of (sort_key fst kvs) k)"
    by (simp add: map_of_map map_prod_def)
  finally show ?thesis by (simp add: map_of_sort_key_fst [OF d])
qed

text \<open>Storing a raw message in a JSONB column, and what a decoder of it then sees.\<close>

definition jsonb_store :: "raw \<Rightarrow> raw option" where
  "jsonb_store r =
     (case r of Raw j \<Rightarrow> Some (Raw (jsonb j)) | RawBad \<Rightarrow> None | _ \<Rightarrow> Some RawNil)"

lemma raw_field_jsonb: "jsonb_store r = Some r' \<Longrightarrow> raw_field r' k = raw_field r k"
proof (cases r)
  case (Raw j)
  assume st: "jsonb_store r = Some r'"
  then have r': "r' = Raw (jsonb j)" by (simp add: jsonb_store_def Raw)
  show ?thesis
  proof (cases j)
    case (JObj kvs)
    have "map (map_prod (\<lambda>k. k) decode_any) (put_all (map (map_prod (\<lambda>k. k) jsonb) kvs) []) =
          put_all (map (map_prod (\<lambda>k. k) decode_any) kvs) []"
      by (rule put_all_decode_again) (simp add: decode_any_jsonb)
    then show ?thesis by (simp add: raw_field_def r' Raw JObj put_all_idem)
  qed (simp_all add: raw_field_def r' Raw unmarshal_map_def)
qed (auto simp: jsonb_store_def raw_field_def)

end
