(* ===== verification/GoTime.thy ===== *)
theory GoTime
  imports Prelude "HOL-Library.Monad_Syntax"
begin

text \<open>
  \<open>time.Parse(time.RFC3339, s)\<close> as far as the source uses it: whether \<open>s\<close> is accepted.
  The standard library tries a strict parser first and falls back to the layout-driven one,
  which accepts everything the strict one does, and besides a one-digit hour, a comma as
  the decimal mark, and zone offsets up to 24:60; it is the one modelled.
\<close>

definition digit_val :: "char \<Rightarrow> nat" where
  "digit_val c = byte c - 48"

text \<open>\<open>getnum\<close>: one or two digits, two when \<open>fixed\<close>.\<close>

fun getnum :: "bool \<Rightarrow> string \<Rightarrow> (nat \<times> string) option" where
  "getnum fixed [] = None"
| "getnum fixed [c] = (if is_digit c \<and> \<not> fixed then Some (digit_val c, []) else None)"
| "getnum fixed (c # d # s) =
     (if \<not> is_digit c then None
      else if is_digit d then Some (10 * digit_val c + digit_val d, s)
      else if fixed then None
      else Some (digit_val c, d # s))"

fun lit :: "char \<Rightarrow> string \<Rightarrow> string option" where
  "lit c (d # s) = (if c = d then Some s else None)"
| "lit c [] = None"

fun year4 :: "string \<Rightarrow> (nat \<times> string) option" where
  "year4 (a # b # c # d # s) =
     (if is_digit a \<and> is_digit b \<and> is_digit c \<and> is_digit d
      then Some (1000 * digit_val a + 100 * digit_val b + 10 * digit_val c + digit_val d, s)
      else None)"
| "year4 _ = None"

definition leap :: "nat \<Rightarrow> bool" where
  "leap y \<longleftrightarrow> y mod 4 = 0 \<and> (y mod 100 \<noteq> 0 \<or> y mod 400 = 0)"

definition days_in :: "nat \<Rightarrow> nat \<Rightarrow> nat" where
  "days_in m y = (if m = 2 then (if leap y then 29 else 28)
                  else if m \<in> {4, 6, 9, 11} then 30 else 31)"

text \<open>An optional fraction of a second: a period or comma with at least one digit.\<close>

definition skip_fraction :: "string \<Rightarrow> string" where
  "skip_fraction s =
     (case s of
        p # d # t \<Rightarrow>
          if (p = CHR ''.'' \<or> p = CHR '','') \<and> is_digit d then dropWhile is_digit t else s
      | _ \<Rightarrow> s)"

text \<open>The zone: \<open>Z\<close> or \<open>+hh:mm\<close>, \<open>-hh:mm\<close>; nothing may follow it.\<close>

definition zone_ok :: "string \<Rightarrow> bool" where
  "zone_ok s =
     (case s of
        [CHR ''Z''] \<Rightarrow> True
      | [sg, a, b, c, d, e] \<Rightarrow>
          (sg = CHR ''+'' \<or> sg = CHR ''-'') \<and> c = CHR '':''
          \<and> is_digit a \<and> is_digit b \<and> is_digit d \<and> is_digit e
          \<and> 10 * digit_val a + digit_val b \<le> 24 \<and> 10 * digit_val d + digit_val e \<le> 60
      | _ \<Rightarrow> False)"

definition rfc3339_ok :: "string \<Rightarrow> bool" where
  "rfc3339_ok s =
     (case do {
        (y, s) \<leftarrow> year4 s;
        s \<leftarrow> lit (CHR ''-'') s;
        (mo, s) \<leftarrow> getnum True s;
        s \<leftarrow> lit (CHR ''-'') s;
        (d, s) \<leftarrow> getnum True s;
        s \<leftarrow> lit (CHR ''T'') s;
        (h, s) \<leftarrow> getnum False s;
        s \<leftarrow> lit (CHR '':'') s;
        (mi, s) \<leftarrow> getnum True s;
        s \<leftarrow> lit (CHR '':'') s;
        (se, s) \<leftarrow> getnum True s;
        Some (1 \<le> mo \<and> mo \<le> 12 \<and> h < 24 \<and> mi < 60 \<and> se < 60
              \<and> zone_ok (skip_fraction s) \<and> 1 \<le> d \<and> d \<le> days_in mo y)
      } of None \<Rightarrow> False | Some ok \<Rightarrow> ok)"

text \<open>
  \<open>(*time.Time).UnmarshalJSON\<close>: the strict form of RFC 3339 (two-digit hour, a period as the
  decimal mark, offsets up to 23:59), as nanoseconds since the zero time, January 1 of the
  year 1, UTC. Digits of the fraction beyond the ninth are dropped.
\<close>

definition days_before_year :: "int \<Rightarrow> int" where
  "days_before_year y = (let p = y - 1 in 365 * p + p div 4 - p div 100 + p div 400)"

definition days_before_month :: "nat \<Rightarrow> nat \<Rightarrow> int" where
  "days_before_month m y = int (sum_list (map (\<lambda>k. days_in k y) [1..<m]))"

definition date_time :: "nat \<Rightarrow> nat \<Rightarrow> nat \<Rightarrow> nat \<Rightarrow> nat \<Rightarrow> nat \<Rightarrow> time" where
  "date_time y mo d h mi se =
     (days_before_year (int y) + days_before_month mo y + int d - 1) * (24 * hour)
     + int h * hour + int mi * minute + int se * second"

definition fraction :: "string \<Rightarrow> (int \<times> string) option" where
  "fraction s =
     (case s of
        CHR ''.'' # t \<Rightarrow>
          (let ds = takeWhile is_digit t; ns = take 9 ds in
           if ds = [] then None
           else Some (digits_val ns * 10 ^ (9 - length ns), dropWhile is_digit t))
      | _ \<Rightarrow> Some (0, s))"

definition zone_offset :: "string \<Rightarrow> duration option" where
  "zone_offset s =
     (case s of
        [CHR ''Z''] \<Rightarrow> Some 0
      | [sg, a, b, c, d, e] \<Rightarrow>
          (if (sg = CHR ''+'' \<or> sg = CHR ''-'') \<and> c = CHR '':''
              \<and> is_digit a \<and> is_digit b \<and> is_digit d \<and> is_digit e
              \<and> 10 * digit_val a + digit_val b < 24 \<and> 10 * digit_val d + digit_val e < 60
           then Some ((if sg = CHR ''-'' then -1 else 1)
                      * (int (10 * digit_val a + digit_val b) * hour
                         + int (10 * digit_val d + digit_val e) * minute))
           else None)
      | _ \<Rightarrow> None)"

definition parse_time :: "string \<Rightarrow> time option" where
  "parse_time s = do {
     (y, s) \<leftarrow> year4 s;
     s \<leftarrow> lit (CHR ''-'') s;
     (mo, s) \<leftarrow> getnum True s;
     s \<leftarrow> lit (CHR ''-'') s;
     (d, s) \<leftarrow> getnum True s;
     s \<leftarrow> lit (CHR ''T'') s;
     (h, s) \<leftarrow> getnum True s;
     s \<leftarrow> lit (CHR '':'') s;
     (mi, s) \<leftarrow> getnum True s;
     s \<leftarrow> lit (CHR '':'') s;
     (se, s) \<leftarrow> getnum True s;
     (fr, s) \<leftarrow> fraction s;
     off \<leftarrow> zone_offset s;
     (if 1 \<le> mo \<and> mo \<le> 12 \<and> h < 24 \<and> mi < 60 \<and> se < 60 \<and> 1 \<le> d \<and> d \<le> days_in mo y
      then Some (date_time y mo d h mi se + fr - off) else None)
   }"

lemma rfc3339_ok_example: "rfc3339_ok ''2026-02-24T09:30:00.5Z''"
  by code_simp

lemma rfc3339_ok_leap: "\<not> rfc3339_ok ''2026-02-29T09:30:00Z''"
  by code_simp

lemma parse_time_zero: "parse_time ''0001-01-01T00:00:00Z'' = Some 0"
  by code_simp

lemma parse_time_epoch:
  "parse_time ''1970-01-01T01:00:00.5+01:00'' = Some (62135596800 * second + 500000000)"
  by code_simp

end
