(* ===== verification/Model.thy ===== *)
theory Model
  imports Json GoTime
begin

text \<open>
  Package \<open>internal/model\<close>: the records the system stores and passes around, their
  string-valued enumerations, and the validation of a bead and of its typed fields.
  Field names carry the first letter of their struct, since several structs share names.
\<close>

subsection \<open>Kinds, types, statuses (\<open>bead.go\<close>)\<close>

abbreviation KindIssue :: string where "KindIssue \<equiv> ''issue''"
abbreviation KindData :: string where "KindData \<equiv> ''data''"
abbreviation KindConfig :: string where "KindConfig \<equiv> ''config''"

definition Kind_IsValid :: "string \<Rightarrow> bool" where
  "Kind_IsValid k \<longleftrightarrow> k \<in> {KindIssue, KindData, KindConfig}"

abbreviation TypeEpic :: string where "TypeEpic \<equiv> ''epic''"
abbreviation TypeTask :: string where "TypeTask \<equiv> ''task''"
abbreviation TypeFeature :: string where "TypeFeature \<equiv> ''feature''"
abbreviation TypeChore :: string where "TypeChore \<equiv> ''chore''"
abbreviation TypeBug :: string where "TypeBug \<equiv> ''bug''"
abbreviation TypeAdvice :: string where "TypeAdvice \<equiv> ''advice''"
abbreviation TypeJack :: string where "TypeJack \<equiv> ''jack''"
abbreviation TypeDecision :: string where "TypeDecision \<equiv> ''decision''"
abbreviation TypeReport :: string where "TypeReport \<equiv> ''report''"
abbreviation TypeFormula :: string where "TypeFormula \<equiv> ''formula''"
abbreviation TypeMolecule :: string where "TypeMolecule \<equiv> ''molecule''"

definition BeadType_IsValid :: "string \<Rightarrow> bool" where
  "BeadType_IsValid t \<longleftrightarrow> t \<noteq> ''''"

definition KindFor :: "string \<Rightarrow> string" where
  "KindFor t =
     (if t \<in> {TypeEpic, TypeTask, TypeFeature, TypeChore, TypeBug, TypeMolecule} then KindIssue
      else if t \<in> {TypeAdvice, TypeJack, TypeFormula} then KindData
      else '''')"

definition TypeAliases :: "string \<Rightarrow> string option" where
  "TypeAliases = [''template'' \<mapsto> TypeFormula, ''bundle'' \<mapsto> TypeMolecule]"

text \<open>The lookup \<open>if canonical, ok := TypeAliases[t]; ok\<close> the server makes.\<close>

definition resolve_alias :: "string \<Rightarrow> string" where
  "resolve_alias t = (case TypeAliases t of None \<Rightarrow> t | Some c \<Rightarrow> c)"

abbreviation StatusOpen :: string where "StatusOpen \<equiv> ''open''"
abbreviation StatusInProgress :: string where "StatusInProgress \<equiv> ''in_progress''"
abbreviation StatusDeferred :: string where "StatusDeferred \<equiv> ''deferred''"
abbreviation StatusClosed :: string where "StatusClosed \<equiv> ''closed''"
abbreviation StatusBlocked :: string where "StatusBlocked \<equiv> ''blocked''"

definition Status_IsValid :: "string \<Rightarrow> bool" where
  "Status_IsValid s \<longleftrightarrow>
     s \<in> {StatusOpen, StatusInProgress, StatusDeferred, StatusClosed, StatusBlocked}"

subsection \<open>Records\<close>

abbreviation DepBlocks :: string where "DepBlocks \<equiv> ''blocks''"
abbreviation DepParentChild :: string where "DepParentChild \<equiv> ''parent-child''"
abbreviation DepRelated :: string where "DepRelated \<equiv> ''related''"

definition DependencyType_IsValid :: "string \<Rightarrow> bool" where
  "DependencyType_IsValid d \<longleftrightarrow> 0 < length d \<and> length d \<le> 50"

record dependency =
  dBeadID :: string
  dDependsOnID :: string
  dType :: string
  dCreatedAt :: time
  dCreatedBy :: string
  dMetadata :: string

record comment =
  cID :: int
  cBeadID :: string
  cAuthor :: string
  cText :: string
  cCreatedAt :: time

record bead =
  bID :: string
  bSlug :: string
  bKind :: string
  bType :: string
  bTitle :: string
  bDescription :: string
  bNotes :: string
  bStatus :: string
  bPriority :: int
  bAssignee :: string
  bOwner :: string
  bCreatedAt :: time
  bCreatedBy :: string
  bUpdatedAt :: time
  bClosedAt :: "time option"
  bClosedBy :: string
  bDueAt :: "time option"
  bDeferUntil :: "time option"
  bFields :: raw
  bLabels :: "string list"
  bDependencies :: "dependency list"
  bComments :: "comment list"

record config =
  kKey :: string
  kValue :: raw
  kCreatedAt :: time
  kUpdatedAt :: time

record gate_row =
  gAgentBeadID :: string
  gGateID :: string
  gStatus :: string
  gSatisfiedAt :: "time option"

record event =
  eID :: int
  eTopic :: string
  eBeadID :: string
  eActor :: string
  ePayload :: raw
  eCreatedAt :: time

record graph_stats =
  sTotalOpen :: nat
  sTotalInProgress :: nat
  sTotalBlocked :: nat
  sTotalClosed :: nat
  sTotalDeferred :: nat

record dep_counts =
  dcDependencyCount :: nat
  dcDependentCount :: nat

record bead_filter =
  fStatus :: "string list"
  fType :: "string list"
  fExcludeTypes :: "string list"
  fKind :: "string list"
  fPriority :: "int option"
  fPriorityMin :: "int option"
  fPriorityMax :: "int option"
  fAssignee :: string
  fLabels :: "string list"
  fLabelsAny :: "string list"
  fSearch :: string
  fFields :: "(string \<times> string) list"
  fNoOpenDeps :: bool
  fIDs :: "string list"
  fUpdatedAfter :: "time option"
  fParentID :: string
  fSort :: string
  fLimit :: int
  fOffset :: int

definition no_filter :: bead_filter where
  "no_filter = \<lparr>fStatus = [], fType = [], fExcludeTypes = [], fKind = [], fPriority = None,
     fPriorityMin = None, fPriorityMax = None, fAssignee = '''', fLabels = [], fLabelsAny = [],
     fSearch = '''', fFields = [], fNoOpenDeps = False, fIDs = [], fUpdatedAfter = None,
     fParentID = '''', fSort = '''', fLimit = 0, fOffset = 0\<rparr>"

record field_def =
  fdName :: string
  fdType :: string
  fdRequired :: bool
  fdValues :: "string list"

record type_config =
  tcKind :: string
  tcFields :: "field_def list"

subsection \<open>Jack constants (\<open>jack.go\<close>)\<close>

abbreviation JackMaxTTL :: duration where "JackMaxTTL \<equiv> 7 * 24 * hour"
abbreviation JackMaxSingleExtension :: duration where "JackMaxSingleExtension \<equiv> 24 * hour"
abbreviation JackMaxExtensions :: int where "JackMaxExtensions \<equiv> 5"
abbreviation JackMaxChanges :: nat where "JackMaxChanges \<equiv> 500"

definition ValidJackActions :: "string list" where
  "ValidJackActions = [''edit'', ''exec'', ''patch'', ''delete'', ''create'']"

fun action_in :: "string list \<Rightarrow> string \<Rightarrow> bool" where
  "action_in [] x = False"
| "action_in (a # as) x = (if a = x then True else action_in as x)"

definition IsValidJackAction :: "string \<Rightarrow> bool" where
  "IsValidJackAction a = action_in ValidJackActions a"

lemma action_in_set: "action_in xs x \<longleftrightarrow> x \<in> set xs"
  by (induction xs) auto

subsection \<open>Validation of a bead (\<open>validate.go\<close>)\<close>

type_synonym field_error = "string \<times> string"

definition ve_text :: "field_error list \<Rightarrow> string" where
  "ve_text es = ''validation failed: '' @ join_str ''; '' (map (\<lambda>(f, m). f @ '': '' @ m) es)"

definition check_title :: "bead \<Rightarrow> field_error list" where
  "check_title b =
     (let title = trim_space (bTitle b)
      in if title = [] then [(''title'', ''is required'')]
         else if 500 < rune_count title then [(''title'', ''must be 500 characters or fewer'')]
         else [])"

definition check_priority :: "bead \<Rightarrow> field_error list" where
  "check_priority b =
     (if bPriority b < 0 \<or> 4 < bPriority b
      then [(''priority'', ''must be between 0 and 4, got '' @ show_int (bPriority b))] else [])"

definition check_status :: "bead \<Rightarrow> field_error list" where
  "check_status b =
     (if \<not> Status_IsValid (bStatus b)
      then [(''status'', ''invalid value '' @ go_quote (bStatus b))] else [])"

definition check_type :: "bead \<Rightarrow> field_error list" where
  "check_type b = (if trim_space (bType b) = [] then [(''type'', ''is required'')] else [])"

definition check_kind :: "bead \<Rightarrow> field_error list" where
  "check_kind b =
     (if \<not> Kind_IsValid (bKind b)
      then [(''kind'', ''invalid value '' @ go_quote (bKind b))] else [])"

definition check_closed_at :: "bead \<Rightarrow> field_error list" where
  "check_closed_at b =
     (if bStatus b = StatusClosed \<and> bClosedAt b = None
      then [(''closed_at'', ''is required when status is closed'')] else [])
     @ (if bStatus b \<noteq> StatusClosed \<and> bClosedAt b \<noteq> None
        then [(''closed_at'', ''must be nil when status is not closed'')] else [])"

definition check_fields :: "bead \<Rightarrow> field_error list" where
  "check_fields b =
     (if \<not> raw_empty (bFields b) \<and> \<not> json_valid (bFields b)
      then [(''fields'', ''contains invalid JSON'')] else [])"

text \<open>The collected errors; \<open>nil\<close> is the empty list.\<close>

definition ValidateBead :: "bead \<Rightarrow> field_error list" where
  "ValidateBead b =
     check_title b @ check_priority b @ check_status b @ check_type b @ check_kind b
     @ check_closed_at b @ check_fields b"

text \<open>What the checks accept, as one predicate.\<close>

definition bead_valid :: "bead \<Rightarrow> bool" where
  "bead_valid b \<longleftrightarrow>
     trim_space (bTitle b) \<noteq> [] \<and> rune_count (trim_space (bTitle b)) \<le> 500
     \<and> 0 \<le> bPriority b \<and> bPriority b \<le> 4
     \<and> Status_IsValid (bStatus b) \<and> trim_space (bType b) \<noteq> [] \<and> Kind_IsValid (bKind b)
     \<and> (bStatus b = StatusClosed \<longleftrightarrow> bClosedAt b \<noteq> None)
     \<and> bFields b \<noteq> RawBad"

lemma ValidateBead_Nil: "ValidateBead b = [] \<longleftrightarrow> bead_valid b"
proof -
  have f: "raw_empty r \<or> json_valid r \<longleftrightarrow> r \<noteq> RawBad" for r
    by (cases r) simp_all
  show ?thesis
    by (auto simp: ValidateBead_def bead_valid_def check_title_def check_priority_def
        check_status_def check_type_def check_kind_def check_closed_at_def check_fields_def
        Let_def f [symmetric] not_less)
qed

subsection \<open>Validation of typed fields (\<open>validate_fields.go\<close>)\<close>

fun contains :: "string list \<Rightarrow> string \<Rightarrow> bool" where
  "contains [] v = False"
| "contains (s # ss) v = (if s = v then True else contains ss v)"

lemma contains_set: "contains xs v \<longleftrightarrow> v \<in> set xs"
  by (induction xs) auto

fun check_strings :: "json list \<Rightarrow> string option" where
  "check_strings [] = None"
| "check_strings (e # es) =
     (case e of JStr _ \<Rightarrow> check_strings es | _ \<Rightarrow> Some ''must be an array of strings'')"

fun check_enums :: "string list \<Rightarrow> json list \<Rightarrow> string option" where
  "check_enums vs [] = None"
| "check_enums vs (e # es) =
     (case e of
        JStr s \<Rightarrow> if \<not> contains vs s
                  then Some (''array element '' @ go_quote s @ '' must be one of '' @ show_strings vs)
                  else check_enums vs es
      | _ \<Rightarrow> Some ''must be an array of strings'')"

text \<open>\<open>None\<close> is the \<open>nil\<close> error. The value has been decoded into \<open>any\<close>.\<close>

definition validateFieldValue :: "field_def \<Rightarrow> json \<Rightarrow> string option" where
  "validateFieldValue d val =
     (if fdType d = ''string'' then
        (case val of JStr _ \<Rightarrow> None | _ \<Rightarrow> Some ''must be a string'')
      else if fdType d = ''integer'' then
        (case val of
           JInt _ \<Rightarrow> None
         | JFloat m e \<Rightarrow> if float_is_int m e then None else Some ''must be an integer''
         | _ \<Rightarrow> Some ''must be an integer'')
      else if fdType d = ''float'' then
        (case val of JInt _ \<Rightarrow> None | JFloat _ _ \<Rightarrow> None | _ \<Rightarrow> Some ''must be a number'')
      else if fdType d = ''boolean'' then
        (case val of JBool _ \<Rightarrow> None | _ \<Rightarrow> Some ''must be a boolean'')
      else if fdType d = ''timestamp'' then
        (case val of
           JStr s \<Rightarrow> if rfc3339_ok s then None else Some ''must be an RFC 3339 timestamp string''
         | _ \<Rightarrow> Some ''must be an RFC 3339 timestamp string'')
      else if fdType d = ''enum'' then
        (case val of
           JStr s \<Rightarrow> if \<not> contains (fdValues d) s
                     then Some (''must be one of '' @ show_strings (fdValues d)) else None
         | _ \<Rightarrow> Some ''must be a string'')
      else if fdType d = ''string[]'' then
        (case val of JArr es \<Rightarrow> check_strings es | _ \<Rightarrow> Some ''must be an array of strings'')
      else if fdType d = ''enum[]'' then
        (case val of JArr es \<Rightarrow> check_enums (fdValues d) es
         | _ \<Rightarrow> Some ''must be an array of strings'')
      else if fdType d = ''json'' then None
      else Some (''unknown field type '' @ go_quote (fdType d)))"

fun first_required :: "field_def list \<Rightarrow> field_error list" where
  "first_required [] = []"
| "first_required (d # ds) =
     (if fdRequired d then [(fdName d, ''is required'')] else first_required ds)"

definition unknown_keys :: "(string \<times> json) list \<Rightarrow> field_def list \<Rightarrow> field_error list" where
  "unknown_keys m defs =
     map (\<lambda>(k, _). (k, ''unknown field'')) (filter (\<lambda>(k, _). k \<notin> fdName ` set defs) m)"

definition check_def :: "(string \<times> json) list \<Rightarrow> field_def \<Rightarrow> field_error list" where
  "check_def m d =
     (case map_of m (fdName d) of
        None \<Rightarrow> if fdRequired d then [(fdName d, ''is required'')] else []
      | Some JNull \<Rightarrow> if fdRequired d then [(fdName d, ''is required'')] else []
      | Some val \<Rightarrow>
          (case validateFieldValue d val of None \<Rightarrow> [] | Some msg \<Rightarrow> [(fdName d, msg)]))"

definition ValidateFields :: "raw \<Rightarrow> field_def list \<Rightarrow> field_error list" where
  "ValidateFields raws defs =
     (if raw_empty raws then first_required defs
      else (case unmarshal_map raws None of
              (_, False) \<Rightarrow> [(''fields'', ''must be a JSON object'')]
            | (m, True) \<Rightarrow>
                unknown_keys (gomap_list m) defs @ concat (map (check_def (gomap_list m)) defs)))"

subsection \<open>What the field validation accepts\<close>

text \<open>The values of each field type, declaratively.\<close>

definition field_conforms :: "field_def \<Rightarrow> json \<Rightarrow> bool" where
  "field_conforms d v \<longleftrightarrow>
     (let ty = fdType d; vs = set (fdValues d) in
      ty = ''string'' \<and> v \<in> range JStr
      \<or> ty = ''integer'' \<and> ((\<exists>n. v = JInt n) \<or> (\<exists>m e. v = JFloat m e \<and> float_is_int m e))
      \<or> ty = ''float'' \<and> ((\<exists>n. v = JInt n) \<or> (\<exists>m e. v = JFloat m e))
      \<or> ty = ''boolean'' \<and> v \<in> range JBool
      \<or> ty = ''timestamp'' \<and> v \<in> JStr ` {s. rfc3339_ok s}
      \<or> ty = ''enum'' \<and> v \<in> JStr ` vs
      \<or> ty = ''string[]'' \<and> (\<exists>es. v = JArr es \<and> set es \<subseteq> range JStr)
      \<or> ty = ''enum[]'' \<and> (\<exists>es. v = JArr es \<and> set es \<subseteq> JStr ` vs)
      \<or> ty = ''json'')"

lemma check_strings_None: "check_strings es = None \<longleftrightarrow> set es \<subseteq> range JStr"
  by (induction es) (auto split: json.splits)

lemma check_enums_None: "check_enums vs es = None \<longleftrightarrow> set es \<subseteq> JStr ` set vs"
  by (induction es) (auto simp: contains_set split: json.splits)

lemma validateFieldValue_None: "validateFieldValue d v = None \<longleftrightarrow> field_conforms d v"
proof -
  consider "fdType d = ''string''" | "fdType d = ''integer''" | "fdType d = ''float''"
    | "fdType d = ''boolean''" | "fdType d = ''timestamp''" | "fdType d = ''enum''"
    | "fdType d = ''string[]''" | "fdType d = ''enum[]''" | "fdType d = ''json''"
    | "fdType d \<notin> {''string'', ''integer'', ''float'', ''boolean'', ''timestamp'', ''enum'',
         ''string[]'', ''enum[]'', ''json''}"
    by auto
  then show ?thesis
  proof cases
    case 7
    then show ?thesis
      by (cases v) (auto simp: validateFieldValue_def field_conforms_def check_strings_None)
  next
    case 8
    then show ?thesis
      by (cases v) (auto simp: validateFieldValue_def field_conforms_def check_enums_None)
  next
    case 6
    then show ?thesis
      by (cases v) (auto simp: validateFieldValue_def field_conforms_def contains_set)
  qed (cases v; auto simp: validateFieldValue_def field_conforms_def)+
qed

lemma first_required_Nil: "first_required ds = [] \<longleftrightarrow> (\<forall>d \<in> set ds. \<not> fdRequired d)"
  by (induction ds) auto

definition def_accepts :: "json option \<Rightarrow> field_def \<Rightarrow> bool" where
  "def_accepts v d \<longleftrightarrow>
     (if v = None \<or> v = Some JNull then \<not> fdRequired d else field_conforms d (the v))"

lemma check_def_Nil: "check_def m d = [] \<longleftrightarrow> def_accepts (map_of m (fdName d)) d"
  by (auto simp: check_def_def def_accepts_def validateFieldValue_None [symmetric]
      split: option.splits json.splits)

lemma unknown_keys_Nil:
  "unknown_keys m defs = [] \<longleftrightarrow> (\<forall>k. map_of m k \<noteq> None \<longrightarrow> k \<in> fdName ` set defs)"
  by (auto simp: unknown_keys_def filter_empty_conv map_of_eq_None_iff)

text \<open>
  C9: the field validation accepts exactly the fields that are absent, \<open>null\<close> or an object;
  that have no key without a definition; in which every required field is present and not
  \<open>null\<close>; and in which every other value conforms to the type of its definition.
\<close>

theorem ValidateFields_accepts:
  "ValidateFields r defs = [] \<longleftrightarrow>
     (r \<in> {RawNil, RawEmpty, Raw JNull} \<or> r \<in> Raw ` range JObj)
     \<and> (\<forall>k. raw_field r k \<noteq> None \<longrightarrow> k \<in> fdName ` set defs)
     \<and> (\<forall>d \<in> set defs. def_accepts (raw_field r (fdName d)) d)"
proof (cases "raw_empty r")
  case True
  then show ?thesis
    by (auto simp: raw_empty_def ValidateFields_def first_required_Nil raw_field_def
        def_accepts_def)
next
  case False
  obtain m ok where u: "unmarshal_map r None = (m, ok)" by (cases "unmarshal_map r None")
  have ok: "ok \<longleftrightarrow> r = Raw JNull \<or> r \<in> Raw ` range JObj"
    using u False by (auto simp: unmarshal_map_def split: raw.splits json.splits)
  have "ok \<Longrightarrow> ValidateFields r defs = [] \<longleftrightarrow>
      unknown_keys (gomap_list m) defs = [] \<and> (\<forall>d \<in> set defs. check_def (gomap_list m) d = [])"
    using False u by (simp add: ValidateFields_def)
  moreover have "\<not> ok \<Longrightarrow> ValidateFields r defs \<noteq> []"
    using False u by (simp add: ValidateFields_def)
  moreover have "raw_field r k = map_of (gomap_list m) k" for k
    by (simp add: raw_field_def u)
  ultimately show ?thesis
    using ok False by (auto simp: unknown_keys_Nil check_def_Nil raw_empty_def)
qed

definition severity_def :: field_def where
  "severity_def = \<lparr>fdName = ''severity'', fdType = ''enum'', fdRequired = True,
     fdValues = [''low'', ''high'']\<rparr>"

lemma ValidateFields_accepts_witness:
  "ValidateFields (Raw (JObj [(''severity'', JStr ''high'')])) [severity_def] = []
   \<and> ValidateFields (Raw (JObj [(''severity'', JStr ''odd'')])) [severity_def] \<noteq> []
   \<and> ValidateFields RawNil [severity_def] \<noteq> []"
  unfolding ValidateFields_accepts
  by (auto simp: raw_field_def severity_def_def def_accepts_def field_conforms_def image_iff
      split: if_splits)

end
