(* ===== verification/Sql.thy ===== *)
theory Sql
  imports Model
begin

text \<open>
  The database the store talks to: the tables of \<open>internal/store/postgres/migrations\<close>,
  and the SQL statements of \<open>queries.go\<close>, \<open>gates.go\<close> and \<open>batch_queries.go\<close> as
  functions on them, with the primary keys, foreign keys and cascades the migrations
  declare. A query without \<open>ORDER BY\<close> returns its rows in table order.
\<close>

subsection \<open>Tables\<close>

record tables =
  tBeads :: "bead list"
  tLabels :: "(string \<times> string) list"
  tDeps :: "dependency list"
  tComments :: "comment list"
  tEvents :: "event list"
  tConfigs :: "config list"
  tGates :: "gate_row list"
  tCommentSeq :: int
  tEventSeq :: int

text \<open>A \<open>TIMESTAMPTZ\<close> keeps microseconds.\<close>

definition pg_time :: "time \<Rightarrow> time" where
  "pg_time t = (t + 500) div 1000 * 1000"

lemma pg_time_idem [simp]: "pg_time (pg_time t) = pg_time t"
  by (simp add: pg_time_def)

definition bead_ids :: "tables \<Rightarrow> string set" where
  "bead_ids t = bID ` set (tBeads t)"

definition dep_key :: "dependency \<Rightarrow> string \<times> string \<times> string" where
  "dep_key d = (dBeadID d, dDependsOnID d, dType d)"

definition gate_key :: "gate_row \<Rightarrow> string \<times> string" where
  "gate_key g = (gAgentBeadID g, gGateID g)"

definition dup_key :: "string \<Rightarrow> err" where
  "dup_key c = DriverError (''pq: duplicate key value violates unique constraint \"'' @ c @ ''\"'')"

definition fk_violation :: "string \<Rightarrow> string \<Rightarrow> err" where
  "fk_violation tbl c =
     DriverError (''pq: insert or update on table \"'' @ tbl
                  @ ''\" violates foreign key constraint \"'' @ c @ ''\"'')"

definition bad_json :: err where
  "bad_json = DriverError ''pq: invalid input syntax for type json''"

definition not_null :: err where
  "not_null = DriverError ''pq: null value violates not-null constraint''"

subsection \<open>Beads\<close>

text \<open>The row of a bead: labels, dependencies and comments are tables of their own; an
  empty slug is \<open>NULL\<close> and is read back as the empty string.\<close>

definition bead_row :: "bead \<Rightarrow> raw \<Rightarrow> bead" where
  "bead_row b f =
     b\<lparr>bCreatedAt := pg_time (bCreatedAt b), bUpdatedAt := pg_time (bUpdatedAt b),
       bClosedAt := map_option pg_time (bClosedAt b), bDueAt := map_option pg_time (bDueAt b),
       bDeferUntil := map_option pg_time (bDeferUntil b), bFields := f,
       bLabels := [], bDependencies := [], bComments := []\<rparr>"

definition sql_insert_bead :: "bead \<Rightarrow> tables \<Rightarrow> unit res \<times> tables" where
  "sql_insert_bead b t =
     (case jsonb_store (bFields b) of
        None \<Rightarrow> (Inl bad_json, t)
      | Some f \<Rightarrow>
          if bID b \<in> bead_ids t then (Inl (dup_key ''beads_pkey''), t)
          else (Inr (), t\<lparr>tBeads := tBeads t @ [bead_row b f]\<rparr>))"

definition find_bead :: "string \<Rightarrow> tables \<Rightarrow> bead option" where
  "find_bead bid t = List.find (\<lambda>b. bID b = bid) (tBeads t)"

definition sql_select_bead :: "string \<Rightarrow> tables \<Rightarrow> bead res \<times> tables" where
  "sql_select_bead bid t =
     (case find_bead bid t of None \<Rightarrow> (Inl ErrNoRows, t) | Some b \<Rightarrow> (Inr b, t))"

text \<open>\<open>UPDATE beads SET ... WHERE id = $1\<close>: every column but \<open>id\<close>, \<open>created_at\<close> and
  \<open>created_by\<close>.\<close>

definition updated_row :: "time \<Rightarrow> bead \<Rightarrow> raw \<Rightarrow> bead \<Rightarrow> bead" where
  "updated_row tm b f old =
     (bead_row b f)\<lparr>bID := bID old, bCreatedAt := bCreatedAt old, bCreatedBy := bCreatedBy old,
       bUpdatedAt := tm\<rparr>"

definition map_bead :: "string \<Rightarrow> (bead \<Rightarrow> bead) \<Rightarrow> tables \<Rightarrow> tables" where
  "map_bead bid f t = t\<lparr>tBeads := map (\<lambda>b. if bID b = bid then f b else b) (tBeads t)\<rparr>"

definition sql_update_bead :: "time \<Rightarrow> bead \<Rightarrow> tables \<Rightarrow> time res \<times> tables" where
  "sql_update_bead tm b t =
     (case jsonb_store (bFields b) of
        None \<Rightarrow> (Inl bad_json, t)
      | Some f \<Rightarrow>
          (case find_bead (bID b) t of
             None \<Rightarrow> (Inl ErrNoRows, t)
           | Some _ \<Rightarrow> (Inr tm, map_bead (bID b) (updated_row tm b f) t)))"

definition closed_row :: "time \<Rightarrow> string \<Rightarrow> bead \<Rightarrow> bead" where
  "closed_row tm closedBy b =
     b\<lparr>bStatus := StatusClosed, bClosedAt := Some tm, bClosedBy := closedBy, bUpdatedAt := tm\<rparr>"

definition sql_close_bead :: "time \<Rightarrow> string \<Rightarrow> string \<Rightarrow> tables \<Rightarrow> bead res \<times> tables" where
  "sql_close_bead tm bid closedBy t =
     (case find_bead bid t of
        None \<Rightarrow> (Inl ErrNoRows, t)
      | Some b \<Rightarrow> (Inr (closed_row tm closedBy b), map_bead bid (closed_row tm closedBy) t))"

text \<open>\<open>DELETE FROM beads WHERE id = $1\<close>, its cascades, and the number of rows deleted.\<close>

definition sql_delete_bead :: "string \<Rightarrow> tables \<Rightarrow> nat res \<times> tables" where
  "sql_delete_bead bid t =
     (Inr (length (filter (\<lambda>b. bID b = bid) (tBeads t))),
      t\<lparr>tBeads := filter (\<lambda>b. bID b \<noteq> bid) (tBeads t),
        tLabels := filter (\<lambda>(b, _). b \<noteq> bid) (tLabels t),
        tDeps := filter (\<lambda>d. dBeadID d \<noteq> bid \<and> dDependsOnID d \<noteq> bid) (tDeps t),
        tComments := filter (\<lambda>c. cBeadID c \<noteq> bid) (tComments t),
        tGates := filter (\<lambda>g. gAgentBeadID g \<noteq> bid) (tGates t)\<rparr>)"

subsection \<open>Dependencies, labels, comments\<close>

definition sql_insert_dep :: "dependency \<Rightarrow> tables \<Rightarrow> unit res \<times> tables" where
  "sql_insert_dep d t =
     (if dep_key d \<in> dep_key ` set (tDeps t) then (Inl (dup_key ''deps_pkey''), t)
      else if dBeadID d \<notin> bead_ids t then (Inl (fk_violation ''deps'' ''deps_bead_id_fkey''), t)
      else if dDependsOnID d \<notin> bead_ids t then
        (Inl (fk_violation ''deps'' ''deps_depends_on_id_fkey''), t)
      else (Inr (), t\<lparr>tDeps := tDeps t @ [d\<lparr>dCreatedAt := pg_time (dCreatedAt d)\<rparr>]\<rparr>))"

definition sql_delete_dep :: "string \<Rightarrow> string \<Rightarrow> string \<Rightarrow> tables \<Rightarrow> unit res \<times> tables" where
  "sql_delete_dep b on ty t =
     (Inr (), t\<lparr>tDeps := filter (\<lambda>d. dep_key d \<noteq> (b, on, ty)) (tDeps t)\<rparr>)"

definition deps_of :: "string \<Rightarrow> tables \<Rightarrow> dependency list" where
  "deps_of bid t = filter (\<lambda>d. dBeadID d = bid) (tDeps t)"

definition rev_deps_of :: "string \<Rightarrow> tables \<Rightarrow> dependency list" where
  "rev_deps_of bid t = filter (\<lambda>d. dDependsOnID d = bid) (tDeps t)"

definition sql_insert_label :: "string \<Rightarrow> string \<Rightarrow> tables \<Rightarrow> unit res \<times> tables" where
  "sql_insert_label b l t =
     (if (b, l) \<in> set (tLabels t) then (Inr (), t)
      else if b \<notin> bead_ids t then (Inl (fk_violation ''labels'' ''labels_bead_id_fkey''), t)
      else (Inr (), t\<lparr>tLabels := tLabels t @ [(b, l)]\<rparr>))"

definition sql_delete_label :: "string \<Rightarrow> string \<Rightarrow> tables \<Rightarrow> unit res \<times> tables" where
  "sql_delete_label b l t = (Inr (), t\<lparr>tLabels := filter (\<lambda>x. x \<noteq> (b, l)) (tLabels t)\<rparr>)"

definition labels_of :: "string \<Rightarrow> tables \<Rightarrow> string list" where
  "labels_of bid t = map snd (filter (\<lambda>(b, _). b = bid) (tLabels t))"

text \<open>The id and the time of the new comment are the database's.\<close>

definition sql_insert_comment :: "time \<Rightarrow> comment \<Rightarrow> tables \<Rightarrow> comment res \<times> tables" where
  "sql_insert_comment tm c t =
     (let n = tCommentSeq t + 1; c' = c\<lparr>cID := n, cCreatedAt := tm\<rparr>; t' = t\<lparr>tCommentSeq := n\<rparr> in
      if cBeadID c \<notin> bead_ids t then (Inl (fk_violation ''comments'' ''comments_bead_id_fkey''), t')
      else (Inr c', t'\<lparr>tComments := tComments t @ [c']\<rparr>))"

definition comments_of :: "string \<Rightarrow> tables \<Rightarrow> comment list" where
  "comments_of bid t = sort_key cCreatedAt (filter (\<lambda>c. cBeadID c = bid) (tComments t))"

subsection \<open>Events and configs\<close>

text \<open>A \<open>JSONB NOT NULL\<close> column: a \<open>nil\<close> slice is \<open>NULL\<close>, an empty one no JSON.\<close>

definition jsonb_required :: "raw \<Rightarrow> raw res" where
  "jsonb_required r =
     (case r of RawNil \<Rightarrow> Inl not_null | RawEmpty \<Rightarrow> Inl bad_json | RawBad \<Rightarrow> Inl bad_json
      | Raw j \<Rightarrow> Inr (Raw (jsonb j)))"

definition sql_insert_event :: "time \<Rightarrow> event \<Rightarrow> tables \<Rightarrow> event res \<times> tables" where
  "sql_insert_event tm e t =
     (let n = tEventSeq t + 1; t' = t\<lparr>tEventSeq := n\<rparr> in
      case jsonb_required (ePayload e) of
        Inl er \<Rightarrow> (Inl er, t')
      | Inr p \<Rightarrow> (let e' = e\<lparr>eID := n, eCreatedAt := tm\<rparr>
                  in (Inr e', t'\<lparr>tEvents := tEvents t @ [e'\<lparr>ePayload := p\<rparr>]\<rparr>)))"

definition events_of :: "string \<Rightarrow> tables \<Rightarrow> event list" where
  "events_of bid t = sort_key eCreatedAt (filter (\<lambda>e. eBeadID e = bid) (tEvents t))"

definition find_config :: "string \<Rightarrow> tables \<Rightarrow> config option" where
  "find_config k t = List.find (\<lambda>c. kKey c = k) (tConfigs t)"

text \<open>\<open>INSERT ... ON CONFLICT (key) DO UPDATE ... RETURNING created_at, updated_at\<close>.\<close>

definition sql_set_config :: "time \<Rightarrow> config \<Rightarrow> tables \<Rightarrow> (time \<times> time) res \<times> tables" where
  "sql_set_config tm c t =
     (case jsonb_required (kValue c) of
        Inl er \<Rightarrow> (Inl er, t)
      | Inr v \<Rightarrow>
          (case find_config (kKey c) t of
             None \<Rightarrow>
               (Inr (tm, tm),
                t\<lparr>tConfigs := tConfigs t @
                   [\<lparr>kKey = kKey c, kValue = v, kCreatedAt = tm, kUpdatedAt = tm\<rparr>]\<rparr>)
           | Some old \<Rightarrow>
               (Inr (kCreatedAt old, tm),
                t\<lparr>tConfigs := map (\<lambda>k. if kKey k = kKey c
                                        then k\<lparr>kValue := v, kUpdatedAt := tm\<rparr> else k)
                                (tConfigs t)\<rparr>)))"

definition sql_select_config :: "string \<Rightarrow> tables \<Rightarrow> config res \<times> tables" where
  "sql_select_config k t =
     (case find_config k t of None \<Rightarrow> (Inl ErrNoRows, t) | Some c \<Rightarrow> (Inr c, t))"

definition sql_delete_config :: "string \<Rightarrow> tables \<Rightarrow> nat res \<times> tables" where
  "sql_delete_config k t =
     (Inr (length (filter (\<lambda>c. kKey c = k) (tConfigs t))),
      t\<lparr>tConfigs := filter (\<lambda>c. kKey c \<noteq> k) (tConfigs t)\<rparr>)"

subsection \<open>Pattern matching\<close>

text \<open>\<open>LIKE\<close> on runes: \<open>%\<close> (37) any text, \<open>_\<close> (95) one rune, a backslash (92) quotes the
  next rune of the pattern. \<open>ILIKE\<close> folds ASCII letters.\<close>

fun like :: "nat list \<Rightarrow> nat list \<Rightarrow> bool" where
  "like [] t = (t = [])"
| "like (p # ps) [] = (p = 37 \<and> like ps [])"
| "like (p # ps) (x # xs) =
     (if p = 37 then like ps (x # xs) \<or> like (p # ps) xs
      else if p = 95 then like ps xs
      else if p = 92 then
        (case ps of [] \<Rightarrow> False | q # qs \<Rightarrow> q = x \<and> like qs xs)
      else p = x \<and> like ps xs)"

definition lower_rune :: "nat \<Rightarrow> nat" where
  "lower_rune r = (if 65 \<le> r \<and> r \<le> 90 then r + 32 else r)"

definition rune_nums :: "string \<Rightarrow> nat list" where
  "rune_nums s = map fst (runes s)"

definition sql_like :: "string \<Rightarrow> string \<Rightarrow> bool" where
  "sql_like s pat = like (rune_nums pat) (rune_nums s)"

definition sql_ilike :: "string \<Rightarrow> string \<Rightarrow> bool" where
  "sql_ilike s pat = like (map lower_rune (rune_nums pat)) (map lower_rune (rune_nums s))"

definition configs_like :: "string \<Rightarrow> tables \<Rightarrow> config list" where
  "configs_like ns t =
     sort_key kKey (filter (\<lambda>c. sql_like (kKey c) (ns @ '':%'')) (tConfigs t))"

subsection \<open>Prefix patterns\<close>

lemma two_bytes: "194 \<le> (b::nat) \<Longrightarrow> 128 \<le> (b - 192) * 64 + k"
proof -
  assume "194 \<le> b"
  then have "2 * 64 \<le> (b - 192) * 64" by (intro mult_le_mono1) simp
  then show ?thesis by simp
qed

lemma three_bytes:
  "224 \<le> (b::nat) \<Longrightarrow> (if b = 224 then 160 else 128) \<le> b1 \<Longrightarrow>
   128 \<le> (b - 224) * 4096 + (b1 - 128) * 64 + k"
proof -
  assume b: "224 \<le> b" and b1: "(if b = 224 then 160 else 128) \<le> b1"
  show ?thesis
  proof (cases "b = 224")
    case True
    then have "32 * 64 \<le> (b1 - 128) * 64" using b1 by (intro mult_le_mono1) simp
    then show ?thesis by simp
  next
    case False
    then have "1 * 4096 \<le> (b - 224) * 4096" using b by (intro mult_le_mono1) simp
    then show ?thesis by simp
  qed
qed

lemma four_bytes:
  "240 \<le> (b::nat) \<Longrightarrow> (if b = 240 then 144 else 128) \<le> b1 \<Longrightarrow>
   128 \<le> (b - 240) * 262144 + (b1 - 128) * 4096 + j + k"
proof -
  assume b: "240 \<le> b" and b1: "(if b = 240 then 144 else 128) \<le> b1"
  show ?thesis
  proof (cases "b = 240")
    case True
    then have "16 * 4096 \<le> (b1 - 128) * 4096" using b1 by (intro mult_le_mono1) simp
    then show ?thesis by simp
  next
    case False
    then have "1 * 262144 \<le> (b - 240) * 262144" using b by (intro mult_le_mono1) simp
    then show ?thesis by simp
  qed
qed

text \<open>The rune of a multi-byte encoding, and \<open>RuneError\<close>, are not ASCII.\<close>

lemma decode_rune_large: "128 \<le> byte c \<Longrightarrow> 128 \<le> fst (decode_rune c cs)"
proof -
  assume b: "128 \<le> byte c"
  obtain bs where bs: "map byte (take 3 cs) = bs" by blast
  show ?thesis
    unfolding decode_rune_def Let_def bs using b
    by (simp add: two_bytes three_bytes four_bytes three_bytes [of 224, simplified]
        four_bytes [of 240, simplified] split: list.split)
qed

lemma byte_inject: "byte c = byte d \<longleftrightarrow> c = d"
  by (simp add: byte_def)

lemma rune_nums_Cons: "byte c < 128 \<Longrightarrow> rune_nums (c # s) = byte c # rune_nums s"
  by (simp add: rune_nums_def)

lemma rune_nums_ascii_head:
  assumes "byte p < 128" and "rune_nums k = byte p # r"
  shows "\<exists>k'. k = p # k' \<and> rune_nums k' = r"
proof (cases k)
  case Nil
  with assms(2) show ?thesis by (simp add: rune_nums_def)
next
  case (Cons c k')
  have "fst (decode_rune c k') = byte p"
    using assms(2) by (simp add: rune_nums_def Cons runes.simps(2) Let_def split_beta)
  then have c: "byte c < 128" using decode_rune_large [of c k'] assms(1) by linarith
  then have "byte c = byte p" "rune_nums k' = r"
    using assms(2) Cons by (simp_all add: rune_nums_Cons)
  then show ?thesis using Cons by (simp add: byte_inject)
qed

definition plain :: "string \<Rightarrow> bool" where
  "plain s \<longleftrightarrow> list_all (\<lambda>c. byte c < 128 \<and> byte c \<noteq> 37 \<and> byte c \<noteq> 95 \<and> byte c \<noteq> 92) s"

lemma like_any: "like [37] t"
  by (induction t) simp_all

lemma like_plain:
  "plain p \<Longrightarrow> like (map byte p @ [37]) t \<longleftrightarrow> (\<exists>r. t = map byte p @ r)"
proof (induction p arbitrary: t)
  case Nil
  show ?case by (simp add: like_any del: like.simps)
next
  case (Cons c p)
  then show ?case by (cases t) (auto simp: plain_def)
qed

lemma rune_nums_plain: "plain p \<Longrightarrow> rune_nums (p @ s) = map byte p @ rune_nums s"
  by (induction p) (auto simp: plain_def rune_nums_Cons)

lemma rune_nums_prefix:
  "plain p \<Longrightarrow> (\<exists>r. rune_nums k = map byte p @ r) \<longleftrightarrow> has_prefix k p"
proof (induction p arbitrary: k)
  case (Cons c p)
  then have c: "byte c < 128" "plain p" by (simp_all add: plain_def)
  show ?case
  proof
    assume "\<exists>r. rune_nums k = map byte (c # p) @ r"
    then obtain r where "rune_nums k = byte c # (map byte p @ r)" by auto
    then obtain k' where "k = c # k'" "rune_nums k' = map byte p @ r"
      using rune_nums_ascii_head [OF c(1)] by blast
    moreover from this(2) have "has_prefix k' p" using Cons.IH [OF c(2), of k'] by blast
    ultimately show "has_prefix k (c # p)" by (simp add: has_prefix_def)
  next
    assume "has_prefix k (c # p)"
    then obtain k' where "k = c # k'" "has_prefix k' p" by (cases k) (auto simp: has_prefix_def)
    then show "\<exists>r. rune_nums k = map byte (c # p) @ r"
      using Cons.IH [OF c(2), of k'] c(1) by (auto simp: rune_nums_Cons)
  qed
qed (simp add: has_prefix_def)

text \<open>\<open>key LIKE prefix || '%'\<close> for a prefix of ASCII without wildcards is the prefix test.\<close>

lemma sql_like_prefix: "plain p \<Longrightarrow> sql_like k (p @ ''%'') \<longleftrightarrow> has_prefix k p"
proof -
  assume p: "plain p"
  have "rune_nums (p @ ''%'') = map byte p @ [37]"
    by (simp add: rune_nums_plain [OF p] rune_nums_Cons) (simp add: rune_nums_def)
  then show ?thesis by (simp add: sql_like_def like_plain [OF p] rune_nums_prefix [OF p])
qed

subsection \<open>Gates\<close>

definition sql_upsert_gate :: "string \<Rightarrow> string \<Rightarrow> tables \<Rightarrow> unit res \<times> tables" where
  "sql_upsert_gate a g t =
     (if (a, g) \<in> gate_key ` set (tGates t) then (Inr (), t)
      else if a \<notin> bead_ids t then
        (Inl (fk_violation ''session_gates'' ''session_gates_agent_bead_id_fkey''), t)
      else (Inr (), t\<lparr>tGates := tGates t @
              [\<lparr>gAgentBeadID = a, gGateID = g, gStatus = ''pending'', gSatisfiedAt = None\<rparr>]\<rparr>))"

definition sql_set_gate ::
  "string \<Rightarrow> time option \<Rightarrow> string \<Rightarrow> string \<Rightarrow> tables \<Rightarrow> unit res \<times> tables" where
  "sql_set_gate st at a g t =
     (Inr (), t\<lparr>tGates := map (\<lambda>r. if gate_key r = (a, g)
                                    then r\<lparr>gStatus := st, gSatisfiedAt := at\<rparr> else r) (tGates t)\<rparr>)"

definition sql_gate_status :: "string \<Rightarrow> string \<Rightarrow> tables \<Rightarrow> string res \<times> tables" where
  "sql_gate_status a g t =
     (case List.find (\<lambda>r. gate_key r = (a, g)) (tGates t) of
        None \<Rightarrow> (Inl ErrNoRows, t) | Some r \<Rightarrow> (Inr (gStatus r), t))"

definition gates_of :: "string \<Rightarrow> tables \<Rightarrow> gate_row list" where
  "gates_of a t = sort_key gGateID (filter (\<lambda>r. gAgentBeadID r = a) (tGates t))"

subsection \<open>Integrity\<close>

definition keys_ok :: "tables \<Rightarrow> bool" where
  "keys_ok t \<longleftrightarrow>
     distinct (map bID (tBeads t)) \<and> distinct (tLabels t) \<and> distinct (map dep_key (tDeps t))
     \<and> distinct (map cID (tComments t)) \<and> distinct (map eID (tEvents t))
     \<and> distinct (map kKey (tConfigs t)) \<and> distinct (map gate_key (tGates t))"

definition refs_ok :: "tables \<Rightarrow> bool" where
  "refs_ok t \<longleftrightarrow>
     fst ` set (tLabels t) \<subseteq> bead_ids t
     \<and> dBeadID ` set (tDeps t) \<subseteq> bead_ids t \<and> dDependsOnID ` set (tDeps t) \<subseteq> bead_ids t
     \<and> cBeadID ` set (tComments t) \<subseteq> bead_ids t
     \<and> gAgentBeadID ` set (tGates t) \<subseteq> bead_ids t"

definition seqs_ok :: "tables \<Rightarrow> bool" where
  "seqs_ok t \<longleftrightarrow>
     (\<forall>c \<in> set (tComments t). cID c \<le> tCommentSeq t)
     \<and> (\<forall>e \<in> set (tEvents t). eID e \<le> tEventSeq t)"

definition row_ok :: "bead \<Rightarrow> bool" where
  "row_ok b \<longleftrightarrow>
     bLabels b = [] \<and> bDependencies b = [] \<and> bComments b = []
     \<and> bFields b \<noteq> RawBad \<and> bFields b \<noteq> RawEmpty"

definition rows_ok :: "tables \<Rightarrow> bool" where
  "rows_ok t \<longleftrightarrow>
     (\<forall>b \<in> set (tBeads t). row_ok b) \<and> (\<forall>c \<in> set (tConfigs t). json_valid (kValue c))"

definition db_wf :: "tables \<Rightarrow> bool" where
  "db_wf t \<longleftrightarrow> keys_ok t \<and> refs_ok t \<and> seqs_ok t \<and> rows_ok t"

definition no_tables :: tables where
  "no_tables = \<lparr>tBeads = [], tLabels = [], tDeps = [], tComments = [], tEvents = [],
     tConfigs = [], tGates = [], tCommentSeq = 0, tEventSeq = 0\<rparr>"

lemmas db_wf_defs = db_wf_def keys_ok_def refs_ok_def seqs_ok_def rows_ok_def

lemma db_wf_no_tables: "db_wf no_tables"
  by (simp add: no_tables_def db_wf_defs bead_ids_def)

text \<open>
  What every statement and every operation built from them guarantees: integrity is
  kept, and the sequences only grow (also when a transaction is rolled back).
\<close>

definition tables_step :: "tables \<Rightarrow> tables \<Rightarrow> bool" where
  "tables_step t t' \<longleftrightarrow>
     (db_wf t \<longrightarrow> db_wf t') \<and> tCommentSeq t \<le> tCommentSeq t' \<and> tEventSeq t \<le> tEventSeq t'"

interpretation tables_step: state_relation tables_step
  by unfold_locales (auto simp: tables_step_def)

lemma bead_ids_simps [simp]:
  "bead_ids (tLabels_update f1 t) = bead_ids t"
  "bead_ids (tDeps_update f2 t) = bead_ids t"
  "bead_ids (tComments_update f3 t) = bead_ids t"
  "bead_ids (tEvents_update f4 t) = bead_ids t"
  "bead_ids (tConfigs_update f5 t) = bead_ids t"
  "bead_ids (tGates_update f6 t) = bead_ids t"
  "bead_ids (tCommentSeq_update f7 t) = bead_ids t"
  "bead_ids (tEventSeq_update f8 t) = bead_ids t"
  by (simp_all add: bead_ids_def)

lemma jsonb_store_row: "jsonb_store r = Some f \<Longrightarrow> f \<noteq> RawBad \<and> f \<noteq> RawEmpty"
  by (cases r) (auto simp: jsonb_store_def)

lemma row_ok_bead_row: "jsonb_store (bFields b) = Some f \<Longrightarrow> row_ok (bead_row b f)"
  by (auto simp: row_ok_def bead_row_def dest: jsonb_store_row)

lemma bID_bead_row [simp]: "bID (bead_row b f) = bID b"
  by (simp add: bead_row_def)

lemma bID_updated_row [simp]: "bID (updated_row tm b f old) = bID old"
  by (simp add: updated_row_def)

lemma bID_closed_row [simp]: "bID (closed_row tm c b) = bID b"
  by (simp add: closed_row_def)

lemma map_bead_ids:
  assumes "\<And>b. bID (f b) = bID b"
  shows "map bID (tBeads (map_bead i f t)) = map bID (tBeads t)"
  using map_if_key [of bID f, OF assms] by (simp add: map_bead_def del: map_map)

lemma map_bead_simps [simp]:
  "tLabels (map_bead i f t) = tLabels t" "tDeps (map_bead i f t) = tDeps t"
  "tComments (map_bead i f t) = tComments t" "tEvents (map_bead i f t) = tEvents t"
  "tConfigs (map_bead i f t) = tConfigs t" "tGates (map_bead i f t) = tGates t"
  "tCommentSeq (map_bead i f t) = tCommentSeq t" "tEventSeq (map_bead i f t) = tEventSeq t"
  by (simp_all add: map_bead_def)

lemma bead_ids_map_bead: "(\<And>b. bID (f b) = bID b) \<Longrightarrow> bead_ids (map_bead i f t) = bead_ids t"
  using map_bead_ids [of f i t] unfolding bead_ids_def by (metis set_map)

lemma map_bead_wf:
  assumes "\<And>b. bID (f b) = bID b" and "\<And>b. row_ok b \<Longrightarrow> row_ok (f b)" and "db_wf t"
  shows "db_wf (map_bead i f t)"
proof -
  have "keys_ok (map_bead i f t)"
    using assms(3) map_bead_ids [OF assms(1), of i t] by (simp add: db_wf_def keys_ok_def)
  moreover have "refs_ok (map_bead i f t)"
    using assms(3) bead_ids_map_bead [OF assms(1), of i t]
    by (simp add: db_wf_def refs_ok_def)
  moreover have "seqs_ok (map_bead i f t)"
    using assms(3) by (simp add: db_wf_def seqs_ok_def)
  moreover have "rows_ok (map_bead i f t)"
    using assms(2,3) by (auto simp: db_wf_def rows_ok_def map_bead_def)
  ultimately show ?thesis by (simp add: db_wf_def)
qed

lemma map_bead_step:
  "(\<And>b. bID (f b) = bID b) \<Longrightarrow> (\<And>b. row_ok b \<Longrightarrow> row_ok (f b)) \<Longrightarrow>
   tables_step t (map_bead i f t)"
  unfolding tables_step_def using map_bead_wf by simp

named_theorems sql_steps \<open>statements keep the tables sound\<close>

lemma step_insert_bead [sql_steps]: "tables_step t (snd (sql_insert_bead b t))"
proof (cases "jsonb_store (bFields b)")
  case (Some f)
  show ?thesis
  proof (cases "bID b \<in> bead_ids t")
    case False
    have "db_wf t \<Longrightarrow> db_wf (t\<lparr>tBeads := tBeads t @ [bead_row b f]\<rparr>)"
      using False row_ok_bead_row [OF Some]
      by (auto simp: db_wf_defs bead_ids_def)
    then show ?thesis using False by (simp add: sql_insert_bead_def Some tables_step_def)
  qed (simp add: sql_insert_bead_def Some tables_step.refl)
qed (simp add: sql_insert_bead_def tables_step.refl)

lemma step_select_bead [sql_steps]: "tables_step t (snd (sql_select_bead i t))"
  by (simp add: sql_select_bead_def tables_step.refl split: option.split)

lemma step_update_bead [sql_steps]: "tables_step t (snd (sql_update_bead tm b t))"
proof (cases "jsonb_store (bFields b)")
  case (Some f)
  have "row_ok (updated_row tm b f old)" for old
    using row_ok_bead_row [OF Some] by (simp add: row_ok_def updated_row_def)
  then show ?thesis
    by (simp add: sql_update_bead_def Some tables_step.refl map_bead_step split: option.split)
qed (simp add: sql_update_bead_def tables_step.refl)

lemma step_close_bead [sql_steps]: "tables_step t (snd (sql_close_bead tm i c t))"
proof -
  have "row_ok b \<Longrightarrow> row_ok (closed_row tm c b)" for b
    by (simp add: row_ok_def closed_row_def)
  then show ?thesis
    by (simp add: sql_close_bead_def tables_step.refl map_bead_step split: option.split)
qed

lemma distinct_map_filter_key: "distinct (map f xs) \<Longrightarrow> distinct (map f (filter P xs))"
  by (rule distinct_map_filter)

lemma step_delete_bead [sql_steps]: "tables_step t (snd (sql_delete_bead i t))"
  by (auto simp: sql_delete_bead_def tables_step_def db_wf_defs bead_ids_def
      intro: distinct_map_filter)

lemma step_insert_dep [sql_steps]: "tables_step t (snd (sql_insert_dep d t))"
  by (auto simp: sql_insert_dep_def tables_step_def db_wf_defs dep_key_def bead_ids_def)

lemma step_delete_dep [sql_steps]: "tables_step t (snd (sql_delete_dep b on ty t))"
  by (auto simp: sql_delete_dep_def tables_step_def db_wf_defs bead_ids_def
      intro: distinct_map_filter)

lemma step_insert_label [sql_steps]: "tables_step t (snd (sql_insert_label b l t))"
  by (auto simp: sql_insert_label_def tables_step_def db_wf_defs bead_ids_def)

lemma step_delete_label [sql_steps]: "tables_step t (snd (sql_delete_label b l t))"
  by (auto simp: sql_delete_label_def tables_step_def db_wf_defs bead_ids_def)

lemma step_insert_comment [sql_steps]: "tables_step t (snd (sql_insert_comment tm c t))"
  by (fastforce simp: sql_insert_comment_def Let_def tables_step_def db_wf_defs bead_ids_def)

lemma jsonb_required_valid: "jsonb_required r = Inr v \<Longrightarrow> json_valid v"
  by (cases r) (auto simp: jsonb_required_def)

lemma step_insert_event [sql_steps]: "tables_step t (snd (sql_insert_event tm e t))"
  by (fastforce simp: sql_insert_event_def Let_def tables_step_def db_wf_defs bead_ids_def
      split: sum.split)

lemma find_config_None: "find_config k t = None \<longleftrightarrow> k \<notin> kKey ` set (tConfigs t)"
  by (auto simp: find_config_def find_None_iff)

lemma step_set_config [sql_steps]: "tables_step t (snd (sql_set_config tm c t))"
proof (cases "jsonb_required (kValue c)")
  case (Inr v)
  have v: "json_valid v" using jsonb_required_valid [OF Inr] .
  show ?thesis
  proof (cases "find_config (kKey c) t")
    case None
    then have "kKey c \<notin> kKey ` set (tConfigs t)" by (simp only: find_config_None not_False_eq_True)
    then show ?thesis
      using v None by (auto simp: sql_set_config_def Inr tables_step_def db_wf_defs bead_ids_def)
  next
    case (Some old)
    have "map kKey (map (\<lambda>k. if kKey k = kKey c then k\<lparr>kValue := v, kUpdatedAt := tm\<rparr> else k)
            (tConfigs t)) = map kKey (tConfigs t)"
      by (rule map_if_key) simp
    then show ?thesis
      using v Some by (auto simp: sql_set_config_def Inr tables_step_def db_wf_defs bead_ids_def
          simp del: map_map)
  qed
qed (simp add: sql_set_config_def tables_step.refl)

lemma step_select_config [sql_steps]: "tables_step t (snd (sql_select_config k t))"
  by (simp add: sql_select_config_def tables_step.refl split: option.split)

lemma step_delete_config [sql_steps]: "tables_step t (snd (sql_delete_config k t))"
  by (auto simp: sql_delete_config_def tables_step_def db_wf_defs bead_ids_def
      intro: distinct_map_filter)

lemma step_upsert_gate [sql_steps]: "tables_step t (snd (sql_upsert_gate a g t))"
  by (auto simp: sql_upsert_gate_def tables_step_def db_wf_defs bead_ids_def gate_key_def)

lemma step_set_gate [sql_steps]: "tables_step t (snd (sql_set_gate st at a g t))"
proof -
  let ?f = "\<lambda>r. if gate_key r = (a, g) then r\<lparr>gStatus := st, gSatisfiedAt := at\<rparr> else r"
  have "map gate_key (map ?f (tGates t)) = map gate_key (tGates t)"
    by (rule map_if_key) (simp add: gate_key_def)
  moreover have "gAgentBeadID ` set (map ?f (tGates t)) = gAgentBeadID ` set (tGates t)"
    unfolding set_map by (rule image_if_key) simp
  ultimately show ?thesis
    by (simp add: sql_set_gate_def tables_step_def db_wf_defs bead_ids_def del: map_map set_map)
qed

lemma step_gate_status [sql_steps]: "tables_step t (snd (sql_gate_status a g t))"
  by (simp add: sql_gate_status_def tables_step.refl split: option.split)

end
