(* ===== verification/Store.thy ===== *)
theory Store
  imports Sql
begin

text \<open>
  The PostgreSQL store (\<open>internal/store/postgres\<close>): every query function as an operation
  on a connection, which runs statements one after another and may fail at each of them;
  transactions; and the contract of the session-gate operations.
\<close>

subsection \<open>The connection\<close>

text \<open>
  \<open>db\<close> is the database; \<open>faults\<close> says, for each statement to come, whether the driver
  fails it and with what message (a lost connection, a cancelled context, text or a number
  the database refuses); \<open>now\<close> and \<open>db_now\<close> are the clocks of the process and of the
  database, which stand still while a request is served; \<open>render\<close> is the text PostgreSQL
  gives for an array, an object or a fraction under \<open>->>\<close>.
\<close>

record pg =
  db :: tables
  faults :: "string option list"
  now :: time
  db_now :: time
  render :: "json \<Rightarrow> string"

definition run_sql :: "(tables \<Rightarrow> 'a res \<times> tables) \<Rightarrow> ('z pg_scheme, 'a) op" where
  "run_sql f s = (case f (db s) of (r, t) \<Rightarrow> (r, s\<lparr>db := t\<rparr>))"

definition stmt :: "(tables \<Rightarrow> 'a res \<times> tables) \<Rightarrow> ('z pg_scheme, 'a) op" where
  "stmt f s =
     (case faults s of
        [] \<Rightarrow> run_sql f s
      | None # fs \<Rightarrow> run_sql f (s\<lparr>faults := fs\<rparr>)
      | Some m # fs \<Rightarrow> (Inl (DriverError m), s\<lparr>faults := fs\<rparr>))"

definition select :: "(tables \<Rightarrow> 'a) \<Rightarrow> ('z pg_scheme, 'a) op" where
  "select g = stmt (\<lambda>t. (Inr (g t), t))"

definition stmt_now :: "(time \<Rightarrow> tables \<Rightarrow> 'a res \<times> tables) \<Rightarrow> ('z pg_scheme, 'a) op" where
  "stmt_now f s = stmt (f (db_now s)) s"

subsection \<open>Dependencies, labels, comments\<close>

definition queryAddDependency :: "dependency \<Rightarrow> ('z pg_scheme, unit) op" where
  "queryAddDependency d = stmt (sql_insert_dep d)"

definition queryRemoveDependency :: "string \<Rightarrow> string \<Rightarrow> string \<Rightarrow> ('z pg_scheme, unit) op" where
  "queryRemoveDependency b on ty = stmt (sql_delete_dep b on ty)"

definition queryGetDependencies :: "string \<Rightarrow> ('z pg_scheme, dependency list) op" where
  "queryGetDependencies bid = select (deps_of bid)"

definition queryGetReverseDependencies :: "string \<Rightarrow> ('z pg_scheme, dependency list) op" where
  "queryGetReverseDependencies bid = select (rev_deps_of bid)"

definition queryAddLabel :: "string \<Rightarrow> string \<Rightarrow> ('z pg_scheme, unit) op" where
  "queryAddLabel b l = stmt (sql_insert_label b l)"

definition queryRemoveLabel :: "string \<Rightarrow> string \<Rightarrow> ('z pg_scheme, unit) op" where
  "queryRemoveLabel b l = stmt (sql_delete_label b l)"

definition queryGetLabels :: "string \<Rightarrow> ('z pg_scheme, string list) op" where
  "queryGetLabels bid = select (labels_of bid)"

text \<open>The comment with the id and time \<open>Scan\<close> writes into it.\<close>

definition queryAddComment :: "comment \<Rightarrow> ('z pg_scheme, comment) op" where
  "queryAddComment c = stmt_now (\<lambda>tm. sql_insert_comment tm c)"

definition queryGetComments :: "string \<Rightarrow> ('z pg_scheme, comment list) op" where
  "queryGetComments bid = select (comments_of bid)"

subsection \<open>Beads\<close>

definition queryCreateBead :: "bead \<Rightarrow> ('z pg_scheme, unit) op" where
  "queryCreateBead b = stmt (sql_insert_bead b)"

text \<open>The labels, dependencies and comments, each by a query of its own.\<close>

definition fetch_relations :: "string \<Rightarrow> bead \<Rightarrow> ('z pg_scheme, bead) op" where
  "fetch_relations bid b =
     and_then (queryGetLabels bid) (\<lambda>labels.
     and_then (queryGetDependencies bid) (\<lambda>deps.
     and_then (queryGetComments bid) (\<lambda>comments.
     ret (b\<lparr>bLabels := labels, bDependencies := deps, bComments := comments\<rparr>))))"

definition queryGetBead :: "string \<Rightarrow> ('z pg_scheme, bead) op" where
  "queryGetBead bid = and_then (stmt (sql_select_bead bid)) (fetch_relations bid)"

text \<open>The result is the \<open>updated_at\<close> that \<open>Scan\<close> writes into the caller's bead.\<close>

definition queryUpdateBead :: "bead \<Rightarrow> ('z pg_scheme, time) op" where
  "queryUpdateBead b = stmt_now (\<lambda>tm. sql_update_bead tm b)"

definition queryCloseBead :: "string \<Rightarrow> string \<Rightarrow> ('z pg_scheme, bead) op" where
  "queryCloseBead bid closedBy =
     and_then (stmt_now (\<lambda>tm. sql_close_bead tm bid closedBy)) (fetch_relations bid)"

definition queryDeleteBead :: "string \<Rightarrow> ('z pg_scheme, unit) op" where
  "queryDeleteBead bid =
     and_then (stmt (sql_delete_bead bid)) (\<lambda>n. if n = 0 then fail ErrNoRows else ret ())"

subsection \<open>Listing beads\<close>

definition parseSortClause :: "string \<Rightarrow> string \<times> bool" where
  "parseSortClause srt =
     (if srt = [] then (''created_at'', True)
      else let desc = has_prefix srt ''-''; col = trim_prefix srt ''-''
           in if col \<in> {''priority'', ''created_at'', ''updated_at'', ''title'', ''status'', ''type''}
              then (col, desc) else (''created_at'', True))"

text \<open>\<open>ORDER BY\<close> the columns the sort clause may name.\<close>

definition order_by :: "string \<times> bool \<Rightarrow> bead list \<Rightarrow> bead list" where
  "order_by sc rows =
     (case sc of (col, desc) \<Rightarrow>
        if col = ''priority'' then sort_dir desc bPriority rows
        else if col = ''updated_at'' then sort_dir desc bUpdatedAt rows
        else if col = ''title'' then sort_dir desc bTitle rows
        else if col = ''status'' then sort_dir desc bStatus rows
        else if col = ''type'' then sort_dir desc bType rows
        else sort_dir desc bCreatedAt rows)"

text \<open>\<open>fields->>key\<close>; \<open>None\<close> is \<open>NULL\<close>.\<close>

definition field_text :: "(json \<Rightarrow> string) \<Rightarrow> raw \<Rightarrow> string \<Rightarrow> string option" where
  "field_text rend r key =
     (case r of
        Raw (JObj kvs) \<Rightarrow>
          (case map_of kvs key of
             None \<Rightarrow> None
           | Some JNull \<Rightarrow> None
           | Some (JStr s) \<Rightarrow> Some s
           | Some (JBool b) \<Rightarrow> Some (if b then ''true'' else ''false'')
           | Some (JInt n) \<Rightarrow> Some (show_int n)
           | Some j \<Rightarrow> Some (rend j))
      | _ \<Rightarrow> None)"

definition opt_ok :: "'a option \<Rightarrow> ('a \<Rightarrow> bool) \<Rightarrow> bool" where
  "opt_ok x P = (case x of None \<Rightarrow> True | Some v \<Rightarrow> P v)"

definition open_dep :: "tables \<Rightarrow> bead \<Rightarrow> dependency \<Rightarrow> bool" where
  "open_dep t b d \<longleftrightarrow>
     dBeadID d = bID b
     \<and> list_ex (\<lambda>dep. bID dep = dDependsOnID d
                     \<and> bStatus dep \<in> {''open'', ''in_progress'', ''deferred''}) (tBeads t)"

text \<open>The \<open>WHERE\<close> clause, one conjunct per condition of the filter, in the source's order.\<close>

definition where_ok :: "(json \<Rightarrow> string) \<Rightarrow> bead_filter \<Rightarrow> tables \<Rightarrow> bead \<Rightarrow> bool" where
  "where_ok rend f t b \<longleftrightarrow>
     (fStatus f = [] \<or> bStatus b \<in> set (fStatus f))
     \<and> (fType f = [] \<or> bType b \<in> set (fType f))
     \<and> (fExcludeTypes f = [] \<or> bType b \<notin> set (fExcludeTypes f))
     \<and> (fKind f = [] \<or> bKind b \<in> set (fKind f))
     \<and> opt_ok (fPriority f) (\<lambda>p. bPriority b = p)
     \<and> opt_ok (fPriorityMin f) (\<lambda>p. bPriority b \<ge> p)
     \<and> opt_ok (fPriorityMax f) (\<lambda>p. bPriority b \<le> p)
     \<and> (fAssignee f = [] \<or> bAssignee b = fAssignee f)
     \<and> list_all (\<lambda>l. (bID b, l) \<in> set (tLabels t)) (fLabels f)
     \<and> (fLabelsAny f = [] \<or> list_ex (\<lambda>(i, l). i = bID b \<and> l \<in> set (fLabelsAny f)) (tLabels t))
     \<and> (fIDs f = [] \<or> bID b \<in> set (fIDs f))
     \<and> opt_ok (fUpdatedAfter f) (\<lambda>tm. bUpdatedAt b > pg_time tm)
     \<and> (fParentID f = []
        \<or> list_ex (\<lambda>d. dBeadID d = bID b \<and> dDependsOnID d = fParentID f
                        \<and> dType d = ''parent-child'') (tDeps t))
     \<and> (fSearch f = []
        \<or> sql_ilike (bTitle b) (''%'' @ fSearch f @ ''%'')
        \<or> sql_ilike (bDescription b) (''%'' @ fSearch f @ ''%''))
     \<and> list_all (\<lambda>(k, v). field_text rend (bFields b) k = Some v) (fFields f)
     \<and> (fNoOpenDeps f \<longrightarrow> \<not> list_ex (open_dep t b) (tDeps t))"

definition limit_offset :: "bead_filter \<Rightarrow> 'a list \<Rightarrow> 'a list" where
  "limit_offset f rows =
     (let rows = (if fOffset f > 0 then drop (nat (fOffset f)) rows else rows)
      in if fLimit f > 0 then take (nat (fLimit f)) rows else rows)"

text \<open>The rows of the page; \<open>COUNT(*) OVER()\<close> comes with each of them, so an empty page
  brings no count.\<close>

definition list_rows :: "(json \<Rightarrow> string) \<Rightarrow> bead_filter \<Rightarrow> tables \<Rightarrow> bead list \<times> nat" where
  "list_rows rend f t =
     (let found = filter (where_ok rend f t) (tBeads t);
          page = limit_offset f (order_by (parseSortClause (fSort f)) found)
      in (page, if page = [] then 0 else length found))"

definition list_beads :: "(json \<Rightarrow> string) \<Rightarrow> bead_filter \<Rightarrow> ('z pg_scheme, bead list \<times> nat) op" where
  "list_beads rend f =
     and_then (wrap ''list beads'' (select (list_rows rend f))) (\<lambda>(beads, total).
     if beads = [] then ret ([], total)
     else
       and_then (wrap ''list beads labels''
         (select (\<lambda>t. filter (\<lambda>(i, _). i \<in> bID ` set beads) (tLabels t)))) (\<lambda>rows.
       let labelMap = group_rows fst rows
       in ret (map (\<lambda>b. b\<lparr>bLabels := map snd (slice_at labelMap (bID b))\<rparr>) beads, total)))"

definition queryListBeads :: "bead_filter \<Rightarrow> ('z pg_scheme, bead list \<times> nat) op" where
  "queryListBeads f s = list_beads (render s) f s"

subsection \<open>Events, configs, statistics\<close>

definition queryRecordEvent :: "event \<Rightarrow> ('z pg_scheme, event) op" where
  "queryRecordEvent e = stmt_now (\<lambda>tm. sql_insert_event tm e)"

definition queryGetEvents :: "string \<Rightarrow> ('z pg_scheme, event list) op" where
  "queryGetEvents bid = select (events_of bid)"

text \<open>The config with the times \<open>Scan\<close> writes into it.\<close>

definition querySetConfig :: "config \<Rightarrow> ('z pg_scheme, config) op" where
  "querySetConfig c =
     and_then (stmt_now (\<lambda>tm. sql_set_config tm c)) (\<lambda>(cr, up).
     ret (c\<lparr>kCreatedAt := cr, kUpdatedAt := up\<rparr>))"

definition queryGetConfig :: "string \<Rightarrow> ('z pg_scheme, config) op" where
  "queryGetConfig k = stmt (sql_select_config k)"

definition queryListConfigs :: "string \<Rightarrow> ('z pg_scheme, config list) op" where
  "queryListConfigs ns = select (configs_like ns)"

definition queryListAllConfigs :: "('z pg_scheme, config list) op" where
  "queryListAllConfigs = select (\<lambda>t. sort_key kKey (tConfigs t))"

definition queryDeleteConfig :: "string \<Rightarrow> ('z pg_scheme, unit) op" where
  "queryDeleteConfig k =
     and_then (stmt (sql_delete_config k)) (\<lambda>n. if n = 0 then fail ErrNoRows else ret ())"

definition count_status :: "string \<Rightarrow> tables \<Rightarrow> nat" where
  "count_status st t = length (filter (\<lambda>b. bStatus b = st) (tBeads t))"

definition queryGetStats :: "('z pg_scheme, graph_stats) op" where
  "queryGetStats = wrap ''stats'' (select (\<lambda>t.
     \<lparr>sTotalOpen = count_status ''open'' t, sTotalInProgress = count_status ''in_progress'' t,
      sTotalBlocked = count_status ''blocked'' t, sTotalClosed = count_status ''closed'' t,
      sTotalDeferred = count_status ''deferred'' t\<rparr>))"

subsection \<open>Batch queries (\<open>batch_queries.go\<close>)\<close>

definition queryGetDependenciesForBeads ::
  "string list \<Rightarrow> ('z pg_scheme, (string \<times> dependency list) list) op" where
  "queryGetDependenciesForBeads ids =
     (if ids = [] then ret []
      else and_then (wrap ''batch deps''
             (select (\<lambda>t. filter (\<lambda>d. dBeadID d \<in> set ids) (tDeps t)))) (\<lambda>rows.
           ret (group_rows dBeadID rows)))"

definition queryGetReverseDependenciesForBeads ::
  "string list \<Rightarrow> ('z pg_scheme, (string \<times> dependency list) list) op" where
  "queryGetReverseDependenciesForBeads ids =
     (if ids = [] then ret []
      else and_then (wrap ''batch reverse deps''
             (select (\<lambda>t. filter (\<lambda>d. dDependsOnID d \<in> set ids) (tDeps t)))) (\<lambda>rows.
           ret (group_rows dDependsOnID rows)))"

text \<open>\<open>SELECT key, COUNT(*) ... GROUP BY key\<close>.\<close>

definition group_count :: "(dependency \<Rightarrow> string) \<Rightarrow> string list \<Rightarrow> tables \<Rightarrow> (string \<times> nat) list" where
  "group_count key ids t =
     map (\<lambda>(k, ds). (k, length ds)) (group_rows key (filter (\<lambda>d. key d \<in> set ids) (tDeps t)))"

definition put_forward :: "(string \<times> nat) list \<Rightarrow> (string \<times> dep_counts) list" where
  "put_forward rows =
     foldl (\<lambda>m (k, n). AList.update k \<lparr>dcDependencyCount = n, dcDependentCount = 0\<rparr> m) [] rows"

definition put_reverse ::
  "(string \<times> nat) list \<Rightarrow> (string \<times> dep_counts) list \<Rightarrow> (string \<times> dep_counts) list" where
  "put_reverse rows m0 =
     foldl (\<lambda>m (k, n). AList.update k
       (case map_of m k of
          Some dc \<Rightarrow> dc\<lparr>dcDependentCount := n\<rparr>
        | None \<Rightarrow> \<lparr>dcDependencyCount = 0, dcDependentCount = n\<rparr>) m) m0 rows"

definition queryGetDependencyCounts ::
  "string list \<Rightarrow> ('z pg_scheme, (string \<times> dep_counts) list) op" where
  "queryGetDependencyCounts ids =
     (if ids = [] then ret []
      else and_then (wrap ''dep counts forward'' (select (group_count dBeadID ids))) (\<lambda>fwd.
           and_then (wrap ''dep counts reverse'' (select (group_count dDependsOnID ids))) (\<lambda>rv.
           ret (put_reverse rv (put_forward fwd)))))"

definition queryGetLabelsForBeads ::
  "string list \<Rightarrow> ('z pg_scheme, (string \<times> string list) list) op" where
  "queryGetLabelsForBeads ids =
     (if ids = [] then ret []
      else and_then (wrap ''batch labels''
             (select (\<lambda>t. filter (\<lambda>(b, _). b \<in> set ids) (tLabels t)))) (\<lambda>rows.
           ret (map (\<lambda>(k, xs). (k, map snd xs)) (group_rows fst rows))))"

text \<open>The join of \<open>deps\<close> with the beads depended on.\<close>

definition blocker_rows :: "string list \<Rightarrow> tables \<Rightarrow> (string \<times> string) list" where
  "blocker_rows ids t =
     concat (map (\<lambda>d. map (\<lambda>_. (dBeadID d, dDependsOnID d))
       (filter (\<lambda>bl. bID bl = dDependsOnID d \<and> dBeadID d \<in> set ids \<and> dType d = ''blocks''
                     \<and> bStatus bl \<in> {''open'', ''in_progress'', ''blocked'', ''deferred''})
          (tBeads t))) (tDeps t))"

definition queryGetBlockedByForBeads ::
  "string list \<Rightarrow> ('z pg_scheme, (string \<times> string list) list) op" where
  "queryGetBlockedByForBeads ids =
     (if ids = [] then ret []
      else and_then (wrap ''batch blocked-by'' (select (blocker_rows ids))) (\<lambda>rows.
           ret (map (\<lambda>(k, xs). (k, map snd xs)) (group_rows fst rows))))"

definition queryGetBeadsByIDs :: "string list \<Rightarrow> ('z pg_scheme, bead list) op" where
  "queryGetBeadsByIDs ids =
     (if ids = [] then ret []
      else wrap ''get beads by ids'' (select (\<lambda>t. filter (\<lambda>b. bID b \<in> set ids) (tBeads t))))"

subsection \<open>Session gates (\<open>gates.go\<close>)\<close>

definition UpsertGate :: "string \<Rightarrow> string \<Rightarrow> ('z pg_scheme, unit) op" where
  "UpsertGate a g = stmt (sql_upsert_gate a g)"

definition MarkGateSatisfied :: "string \<Rightarrow> string \<Rightarrow> ('z pg_scheme, unit) op" where
  "MarkGateSatisfied a g = stmt_now (\<lambda>tm. sql_set_gate ''satisfied'' (Some tm) a g)"

definition ClearGate :: "string \<Rightarrow> string \<Rightarrow> ('z pg_scheme, unit) op" where
  "ClearGate a g = stmt (sql_set_gate ''pending'' None a g)"

definition IsGateSatisfied :: "string \<Rightarrow> string \<Rightarrow> ('z pg_scheme, bool) op" where
  "IsGateSatisfied a g =
     attempt (stmt (sql_gate_status a g)) (\<lambda>r.
       case r of
         Inl e \<Rightarrow> if is_no_rows e then ret False else fail e
       | Inr st \<Rightarrow> ret (st = ''satisfied''))"

definition ListGates :: "string \<Rightarrow> ('z pg_scheme, gate_row list) op" where
  "ListGates a = select (gates_of a)"

subsection \<open>Transactions\<close>

text \<open>\<open>nextval\<close> is not undone by a rollback; everything else is.\<close>

definition rollback_to :: "tables \<Rightarrow> tables \<Rightarrow> tables" where
  "rollback_to t0 t1 = t0\<lparr>tCommentSeq := tCommentSeq t1, tEventSeq := tEventSeq t1\<rparr>"

text \<open>
  \<open>RunInTransaction\<close>: \<open>BEGIN\<close> and \<open>COMMIT\<close> are statements that may fail; an error of the
  function, or of the commit, rolls the tables back. (A panic unwinds past the rollback; the
  transaction then ends with the request's context, with the same effect.)
\<close>

definition RunInTransaction :: "('z pg_scheme, 'a) op \<Rightarrow> ('z pg_scheme, 'a) op" where
  "RunInTransaction fn s =
     (case wrap ''begin transaction'' (stmt (\<lambda>t. (Inr (), t))) s of
        (Inl e, s1) \<Rightarrow> (Inl e, s1)
      | (Inr _, s1) \<Rightarrow>
          (case fn s1 of
             (Inl e, s2) \<Rightarrow> (Inl e, s2\<lparr>db := rollback_to (db s1) (db s2)\<rparr>)
           | (Inr x, s2) \<Rightarrow>
               (case wrap ''commit transaction'' (stmt (\<lambda>t. (Inr (), t))) s2 of
                  (Inl e, s3) \<Rightarrow> (Inl e, s3\<lparr>db := rollback_to (db s1) (db s3)\<rparr>)
                | (Inr _, s3) \<Rightarrow> (Inr x, s3))))"

subsection \<open>What every operation guarantees\<close>

text \<open>
  The tables stay sound, and nothing else of the state changes but the consumed faults:
  the clocks, and whatever state the caller keeps beside the connection.
\<close>

definition pg_step :: "'z pg_scheme \<Rightarrow> 'z pg_scheme \<Rightarrow> bool" where
  "pg_step s s' \<longleftrightarrow>
     tables_step (db s) (db s') \<and> now s' = now s \<and> db_now s' = db_now s
     \<and> render s' = render s \<and> pg.more s' = pg.more s"

interpretation pg_step: state_relation pg_step
  by unfold_locales (auto simp: pg_step_def intro: tables_step.refl tables_step.trans)

named_theorems store_keeps \<open>store operations keep the tables sound\<close>
named_theorems store_reads \<open>store operations that leave the database alone\<close>

lemma keeps_stmt: "(\<And>t. tables_step t (snd (f t))) \<Longrightarrow> keeps pg_step (stmt f)"
  by (auto simp: keeps_def stmt_def run_sql_def pg_step_def tables_step.refl
      split: prod.splits list.splits option.splits) (metis snd_conv)+

lemma keeps_stmt_now: "(\<And>tm t. tables_step t (snd (f tm t))) \<Longrightarrow> keeps pg_step (stmt_now f)"
  unfolding keeps_def stmt_now_def using keeps_stmt [unfolded keeps_def] by blast

lemma keeps_select: "keeps pg_step (select g)"
  unfolding select_def by (rule keeps_stmt) (simp add: tables_step.refl)

lemmas keeps_basic = keeps_stmt keeps_stmt_now keeps_select pg_step.keeps_ops

lemma keeps_fetch_relations [store_keeps]: "keeps pg_step (fetch_relations i b)"
  unfolding fetch_relations_def queryGetLabels_def queryGetDependencies_def queryGetComments_def
  by (intro keeps_basic)

lemma keeps_simple_queries [store_keeps]:
  "keeps pg_step (queryAddDependency d)" "keeps pg_step (queryRemoveDependency b on ty)"
  "keeps pg_step (queryGetDependencies i)" "keeps pg_step (queryGetReverseDependencies i)"
  "keeps pg_step (queryAddLabel b l)" "keeps pg_step (queryRemoveLabel b l)"
  "keeps pg_step (queryGetLabels i)" "keeps pg_step (queryAddComment c)"
  "keeps pg_step (queryGetComments i)" "keeps pg_step (queryCreateBead bd)"
  "keeps pg_step (queryUpdateBead bd)" "keeps pg_step (queryRecordEvent e)"
  "keeps pg_step (queryGetEvents i)" "keeps pg_step (queryGetConfig k)"
  "keeps pg_step (queryListConfigs k)" "keeps pg_step queryListAllConfigs"
  "keeps pg_step queryGetStats" "keeps pg_step (UpsertGate a g)"
  "keeps pg_step (MarkGateSatisfied a g)" "keeps pg_step (ClearGate a g)"
  "keeps pg_step (ListGates a)"
  unfolding queryAddDependency_def queryRemoveDependency_def queryGetDependencies_def
    queryGetReverseDependencies_def queryAddLabel_def queryRemoveLabel_def queryGetLabels_def
    queryAddComment_def queryGetComments_def queryCreateBead_def queryUpdateBead_def
    queryRecordEvent_def queryGetEvents_def queryGetConfig_def queryListConfigs_def
    queryListAllConfigs_def queryGetStats_def UpsertGate_def MarkGateSatisfied_def ClearGate_def
    ListGates_def
  by (intro keeps_basic sql_steps)+

lemma keeps_queryGetBead [store_keeps]: "keeps pg_step (queryGetBead i)"
  unfolding queryGetBead_def by (intro keeps_basic sql_steps store_keeps)

lemma keeps_queryCloseBead [store_keeps]: "keeps pg_step (queryCloseBead i c)"
  unfolding queryCloseBead_def by (intro keeps_basic sql_steps store_keeps)

lemma keeps_queryDeleteBead [store_keeps]: "keeps pg_step (queryDeleteBead i)"
  unfolding queryDeleteBead_def by (auto intro!: keeps_basic sql_steps)

lemma keeps_queryDeleteConfig [store_keeps]: "keeps pg_step (queryDeleteConfig k)"
  unfolding queryDeleteConfig_def by (auto intro!: keeps_basic sql_steps)

lemma keeps_querySetConfig [store_keeps]: "keeps pg_step (querySetConfig c)"
  unfolding querySetConfig_def by (auto intro!: keeps_basic sql_steps)

lemma keeps_IsGateSatisfied [store_keeps]: "keeps pg_step (IsGateSatisfied a g)"
  unfolding IsGateSatisfied_def by (auto intro!: keeps_basic sql_steps split: sum.split)

lemma keeps_queryListBeads [store_keeps]: "keeps pg_step (queryListBeads f)"
proof -
  have "keeps pg_step (list_beads r f)" for r
    unfolding list_beads_def by (auto simp: Let_def intro!: keeps_basic)
  then show ?thesis unfolding keeps_def queryListBeads_def by blast
qed

lemma keeps_batch [store_keeps]:
  "keeps pg_step (queryGetDependenciesForBeads ids)"
  "keeps pg_step (queryGetReverseDependenciesForBeads ids)"
  "keeps pg_step (queryGetDependencyCounts ids)" "keeps pg_step (queryGetLabelsForBeads ids)"
  "keeps pg_step (queryGetBlockedByForBeads ids)" "keeps pg_step (queryGetBeadsByIDs ids)"
  unfolding queryGetDependenciesForBeads_def queryGetReverseDependenciesForBeads_def
    queryGetDependencyCounts_def queryGetLabelsForBeads_def queryGetBlockedByForBeads_def
    queryGetBeadsByIDs_def
  by (auto intro!: keeps_basic)

lemma rollback_step: "tables_step t0 t1 \<Longrightarrow> tables_step t0 (rollback_to t0 t1)"
proof -
  assume st: "tables_step t0 t1"
  have "db_wf (rollback_to t0 t1)" if wf: "db_wf t0"
  proof -
    have "keys_ok (rollback_to t0 t1)" "refs_ok (rollback_to t0 t1)" "rows_ok (rollback_to t0 t1)"
      using wf by (simp_all add: db_wf_def keys_ok_def refs_ok_def rows_ok_def rollback_to_def)
    moreover have "seqs_ok (rollback_to t0 t1)"
      using wf st by (auto simp: db_wf_def seqs_ok_def rollback_to_def tables_step_def)
    ultimately show ?thesis by (simp add: db_wf_def)
  qed
  then show ?thesis using st by (simp add: tables_step_def rollback_to_def)
qed

lemma pg_step_rollback: "pg_step s s' \<Longrightarrow> pg_step s (s'\<lparr>db := rollback_to (db s) (db s')\<rparr>)"
  by (simp add: pg_step_def rollback_step)

lemma keeps_begin_commit: "keeps pg_step (wrap p (stmt (\<lambda>t. (Inr (), t))))"
  by (intro keeps_basic) (simp add: tables_step.refl)

lemma keeps_RunInTransaction [store_keeps]:
  fixes fn :: "('z pg_scheme, 'a) op"
  assumes "keeps pg_step fn"
  shows "keeps pg_step (RunInTransaction fn)"
  unfolding keeps_def
proof
  fix s :: "'z pg_scheme"
  obtain r1 s1 where b: "wrap ''begin transaction'' (stmt (\<lambda>t. (Inr (), t))) s = (r1, s1)"
    by (cases "wrap ''begin transaction'' (stmt (\<lambda>t. (Inr (), t))) s")
  obtain r2 s2 where f: "fn s1 = (r2, s2)" by (cases "fn s1")
  obtain r3 s3 where c: "wrap ''commit transaction'' (stmt (\<lambda>t. (Inr (), t))) s2 = (r3, s3)"
    by (cases "wrap ''commit transaction'' (stmt (\<lambda>t. (Inr (), t))) s2")
  have s1: "pg_step s s1"
    using keeps_begin_commit [of "''begin transaction''"] b by (metis keeps_def snd_conv)
  have s2: "pg_step s1 s2" using assms f by (metis keeps_def snd_conv)
  have s3: "pg_step s2 s3"
    using keeps_begin_commit [of "''commit transaction''"] c by (metis keeps_def snd_conv)
  show "pg_step s (snd (RunInTransaction fn s))"
    using s1 pg_step_rollback [OF s2] pg_step_rollback [OF pg_step.trans [OF s2 s3]]
      pg_step.trans [OF s1] pg_step.trans [OF s2 s3]
    by (simp add: RunInTransaction_def b f c split: sum.split)
qed

subsection \<open>Inspecting a run\<close>

lemma and_then_Inr:
  "and_then m f s = (Inr y, s') \<longleftrightarrow> (\<exists>x s1. m s = (Inr x, s1) \<and> f x s1 = (Inr y, s'))"
  by (auto simp: and_then_def split: prod.splits sum.splits)

lemma wrap_Inr: "wrap p m s = (Inr x, s') \<longleftrightarrow> m s = (Inr x, s')"
  by (auto simp: wrap_def split: prod.splits sum.splits)

lemma ret_Inr: "ret x s = (Inr y, s') \<longleftrightarrow> y = x \<and> s' = s"
  by (auto simp: ret_def)

lemma fail_Inr: "\<not> fail e s = (Inr y, s')"
  by (simp add: fail_def)

lemma stmt_Inr:
  "stmt f s = (Inr x, s') \<longleftrightarrow>
   (\<exists>t fs. f (db s) = (Inr x, t) \<and> s' = s\<lparr>db := t, faults := fs\<rparr>
          \<and> (faults s = [] \<and> fs = [] \<or> faults s = None # fs))"
proof (cases "faults s")
  case Nil
  have "s\<lparr>db := t, faults := []\<rparr> = s\<lparr>db := t\<rparr>" for t using Nil by simp
  then show ?thesis by (cases "f (db s)") (auto simp: stmt_def run_sql_def Nil)
next
  case (Cons a as)
  then show ?thesis
    by (cases "f (db s)"; cases a) (auto simp: stmt_def run_sql_def)
qed

lemma select_Inr:
  "select g s = (Inr x, s') \<Longrightarrow> x = g (db s) \<and> db s' = db s \<and> render s' = render s"
  by (auto simp: select_def stmt_Inr)

lemmas run_simps = and_then_Inr wrap_Inr ret_Inr fail_Inr

text \<open>Without faults every statement runs.\<close>

lemma stmt_no_faults: "faults s = [] \<Longrightarrow> stmt f s = (fst (f (db s)), s\<lparr>db := snd (f (db s))\<rparr>)"
  by (simp add: stmt_def run_sql_def split: prod.split)

lemma select_no_faults: "faults s = [] \<Longrightarrow> select g s = (Inr (g (db s)), s)"
  by (simp add: select_def stmt_no_faults)

lemma stmt_now_no_faults:
  "faults s = [] \<Longrightarrow>
   stmt_now f s = (fst (f (db_now s) (db s)), s\<lparr>db := snd (f (db_now s) (db s))\<rparr>)"
  by (simp add: stmt_now_def stmt_no_faults)

lemmas no_faults = stmt_no_faults select_no_faults stmt_now_no_faults

subsection \<open>Listing, specified\<close>

text \<open>\<open>x\<close> may stand before \<open>y\<close> under a sort clause.\<close>

definition row_before :: "string \<times> bool \<Rightarrow> bead \<Rightarrow> bead \<Rightarrow> bool" where
  "row_before sc =
     (case sc of (col, desc) \<Rightarrow>
        if col = ''priority'' then dir_le desc bPriority
        else if col = ''updated_at'' then dir_le desc bUpdatedAt
        else if col = ''title'' then dir_le desc bTitle
        else if col = ''status'' then dir_le desc bStatus
        else if col = ''type'' then dir_le desc bType
        else dir_le desc bCreatedAt)"

lemma sorted_wrt_if:
  "(c \<Longrightarrow> sorted_wrt P xs) \<Longrightarrow> (\<not> c \<Longrightarrow> sorted_wrt Q ys) \<Longrightarrow>
   sorted_wrt (if c then P else Q) (if c then xs else ys)"
  by simp

lemma order_by_sorted: "sorted_wrt (row_before sc) (order_by sc rows)"
proof -
  obtain col desc where sc: "sc = (col, desc)" by (cases sc)
  show ?thesis
    unfolding order_by_def row_before_def sc prod.case
    by (rule sorted_wrt_if sorted_sort_dir)+
qed

lemma mset_order_by: "mset (order_by sc rows) = mset rows"
  by (cases sc) (simp add: order_by_def)

lemma limit_offset_parts: "\<exists>us vs. rows = us @ limit_offset f rows @ vs"
proof -
  have part: "\<exists>us vs. rows = us @ take n (drop k rows) @ vs" for n k
    by (intro exI [of _ "take k rows"] exI [of _ "drop n (drop k rows)"])
       (simp only: append_take_drop_id)
  have "limit_offset f rows = take (if fLimit f > 0 then nat (fLimit f) else length rows)
          (drop (if fOffset f > 0 then nat (fOffset f) else 0) rows)"
    by (simp add: limit_offset_def Let_def)
  then show ?thesis using part by simp
qed

lemma length_limit_offset:
  "length (limit_offset f rows) =
   (let n = length rows - nat (fOffset f) in if fLimit f > 0 then min n (nat (fLimit f)) else n)"
  by (auto simp: limit_offset_def Let_def min_def)

lemma sorted_wrt_part: "sorted_wrt P (us @ xs @ vs) \<Longrightarrow> sorted_wrt P xs"
  by (simp add: sorted_wrt_append)

definition found :: "(json \<Rightarrow> string) \<Rightarrow> bead_filter \<Rightarrow> tables \<Rightarrow> bead list" where
  "found rend f t = filter (where_ok rend f t) (tBeads t)"

definition with_labels :: "tables \<Rightarrow> bead \<Rightarrow> bead" where
  "with_labels t b = b\<lparr>bLabels := labels_of (bID b) t\<rparr>"

lemma list_labels:
  "i \<in> I \<Longrightarrow>
   map snd (slice_at (group_rows fst (filter (\<lambda>(j, _). j \<in> I) ls)) i) =
   map snd (filter (\<lambda>(b, _). b = i) ls)"
  by (simp add: case_prod_unfold conj_commute) (metis (mono_tags, lifting))

lemma queryListBeads_eq:
  assumes "queryListBeads f s = (Inr (beads, cnt), s')"
  shows "\<exists>page. (page, cnt) = list_rows (render s) f (db s)
           \<and> beads = map (with_labels (db s)) page \<and> db s' = db s"
proof -
  obtain page s1 where p: "select (list_rows (render s) f) s = (Inr (page, cnt), s1)"
    and cont: "(if page = [] then ret ([], cnt)
       else and_then (wrap ''list beads labels''
              (select (\<lambda>t. filter (\<lambda>(i, _). i \<in> bID ` set page) (tLabels t)))) (\<lambda>rows.
            ret (map (\<lambda>b. b\<lparr>bLabels := map snd (slice_at (group_rows fst rows) (bID b))\<rparr>) page,
                 cnt))) s1 = (Inr (beads, cnt), s')"
    using assms
    by (auto simp: queryListBeads_def list_beads_def run_simps Let_def split: if_splits)
  note sel = select_Inr [OF p]
  show ?thesis
  proof (cases "page = []")
    case True
    with cont sel show ?thesis by (auto simp: ret_def)
  next
    case False
    then obtain rows s2 where r: "select (\<lambda>t. filter (\<lambda>(i, _). i \<in> bID ` set page) (tLabels t)) s1
          = (Inr rows, s2)"
      and b: "beads = map (\<lambda>b. b\<lparr>bLabels := map snd (slice_at (group_rows fst rows) (bID b))\<rparr>) page"
      and s': "s' = s2"
      using cont by (auto simp: run_simps)
    have rows: "rows = filter (\<lambda>(i, _). i \<in> bID ` set page) (tLabels (db s))" "db s2 = db s"
      using select_Inr [OF r] sel by auto
    have "map snd (slice_at (group_rows fst rows) (bID x)) = labels_of (bID x) (db s)"
      if "x \<in> set page" for x
      unfolding rows(1) labels_of_def using that by (intro list_labels) simp
    then have "beads = map (with_labels (db s)) page"
      unfolding b with_labels_def by (intro map_cong refl) simp
    with sel rows s' show ?thesis by auto
  qed
qed

lemma list_rows_page:
  assumes "db_wf t" and "(page, cnt) = list_rows rend f t"
  shows "set page \<subseteq> set (found rend f t)" "distinct (map bID page)"
    "sorted_wrt (row_before (parseSortClause (fSort f))) page"
    "length page =
       (let n = length (found rend f t) - nat (fOffset f)
        in if fLimit f > 0 then min n (nat (fLimit f)) else n)"
    "cnt = (if page = [] then 0 else length (found rend f t))"
proof -
  let ?found = "found rend f t"
  let ?ord = "order_by (parseSortClause (fSort f)) ?found"
  have page: "page = limit_offset f ?ord"
    and tot: "cnt = (if page = [] then 0 else length ?found)"
    using assms(2) by (auto simp: list_rows_def Let_def found_def split: if_splits)
  obtain us vs where parts: "?ord = us @ page @ vs"
    using limit_offset_parts [of ?ord f] page by auto
  have ms: "mset ?ord = mset ?found" by (rule mset_order_by)
  show "set page \<subseteq> set ?found" using mset_eq_setD [OF ms] parts by auto
  have "distinct (map bID ?found)"
    using assms(1) by (auto simp: db_wf_def keys_ok_def found_def intro: distinct_map_filter)
  moreover have "mset (map bID ?ord) = mset (map bID ?found)" using ms by simp
  ultimately have "distinct (map bID ?ord)" by (metis mset_eq_imp_distinct_iff)
  then show "distinct (map bID page)" by (simp add: parts)
  show "sorted_wrt (row_before (parseSortClause (fSort f))) page"
    using order_by_sorted [of "parseSortClause (fSort f)" ?found] parts by (metis sorted_wrt_part)
  show "length page = (let n = length ?found - nat (fOffset f)
       in if fLimit f > 0 then min n (nat (fLimit f)) else n)"
    unfolding page length_limit_offset mset_eq_length [OF ms] ..
  show "cnt = (if page = [] then 0 else length ?found)" by (rule tot)
qed


text \<open>A connection without faults on given tables, and a bead to put into them.\<close>

definition idle :: "tables \<Rightarrow> pg" where
  "idle t = \<lparr>db = t, faults = [], now = 5000, db_now = 6000, render = (\<lambda>_. [])\<rparr>"

definition sample_bead :: bead where
  "sample_bead = \<lparr>bID = ''kd-1'', bSlug = [], bKind = ''issue'', bType = ''task'',
     bTitle = ''Fix it'', bDescription = [], bNotes = [], bStatus = ''open'', bPriority = 2,
     bAssignee = [], bOwner = [], bCreatedAt = 1000, bCreatedBy = [], bUpdatedAt = 1000,
     bClosedAt = None, bClosedBy = [], bDueAt = None, bDeferUntil = None, bFields = RawNil,
     bLabels = [], bDependencies = [], bComments = []\<rparr>"

definition sample_tables :: tables where
  "sample_tables = no_tables\<lparr>tBeads := [sample_bead], tLabels := [(''kd-1'', ''wip'')]\<rparr>"

lemma db_wf_sample: "db_wf sample_tables"
  by (simp add: sample_tables_def no_tables_def sample_bead_def db_wf_defs bead_ids_def row_ok_def)

lemma list_sample:
  "queryListBeads no_filter (idle sample_tables) =
   (Inr ([sample_bead\<lparr>bLabels := [''wip'']\<rparr>], 1), idle sample_tables)"
  by (simp add: queryListBeads_def list_beads_def op_defs no_faults idle_def list_rows_def
      where_ok_def opt_ok_def no_filter_def sample_tables_def no_tables_def limit_offset_def
      order_by_def parseSortClause_def sort_dir_def group_rows_def add_to_def slice_at_def
      sample_bead_def)


text \<open>An offset past the end hides the count.\<close>

lemma total_lost_past_end:
  "fst (queryListBeads (no_filter\<lparr>fOffset := 1\<rparr>) (idle sample_tables)) = Inr ([], 0)"
  by (simp add: queryListBeads_def list_beads_def op_defs no_faults idle_def list_rows_def
      where_ok_def opt_ok_def no_filter_def sample_tables_def no_tables_def limit_offset_def
      order_by_def parseSortClause_def sort_dir_def)

subsection \<open>Create, get, delete\<close>

lemma find_bead_Some: "find_bead i t = Some b \<Longrightarrow> b \<in> set (tBeads t) \<and> bID b = i"
  by (auto simp: find_bead_def dest: find_Some_mem)

lemma find_bead_None: "find_bead i t = None \<longleftrightarrow> i \<notin> bead_ids t"
  by (auto simp: find_bead_def find_None_iff bead_ids_def)

lemma no_relations:
  assumes "db_wf t" and "i \<notin> bead_ids t"
  shows "labels_of i t = []" "deps_of i t = []" "rev_deps_of i t = []" "comments_of i t = []"
proof -
  note refs = assms [unfolded db_wf_def refs_ok_def]
  show "labels_of i t = []" "deps_of i t = []" "rev_deps_of i t = []"
    using refs by (auto simp: labels_of_def deps_of_def rev_deps_of_def filter_empty_conv)
  have "filter (\<lambda>c. cBeadID c = i) (tComments t) = []"
    using refs by (auto simp: filter_empty_conv)
  then show "comments_of i t = []" by (simp add: comments_of_def)
qed

text \<open>
  A bead created under a fresh id, with fields that are JSON or absent, is read back as
  its row: the same bead up to the database's precision of times, its fields as \<open>JSONB\<close>
  keeps them, and no labels, dependencies or comments.
\<close>

theorem create_then_get:
  assumes "db_wf (db s)" and "faults s = []" and "bID b \<notin> bead_ids (db s)"
    and "jsonb_store (bFields b) = Some f"
  shows "\<exists>s1. queryCreateBead b s = (Inr (), s1)
           \<and> queryGetBead (bID b) s1 = (Inr (bead_row b f), s1)"
proof -
  let ?t = "(db s)\<lparr>tBeads := tBeads (db s) @ [bead_row b f]\<rparr>"
  have "queryCreateBead b s = (Inr (), s\<lparr>db := ?t\<rparr>)"
    using assms by (simp add: queryCreateBead_def no_faults sql_insert_bead_def)
  moreover have "find_bead (bID b) ?t = Some (bead_row b f)"
    using assms(3) find_bead_None [of "bID b" "db s"]
    by (simp add: find_bead_def find_append)
  moreover have "labels_of (bID b) ?t = []" "deps_of (bID b) ?t = []" "comments_of (bID b) ?t = []"
    using no_relations [OF assms(1,3)]
    by (simp_all add: labels_of_def deps_of_def comments_of_def)
  ultimately show ?thesis
    using assms(2)
    by (simp add: queryGetBead_def fetch_relations_def queryGetLabels_def queryGetDependencies_def
        queryGetComments_def op_defs no_faults sql_select_bead_def bead_row_def)
qed

lemma create_then_get_witness:
  "\<exists>s1. queryCreateBead sample_bead (idle no_tables) = (Inr (), s1)
      \<and> queryGetBead ''kd-1'' s1 = (Inr sample_bead, s1)"
proof -
  have "bead_row sample_bead RawNil = sample_bead"
    by (simp add: bead_row_def sample_bead_def pg_time_def)
  then show ?thesis
    using create_then_get [of "idle no_tables" sample_bead RawNil]
    by (simp add: idle_def db_wf_no_tables)
       (simp add: no_tables_def bead_ids_def sample_bead_def jsonb_store_def)
qed

text \<open>
  C6: deleting a bead removes every row that mentions it, whichever end of a dependency it
  was, and leaves the beads, labels, comments, gates and dependencies of all others, and the
  event log, as they were.
\<close>

theorem delete_cascades:
  assumes "queryDeleteBead i s = (Inr (), s')"
  shows "i \<in> bead_ids (db s) \<and> i \<notin> bead_ids (db s')
    \<and> labels_of i (db s') = [] \<and> comments_of i (db s') = [] \<and> gates_of i (db s') = []
    \<and> deps_of i (db s') = [] \<and> rev_deps_of i (db s') = []
    \<and> tEvents (db s') = tEvents (db s) \<and> tConfigs (db s') = tConfigs (db s)
    \<and> (\<forall>j. j \<noteq> i \<longrightarrow>
         find_bead j (db s') = find_bead j (db s) \<and> labels_of j (db s') = labels_of j (db s)
         \<and> comments_of j (db s') = comments_of j (db s) \<and> gates_of j (db s') = gates_of j (db s)
         \<and> deps_of j (db s') = filter (\<lambda>d. dDependsOnID d \<noteq> i) (deps_of j (db s)))"
proof -
  obtain n s1 where st: "stmt (sql_delete_bead i) s = (Inr n, s1)" and n: "n \<noteq> 0" and s': "s' = s1"
    using assms by (auto simp: queryDeleteBead_def run_simps split: if_splits)
  have t: "db s' = snd (sql_delete_bead i (db s))" and
      len: "n = length (filter (\<lambda>b. bID b = i) (tBeads (db s)))"
    using st s' by (auto simp: stmt_Inr sql_delete_bead_def)
  have "i \<in> bead_ids (db s)"
  proof -
    have "filter (\<lambda>b. bID b = i) (tBeads (db s)) \<noteq> []" using len n by auto
    then show ?thesis by (auto simp: bead_ids_def filter_empty_conv)
  qed
  moreover have "find_bead j (db s') = find_bead j (db s)" if "j \<noteq> i" for j
    unfolding t find_bead_def sql_delete_bead_def using that by (simp add: find_filter_other)
  ultimately show ?thesis
    unfolding t
    by (auto simp: sql_delete_bead_def bead_ids_def labels_of_def deps_of_def rev_deps_of_def
        comments_of_def gates_of_def filter_other case_prod_unfold filter_empty_conv
        intro!: filter_cong)
qed

lemma delete_cascades_witness:
  "labels_of ''kd-1'' (db (snd (queryDeleteBead ''kd-1'' (idle sample_tables)))) = []
   \<and> labels_of ''kd-1'' sample_tables = [''wip'']"
proof -
  have "queryDeleteBead ''kd-1'' (idle sample_tables) =
      (Inr (), snd (queryDeleteBead ''kd-1'' (idle sample_tables)))"
    by (simp add: queryDeleteBead_def op_defs no_faults idle_def sql_delete_bead_def
        sample_tables_def no_tables_def sample_bead_def)
  from delete_cascades [OF this]
  show ?thesis by (simp add: labels_of_def sample_tables_def no_tables_def)
qed

subsection \<open>Transactions, specified\<close>

definition same_rows :: "tables \<Rightarrow> tables \<Rightarrow> bool" where
  "same_rows t t' \<longleftrightarrow>
     t' = t\<lparr>tCommentSeq := tCommentSeq t', tEventSeq := tEventSeq t'\<rparr>"

lemma same_rows_rollback: "same_rows t (rollback_to t t')"
  by (simp add: same_rows_def rollback_to_def)

lemma db_begin: "wrap p (stmt (\<lambda>t. (Inr (), t))) s = (r, s1) \<Longrightarrow> db s1 = db s"
  by (auto simp: wrap_def stmt_def run_sql_def split: prod.splits sum.splits list.splits option.splits)

lemma RunInTransaction_outcome:
  "case RunInTransaction fn s of
     (Inl e, s') \<Rightarrow> same_rows (db s) (db s')
   | (Inr x, s') \<Rightarrow> \<exists>s1. db s1 = db s \<and> fst (fn s1) = Inr x \<and> db s' = db (snd (fn s1))"
proof -
  obtain r1 s1 where b: "wrap ''begin transaction'' (stmt (\<lambda>t. (Inr (), t))) s = (r1, s1)"
    by (cases "wrap ''begin transaction'' (stmt (\<lambda>t. (Inr (), t))) s")
  obtain r2 s2 where f: "fn s1 = (r2, s2)" by (cases "fn s1")
  obtain r3 s3 where c: "wrap ''commit transaction'' (stmt (\<lambda>t. (Inr (), t))) s2 = (r3, s3)"
    by (cases "wrap ''commit transaction'' (stmt (\<lambda>t. (Inr (), t))) s2")
  note db_begin [OF b] db_begin [OF c]
  then show ?thesis
    using f by (auto simp: RunInTransaction_def b f c same_rows_rollback split: sum.split
        intro!: exI [of _ s1]) (simp_all add: same_rows_def)
qed

text \<open>
  A transaction is all or nothing. If it returns an error, from the function, from
  \<open>BEGIN\<close> or from \<open>COMMIT\<close>, every row is as before; if it returns a result, the database is
  the one the function, started on the database as it was, produced with that result.
\<close>

theorem RunInTransaction_atomic:
  "case RunInTransaction fn s of
     (Inl e, s') \<Rightarrow> same_rows (db s) (db s')
   | (Inr x, s') \<Rightarrow> \<exists>s1. db s1 = db s \<and> fst (fn s1) = Inr x \<and> db s' = db (snd (fn s1))"
  by (rule RunInTransaction_outcome)

subsection \<open>Blockers, specified\<close>

lemma blocker_rows_set:
  "(i, j) \<in> set (blocker_rows ids t) \<longleftrightarrow>
   i \<in> set ids \<and>
   (\<exists>d \<in> set (tDeps t). dBeadID d = i \<and> dDependsOnID d = j \<and> dType d = ''blocks'') \<and>
   (\<exists>b \<in> set (tBeads t). bID b = j
      \<and> bStatus b \<in> {''open'', ''in_progress'', ''blocked'', ''deferred''})"
  unfolding blocker_rows_def set_join prod.inject by blast

text \<open>
  The batch query for blockers maps every bead asked for to exactly the beads that a
  \<open>blocks\<close> dependency of it names and that are not closed.
\<close>

theorem queryGetBlockedBy_exact:
  assumes "queryGetBlockedByForBeads ids s = (Inr m, s')" and "i \<in> set ids"
  shows "set (slice_at m i) =
    {j. (\<exists>d \<in> set (tDeps (db s)). dep_key d = (i, j, ''blocks''))
        \<and> (\<exists>b \<in> set (tBeads (db s)). bID b = j
             \<and> bStatus b \<in> {''open'', ''in_progress'', ''blocked'', ''deferred''})}"
proof -
  have "ids \<noteq> []" using assms(2) by auto
  then obtain rows s1 where r: "select (blocker_rows ids) s = (Inr rows, s1)"
    and m: "m = map (\<lambda>(k, xs). (k, map snd xs)) (group_rows fst rows)"
    using assms(1) by (auto simp: queryGetBlockedByForBeads_def run_simps)
  have rows: "rows = blocker_rows ids (db s)" using select_Inr [OF r] by simp
  have "slice_at m i = map snd (slice_at (group_rows fst rows) i)"
    by (simp add: m slice_at_def map_of_map split: option.split)
  then have "set (slice_at m i) = {j. (i, j) \<in> set rows}"
    by (force simp: image_iff)
  then show ?thesis
    unfolding rows blocker_rows_set dep_key_def using assms(2) by auto
qed

lemma queryGetBlockedBy_witness:
  "set (slice_at (projr (fst (queryGetBlockedByForBeads [''kd-1''] (idle sample_tables)))) ''kd-1'') = {}"
proof -
  have run: "queryGetBlockedByForBeads [''kd-1''] (idle sample_tables) = (Inr [], idle sample_tables)"
    by (simp add: queryGetBlockedByForBeads_def op_defs no_faults idle_def blocker_rows_def
        sample_tables_def no_tables_def group_rows_def)
  have "set (slice_at [] ''kd-1'') = {}"
    using queryGetBlockedBy_exact [OF run, of "''kd-1''"]
    by (simp add: idle_def sample_tables_def no_tables_def)
  then show ?thesis by (simp only: run fst_conv sum.sel)
qed

subsection \<open>The contract of the gate operations\<close>

text \<open>
  To their client the gates are a partial map from agent bead and gate to satisfied or not:
  \<open>upsert\<close> adds a pending gate but never resets one, \<open>mark\<close> and \<open>clear\<close> change an existing
  gate only, \<open>is_sat\<close> reads, and an operation that fails changes nothing.
\<close>

type_synonym gate_map = "string \<Rightarrow> string \<Rightarrow> bool option"

definition set_gate :: "string \<Rightarrow> string \<Rightarrow> bool option \<Rightarrow> gate_map \<Rightarrow> gate_map" where
  "set_gate a g v m x y = (if x = a \<and> y = g then v else m x y)"

locale gate_store =
  fixes upsert mark clear :: "string \<Rightarrow> string \<Rightarrow> ('s, unit) op"
    and is_sat :: "string \<Rightarrow> string \<Rightarrow> ('s, bool) op"
    and gates :: "'s \<Rightarrow> gate_map"
  assumes upsert_ok: "upsert a g s = (Inr u, s') \<Longrightarrow>
      gates s' = (if gates s a g = None then set_gate a g (Some False) (gates s) else gates s)"
    and mark_ok: "mark a g s = (Inr u, s') \<Longrightarrow>
      gates s' = (if gates s a g = None then gates s else set_gate a g (Some True) (gates s))"
    and clear_ok: "clear a g s = (Inr u, s') \<Longrightarrow>
      gates s' = (if gates s a g = None then gates s else set_gate a g (Some False) (gates s))"
    and is_sat_ok: "is_sat a g s = (Inr v, s') \<Longrightarrow> v = (gates s a g = Some True) \<and> gates s' = gates s"
    and upsert_fail: "upsert a g s = (Inl e, s') \<Longrightarrow> gates s' = gates s"
    and mark_fail: "mark a g s = (Inl e, s') \<Longrightarrow> gates s' = gates s"
    and clear_fail: "clear a g s = (Inl e, s') \<Longrightarrow> gates s' = gates s"
    and is_sat_fail: "is_sat a g s = (Inl e, s') \<Longrightarrow> gates s' = gates s"
begin

lemma upsert_keeps:
  "upsert a g s = (r, s') \<Longrightarrow> gates s x y = Some v \<Longrightarrow> gates s' x y = Some v"
  by (cases r) (auto dest!: upsert_ok upsert_fail simp: set_gate_def split: if_splits)

lemma upsert_never_satisfies:
  "upsert a g s = (r, s') \<Longrightarrow> gates s' x y = Some True \<longleftrightarrow> gates s x y = Some True"
  by (cases r) (auto dest!: upsert_ok upsert_fail simp: set_gate_def split: if_splits)

lemma clear_unsatisfies:
  "clear a g s = (Inr u, s') \<Longrightarrow> gates s' a g \<noteq> Some True"
  by (auto dest!: clear_ok simp: set_gate_def split: if_splits)

lemma other_gates:
  "x \<noteq> a \<or> y \<noteq> g \<Longrightarrow> mark a g s = (r, s') \<Longrightarrow> gates s' x y = gates s x y"
  "x \<noteq> a \<or> y \<noteq> g \<Longrightarrow> clear a g s = (r, s') \<Longrightarrow> gates s' x y = gates s x y"
  "x \<noteq> a \<or> y \<noteq> g \<Longrightarrow> upsert a g s = (r, s') \<Longrightarrow> gates s' x y = gates s x y"
  by (cases r; force dest: mark_ok mark_fail clear_ok clear_fail upsert_ok upsert_fail
      simp: set_gate_def)+

end

definition gate_map_of :: "tables \<Rightarrow> gate_map" where
  "gate_map_of t a g =
     map_option (\<lambda>r. gStatus r = ''satisfied'') (List.find (\<lambda>r. gate_key r = (a, g)) (tGates t))"

lemma gate_map_None: "gate_map_of t a g = None \<longleftrightarrow> (a, g) \<notin> gate_key ` set (tGates t)"
  by (force simp: gate_map_of_def find_None_iff image_iff)

lemma gate_map_upsert:
  "sql_upsert_gate a g t = (Inr u, t') \<Longrightarrow>
   gate_map_of t' = (if gate_map_of t a g = None then set_gate a g (Some False) (gate_map_of t)
                     else gate_map_of t)"
  using gate_map_None [of t a g]
  by (auto simp: sql_upsert_gate_def set_gate_def fun_eq_iff gate_map_of_def find_append
      gate_key_def split: if_splits option.splits)

lemma gate_map_set:
  "gate_map_of (snd (sql_set_gate st at a g t)) =
   (if gate_map_of t a g = None then gate_map_of t
    else set_gate a g (Some (st = ''satisfied'')) (gate_map_of t))"
proof (intro ext)
  fix x y
  let ?f = "\<lambda>r. if gate_key r = (a, g) then r\<lparr>gStatus := st, gSatisfiedAt := at\<rparr> else r"
  have f: "List.find (\<lambda>r. gate_key r = (x, y)) (map ?f (tGates t)) =
      map_option ?f (List.find (\<lambda>r. gate_key r = (x, y)) (tGates t))"
    by (rule find_map_if) (simp add: gate_key_def)
  have new: "gate_map_of (snd (sql_set_gate st at a g t)) x y =
      map_option (\<lambda>r. gStatus r = ''satisfied'')
        (map_option ?f (List.find (\<lambda>r. gate_key r = (x, y)) (tGates t)))"
    by (simp add: gate_map_of_def sql_set_gate_def f)
  show "gate_map_of (snd (sql_set_gate st at a g t)) x y =
   (if gate_map_of t a g = None then gate_map_of t
    else set_gate a g (Some (st = ''satisfied'')) (gate_map_of t)) x y"
  proof (cases "List.find (\<lambda>r. gate_key r = (x, y)) (tGates t)")
    case None
    then show ?thesis unfolding new by (auto simp: gate_map_of_def set_gate_def)
  next
    case (Some r)
    then have "gate_key r = (x, y)" using find_Some_mem by fast
    with Some show ?thesis unfolding new by (auto simp: gate_map_of_def set_gate_def)
  qed
qed

lemma stmt_Inl: "stmt f s = (Inl e, s') \<Longrightarrow> db s' = db s \<or> (\<exists>t. f (db s) = (Inl e, t) \<and> db s' = t)"
  by (auto simp: stmt_def run_sql_def split: list.splits option.splits prod.splits)

lemma sql_upsert_gate_Inl: "sql_upsert_gate a g t = (Inl e, t') \<Longrightarrow> t' = t"
  by (auto simp: sql_upsert_gate_def split: if_splits)

interpretation pg_gates: gate_store UpsertGate MarkGateSatisfied ClearGate IsGateSatisfied
  "\<lambda>s. gate_map_of (db s)"
proof unfold_locales
  fix a g :: string and s s' :: "'z pg_scheme" and u
  assume "UpsertGate a g s = (Inr u, s')"
  then show "gate_map_of (db s') = (if gate_map_of (db s) a g = None
      then set_gate a g (Some False) (gate_map_of (db s)) else gate_map_of (db s))"
    by (auto simp: UpsertGate_def stmt_Inr dest: gate_map_upsert)
next
  fix a g :: string and s s' :: "'z pg_scheme" and u
  assume "MarkGateSatisfied a g s = (Inr u, s')"
  then show "gate_map_of (db s') = (if gate_map_of (db s) a g = None then gate_map_of (db s)
      else set_gate a g (Some True) (gate_map_of (db s)))"
    using gate_map_set [of "''satisfied''" "Some (db_now s)" a g "db s"]
    by (auto simp: MarkGateSatisfied_def stmt_now_def stmt_Inr)
next
  fix a g :: string and s s' :: "'z pg_scheme" and u
  assume "ClearGate a g s = (Inr u, s')"
  then show "gate_map_of (db s') = (if gate_map_of (db s) a g = None then gate_map_of (db s)
      else set_gate a g (Some False) (gate_map_of (db s)))"
    using gate_map_set [of "''pending''" None a g "db s"] by (auto simp: ClearGate_def stmt_Inr)
next
  fix a g :: string and s s' :: "'z pg_scheme" and v
  assume "IsGateSatisfied a g s = (Inr v, s')"
  then show "v = (gate_map_of (db s) a g = Some True) \<and> gate_map_of (db s') = gate_map_of (db s)"
    by (auto simp: IsGateSatisfied_def attempt_def ret_def fail_def gate_map_of_def
        stmt_def run_sql_def sql_gate_status_def
        split: prod.splits sum.splits if_splits option.splits list.splits)
next
  fix a g :: string and s s' :: "'z pg_scheme" and e
  assume "UpsertGate a g s = (Inl e, s')"
  then show "gate_map_of (db s') = gate_map_of (db s)"
    by (auto simp: UpsertGate_def dest!: stmt_Inl sql_upsert_gate_Inl)
next
  fix a g :: string and s s' :: "'z pg_scheme" and e
  assume "MarkGateSatisfied a g s = (Inl e, s')"
  then show "gate_map_of (db s') = gate_map_of (db s)"
    by (auto simp: MarkGateSatisfied_def stmt_now_def sql_set_gate_def dest!: stmt_Inl)
next
  fix a g :: string and s s' :: "'z pg_scheme" and e
  assume "ClearGate a g s = (Inl e, s')"
  then show "gate_map_of (db s') = gate_map_of (db s)"
    by (auto simp: ClearGate_def sql_set_gate_def dest!: stmt_Inl)
next
  fix a g :: string and s s' :: "'z pg_scheme" and e
  assume "IsGateSatisfied a g s = (Inl e, s')"
  then show "gate_map_of (db s') = gate_map_of (db s)"
    by (auto simp: IsGateSatisfied_def attempt_def ret_def fail_def
        stmt_def run_sql_def sql_gate_status_def
        split: prod.splits sum.splits if_splits option.splits list.splits)
qed

end
