(* ===== verification/Valid.thy ===== *)
theory Valid
  imports Store
begin

text \<open>
  What the store operations keep of the beads: every stored row passes \<open>ValidateBead\<close>
  (\<open>internal/model/validate.go\<close>) as long as the beads written do. Rules of the form
  \<^const>\<open>returns\<close> for every operation, used by the handlers of the server.
\<close>

definition beads_valid :: "tables \<Rightarrow> bool" where
  "beads_valid t \<longleftrightarrow> (\<forall>b \<in> set (tBeads t). bead_valid b)"

definition sound :: "'z pg_scheme \<Rightarrow> bool" where
  "sound s \<longleftrightarrow> db_wf (db s) \<and> beads_valid (db s)"

named_theorems sound_ops \<open>store operations keep the beads valid\<close>

lemma sound_stmt:
  assumes "\<And>t. tables_step t (snd (f t))"
    and "\<And>t. db_wf t \<Longrightarrow> beads_valid t \<Longrightarrow> beads_valid (snd (f t))"
    and "\<And>t x. db_wf t \<Longrightarrow> beads_valid t \<Longrightarrow> fst (f t) = Inr x \<Longrightarrow> Q x"
  shows "returns sound (stmt f) Q"
  unfolding returns_def
proof (intro allI impI)
  fix s :: "'z pg_scheme" assume s: "sound s"
  have run: "sound (snd (run_sql f s')) \<and> (\<forall>x. fst (run_sql f s') = Inr x \<longrightarrow> Q x)"
    if "db s' = db s" for s' :: "'z pg_scheme"
    using assms(1) [of "db s"] assms(2,3) [of "db s"] s that
    by (auto simp: run_sql_def sound_def tables_step_def split: prod.splits)
  show "sound (snd (stmt f s)) \<and> (\<forall>x. fst (stmt f s) = Inr x \<longrightarrow> Q x)"
    using run [of s] run [of "s\<lparr>faults := tl (faults s)\<rparr>"] s
    by (auto simp: stmt_def sound_def split: list.splits option.splits)
qed

lemma sound_stmt_now:
  assumes "\<And>tm t. tables_step t (snd (f tm t))"
    and "\<And>tm t. db_wf t \<Longrightarrow> beads_valid t \<Longrightarrow> beads_valid (snd (f tm t))"
    and "\<And>tm t x. db_wf t \<Longrightarrow> beads_valid t \<Longrightarrow> fst (f tm t) = Inr x \<Longrightarrow> Q x"
  shows "returns (sound :: 'z pg_scheme \<Rightarrow> bool) (stmt_now f) Q"
proof -
  have "returns (sound :: 'z pg_scheme \<Rightarrow> bool) (stmt (f tm)) Q" for tm
    by (rule sound_stmt) (use assms in auto)
  then show ?thesis unfolding returns_def stmt_now_def by blast
qed

lemma sound_select:
  "(\<And>t. db_wf t \<Longrightarrow> beads_valid t \<Longrightarrow> Q (g t)) \<Longrightarrow> returns sound (select g) Q"
  unfolding select_def by (rule sound_stmt) (auto simp: tables_step.refl)

subsection \<open>Statements\<close>

lemma bead_valid_row: "jsonb_store (bFields b) = Some f \<Longrightarrow> bead_valid b \<Longrightarrow> bead_valid (bead_row b f)"
  using jsonb_store_row [of "bFields b" f] by (simp add: bead_valid_def bead_row_def)

lemma bead_valid_updated_row:
  "jsonb_store (bFields b) = Some f \<Longrightarrow> bead_valid b \<Longrightarrow> bead_valid (updated_row tm b f old)"
  using bead_valid_row [of b f] by (simp add: bead_valid_def updated_row_def)

lemma bead_valid_closed_row: "bead_valid b \<Longrightarrow> bead_valid (closed_row tm c b)"
  by (simp add: bead_valid_def closed_row_def Status_IsValid_def)

lemma bead_valid_relations [simp]:
  "bead_valid (bLabels_update f b) = bead_valid b"
  "bead_valid (bDependencies_update g b) = bead_valid b"
  "bead_valid (bComments_update h b) = bead_valid b"
  by (simp_all add: bead_valid_def)

lemma beads_valid_map_bead:
  "beads_valid t \<Longrightarrow> (\<And>b. bead_valid b \<Longrightarrow> bead_valid (f b)) \<Longrightarrow> beads_valid (map_bead i f t)"
  by (auto simp: beads_valid_def map_bead_def)

lemma beads_valid_same: "tBeads t' = tBeads t \<Longrightarrow> beads_valid t' = beads_valid t"
  by (simp add: beads_valid_def)

lemma valid_insert_bead: "bead_valid b \<Longrightarrow> beads_valid t \<Longrightarrow> beads_valid (snd (sql_insert_bead b t))"
  using bead_valid_row [of b] by (auto simp: sql_insert_bead_def beads_valid_def split: option.splits)

lemma valid_update_bead: "bead_valid b \<Longrightarrow> beads_valid t \<Longrightarrow> beads_valid (snd (sql_update_bead tm b t))"
  using bead_valid_updated_row [of b]
  by (auto simp: sql_update_bead_def split: option.splits intro!: beads_valid_map_bead)

lemma valid_close_bead: "beads_valid t \<Longrightarrow> beads_valid (snd (sql_close_bead tm i c t))"
  by (auto simp: sql_close_bead_def split: option.splits
      intro!: beads_valid_map_bead bead_valid_closed_row)

lemma valid_delete_bead: "beads_valid t \<Longrightarrow> beads_valid (snd (sql_delete_bead i t))"
  by (auto simp: sql_delete_bead_def beads_valid_def)

lemma valid_others:
  "tBeads (snd (sql_select_bead i t)) = tBeads t"
  "tBeads (snd (sql_insert_dep d t)) = tBeads t"
  "tBeads (snd (sql_delete_dep x y z t)) = tBeads t"
  "tBeads (snd (sql_insert_label x y t)) = tBeads t"
  "tBeads (snd (sql_delete_label x y t)) = tBeads t"
  "tBeads (snd (sql_insert_comment tm c t)) = tBeads t"
  "tBeads (snd (sql_insert_event tm e t)) = tBeads t"
  "tBeads (snd (sql_set_config tm k t)) = tBeads t"
  "tBeads (snd (sql_select_config n t)) = tBeads t"
  "tBeads (snd (sql_delete_config n t)) = tBeads t"
  "tBeads (snd (sql_upsert_gate x y t)) = tBeads t"
  "tBeads (snd (sql_set_gate st at x y t)) = tBeads t"
  "tBeads (snd (sql_gate_status x y t)) = tBeads t"
  by (auto simp: sql_select_bead_def sql_insert_dep_def sql_delete_dep_def sql_insert_label_def
      sql_delete_label_def sql_insert_comment_def sql_insert_event_def sql_set_config_def
      sql_select_config_def sql_delete_config_def sql_upsert_gate_def sql_set_gate_def
      sql_gate_status_def Let_def split: option.split sum.split)

lemmas valid_same = valid_others [THEN beads_valid_same, THEN iffD2]

subsection \<open>Operations\<close>

lemmas returns_basic = returns_ret returns_fail returns_wrap returns_and_then [where P = any]
  returns_attempt [where P = any] sound_select sound_stmt sound_stmt_now

lemma sound_simple_queries [sound_ops]:
  "returns sound (queryAddDependency d) any" "returns sound (queryRemoveDependency b on ty) any"
  "returns sound (queryGetDependencies i) any" "returns sound (queryGetReverseDependencies i) any"
  "returns sound (queryAddLabel b l) any" "returns sound (queryRemoveLabel b l) any"
  "returns sound (queryGetLabels i) any" "returns sound (queryAddComment c) any"
  "returns sound (queryGetComments i) any" "returns sound (queryRecordEvent e) any"
  "returns sound (queryGetEvents i) any" "returns sound (queryGetConfig k) any"
  "returns sound (queryListConfigs k) any" "returns sound queryListAllConfigs any"
  "returns sound queryGetStats any" "returns sound (UpsertGate a g) any"
  "returns sound (MarkGateSatisfied a g) any" "returns sound (ClearGate a g) any"
  "returns sound (ListGates a) any"
  unfolding queryAddDependency_def queryRemoveDependency_def queryGetDependencies_def
    queryGetReverseDependencies_def queryAddLabel_def queryRemoveLabel_def queryGetLabels_def
    queryAddComment_def queryGetComments_def queryRecordEvent_def queryGetEvents_def
    queryGetConfig_def queryListConfigs_def queryListAllConfigs_def queryGetStats_def
    UpsertGate_def MarkGateSatisfied_def ClearGate_def ListGates_def
  by (intro returns_basic sql_steps valid_same; simp)+

lemma sound_queryCreateBead: "bead_valid b \<Longrightarrow> returns sound (queryCreateBead b) any"
  unfolding queryCreateBead_def by (intro sound_stmt sql_steps valid_insert_bead) simp_all

lemma sound_queryUpdateBead: "bead_valid b \<Longrightarrow> returns sound (queryUpdateBead b) any"
  unfolding queryUpdateBead_def by (intro sound_stmt_now sql_steps valid_update_bead) simp_all

lemma sound_fetch_relations:
  "bead_valid b \<Longrightarrow> bID b = i \<Longrightarrow> returns sound (fetch_relations j b) (\<lambda>b'. bead_valid b' \<and> bID b' = i)"
  unfolding fetch_relations_def by (intro returns_basic sound_ops TrueI) simp

lemma sound_queryGetBead [sound_ops]:
  "returns sound (queryGetBead i) (\<lambda>b. bead_valid b \<and> bID b = i)"
  unfolding queryGetBead_def
proof (rule returns_and_then)
  show "returns sound (stmt (sql_select_bead i)) (\<lambda>b. bead_valid b \<and> bID b = i)"
  proof (intro sound_stmt sql_steps valid_same, assumption)
    fix t x assume "beads_valid t" "fst (sql_select_bead i t) = Inr x"
    then show "bead_valid x \<and> bID x = i"
      by (auto simp: sql_select_bead_def beads_valid_def split: option.splits dest: find_bead_Some)
  qed
qed (auto intro: sound_fetch_relations)

lemma sound_queryCloseBead [sound_ops]:
  "returns sound (queryCloseBead i c) (\<lambda>b. bead_valid b \<and> bID b = i)"
  unfolding queryCloseBead_def
proof (rule returns_and_then)
  show "returns sound (stmt_now (\<lambda>tm. sql_close_bead tm i c)) (\<lambda>b. bead_valid b \<and> bID b = i)"
  proof (intro sound_stmt_now sql_steps valid_close_bead, assumption)
    fix tm t x assume "beads_valid t" "fst (sql_close_bead tm i c t) = Inr x"
    then show "bead_valid x \<and> bID x = i"
      by (auto simp: sql_close_bead_def beads_valid_def split: option.splits
          dest!: find_bead_Some intro: bead_valid_closed_row)
  qed
qed (auto intro: sound_fetch_relations)

lemma sound_queryDeleteBead [sound_ops]: "returns sound (queryDeleteBead i) any"
  unfolding queryDeleteBead_def
  by (intro returns_and_then [where P = any] sound_stmt sql_steps valid_delete_bead)
    (auto intro: returns_basic)

lemma sound_queryDeleteConfig [sound_ops]: "returns sound (queryDeleteConfig i) any"
  unfolding queryDeleteConfig_def
  by (intro returns_and_then [where P = any] sound_stmt sql_steps valid_same)
    (auto intro: returns_basic)

lemma sound_querySetConfig [sound_ops]: "returns sound (querySetConfig c) any"
  unfolding querySetConfig_def
  by (intro returns_and_then [where P = any] sound_stmt_now sql_steps valid_same)
    (auto intro: returns_basic)

lemma sound_IsGateSatisfied [sound_ops]: "returns sound (IsGateSatisfied a g) any"
  unfolding IsGateSatisfied_def
  by (intro returns_attempt [where P = any] sound_stmt sql_steps valid_same)
    (auto intro: returns_basic)

lemma set_limit_offset: "set (limit_offset f xs) \<subseteq> set xs"
  using limit_offset_parts [of xs f] by (metis Un_iff set_append subsetI)

lemma set_order_by [simp]: "set (order_by sc xs) = set xs"
  using mset_order_by [of sc xs] by (metis set_mset_mset)

lemma sound_list_beads: "returns sound (list_beads r f) (\<lambda>(bs, n). list_all bead_valid bs)"
proof -
  have rows: "list_all bead_valid (fst (list_rows r f t))" if "beads_valid t" for t
    using set_limit_offset [of f] that
    by (fastforce simp: list_rows_def Let_def beads_valid_def list_all_iff)
  have rest: "returns sound
      (if bs = [] then ret ([], n)
       else and_then (wrap ''list beads labels'' (select g)) (\<lambda>rows. ret (map (h rows) bs, n)))
      (\<lambda>(bs, n). list_all bead_valid bs)"
    if "list_all bead_valid bs" "\<And>rows b. bead_valid (h rows b) = bead_valid b" for bs n g h
    using that by (auto simp: list_all_iff intro!: returns_ret returns_and_then [where P = any]
        returns_wrap sound_select)
  show ?thesis
    unfolding list_beads_def Let_def
  proof (rule returns_and_then)
    show "returns sound (wrap ''list beads'' (select (list_rows r f)))
        (\<lambda>x. list_all bead_valid (fst x))"
      by (intro returns_wrap sound_select rows)
  next
    fix x :: "bead list \<times> nat" assume "list_all bead_valid (fst x)"
    then show "returns sound (case x of (beads, n) \<Rightarrow>
        if beads = [] then ret ([], n)
        else and_then (wrap ''list beads labels''
               (select (\<lambda>t. filter (\<lambda>(i, _). i \<in> bID ` set beads) (tLabels t)))) (\<lambda>rows.
             ret (map (\<lambda>b. b\<lparr>bLabels := map snd (slice_at (group_rows fst rows) (bID b))\<rparr>) beads,
                  n))) (\<lambda>(bs, n). list_all bead_valid bs)"
      by (cases x) (simp only: prod.case fst_conv, rule rest, simp_all)
  qed
qed

lemma sound_queryListBeads [sound_ops]:
  "returns sound (queryListBeads f) (\<lambda>(bs, n). list_all bead_valid bs)"
  using sound_list_beads [of _ f] unfolding returns_def queryListBeads_def by blast

lemma sound_batch [sound_ops]:
  "returns sound (queryGetDependenciesForBeads ids) any"
  "returns sound (queryGetReverseDependenciesForBeads ids) any"
  "returns sound (queryGetDependencyCounts ids) any"
  "returns sound (queryGetLabelsForBeads ids) any"
  "returns sound (queryGetBlockedByForBeads ids) any"
  unfolding queryGetDependenciesForBeads_def queryGetReverseDependenciesForBeads_def
    queryGetDependencyCounts_def queryGetLabelsForBeads_def queryGetBlockedByForBeads_def
  by (auto intro!: returns_basic)

lemma sound_queryGetBeadsByIDs [sound_ops]:
  "returns sound (queryGetBeadsByIDs ids) (list_all bead_valid)"
  unfolding queryGetBeadsByIDs_def
  by (auto intro!: returns_ret returns_wrap sound_select simp: beads_valid_def list_all_iff)

lemma sound_rollback: "sound s \<Longrightarrow> pg_step s s' \<Longrightarrow> sound (s'\<lparr>db := rollback_to (db s) (db s')\<rparr>)"
  using pg_step_rollback [of s s'] by (auto simp: sound_def pg_step_def tables_step_def beads_valid_def rollback_to_def)

lemma sound_RunInTransaction:
  fixes fn :: "('z pg_scheme, 'a) op"
  assumes k: "keeps pg_step fn" and fn: "returns sound fn Q"
  shows "returns sound (RunInTransaction fn) Q"
  unfolding returns_def
proof (intro allI impI)
  fix s :: "'z pg_scheme" assume s: "sound s"
  obtain r1 s1 where b: "wrap ''begin transaction'' (stmt (\<lambda>t. (Inr (), t))) s = (r1, s1)"
    by (cases "wrap ''begin transaction'' (stmt (\<lambda>t. (Inr (), t))) s")
  obtain r2 s2 where f: "fn s1 = (r2, s2)" by (cases "fn s1")
  obtain r3 s3 where c: "wrap ''commit transaction'' (stmt (\<lambda>t. (Inr (), t))) s2 = (r3, s3)"
    by (cases "wrap ''commit transaction'' (stmt (\<lambda>t. (Inr (), t))) s2")
  have s1: "sound s1" using db_begin [OF b] s by (simp add: sound_def)
  have s2: "sound s2" "\<And>x. r2 = Inr x \<Longrightarrow> Q x"
    using fn s1 f by (auto simp: returns_def dest!: spec [of _ s1])
  have s3: "sound s3" using db_begin [OF c] s2(1) by (simp add: sound_def)
  have st2: "pg_step s1 s2" using k f by (metis keeps_def snd_conv)
  have st3: "pg_step s2 s3"
    using keeps_begin_commit [of "''commit transaction''"] c by (metis keeps_def snd_conv)
  show "sound (snd (RunInTransaction fn s)) \<and> (\<forall>x. fst (RunInTransaction fn s) = Inr x \<longrightarrow> Q x)"
    using s1 s2 s3 sound_rollback [OF s1 st2] sound_rollback [OF s1 pg_step.trans [OF st2 st3]]
    by (simp add: RunInTransaction_def b f c split: sum.split)
qed

end
