(* ===== verification/Sse.thy ===== *)
theory Sse
  imports Prelude
begin

text \<open>
  The hub behind the server-sent event stream (\<open>internal/server/sse.go\<close>): the ring buffer
  for reconnection, the bounded queues of the connected clients, and topic patterns. The
  payload is a type parameter. \<open>broadcast\<close> is the three steps the source takes under
  separate locks (take a number, store in the ring, fan out); the properties are those of
  broadcasts that do not overlap, and the last section shows what overlapping ones do.
\<close>

definition sseRingBufferSize :: nat where "sseRingBufferSize = 1000"
definition sseClientQueue :: nat where "sseClientQueue = 64"

record 'p sse_event =
  evID :: nat
  evTopic :: string
  evData :: 'p

record 'p sse_client =
  clTopics :: "string list"
  clCh :: "'p sse_event list"

text \<open>A ring slot not yet written is \<open>None\<close> (a zero event, with ID 0). Clients are known by
  the number of their subscription.\<close>

record 'p sse_hub =
  clients :: "(nat \<times> 'p sse_client) list"
  nextClient :: nat
  nextID :: nat
  ring :: "'p sse_event option list"
  ringPos :: nat
  ringLen :: nat

definition newSSEHub :: "'p sse_hub" where
  "newSSEHub = \<lparr>clients = [], nextClient = 0, nextID = 0,
     ring = replicate sseRingBufferSize None, ringPos = 0, ringLen = 0\<rparr>"

subsection \<open>Topic patterns\<close>

text \<open>The loop of \<open>matchTopicPattern\<close> over the segments of the pattern.\<close>

fun match_segments :: "string list \<Rightarrow> string list \<Rightarrow> bool" where
  "match_segments [] tops = (tops = [])"
| "match_segments (pp # pats) tops =
     (if pp = ''>'' then tops \<noteq> []
      else case tops of
        [] \<Rightarrow> False
      | t # ts \<Rightarrow> if pp \<noteq> ''*'' \<and> pp \<noteq> t then False else match_segments pats ts)"

definition matchTopicPattern :: "string \<Rightarrow> string \<Rightarrow> bool" where
  "matchTopicPattern pattern topic =
     (if pattern = topic then True
      else match_segments (split_byte (CHR ''.'') pattern) (split_byte (CHR ''.'') topic))"

definition matchesTopic :: "string list \<Rightarrow> string \<Rightarrow> bool" where
  "matchesTopic topics topic =
     (if topics = [] then True else list_ex (\<lambda>p. matchTopicPattern p topic) topics)"

subsection \<open>The hub\<close>

definition take_id :: "'p sse_hub \<Rightarrow> nat \<times> 'p sse_hub" where
  "take_id h = (nextID h + 1, h\<lparr>nextID := nextID h + 1\<rparr>)"

definition store_event :: "'p sse_event \<Rightarrow> 'p sse_hub \<Rightarrow> 'p sse_hub" where
  "store_event e h =
     h\<lparr>ring := (ring h)[ringPos h := Some e],
       ringPos := (ringPos h + 1) mod sseRingBufferSize,
       ringLen := (if ringLen h < sseRingBufferSize then ringLen h + 1 else ringLen h)\<rparr>"

text \<open>A send on a full channel is dropped.\<close>

definition offer :: "'p sse_event \<Rightarrow> 'p sse_client \<Rightarrow> 'p sse_client" where
  "offer e c =
     (if matchesTopic (clTopics c) (evTopic e) \<and> length (clCh c) < sseClientQueue
      then c\<lparr>clCh := clCh c @ [e]\<rparr> else c)"

definition fan_out :: "'p sse_event \<Rightarrow> 'p sse_hub \<Rightarrow> 'p sse_hub" where
  "fan_out e h = h\<lparr>clients := map (map_prod (\<lambda>i. i) (offer e)) (clients h)\<rparr>"

definition broadcast :: "string \<Rightarrow> 'p \<Rightarrow> 'p sse_hub \<Rightarrow> 'p sse_hub" where
  "broadcast topic payload h =
     (case take_id h of
        (i, h) \<Rightarrow>
          let e = \<lparr>evID = i, evTopic = topic, evData = payload\<rparr>
          in fan_out e (store_event e h))"

definition subscribe :: "string list \<Rightarrow> 'p sse_hub \<Rightarrow> nat \<times> 'p sse_hub" where
  "subscribe topics h =
     (nextClient h,
      h\<lparr>clients := clients h @ [(nextClient h, \<lparr>clTopics = topics, clCh = []\<rparr>)],
        nextClient := nextClient h + 1\<rparr>)"

definition unsubscribe :: "nat \<Rightarrow> 'p sse_hub \<Rightarrow> 'p sse_hub" where
  "unsubscribe i h = h\<lparr>clients := filter (\<lambda>(j, _). j \<noteq> i) (clients h)\<rparr>"

text \<open>The handler's receive from its channel.\<close>

definition receive :: "nat \<Rightarrow> 'p sse_hub \<Rightarrow> 'p sse_event option \<times> 'p sse_hub" where
  "receive i h =
     (case map_of (clients h) i of
        None \<Rightarrow> (None, h)
      | Some c \<Rightarrow>
          (case clCh c of
             [] \<Rightarrow> (None, h)
           | e # es \<Rightarrow> (Some e, h\<lparr>clients := AList.update i (c\<lparr>clCh := es\<rparr>) (clients h)\<rparr>)))"

text \<open>\<open>eventsSince\<close> returns pointers to ring slots, oldest first: here their indices. What is
  written for a slot is what it holds when it is read.\<close>

definition ring_start :: "'p sse_hub \<Rightarrow> nat" where
  "ring_start h =
     (if ringPos h < ringLen h then ringPos h + sseRingBufferSize - ringLen h
      else ringPos h - ringLen h)"

definition slot_id :: "'p sse_hub \<Rightarrow> nat \<Rightarrow> nat" where
  "slot_id h i = (case ring h ! i of None \<Rightarrow> 0 | Some e \<Rightarrow> evID e)"

definition eventsSince_slots :: "nat \<Rightarrow> 'p sse_hub \<Rightarrow> nat list" where
  "eventsSince_slots lastID h =
     (if ringLen h = 0 then []
      else filter (\<lambda>i. slot_id h i > lastID)
             (map (\<lambda>i. (ring_start h + i) mod sseRingBufferSize) [0..<ringLen h]))"

definition read_slots :: "'p sse_hub \<Rightarrow> nat list \<Rightarrow> 'p sse_event list" where
  "read_slots h idx = map (\<lambda>i. the (ring h ! i)) idx"

definition eventsSince :: "nat \<Rightarrow> 'p sse_hub \<Rightarrow> 'p sse_event list" where
  "eventsSince lastID h = read_slots h (eventsSince_slots lastID h)"

subsection \<open>The endpoint\<close>

definition parse_topics :: "string \<Rightarrow> string list" where
  "parse_topics q =
     (if q \<noteq> [] then filter (\<lambda>t. t \<noteq> []) (map trim_space (split_byte (CHR '','') q)) else [])"

text \<open>\<open>strconv.ParseUint(s, 10, 64)\<close>.\<close>

definition parse_uint64 :: "string \<Rightarrow> nat option" where
  "parse_uint64 s =
     (if s \<noteq> [] \<and> list_all is_digit s \<and> digits_val s < 2 ^ 64 then Some (nat (digits_val s)) else None)"

text \<open>\<open>handleEventStream\<close> up to its loop: the subscription and the events replayed.\<close>

definition open_stream :: "string \<Rightarrow> string \<Rightarrow> 'p sse_hub \<Rightarrow> nat \<times> 'p sse_event list \<times> 'p sse_hub" where
  "open_stream q lastIDStr h =
     (let topics = parse_topics q in
      case subscribe topics h of
        (i, h') \<Rightarrow>
          (i,
           (if lastIDStr \<noteq> [] then
              (case parse_uint64 lastIDStr of
                 None \<Rightarrow> []
               | Some lastID \<Rightarrow> filter (\<lambda>e. matchesTopic topics (evTopic e)) (eventsSince lastID h'))
            else []),
           h'))"

subsection \<open>The contract of a bounded log\<close>

definition last_n :: "nat \<Rightarrow> 'a list \<Rightarrow> 'a list" where
  "last_n n xs = drop (length xs - n) xs"

lemma last_n_append: "last_n n (last_n n xs @ ys) = last_n n (xs @ ys)"
proof (cases "length xs \<le> n")
  case True
  then show ?thesis by (simp add: last_n_def)
next
  case False
  then have "length (drop (length xs - n) xs) = n" by simp
  then obtain us vs where xs: "xs = us @ vs" "length vs = n" by (metis append_take_drop_id)
  then show ?thesis by (simp add: last_n_def)
qed

locale bounded_log =
  fixes ok :: "'s \<Rightarrow> bool"
    and view :: "'s \<Rightarrow> 'e list"
    and push :: "'e \<Rightarrow> 's \<Rightarrow> 's"
    and cap :: nat
  assumes push_ok: "ok s \<Longrightarrow> ok (push e s)"
    and view_push: "ok s \<Longrightarrow> view (push e s) = last_n cap (view s @ [e])"
begin

lemma view_pushes: "ok s \<Longrightarrow> view (fold push es s) = last_n cap (view s @ es) \<or> es = []"
proof (induction es arbitrary: s)
  case Nil
  then show ?case by simp
next
  case (Cons e es)
  show ?case
  proof (cases "es = []")
    case True
    then show ?thesis using view_push [OF Cons.prems] by simp
  next
    case False
    then have "view (fold push es (push e s)) = last_n cap (view (push e s) @ es)"
      using Cons.IH [OF push_ok [OF Cons.prems]] by simp
    then show ?thesis
      by (simp add: view_push [OF Cons.prems] last_n_append)
  qed
qed

lemma pushes_ok: "ok s \<Longrightarrow> ok (fold push es s)"
  by (induction es arbitrary: s) (auto intro: push_ok)

lemma view_from_empty:
  assumes "ok s" and "view s = []"
  shows "view (fold push es s) = last_n cap es"
  using view_pushes [OF assms(1), of es] assms(2) by (auto simp: last_n_def)

end

subsection \<open>The ring is a bounded log\<close>

lemma size_pos: "0 < sseRingBufferSize"
  by (simp add: sseRingBufferSize_def)

definition ring_ok :: "'p sse_hub \<Rightarrow> bool" where
  "ring_ok h \<longleftrightarrow>
     length (ring h) = sseRingBufferSize \<and> ringPos h < sseRingBufferSize
     \<and> ringLen h \<le> sseRingBufferSize
     \<and> (\<forall>i < ringLen h. ring h ! ((ring_start h + i) mod sseRingBufferSize) \<noteq> None)"

definition ring_view :: "'p sse_hub \<Rightarrow> 'p sse_event list" where
  "ring_view h = map (\<lambda>i. the (ring h ! ((ring_start h + i) mod sseRingBufferSize))) [0..<ringLen h]"

lemma ring_start_mod:
  "ringPos h < sseRingBufferSize \<Longrightarrow> ringLen h \<le> sseRingBufferSize \<Longrightarrow>
   (ring_start h + ringLen h) mod sseRingBufferSize = ringPos h"
  by (auto simp: ring_start_def)

lemma mod_shift_eq:
  assumes "(a + i) mod n = (a + j) mod (n::nat)" and "i \<le> j" and "j < i + n"
  shows "i = j"
proof (rule ccontr)
  assume "i \<noteq> j"
  have "n dvd (a + j) - (a + i)"
    using assms by (metis add_le_cancel_left mod_eq_dvd_iff_nat)
  then have "n dvd j - i" by simp
  moreover have "0 < j - i" "j - i < n" using \<open>i \<noteq> j\<close> assms(2,3) by simp_all
  ultimately show False using dvd_imp_le by fastforce
qed

lemma store_ring_start:
  assumes "ringPos h < sseRingBufferSize" and "ringLen h \<le> sseRingBufferSize"
  shows "(ring_start (store_event e h) + i) mod sseRingBufferSize =
    (ring_start h + (if ringLen h < sseRingBufferSize then i else i + 1)) mod sseRingBufferSize"
proof -
  let ?n = sseRingBufferSize
  have start: "ring_start (store_event e h) mod ?n =
      (ring_start h + (if ringLen h < ?n then 0 else 1)) mod ?n"
  proof (cases "ringPos h + 1 = ?n")
    case True
    then show ?thesis using assms by (auto simp: ring_start_def store_event_def)
  next
    case False
    then have "ringPos h + 1 < ?n" using assms(1) by simp
    then show ?thesis using assms by (auto simp: ring_start_def store_event_def)
  qed
  have "(ring_start (store_event e h) + i) mod ?n = (ring_start (store_event e h) mod ?n + i) mod ?n"
    by (simp add: mod_add_left_eq)
  also have "\<dots> = (ring_start h + (if ringLen h < ?n then 0 else 1) + i) mod ?n"
    unfolding start by (simp add: mod_add_left_eq)
  finally show ?thesis by (auto simp: add.commute add.left_commute)
qed

lemma store_slot:
  assumes ok: "ring_ok h" and i: "i < ringLen (store_event e h)"
  shows "ring (store_event e h) ! ((ring_start (store_event e h) + i) mod sseRingBufferSize) =
    (if i = ringLen (store_event e h) - 1 then Some e
     else ring h ! ((ring_start h + (if ringLen h < sseRingBufferSize then i else i + 1))
            mod sseRingBufferSize))"
proof -
  let ?n = sseRingBufferSize
  let ?k = "if ringLen h < ?n then i else i + 1"
  have pos: "ringPos h < ?n" "ringLen h \<le> ?n" "length (ring h) = ?n" using ok by (auto simp: ring_ok_def)
  have idx: "(ring_start (store_event e h) + i) mod ?n = (ring_start h + ?k) mod ?n"
    by (rule store_ring_start [OF pos(1,2)])
  have at: "(ring_start h + ringLen h) mod ?n = ringPos h"
    by (rule ring_start_mod [OF pos(1,2)])
  have k: "?k \<le> ringLen h" "(?k = ringLen h) = (i = ringLen (store_event e h) - 1)" "ringLen h < ?k + ?n"
    using i pos by (auto simp: store_event_def split: if_splits)
  have "((ring_start h + ?k) mod ?n = ringPos h) = (?k = ringLen h)"
    using mod_shift_eq [of "ring_start h" ?k ?n "ringLen h"] k at by metis
  then show ?thesis
    unfolding idx using pos k(2) by (auto simp: store_event_def nth_list_update)
qed

lemma store_ok: "ring_ok h \<Longrightarrow> ring_ok (store_event e h)"
proof -
  assume ok: "ring_ok h"
  have "ring (store_event e h) ! ((ring_start (store_event e h) + i) mod sseRingBufferSize) \<noteq> None"
    if "i < ringLen (store_event e h)" for i
  proof (cases "i = ringLen (store_event e h) - 1")
    case False
    then have "(if ringLen h < sseRingBufferSize then i else i + 1) < ringLen h"
      using that by (auto simp: store_event_def split: if_splits)
    with ok False show ?thesis unfolding store_slot [OF ok that] by (auto simp: ring_ok_def)
  next
    case True
    then show ?thesis using store_slot [OF ok that] by simp
  qed
  moreover have "length (ring (store_event e h)) = sseRingBufferSize"
    "ringPos (store_event e h) < sseRingBufferSize" "ringLen (store_event e h) \<le> sseRingBufferSize"
    using ok size_pos by (auto simp: ring_ok_def store_event_def)
  ultimately show ?thesis by (auto simp: ring_ok_def)
qed

lemma view_store:
  assumes ok: "ring_ok h"
  shows "ring_view (store_event e h) = last_n sseRingBufferSize (ring_view h @ [e])"
proof (rule nth_equalityI)
  let ?n = sseRingBufferSize
  have le: "ringLen h \<le> ?n" using ok by (simp add: ring_ok_def)
  show len: "length (ring_view (store_event e h)) = length (last_n ?n (ring_view h @ [e]))"
    using le size_pos by (auto simp: ring_view_def last_n_def store_event_def)
  fix i
  assume "i < length (ring_view (store_event e h))"
  then have i: "i < ringLen (store_event e h)" by (simp add: ring_view_def)
  have lhs: "ring_view (store_event e h) ! i =
      (if i = ringLen (store_event e h) - 1 then e
       else the (ring h ! ((ring_start h + (if ringLen h < ?n then i else i + 1)) mod ?n)))"
    using i by (simp add: ring_view_def store_slot [OF ok i])
  have rhs: "last_n ?n (ring_view h @ [e]) ! i =
      (ring_view h @ [e]) ! (if ringLen h < ?n then i else i + 1)"
    unfolding last_n_def using i le
    by (subst nth_drop) (auto simp: ring_view_def store_event_def split: if_splits)
  show "ring_view (store_event e h) ! i = last_n ?n (ring_view h @ [e]) ! i"
    unfolding lhs rhs using i le
    by (auto simp: nth_append ring_view_def store_event_def split: if_splits)
qed

interpretation sse_ring: bounded_log ring_ok ring_view store_event sseRingBufferSize
  by unfold_locales (simp_all add: store_ok view_store)

lemma new_ring: "ring_ok newSSEHub" "ring_view newSSEHub = []"
  by (simp_all add: ring_ok_def ring_view_def newSSEHub_def size_pos)

lemma read_filtered:
  "\<forall>i \<in> set idx. ring h ! i \<noteq> None \<Longrightarrow>
   read_slots h (filter (\<lambda>i. slot_id h i > k) idx) = filter (\<lambda>e. evID e > k) (read_slots h idx)"
  by (induction idx) (auto simp: read_slots_def slot_id_def)

lemma eventsSince_view:
  assumes "ring_ok h"
  shows "eventsSince lastID h = filter (\<lambda>e. evID e > lastID) (ring_view h)"
proof -
  let ?idx = "map (\<lambda>i. (ring_start h + i) mod sseRingBufferSize) [0..<ringLen h]"
  have "\<forall>i \<in> set ?idx. ring h ! i \<noteq> None" using assms by (auto simp: ring_ok_def)
  from read_filtered [OF this, of lastID] show ?thesis
    by (auto simp: eventsSince_def eventsSince_slots_def ring_view_def read_slots_def comp_def)
qed

subsection \<open>Runs of the hub\<close>

text \<open>The hubs that operations one after another can produce, with the log of all events ever
  broadcast.\<close>

inductive sse_run :: "'p sse_event list \<Rightarrow> 'p sse_hub \<Rightarrow> bool" where
  new: "sse_run [] newSSEHub"
| broadcast: "sse_run log h \<Longrightarrow>
    sse_run (log @ [\<lparr>evID = fst (take_id h), evTopic = t, evData = p\<rparr>]) (broadcast t p h)"
| subscribe: "sse_run log h \<Longrightarrow> sse_run log (snd (subscribe ts h))"
| unsubscribe: "sse_run log h \<Longrightarrow> sse_run log (unsubscribe i h)"
| receive: "sse_run log h \<Longrightarrow> sse_run log (snd (receive i h))"

lemma ring_only:
  "ring_ok (h\<lparr>clients := cs\<rparr>) = ring_ok h" "ring_view (h\<lparr>clients := cs\<rparr>) = ring_view h"
  "ring_ok (h\<lparr>nextClient := n\<rparr>) = ring_ok h" "ring_view (h\<lparr>nextClient := n\<rparr>) = ring_view h"
  "ring_ok (h\<lparr>nextID := m\<rparr>) = ring_ok h" "ring_view (h\<lparr>nextID := m\<rparr>) = ring_view h"
  by (simp_all add: ring_ok_def ring_view_def ring_start_def)

lemma receive_ring:
  "ring_ok (snd (receive i h)) = ring_ok h" "ring_view (snd (receive i h)) = ring_view h"
  "nextID (snd (receive i h)) = nextID h"
  by (simp_all add: receive_def ring_only split: option.split list.split)

definition log_ok :: "'p sse_event list \<Rightarrow> 'p sse_hub \<Rightarrow> bool" where
  "log_ok log h \<longleftrightarrow>
     ring_ok h \<and> ring_view h = last_n sseRingBufferSize log \<and> nextID h = length log
     \<and> map evID log = [1..<length log + 1]"

lemma sse_run_log: "sse_run log h \<Longrightarrow> log_ok log h"
proof (induction rule: sse_run.induct)
  case new
  then show ?case by (simp add: log_ok_def new_ring last_n_def) (simp add: newSSEHub_def)
next
  case (broadcast log h t p)
  then show ?case
    by (auto simp: log_ok_def broadcast_def take_id_def fan_out_def Let_def ring_only store_ok
        view_store last_n_append) (simp add: store_event_def)
next
  case (subscribe log h ts)
  then show ?case by (simp add: log_ok_def subscribe_def ring_only)
next
  case (unsubscribe log h i)
  then show ?case by (simp add: log_ok_def unsubscribe_def ring_only)
next
  case (receive log h i)
  then show ?case by (simp add: log_ok_def receive_ring)
qed

lemma filter_ids:
  "map evID log = [a..<a + length log] \<Longrightarrow>
   filter (\<lambda>e. evID e > k) log = drop (k + 1 - a) log"
proof (induction log arbitrary: a)
  case Nil
  then show ?case by simp
next
  case (Cons e es)
  from Cons.prems have e: "evID e = a" and es: "map evID es = [Suc a..<Suc a + length es]"
    by (auto simp: upt_conv_Cons simp del: upt_Suc)
  show ?case
  proof (cases "a > k")
    case True
    then show ?thesis using e Cons.IH [OF es] by simp
  next
    case False
    then have "k + 1 - a = Suc (k + 1 - Suc a)" by simp
    then show ?thesis using False e Cons.IH [OF es] by simp
  qed
qed



subsection \<open>Client queues\<close>

definition client_ok :: "nat \<Rightarrow> 'p sse_client \<Rightarrow> bool" where
  "client_ok n c \<longleftrightarrow>
     length (clCh c) \<le> sseClientQueue
     \<and> (\<forall>e \<in> set (clCh c). matchesTopic (clTopics c) (evTopic e) \<and> evID e \<le> n)
     \<and> sorted_wrt (<) (map evID (clCh c))"

definition clients_ok :: "'p sse_hub \<Rightarrow> bool" where
  "clients_ok h \<longleftrightarrow>
     distinct (map fst (clients h))
     \<and> (\<forall>i c. (i, c) \<in> set (clients h) \<longrightarrow> i < nextClient h \<and> client_ok (nextID h) c)"

lemma offer_ok: "client_ok n c \<Longrightarrow> evID e = Suc n \<Longrightarrow> client_ok (Suc n) (offer e c)"
  by (auto simp: client_ok_def offer_def sorted_wrt_append less_Suc_eq_le)

lemma receive_client_ok: "client_ok n c \<Longrightarrow> clCh c = e # es \<Longrightarrow> client_ok n (c\<lparr>clCh := es\<rparr>)"
  by (auto simp: client_ok_def)

lemma set_update_sub: "x \<in> set (AList.update k v xs) \<Longrightarrow> x = (k, v) \<or> x \<in> set xs"
  by (induction xs) (auto split: if_splits)

lemma sse_run_clients: "sse_run log h \<Longrightarrow> clients_ok h"
proof (induction rule: sse_run.induct)
  case new
  then show ?case by (simp add: clients_ok_def newSSEHub_def)
next
  case (broadcast log h t p)
  then show ?case
    by (auto simp: clients_ok_def broadcast_def take_id_def fan_out_def store_event_def Let_def
        comp_def intro!: offer_ok)
next
  case (subscribe log h ts)
  have fresh: "(nextClient h, c) \<notin> set (clients h)" for c
    using subscribe.IH unfolding clients_ok_def by blast
  have "i < nextClient h + 1 \<and> client_ok (nextID h) c" if "(i, c) \<in> set (clients h)" for i c
    using subscribe.IH that unfolding clients_ok_def by fastforce
  with fresh subscribe.IH show ?case
    by (auto simp: clients_ok_def subscribe_def) (simp add: client_ok_def)
next
  case (unsubscribe log h i)
  then show ?case by (auto simp: clients_ok_def unsubscribe_def intro: distinct_map_filter)
next
  case (receive log h i)
  show ?case
  proof (cases "map_of (clients h) i")
    case None
    with receive show ?thesis by (simp add: receive_def)
  next
    case (Some c)
    then have c: "(i, c) \<in> set (clients h)" by (rule map_of_SomeD)
    show ?thesis
    proof (cases "clCh c")
      case Nil
      with Some receive show ?thesis by (simp add: receive_def)
    next
      case (Cons e es)
      have "client_ok (nextID h) (c\<lparr>clCh := es\<rparr>)" "i < nextClient h"
        using receive.IH c Cons by (auto simp: clients_ok_def intro: receive_client_ok)
      with receive.IH show ?thesis
        by (auto simp: clients_ok_def receive_def Some Cons distinct_update dest!: set_update_sub)
    qed
  qed
qed



subsection \<open>Topic patterns, specified\<close>

definition seg_ok :: "string \<Rightarrow> string \<Rightarrow> bool" where
  "seg_ok p t \<longleftrightarrow> p = ''*'' \<or> p = t"

lemma match_segments_plain:
  "''>'' \<notin> set ps \<Longrightarrow> match_segments ps ts \<longleftrightarrow> list_all2 seg_ok ps ts"
  by (induction ps arbitrary: ts) (auto simp: seg_ok_def split: list.splits)

lemma match_segments_tail:
  "''>'' \<notin> set ps \<Longrightarrow>
   match_segments (ps @ ''>'' # qs) ts \<longleftrightarrow>
   (\<exists>us vs. ts = us @ vs \<and> vs \<noteq> [] \<and> list_all2 seg_ok ps us)"
proof (induction ps arbitrary: ts)
  case Nil
  then show ?case by auto
next
  case (Cons p ps)
  show ?case
  proof (cases ts)
    case Nil
    then show ?thesis using Cons.prems by auto
  next
    case (Cons t ts')
    have "match_segments ((p # ps) @ ''>'' # qs) ts \<longleftrightarrow>
        seg_ok p t \<and> match_segments (ps @ ''>'' # qs) ts'"
      using Cons.prems by (auto simp: Cons seg_ok_def)
    also have "\<dots> \<longleftrightarrow> seg_ok p t \<and> (\<exists>us vs. ts' = us @ vs \<and> vs \<noteq> [] \<and> list_all2 seg_ok ps us)"
      using Cons.IH Cons.prems by simp
    also have "\<dots> \<longleftrightarrow> (\<exists>us vs. ts = us @ vs \<and> vs \<noteq> [] \<and> list_all2 seg_ok (p # ps) us)"
    proof
      assume "seg_ok p t \<and> (\<exists>us vs. ts' = us @ vs \<and> vs \<noteq> [] \<and> list_all2 seg_ok ps us)"
      then obtain us vs where "ts = (t # us) @ vs" "vs \<noteq> []" "list_all2 seg_ok (p # ps) (t # us)"
        by (auto simp: Cons)
      then show "\<exists>us vs. ts = us @ vs \<and> vs \<noteq> [] \<and> list_all2 seg_ok (p # ps) us" by blast
    next
      assume "\<exists>us vs. ts = us @ vs \<and> vs \<noteq> [] \<and> list_all2 seg_ok (p # ps) us"
      then show "seg_ok p t \<and> (\<exists>us vs. ts' = us @ vs \<and> vs \<noteq> [] \<and> list_all2 seg_ok ps us)"
        by (fastforce simp: Cons list_all2_Cons1)
    qed
    finally show ?thesis .
  qed
qed

lemma first_split_unique:
  "x \<notin> set ps \<Longrightarrow> x \<notin> set ps' \<Longrightarrow> ps @ x # qs = ps' @ x # qs' \<Longrightarrow> ps = ps' \<and> qs = qs'"
  by (induction ps arbitrary: ps') (auto simp: Cons_eq_append_conv)

lemma match_segments_spec:
  "match_segments pats tops \<longleftrightarrow>
     (''>'' \<notin> set pats \<and> list_all2 seg_ok pats tops)
     \<or> (\<exists>ps qs us vs. pats = ps @ ''>'' # qs \<and> ''>'' \<notin> set ps
        \<and> tops = us @ vs \<and> vs \<noteq> [] \<and> list_all2 seg_ok ps us)"
proof (cases "''>'' \<in> set pats")
  case False
  then have "\<nexists>ps qs. pats = ps @ ''>'' # qs" by auto
  then show ?thesis using False match_segments_plain [OF False, of tops] by blast
next
  case True
  then obtain ps qs where sp: "pats = ps @ ''>'' # qs" "''>'' \<notin> set ps"
    by (meson split_list_first)
  have uniq: "ps' = ps" if "pats = ps' @ ''>'' # qs'" "''>'' \<notin> set ps'" for ps' qs'
    using first_split_unique [OF that(2) sp(2)] that(1) sp(1) by metis
  have "match_segments pats tops \<longleftrightarrow>
      (\<exists>us vs. tops = us @ vs \<and> vs \<noteq> [] \<and> list_all2 seg_ok ps us)"
    unfolding sp(1) by (rule match_segments_tail [OF sp(2)])
  then show ?thesis using True sp uniq by metis
qed

text \<open>
  A pattern matches a topic exactly when they are equal, or, segment by segment, \<open>*\<close>
  stands for any one segment and a \<open>>\<close> for one or more segments up to the end (what the
  pattern has after its first \<open>>\<close> is not looked at).
\<close>

theorem matchTopicPattern_spec:
  "matchTopicPattern pattern topic \<longleftrightarrow>
     pattern = topic
     \<or> (''>'' \<notin> set (split_byte (CHR ''.'') pattern)
        \<and> list_all2 seg_ok (split_byte (CHR ''.'') pattern) (split_byte (CHR ''.'') topic))
     \<or> (\<exists>ps qs us vs. split_byte (CHR ''.'') pattern = ps @ ''>'' # qs \<and> ''>'' \<notin> set ps
        \<and> split_byte (CHR ''.'') topic = us @ vs \<and> vs \<noteq> [] \<and> list_all2 seg_ok ps us)"
  unfolding matchTopicPattern_def by (simp only: match_segments_spec if_True split: if_split) blast

lemma matchTopicPattern_spec_witness:
  "matchTopicPattern ''beads.*.created'' ''beads.bead.created''
   \<and> matchTopicPattern ''beads.>'' ''beads.bead.created'' \<and> \<not> matchTopicPattern ''beads.>'' ''beads''"
  unfolding matchTopicPattern_spec
  by (auto simp: seg_ok_def Cons_eq_append_conv intro: exI [of _ "[''beads'']"])

subsection \<open>What overlapping operations do\<close>

text \<open>Two broadcasts that overlap may store their events in the other order than they took
  their numbers, and a replay then runs backwards.\<close>

lemma overlapping_broadcasts:
  assumes "take_id newSSEHub = (i1, h1)" and "take_id h1 = (i2, h2)"
    and "e1 = \<lparr>evID = i1, evTopic = t, evData = p\<rparr>" and "e2 = \<lparr>evID = i2, evTopic = u, evData = q\<rparr>"
  shows "i1 < i2 \<and> eventsSince 0 (store_event e1 (store_event e2 h2)) = [e2, e1]"
proof -
  have h2: "h2 = newSSEHub\<lparr>nextID := 2\<rparr>" "i1 = 1" "i2 = 2"
    using assms(1,2) by (auto simp: take_id_def newSSEHub_def)
  then have "ring_ok h2" "ring_view h2 = []" by (simp_all add: ring_only new_ring)
  then show ?thesis
    using assms(3,4) h2(2,3)
    by (simp add: eventsSince_view store_ok view_store last_n_def sseRingBufferSize_def)
qed

text \<open>A replay that still holds a slot of a full ring when the next event is stored writes the
  new event in place of the oldest.\<close>

lemma replay_overtaken:
  assumes "ring_ok h" and "ringLen h = sseRingBufferSize"
  shows "(ring_start h + 0) mod sseRingBufferSize = ringPos h
    \<and> read_slots (store_event e h) [ringPos h] = [e]"
  using assms by (auto simp: ring_ok_def ring_start_def read_slots_def store_event_def)

end
