(* ===== verification/Eventbus.thy ===== *)
theory Eventbus
  imports Json
begin

text \<open>
  The event bus (\<open>internal/eventbus\<close>): the classification of event types, the NATS subjects
  and streams they map to, dispatch to handlers by priority, external handlers, and what is
  published to JetStream. A handler is a function on the state of the world outside the
  bus; running a shell command, the JetStream server and the rendering of the current time
  are arguments.
\<close>

subsection \<open>Event types (\<open>types.go\<close>)\<close>

definition IsDecisionEvent :: "string \<Rightarrow> bool" where
  "IsDecisionEvent t \<longleftrightarrow>
     t \<in> {''DecisionCreated'', ''DecisionResponded'', ''DecisionEscalated'', ''DecisionExpired''}"

definition IsAgentEvent :: "string \<Rightarrow> bool" where
  "IsAgentEvent t \<longleftrightarrow>
     t \<in> {''AgentStarted'', ''AgentStopped'', ''AgentCrashed'', ''AgentIdle'', ''AgentHeartbeat''}"

definition IsMailEvent :: "string \<Rightarrow> bool" where
  "IsMailEvent t \<longleftrightarrow> t \<in> {''MailSent'', ''MailRead''}"

definition IsMutationEvent :: "string \<Rightarrow> bool" where
  "IsMutationEvent t \<longleftrightarrow>
     t \<in> {''MutationCreate'', ''MutationUpdate'', ''MutationDelete'', ''MutationComment'',
          ''MutationStatus''}"

definition IsGateEvent :: "string \<Rightarrow> bool" where
  "IsGateEvent t \<longleftrightarrow> t \<in> {''GateSatisfied'', ''GateCleared''}"

definition IsJackEvent :: "string \<Rightarrow> bool" where
  "IsJackEvent t \<longleftrightarrow> t \<in> {''jack.on'', ''jack.off'', ''jack.expired'', ''jack.extend''}"

definition IsConfigEvent :: "string \<Rightarrow> bool" where
  "IsConfigEvent t \<longleftrightarrow> t \<in> {''ConfigSet'', ''ConfigUnset''}"

definition isHookEvent :: "string \<Rightarrow> bool" where
  "isHookEvent t \<longleftrightarrow>
     \<not> IsDecisionEvent t \<and> \<not> IsAgentEvent t \<and> \<not> IsMailEvent t \<and> \<not> IsMutationEvent t
     \<and> \<not> IsConfigEvent t \<and> \<not> IsGateEvent t \<and> \<not> IsJackEvent t"

lemmas event_kinds = IsDecisionEvent_def IsAgentEvent_def IsMailEvent_def IsMutationEvent_def
  IsGateEvent_def IsJackEvent_def IsConfigEvent_def

subsection \<open>Subjects and streams (\<open>streams.go\<close>)\<close>

definition prefixToStream :: "string \<Rightarrow> string option" where
  "prefixToStream p =
     (if p \<in> {''hooks'', ''decisions'', ''agents'', ''mail'', ''mutations'', ''config'', ''gate'',
             ''inbox'', ''jack''}
      then Some p else None)"

definition SubjectPrefixForStream :: "string \<Rightarrow> string" where
  "SubjectPrefixForStream name =
     (if name \<in> {''hooks'', ''decisions'', ''agents'', ''mail'', ''mutations'', ''config'', ''gate'',
                ''inbox'', ''jack''}
      then name @ ''.'' else [])"

definition StreamForSubject :: "string \<Rightarrow> string" where
  "StreamForSubject subject =
     (case index_byte (CHR ''.'') subject of
        None \<Rightarrow> []
      | Some i \<Rightarrow> (case prefixToStream (take i subject) of None \<Rightarrow> [] | Some name \<Rightarrow> name))"

text \<open>The loop from the end of the subject to its last period.\<close>

definition EventTypeFromSubject :: "string \<Rightarrow> string" where
  "EventTypeFromSubject subject =
     (if CHR ''.'' \<in> set subject then rev (takeWhile (\<lambda>c. c \<noteq> CHR ''.'') (rev subject)) else subject)"

definition StreamNameForJetStream :: "string \<Rightarrow> string" where
  "StreamNameForJetStream name =
     (if name = ''hooks'' then ''HOOK_EVENTS'' else if name = ''decisions'' then ''DECISION_EVENTS''
      else if name = ''agents'' then ''AGENT_EVENTS'' else if name = ''mail'' then ''MAIL_EVENTS''
      else if name = ''mutations'' then ''MUTATION_EVENTS''
      else if name = ''config'' then ''CONFIG_EVENTS'' else if name = ''gate'' then ''GATE_EVENTS''
      else if name = ''inbox'' then ''INBOX_EVENTS'' else if name = ''jack'' then ''JACK_EVENTS''
      else [])"

definition SubjectForEvent :: "string \<Rightarrow> string" where
  "SubjectForEvent t =
     (if IsDecisionEvent t then ''decisions.'' @ t
      else if IsAgentEvent t then ''agents.'' @ t
      else if IsMailEvent t then ''mail.'' @ t
      else if IsMutationEvent t then ''mutations.'' @ t
      else if IsConfigEvent t then ''config.'' @ t
      else if IsGateEvent t then ''gate.'' @ t
      else if IsJackEvent t then ''jack.'' @ t
      else ''hooks.'' @ t)"

definition SubjectForDecisionEvent :: "string \<Rightarrow> string \<Rightarrow> string" where
  "SubjectForDecisionEvent t requestedBy =
     ''decisions.'' @ (if requestedBy \<noteq> [] then requestedBy else ''_global'') @ ''.'' @ t"

definition SubjectForHookEvent :: "string \<Rightarrow> string \<Rightarrow> string" where
  "SubjectForHookEvent t actor =
     ''hooks.'' @ (if actor \<noteq> [] then actor else ''_global'') @ ''.'' @ t"

definition ensured_streams :: "(string \<times> string) list" where
  "ensured_streams =
     [(''HOOK_EVENTS'', ''hooks.>''), (''DECISION_EVENTS'', ''decisions.>''),
      (''AGENT_EVENTS'', ''agents.>''), (''MAIL_EVENTS'', ''mail.>''),
      (''MUTATION_EVENTS'', ''mutations.>''), (''CONFIG_EVENTS'', ''config.>''),
      (''GATE_EVENTS'', ''gate.>''), (''INBOX_EVENTS'', ''inbox.>''), (''JACK_EVENTS'', ''jack.>'')]"

text \<open>\<open>EnsureStreams\<close> on the names of the streams the server has; \<open>refuse\<close> says why it
  will not create one.\<close>

fun ensure_loop :: "(string \<Rightarrow> string option) \<Rightarrow> (string \<times> string) list \<Rightarrow> (string list, unit) op" where
  "ensure_loop refuse [] = ret ()"
| "ensure_loop refuse ((name, subject) # rest) =
     (\<lambda>have. if name \<in> set have then ensure_loop refuse rest have
             else case refuse name of
                 Some m \<Rightarrow> fail (WrapErr (''create '' @ name @ '' stream'') (OtherError m)) have
               | None \<Rightarrow> ensure_loop refuse rest (have @ [name]))"

definition EnsureStreams :: "(string \<Rightarrow> string option) \<Rightarrow> (string list, unit) op" where
  "EnsureStreams refuse = ensure_loop refuse ensured_streams"

subsection \<open>Events and results\<close>

record bus_event =
  vType :: string
  vSessionID :: string
  vTranscriptPath :: string
  vCwd :: string
  vPermissionMode :: string
  vRaw :: raw
  vToolName :: string
  vToolInput :: "(string \<times> json) list"
  vToolResponse :: "(string \<times> json) list"
  vPrompt :: string
  vSource :: string
  vModel :: string
  vAgentID :: string
  vAgentType :: string
  vError :: string
  vActor :: string
  vPublishedAt :: "time option"

record bus_result =
  rBlock :: bool
  rReason :: string
  rInject :: "string list"
  rWarnings :: "string list"

definition no_result :: bus_result where
  "no_result = \<lparr>rBlock = False, rReason = [], rInject = [], rWarnings = []\<rparr>"

text \<open>\<open>json.Marshal(event)\<close>: \<open>Raw\<close> is left out, empty optional fields are omitted.\<close>

definition opt_str :: "string \<Rightarrow> string \<Rightarrow> (string \<times> json) list" where
  "opt_str k v = (if v = [] then [] else [(k, JStr v)])"

definition opt_obj :: "string \<Rightarrow> (string \<times> json) list \<Rightarrow> (string \<times> json) list" where
  "opt_obj k m = (if m = [] then [] else [(k, JObj (sort_key fst m))])"

definition event_json :: "(time \<Rightarrow> string) \<Rightarrow> bus_event \<Rightarrow> raw" where
  "event_json show_time e = Raw (JObj (
     [(''hook_event_name'', JStr (vType e)), (''session_id'', JStr (vSessionID e)),
      (''transcript_path'', JStr (vTranscriptPath e)), (''cwd'', JStr (vCwd e)),
      (''permission_mode'', JStr (vPermissionMode e))]
     @ opt_str ''tool_name'' (vToolName e) @ opt_obj ''tool_input'' (vToolInput e)
     @ opt_obj ''tool_response'' (vToolResponse e) @ opt_str ''prompt'' (vPrompt e)
     @ opt_str ''source'' (vSource e) @ opt_str ''model'' (vModel e)
     @ opt_str ''agent_id'' (vAgentID e) @ opt_str ''agent_type'' (vAgentType e)
     @ opt_str ''error'' (vError e) @ opt_str ''actor'' (vActor e)
     @ (case vPublishedAt e of None \<Rightarrow> [] | Some t \<Rightarrow> [(''published_at'', JStr (show_time t))])))"

subsection \<open>The bus (\<open>bus.go\<close>)\<close>

text \<open>A handler: \<open>Handle\<close> updates the result and the world, and may return an error.\<close>

record 'w bus_handler =
  hdID :: string
  hdHandles :: "string list"
  hdPriority :: int
  hdHandle :: "bus_event \<Rightarrow> bus_result \<Rightarrow> 'w \<Rightarrow> (string option \<times> bus_result) \<times> 'w"

record 'w bus =
  busHandlers :: "'w bus_handler list"
  busJS :: bool

definition NewBus :: "'w bus" where
  "NewBus = \<lparr>busHandlers = [], busJS = False\<rparr>"

definition Register :: "'w bus_handler \<Rightarrow> 'w bus \<Rightarrow> 'w bus" where
  "Register h b = b\<lparr>busHandlers := busHandlers b @ [h]\<rparr>"

fun remove_first :: "string \<Rightarrow> 'w bus_handler list \<Rightarrow> 'w bus_handler list \<times> bool" where
  "remove_first i [] = ([], False)"
| "remove_first i (h # hs) =
     (if hdID h = i then (hs, True)
      else let (hs', found) = remove_first i hs in (h # hs', found))"

definition Unregister :: "string \<Rightarrow> 'w bus \<Rightarrow> 'w bus \<times> bool" where
  "Unregister i b =
     (let (hs, found) = remove_first i (busHandlers b) in (b\<lparr>busHandlers := hs\<rparr>, found))"

definition matchingHandlers :: "string \<Rightarrow> 'w bus \<Rightarrow> 'w bus_handler list" where
  "matchingHandlers t b =
     sort_key hdPriority (filter (\<lambda>h. t \<in> set (hdHandles h)) (busHandlers b))"

text \<open>
  The loop of \<open>Dispatch\<close>; \<open>cancelled\<close> is \<open>ctx.Err()\<close> in a state of the world. A
  handler's error is logged and dropped.
\<close>

fun dispatch_loop ::
  "('w \<Rightarrow> string option) \<Rightarrow> bus_event \<Rightarrow> 'w bus_handler list \<Rightarrow> bus_result \<Rightarrow> 'w
   \<Rightarrow> (string option \<times> bus_result) \<times> 'w" where
  "dispatch_loop cancelled ev [] r w = ((None, r), w)"
| "dispatch_loop cancelled ev (h # hs) r w =
     (case cancelled w of
        Some m \<Rightarrow> ((Some (''eventbus: context canceled: '' @ m), r), w)
      | None \<Rightarrow>
          (case hdHandle h ev r w of
             ((_, r'), w') \<Rightarrow> dispatch_loop cancelled ev hs r' w'))"

text \<open>\<open>injectActorIntoRaw\<close>: \<open>null\<close> decodes to a \<open>nil\<close> map, which the assignment then
  writes to.\<close>

definition injectActorIntoRaw :: "raw \<Rightarrow> string \<Rightarrow> raw res" where
  "injectActorIntoRaw r actor =
     (case r of
        Raw JNull \<Rightarrow> Inl (Panic ''assignment to entry in nil map'')
      | Raw (JObj kvs) \<Rightarrow>
          Inr (Raw (JObj (sort_key fst (AList.update ''actor'' (JStr actor) (put_all kvs [])))))
      | _ \<Rightarrow> Inr r)"

text \<open>\<open>requested_by\<close> of a decision payload: \<open>None\<close> when the payload does not decode.\<close>

definition requested_by :: "raw \<Rightarrow> string option" where
  "requested_by r =
     decode_struct (\<lambda>k j s. if fold_eq k ''requested_by'' then decode_string j s else Some s) r []"

definition publish_subject :: "bus_event \<Rightarrow> string" where
  "publish_subject e =
     (let subject = SubjectForEvent (vType e);
          subject = (if IsDecisionEvent (vType e) \<and> \<not> raw_empty (vRaw e) then
                       (case requested_by (vRaw e) of
                          Some who \<Rightarrow> SubjectForDecisionEvent (vType e) who
                        | None \<Rightarrow> subject)
                     else subject)
      in if isHookEvent (vType e) then SubjectForHookEvent (vType e) (vActor e) else subject)"

text \<open>The subject and the data handed to \<open>js.Publish\<close>, whose failure is only logged.\<close>

definition publishToJetStream :: "(time \<Rightarrow> string) \<Rightarrow> time \<Rightarrow> bus_event \<Rightarrow> (string \<times> raw) res" where
  "publishToJetStream show_time tm e =
     (if \<not> raw_empty (vRaw e) then
        (if vActor e \<noteq> [] then
           (case injectActorIntoRaw (vRaw e) (vActor e) of
              Inl er \<Rightarrow> Inl er
            | Inr d \<Rightarrow> Inr (publish_subject e, d))
         else Inr (publish_subject e, vRaw e))
      else Inr (publish_subject e, event_json show_time (e\<lparr>vPublishedAt := Some tm\<rparr>)))"

record 'w dispatched =
  dpError :: "err option"
  dpResult :: "bus_result option"
  dpWorld :: 'w
  dpPublished :: "(string \<times> raw) list"

definition Dispatch ::
  "(time \<Rightarrow> string) \<Rightarrow> time \<Rightarrow> ('w \<Rightarrow> string option) \<Rightarrow> bus_event option \<Rightarrow> 'w bus \<Rightarrow> 'w \<Rightarrow> 'w dispatched" where
  "Dispatch show_time tm cancelled event b w =
     (case event of
        None \<Rightarrow> \<lparr>dpError = Some (OtherError ''eventbus: nil event''), dpResult = None, dpWorld = w,
                 dpPublished = []\<rparr>
      | Some ev \<Rightarrow>
          (case dispatch_loop cancelled ev (matchingHandlers (vType ev) b) no_result w of
             ((Some m, r), w') \<Rightarrow>
               \<lparr>dpError = Some (OtherError m), dpResult = Some r, dpWorld = w', dpPublished = []\<rparr>
           | ((None, r), w') \<Rightarrow>
               if busJS b then
                 (case publishToJetStream show_time tm ev of
                    Inl er \<Rightarrow> \<lparr>dpError = Some er, dpResult = None, dpWorld = w', dpPublished = []\<rparr>
                  | Inr m \<Rightarrow>
                      \<lparr>dpError = None, dpResult = Some r, dpWorld = w', dpPublished = [m]\<rparr>)
               else \<lparr>dpError = None, dpResult = Some r, dpWorld = w', dpPublished = []\<rparr>))"

definition PublishRaw :: "'w bus \<Rightarrow> string \<Rightarrow> raw \<Rightarrow> (string \<times> raw) list" where
  "PublishRaw b subject data = (if busJS b then [(subject, data)] else [])"

subsection \<open>External handlers (\<open>external_handler.go\<close>)\<close>

record handler_config =
  xID :: string
  xCommand :: string
  xEvents :: "string list"
  xPriority :: int
  xShell :: string

text \<open>What running a command gives: its trimmed output as JSON text, an exit code with the
  error text, or the reason it could not run.\<close>

datatype exec_outcome = ExecOk raw | ExecExit int string | ExecFail string

definition decode_result :: "raw \<Rightarrow> bus_result option" where
  "decode_result r =
     decode_struct (\<lambda>k j s.
       if fold_eq k ''block'' then map_option (\<lambda>b. s\<lparr>rBlock := b\<rparr>) (decode_bool j (rBlock s))
       else if fold_eq k ''reason'' then
         map_option (\<lambda>x. s\<lparr>rReason := x\<rparr>) (decode_string j (rReason s))
       else if fold_eq k ''inject'' then map_option (\<lambda>x. s\<lparr>rInject := x\<rparr>) (decode_strings j)
       else if fold_eq k ''warnings'' then map_option (\<lambda>x. s\<lparr>rWarnings := x\<rparr>) (decode_strings j)
       else Some s) r no_result"

definition merge_result :: "bus_result \<Rightarrow> bus_result \<Rightarrow> bus_result" where
  "merge_result hr r =
     (let r = (if rBlock hr then r\<lparr>rBlock := True, rReason := rReason hr\<rparr> else r)
      in r\<lparr>rInject := rInject r @ rInject hr, rWarnings := rWarnings r @ rWarnings hr\<rparr>)"

definition external_handle ::
  "(time \<Rightarrow> string) \<Rightarrow> (string \<Rightarrow> string \<Rightarrow> raw \<Rightarrow> 'w \<Rightarrow> exec_outcome \<times> 'w) \<Rightarrow> handler_config
   \<Rightarrow> bus_event \<Rightarrow> bus_result \<Rightarrow> 'w \<Rightarrow> (string option \<times> bus_result) \<times> 'w" where
  "external_handle show_time exec cfg ev r w =
     (let input = (if \<not> raw_empty (vRaw ev) then vRaw ev else event_json show_time ev) in
      case exec (xShell cfg) (xCommand cfg) input w of
        (ExecExit code out, w') \<Rightarrow>
          ((Some (''external handler '' @ xID cfg @ '': exit '' @ show_int code @ '': '' @ out), r), w')
      | (ExecFail m, w') \<Rightarrow> ((Some (''external handler '' @ xID cfg @ '': exec: '' @ m), r), w')
      | (ExecOk out, w') \<Rightarrow>
          (case decode_result out of
             None \<Rightarrow> ((None, r), w')
           | Some hr \<Rightarrow> ((None, merge_result hr r), w')))"

definition NewExternalHandler ::
  "(time \<Rightarrow> string) \<Rightarrow> (string \<Rightarrow> string \<Rightarrow> raw \<Rightarrow> 'w \<Rightarrow> exec_outcome \<times> 'w) \<Rightarrow> handler_config
   \<Rightarrow> 'w bus_handler" where
  "NewExternalHandler show_time exec cfg =
     (let cfg = (if xPriority cfg = 0 then cfg\<lparr>xPriority := 50\<rparr> else cfg);
          cfg = (if xShell cfg = [] then cfg\<lparr>xShell := ''sh''\<rparr> else cfg)
      in \<lparr>hdID = xID cfg, hdHandles = xEvents cfg, hdPriority = xPriority cfg,
          hdHandle = external_handle show_time exec cfg\<rparr>)"

definition decode_handler_config :: "raw \<Rightarrow> handler_config option" where
  "decode_handler_config r =
     decode_struct (\<lambda>k j s.
       if fold_eq k ''id'' then map_option (\<lambda>x. s\<lparr>xID := x\<rparr>) (decode_string j (xID s))
       else if fold_eq k ''command'' then
         map_option (\<lambda>x. s\<lparr>xCommand := x\<rparr>) (decode_string j (xCommand s))
       else if fold_eq k ''events'' then map_option (\<lambda>x. s\<lparr>xEvents := x\<rparr>) (decode_strings j)
       else if fold_eq k ''priority'' then
         map_option (\<lambda>x. s\<lparr>xPriority := x\<rparr>) (decode_int j (xPriority s))
       else if fold_eq k ''shell'' then
         map_option (\<lambda>x. s\<lparr>xShell := x\<rparr>) (decode_string j (xShell s))
       else Some s) r \<lparr>xID = [], xCommand = [], xEvents = [], xPriority = 0, xShell = []\<rparr>"

fun load_loop ::
  "(time \<Rightarrow> string) \<Rightarrow> (string \<Rightarrow> string \<Rightarrow> raw \<Rightarrow> 'w \<Rightarrow> exec_outcome \<times> 'w)
   \<Rightarrow> (string \<times> raw) list \<Rightarrow> 'w bus \<Rightarrow> nat \<Rightarrow> 'w bus \<times> nat" where
  "load_loop show_time exec [] b n = (b, n)"
| "load_loop show_time exec ((key, value) # rest) b n =
     (if \<not> has_prefix key ''bus.handler.'' then load_loop show_time exec rest b n
      else case decode_handler_config value of
        None \<Rightarrow> load_loop show_time exec rest b n
      | Some cfg \<Rightarrow>
          if xID cfg = [] \<or> xCommand cfg = [] \<or> xEvents cfg = [] then
            load_loop show_time exec rest b n
          else load_loop show_time exec rest (Register (NewExternalHandler show_time exec cfg) b)
                 (Suc n))"

definition LoadPersistedHandlers ::
  "(time \<Rightarrow> string) \<Rightarrow> (string \<Rightarrow> string \<Rightarrow> raw \<Rightarrow> 'w \<Rightarrow> exec_outcome \<times> 'w)
   \<Rightarrow> (string \<times> raw) list \<Rightarrow> 'w bus \<Rightarrow> 'w bus \<times> nat" where
  "LoadPersistedHandlers show_time exec configs b = load_loop show_time exec configs b 0"

subsection \<open>Subjects, specified\<close>

definition stream_of :: "string \<Rightarrow> string" where
  "stream_of t =
     (if IsDecisionEvent t then ''decisions'' else if IsAgentEvent t then ''agents''
      else if IsMailEvent t then ''mail'' else if IsMutationEvent t then ''mutations''
      else if IsConfigEvent t then ''config'' else if IsGateEvent t then ''gate''
      else if IsJackEvent t then ''jack'' else ''hooks'')"

lemma StreamForSubject_prefix:
  "CHR ''.'' \<notin> set p \<Longrightarrow>
   StreamForSubject (p @ CHR ''.'' # rest) = (case prefixToStream p of None \<Rightarrow> [] | Some n \<Rightarrow> n)"
  by (simp add: StreamForSubject_def index_byte_append)

lemma stream_of_prefix: "prefixToStream (stream_of t) = Some (stream_of t)" "CHR ''.'' \<notin> set (stream_of t)"
  by (simp_all add: stream_of_def prefixToStream_def)

lemma StreamForSubject_stream_of: "StreamForSubject (stream_of t @ CHR ''.'' # rest) = stream_of t"
  by (simp add: StreamForSubject_prefix stream_of_prefix)

lemma SubjectForEvent_stream: "SubjectForEvent t = stream_of t @ CHR ''.'' # t"
  by (simp add: SubjectForEvent_def stream_of_def)

lemma takeWhile_tail_eq: "\<forall>x \<in> set xs. P x \<Longrightarrow> \<not> P y \<Longrightarrow> takeWhile P (xs @ y # ys) = xs"
  by (induction xs) auto

lemma EventTypeFromSubject_last:
  "CHR ''.'' \<notin> set t \<Longrightarrow> EventTypeFromSubject (p @ CHR ''.'' # t) = t"
proof -
  assume "CHR ''.'' \<notin> set t"
  then have "takeWhile (\<lambda>c. c \<noteq> CHR ''.'') (rev t @ CHR ''.'' # rev p) = rev t"
    by (intro takeWhile_tail_eq) auto
  then show ?thesis by (simp add: EventTypeFromSubject_def)
qed

lemma publish_subject_shape:
  "publish_subject e = stream_of (vType e) @ CHR ''.'' # vType e
   \<or> (\<exists>scope. publish_subject e = stream_of (vType e) @ CHR ''.'' # scope @ CHR ''.'' # vType e)"
proof (cases "isHookEvent (vType e)")
  case True
  then have "publish_subject e =
      ''hooks'' @ CHR ''.'' # (if vActor e \<noteq> [] then vActor e else ''_global'') @ CHR ''.'' # vType e"
    by (simp add: publish_subject_def SubjectForHookEvent_def)
  moreover have "stream_of (vType e) = ''hooks''"
    using True by (simp add: stream_of_def isHookEvent_def)
  ultimately show ?thesis by metis
next
  case not_hook: False
  show ?thesis
  proof (cases "IsDecisionEvent (vType e) \<and> \<not> raw_empty (vRaw e) \<and> requested_by (vRaw e) \<noteq> None")
    case True
    then obtain who where "publish_subject e =
        ''decisions'' @ CHR ''.'' # (if who \<noteq> [] then who else ''_global'') @ CHR ''.'' # vType e"
      using not_hook by (auto simp: publish_subject_def SubjectForDecisionEvent_def)
    moreover have "stream_of (vType e) = ''decisions''" using True by (simp add: stream_of_def)
    ultimately show ?thesis by metis
  next
    case False
    then have "publish_subject e = SubjectForEvent (vType e)"
      using not_hook by (auto simp: publish_subject_def Let_def)
    then show ?thesis by (simp add: SubjectForEvent_stream)
  qed
qed

lemma publish_subject_stream: "StreamForSubject (publish_subject e) = stream_of (vType e)"
  using publish_subject_shape [of e] by (auto simp: StreamForSubject_stream_of)

lemma publish_subject_type:
  "CHR ''.'' \<notin> set (vType e) \<Longrightarrow> EventTypeFromSubject (publish_subject e) = vType e"
  using publish_subject_shape [of e] EventTypeFromSubject_last by (metis append.assoc append_Cons)

text \<open>
  C11: whatever the actor or the payload, an event is published under a subject of the stream
  of its category, and a subscriber recovers its type from the last segment of the subject,
  provided the type contains no period.
\<close>

theorem published_subject:
  assumes "publishToJetStream show_time tm e = Inr (subject, data)"
  shows "StreamForSubject subject = stream_of (vType e)
    \<and> (CHR ''.'' \<notin> set (vType e) \<longrightarrow> EventTypeFromSubject subject = vType e)"
proof -
  have "subject = publish_subject e"
    using assms by (auto simp: publishToJetStream_def split: if_splits sum.splits)
  then show ?thesis
    by (simp add: publish_subject_stream publish_subject_type)
qed

definition stop_event :: bus_event where
  "stop_event = \<lparr>vType = ''Stop'', vSessionID = ''s1'', vTranscriptPath = [], vCwd = ''/w'',
     vPermissionMode = [], vRaw = Raw (JObj [(''a'', JInt 1)]), vToolName = [], vToolInput = [],
     vToolResponse = [], vPrompt = [], vSource = [], vModel = [], vAgentID = [], vAgentType = [],
     vError = [], vActor = ''crew.1'', vPublishedAt = None\<rparr>"

lemma publish_stop:
  "publishToJetStream (\<lambda>_. []) 0 stop_event =
   Inr (''hooks.crew.1.Stop'', Raw (JObj [(''a'', JInt 1), (''actor'', JStr ''crew.1'')]))"
  by (simp add: publishToJetStream_def stop_event_def injectActorIntoRaw_def publish_subject_def
      isHookEvent_def event_kinds SubjectForHookEvent_def)

lemma published_subject_witness:
  "StreamForSubject ''hooks.crew.1.Stop'' = ''hooks'' \<and> EventTypeFromSubject ''hooks.crew.1.Stop'' = ''Stop''"
  using published_subject [OF publish_stop] by (simp add: stop_event_def stream_of_def event_kinds)

text \<open>The types that do contain a period are not recovered.\<close>

lemma dotted_type_lost:
  "EventTypeFromSubject (SubjectForEvent ''jack.on'') = ''on''
   \<and> EventTypeFromSubject (SubjectForEvent ''advice.created'') = ''created''"
  by (simp add: SubjectForEvent_def event_kinds EventTypeFromSubject_def)

text \<open>
  The data published for an event that came as a JSON object is that object with the
  actor's name as its \<open>actor\<close> field and every other field as it was.
\<close>

theorem injected_actor:
  assumes "injectActorIntoRaw (Raw (JObj kvs)) actor = Inr data"
  shows "raw_field data k = (if k = ''actor'' then Some (JStr actor) else raw_field (Raw (JObj kvs)) k)"
proof -
  let ?m = "AList.update ''actor'' (JStr actor) (put_all kvs [])"
  have d: "distinct (map fst ?m)" by (simp add: distinct_update distinct_put_all)
  have "data = marshal_map (Some ?m)"
    using assms by (simp add: injectActorIntoRaw_def marshal_map_def)
  then have "raw_field data k = map_option decode_any (map_of ?m k)"
    by (simp only: raw_field_marshal [OF d])
  also have "\<dots> = (if k = ''actor'' then Some (JStr actor) else map_option decode_any (map_of (rev kvs) k))"
    by (simp add: update_conv' map_of_put_all)
  also have "map_option decode_any (map_of (rev kvs) k) = raw_field (Raw (JObj kvs)) k"
    by (simp add: raw_field_def map_of_put_all rev_map map_of_map_snd)
  finally show ?thesis .
qed

lemma injected_actor_witness:
  "raw_field (Raw (JObj [(''a'', JInt 1), (''actor'', JStr ''crew.1'')])) ''actor'' = Some (JStr ''crew.1'')"
proof -
  have "injectActorIntoRaw (Raw (JObj [(''actor'', JNull), (''a'', JInt 1)])) ''crew.1'' =
      Inr (Raw (JObj [(''a'', JInt 1), (''actor'', JStr ''crew.1'')]))"
    by (simp add: injectActorIntoRaw_def)
  from injected_actor [OF this] show ?thesis by simp
qed

lemma inject_null_panics: "injectActorIntoRaw (Raw JNull) a = Inl (Panic ''assignment to entry in nil map'')"
  by (simp add: injectActorIntoRaw_def)

subsection \<open>Dispatch, specified\<close>

text \<open>One handler after another, each on the result and the world the last one left.\<close>

definition run_handlers :: "bus_event \<Rightarrow> 'w bus_handler list \<Rightarrow> bus_result \<times> 'w \<Rightarrow> bus_result \<times> 'w" where
  "run_handlers ev hs rw = foldl (\<lambda>(r, w) h. case hdHandle h ev r w of ((_, r'), w') \<Rightarrow> (r', w')) rw hs"

lemma dispatch_loop_run:
  "(\<And>w. cancelled w = None) \<Longrightarrow>
   dispatch_loop cancelled ev hs r w =
   ((None, fst (run_handlers ev hs (r, w))), snd (run_handlers ev hs (r, w)))"
  by (induction hs arbitrary: r w) (auto simp: run_handlers_def split: prod.split)

text \<open>
  C11: a dispatch that is not cancelled runs every registered handler of the event's type
  exactly once, in ascending order of priority, whatever errors they return, and its result
  is what they leave; no other handler runs.
\<close>

theorem Dispatch_order:
  assumes "\<And>w. cancelled w = None" and "busJS b \<Longrightarrow> vActor ev = [] \<or> vRaw ev \<noteq> Raw JNull"
  shows "\<exists>hs. mset hs = mset (filter (\<lambda>h. vType ev \<in> set (hdHandles h)) (busHandlers b))
    \<and> sorted (map hdPriority hs)
    \<and> dpError (Dispatch show_time tm cancelled (Some ev) b w) = None
    \<and> dpResult (Dispatch show_time tm cancelled (Some ev) b w) = Some (fst (run_handlers ev hs (no_result, w)))
    \<and> dpWorld (Dispatch show_time tm cancelled (Some ev) b w) = snd (run_handlers ev hs (no_result, w))"
proof -
  let ?hs = "matchingHandlers (vType ev) b"
  have "busJS b \<Longrightarrow> \<exists>m. publishToJetStream show_time tm ev = Inr m"
    using assms(2)
    by (auto simp: publishToJetStream_def injectActorIntoRaw_def raw_empty_def
        split: raw.splits json.splits)
  then have "dpError (Dispatch show_time tm cancelled (Some ev) b w) = None
    \<and> dpResult (Dispatch show_time tm cancelled (Some ev) b w) = Some (fst (run_handlers ev ?hs (no_result, w)))
    \<and> dpWorld (Dispatch show_time tm cancelled (Some ev) b w) = snd (run_handlers ev ?hs (no_result, w))"
    by (auto simp: Dispatch_def dispatch_loop_run [OF assms(1)])
  then show ?thesis
    by (intro exI [of _ ?hs]) (simp add: matchingHandlers_def)
qed

definition log_handler :: "string \<Rightarrow> int \<Rightarrow> string list bus_handler" where
  "log_handler i p = \<lparr>hdID = i, hdHandles = [''Stop''], hdPriority = p,
     hdHandle = (\<lambda>_ r w. ((Some ''failed'', r), w @ [i]))\<rparr>"

lemma Dispatch_order_witness:
  "dpWorld (Dispatch (\<lambda>_. []) 0 (\<lambda>_. None) (Some stop_event)
     \<lparr>busHandlers = [log_handler ''late'' 50, log_handler ''early'' 10], busJS = True\<rparr> []) = [''early'', ''late'']
   \<and> dpError (Dispatch (\<lambda>_. []) 0 (\<lambda>_. None) (Some stop_event)
     \<lparr>busHandlers = [log_handler ''late'' 50, log_handler ''early'' 10], busJS = True\<rparr> []) = None"
proof -
  have "dpWorld (Dispatch (\<lambda>_. []) 0 (\<lambda>_. None) (Some stop_event)
     \<lparr>busHandlers = [log_handler ''late'' 50, log_handler ''early'' 10], busJS = True\<rparr> []) = [''early'', ''late'']"
    by (simp add: Dispatch_def matchingHandlers_def publish_stop log_handler_def)
       (simp add: stop_event_def)
  then show ?thesis
    using Dispatch_order [of "\<lambda>_. None"
        "\<lparr>busHandlers = [log_handler ''late'' 50, log_handler ''early'' 10], busJS = True\<rparr>" stop_event
        "\<lambda>_. []" 0 "[]"]
    by (auto simp: stop_event_def)
qed

text \<open>
  With external handlers a block is never taken back, and what earlier handlers injected
  or warned of stays in front of what later ones add.
\<close>

theorem external_results_grow:
  assumes "dispatch_loop cancelled ev (map (NewExternalHandler show_time exec) cfgs) r w = ((e, r'), w')"
  shows "(rBlock r \<longrightarrow> rBlock r') \<and> (\<exists>xs. rInject r' = rInject r @ xs)
    \<and> (\<exists>ys. rWarnings r' = rWarnings r @ ys)"
  using assms
proof (induction cfgs arbitrary: r w)
  case Nil
  then show ?case by simp
next
  case (Cons cfg cfgs)
  have one: "(rBlock r \<longrightarrow> rBlock r1) \<and> (\<exists>xs. rInject r1 = rInject r @ xs)
      \<and> (\<exists>ys. rWarnings r1 = rWarnings r @ ys)"
    if "hdHandle (NewExternalHandler show_time exec cfg) ev r w = ((e1, r1), w1)" for e1 r1 w1
    using that
    by (auto simp: NewExternalHandler_def external_handle_def merge_result_def Let_def
        split: prod.splits exec_outcome.splits option.splits if_splits)
  show ?case
  proof (cases "cancelled w")
    case (Some m)
    with Cons.prems show ?thesis by simp
  next
    case None
    obtain e1 r1 w1 where h: "hdHandle (NewExternalHandler show_time exec cfg) ev r w = ((e1, r1), w1)"
      by (cases "hdHandle (NewExternalHandler show_time exec cfg) ev r w") auto
    with Cons.prems None
    have "dispatch_loop cancelled ev (map (NewExternalHandler show_time exec) cfgs) r1 w1 = ((e, r'), w')"
      by simp
    from Cons.IH [OF this] one [OF h] show ?thesis by auto
  qed
qed

definition stop_cfg :: handler_config where
  "stop_cfg = \<lparr>xID = ''x'', xCommand = ''check'', xEvents = [''Stop''], xPriority = 0, xShell = []\<rparr>"

lemma external_results_grow_witness:
  "\<exists>e r' w'. dispatch_loop (\<lambda>_. None) stop_event
     (map (NewExternalHandler (\<lambda>_. []) (\<lambda>_ _ _ w. (ExecOk (Raw (JObj [])), w))) [stop_cfg])
     (no_result\<lparr>rBlock := True\<rparr>) () = ((e, r'), w') \<and> rBlock r'"
proof -
  obtain e r' w' where d: "dispatch_loop (\<lambda>_. None) stop_event
     (map (NewExternalHandler (\<lambda>_. []) (\<lambda>_ _ _ w. (ExecOk (Raw (JObj [])), w))) [stop_cfg])
     (no_result\<lparr>rBlock := True\<rparr>) () = ((e, r'), w')"
    by (metis prod.collapse)
  from external_results_grow [OF d] d show ?thesis by auto
qed

end
