(* ===== verification/Presence.thy ===== *)
theory Presence
  imports Prelude
begin

text \<open>
  The agent roster (\<open>internal/presence/tracker.go\<close>): what a hook event records, the
  snapshot the roster endpoint reads, and the reaper's sweep, which marks idle agents dead
  and later forgets them. The tracker's lock makes each of them atomic, so the tracker is a
  state machine of hook events, sweeps and the passing of time. Durations in seconds stay
  durations here; \<open>float64\<close> seconds are a rendering of them.
\<close>

subsection \<open>State\<close>

record actor_state =
  aFirstSeen :: time
  aLastSeen :: time
  aLastEvent :: string
  aToolName :: string
  aSessionID :: string
  aCwd :: string
  aEventCount :: int
  aReaped :: bool
  aReapedAt :: time

record tracker =
  actors :: "(string \<times> actor_state) list"
  started :: time

record hook_event =
  hActor :: string
  hHookType :: string
  hToolName :: string
  hSessionID :: string
  hCwd :: string

record reaper_config =
  cfgDeadThreshold :: duration
  cfgEvictAfter :: duration
  cfgSweepInterval :: duration

record presence_entry =
  pActor :: string
  pLastSeen :: time
  pFirstSeen :: time
  pLastEvent :: string
  pToolName :: string
  pSessionID :: string
  pCwd :: string
  pIdle :: duration
  pEventCount :: int
  pSessionDuration :: duration
  pReaped :: bool
  pReapedAt :: time

subsection \<open>Operations\<close>

definition NewTracker :: "time \<Rightarrow> tracker" where
  "NewTracker tm = \<lparr>actors = [], started = tm\<rparr>"

definition fresh_actor :: "time \<Rightarrow> actor_state" where
  "fresh_actor tm = \<lparr>aFirstSeen = tm, aLastSeen = 0, aLastEvent = [], aToolName = [],
     aSessionID = [], aCwd = [], aEventCount = 0, aReaped = False, aReapedAt = 0\<rparr>"

definition touch :: "time \<Rightarrow> hook_event \<Rightarrow> actor_state \<Rightarrow> actor_state" where
  "touch tm ev st =
     (let st = (if aReaped st then st\<lparr>aReaped := False, aReapedAt := 0\<rparr> else st);
          st = st\<lparr>aLastSeen := tm, aLastEvent := hHookType ev, aEventCount := aEventCount st + 1\<rparr>;
          st = (if hToolName ev \<noteq> [] then st\<lparr>aToolName := hToolName ev\<rparr> else st);
          st = (if hSessionID ev \<noteq> [] then st\<lparr>aSessionID := hSessionID ev\<rparr> else st)
      in if hCwd ev \<noteq> [] then st\<lparr>aCwd := hCwd ev\<rparr> else st)"

definition RecordHookEvent :: "time \<Rightarrow> hook_event \<Rightarrow> tracker \<Rightarrow> tracker" where
  "RecordHookEvent tm ev t =
     (if hActor ev = [] then t
      else
        let st = (case map_of (actors t) (hActor ev) of None \<Rightarrow> fresh_actor tm | Some st \<Rightarrow> st)
        in t\<lparr>actors := AList.update (hActor ev) (touch tm ev st) (actors t)\<rparr>)"

definition roster_entry :: "time \<Rightarrow> time \<Rightarrow> string \<times> actor_state \<Rightarrow> presence_entry" where
  "roster_entry tm start x =
     (case x of (actor, st) \<Rightarrow>
        let first = (if aFirstSeen st = 0 then start else aFirstSeen st) in
        \<lparr>pActor = actor, pLastSeen = aLastSeen st, pFirstSeen = first, pLastEvent = aLastEvent st,
         pToolName = aToolName st, pSessionID = aSessionID st, pCwd = aCwd st,
         pIdle = time_sub tm (aLastSeen st), pEventCount = aEventCount st,
         pSessionDuration = time_sub tm first, pReaped = aReaped st, pReapedAt = aReapedAt st\<rparr>)"

definition Roster :: "time \<Rightarrow> duration \<Rightarrow> tracker \<Rightarrow> presence_entry list" where
  "Roster tm staleThreshold t =
     sort_dir True pLastSeen
       (map (roster_entry tm (started t))
         (filter (\<lambda>(actor, st). \<not> (staleThreshold > 0 \<and> time_sub tm (aLastSeen st) > staleThreshold))
           (actors t)))"

text \<open>The defaults \<open>StartReaper\<close> fills in; \<open>None\<close> is a \<open>nil\<close> config.\<close>

definition reaper_defaults :: "reaper_config option \<Rightarrow> reaper_config" where
  "reaper_defaults c =
     (let c = (case c of None \<Rightarrow> \<lparr>cfgDeadThreshold = 0, cfgEvictAfter = 0, cfgSweepInterval = 0\<rparr>
                       | Some c \<Rightarrow> c);
          c = (if cfgDeadThreshold c = 0 then c\<lparr>cfgDeadThreshold := 15 * minute\<rparr> else c);
          c = (if cfgEvictAfter c = 0 then c\<lparr>cfgEvictAfter := 30 * minute\<rparr> else c)
      in if cfgSweepInterval c = 0 then c\<lparr>cfgSweepInterval := 60 * second\<rparr> else c)"

text \<open>The loop of \<open>sweep\<close>: the entries kept, and the names and sessions newly dead.\<close>

fun sweep_loop :: "reaper_config \<Rightarrow> time \<Rightarrow> (string \<times> actor_state) list \<Rightarrow>
    (string \<times> actor_state) list \<times> (string \<times> string) list" where
  "sweep_loop cfg tm [] = ([], [])"
| "sweep_loop cfg tm ((actor, st) # rest) =
     (let (kept, dead) = sweep_loop cfg tm rest in
      if aReaped st then
        let evictThreshold = (if aEventCount st < 10 then 5 * minute else cfgEvictAfter cfg)
        in if aReapedAt st \<noteq> 0 \<and> time_sub tm (aReapedAt st) > evictThreshold then (kept, dead)
           else ((actor, st) # kept, dead)
      else if time_sub tm (aLastSeen st) > cfgDeadThreshold cfg then
        ((actor, st\<lparr>aReaped := True, aReapedAt := tm\<rparr>) # kept, (actor, aSessionID st) # dead)
      else ((actor, st) # kept, dead))"

text \<open>The second component is the sequence of calls of \<open>OnDead\<close>.\<close>

definition sweep :: "reaper_config \<Rightarrow> time \<Rightarrow> tracker \<Rightarrow> tracker \<times> (string \<times> string) list" where
  "sweep cfg tm t =
     (let (kept, dead) = sweep_loop cfg tm (actors t) in (t\<lparr>actors := kept\<rparr>, dead))"

subsection \<open>The sweep, entry by entry\<close>

definition evictable :: "reaper_config \<Rightarrow> time \<Rightarrow> actor_state \<Rightarrow> bool" where
  "evictable cfg tm st \<longleftrightarrow>
     aReaped st \<and> aReapedAt st \<noteq> 0
     \<and> time_sub tm (aReapedAt st) > (if aEventCount st < 10 then 5 * minute else cfgEvictAfter cfg)"

definition idle_out :: "reaper_config \<Rightarrow> time \<Rightarrow> actor_state \<Rightarrow> bool" where
  "idle_out cfg tm st \<longleftrightarrow> \<not> aReaped st \<and> time_sub tm (aLastSeen st) > cfgDeadThreshold cfg"

definition swept :: "reaper_config \<Rightarrow> time \<Rightarrow> actor_state \<Rightarrow> actor_state" where
  "swept cfg tm st = (if idle_out cfg tm st then st\<lparr>aReaped := True, aReapedAt := tm\<rparr> else st)"

lemma sweep_loop_eq:
  "sweep_loop cfg tm xs =
   (map (map_prod (\<lambda>a. a) (swept cfg tm)) (filter (\<lambda>(a, st). \<not> evictable cfg tm st) xs),
    map (\<lambda>(a, st). (a, aSessionID st)) (filter (\<lambda>(a, st). idle_out cfg tm st) xs))"
  by (induction cfg tm xs rule: sweep_loop.induct)
     (auto simp: Let_def evictable_def idle_out_def swept_def split: prod.splits)

lemma map_of_filter_snd:
  "distinct (map fst xs) \<Longrightarrow>
   map_of (filter (\<lambda>(a, v). P v) xs) k =
   (case map_of xs k of None \<Rightarrow> None | Some v \<Rightarrow> if P v then Some v else None)"
  by (induction xs) (auto split: option.splits simp: map_of_eq_None_iff dest: map_of_SomeD
      intro: rev_image_eqI)

lemma sweep_parts:
  assumes "sweep cfg tm t = (t', dead)"
  shows "actors t' = map (map_prod (\<lambda>a. a) (swept cfg tm))
           (filter (\<lambda>(a, st). \<not> evictable cfg tm st) (actors t))"
    and "dead = map (\<lambda>(a, st). (a, aSessionID st))
           (filter (\<lambda>(a, st). idle_out cfg tm st) (actors t))"
    and "started t' = started t"
  using assms by (auto simp: sweep_def sweep_loop_eq)

lemma sweep_lookup:
  assumes "distinct (map fst (actors t))" and "sweep cfg tm t = (t', dead)"
  shows "map_of (actors t') a =
    (case map_of (actors t) a of
       None \<Rightarrow> None
     | Some st \<Rightarrow> if evictable cfg tm st then None else Some (swept cfg tm st))"
  unfolding sweep_parts(1) [OF assms(2)] map_of_map_snd
  using map_of_filter_snd [OF assms(1), of "\<lambda>st. \<not> evictable cfg tm st"]
  by (simp split: option.split)

lemma sweep_dead:
  assumes "distinct (map fst (actors t))" and "sweep cfg tm t = (t', dead)"
  shows "(a, sess) \<in> set dead \<longleftrightarrow>
    (\<exists>st. map_of (actors t) a = Some st \<and> idle_out cfg tm st \<and> sess = aSessionID st)"
  unfolding sweep_parts(2) [OF assms(2)] using map_of_eq_Some_iff [OF assms(1)]
  by (auto simp: image_iff)

lemma sweep_distinct:
  assumes "distinct (map fst (actors t))" and "sweep cfg tm t = (t', dead)"
  shows "distinct (map fst dead)" "distinct (map fst (actors t'))"
  unfolding sweep_parts(1,2) [OF assms(2)]
  using distinct_map_filter [OF assms(1)] by (simp_all add: comp_def case_prod_unfold)

text \<open>
  C10: a sweep forgets exactly the dead whose time is up (after 5 minutes when fewer than 10
  events were seen), marks dead, at the time of the sweep, exactly the live agents idle for
  longer than the threshold, leaves every other entry alone, and calls \<open>OnDead\<close> once for
  each agent it marks, with the agent's session.
\<close>

theorem sweep_exact:
  assumes "distinct (map fst (actors t))" and "sweep cfg tm t = (t', dead)"
  shows "map_of (actors t') a =
           (case map_of (actors t) a of
              None \<Rightarrow> None
            | Some st \<Rightarrow> if evictable cfg tm st then None else Some (swept cfg tm st))
         \<and> ((a, sess) \<in> set dead \<longleftrightarrow>
             (\<exists>st. map_of (actors t) a = Some st \<and> idle_out cfg tm st \<and> sess = aSessionID st))
         \<and> distinct (map fst dead)"
  using sweep_lookup [OF assms] sweep_dead [OF assms] sweep_distinct [OF assms] by simp

definition idle_tracker :: tracker where
  "idle_tracker = RecordHookEvent 1000
     \<lparr>hActor = ''crew-1'', hHookType = ''Stop'', hToolName = [], hSessionID = ''s'', hCwd = []\<rparr>
     (NewTracker 1000)"

lemma sweep_exact_witness:
  "snd (sweep (reaper_defaults None) (1000 + 16 * minute) idle_tracker) = [(''crew-1'', ''s'')]
   \<and> (''crew-1'', ''s'') \<in> set (snd (sweep (reaper_defaults None) (1000 + 16 * minute) idle_tracker))"
proof -
  have t: "actors idle_tracker = [(''crew-1'', \<lparr>aFirstSeen = 1000, aLastSeen = 1000,
      aLastEvent = ''Stop'', aToolName = [], aSessionID = ''s'', aCwd = [], aEventCount = 1,
      aReaped = False, aReapedAt = 0\<rparr>)]"
    by (simp add: idle_tracker_def RecordHookEvent_def NewTracker_def touch_def fresh_actor_def Let_def)
  have "snd (sweep (reaper_defaults None) (1000 + 16 * minute) idle_tracker) = [(''crew-1'', ''s'')]"
    by (simp add: sweep_def t reaper_defaults_def Let_def time_sub_def duration_defs)
  moreover have "(''crew-1'', ''s'') \<in> set (snd (sweep (reaper_defaults None) (1000 + 16 * minute) idle_tracker))"
    using sweep_exact [of idle_tracker "reaper_defaults None" "1000 + 16 * minute" _ _ "''crew-1''" "''s''",
        OF _ prod.collapse [symmetric]]
    by (simp add: t idle_out_def reaper_defaults_def Let_def time_sub_def duration_defs)
  ultimately show ?thesis by simp
qed

subsection \<open>The tracker as a state machine\<close>

datatype presence_event = Seen string | Dead string

text \<open>The states a tracker can reach, with the clock and the log of what was seen and of
  the calls of \<open>OnDead\<close>.\<close>

inductive presence_run :: "reaper_config \<Rightarrow> tracker \<Rightarrow> time \<Rightarrow> presence_event list \<Rightarrow> bool"
  for cfg where
  start: "0 < tm \<Longrightarrow> presence_run cfg (NewTracker tm) tm []"
| tick: "presence_run cfg t tm log \<Longrightarrow> 0 \<le> d \<Longrightarrow> presence_run cfg t (tm + d) log"
| hook: "presence_run cfg t tm log \<Longrightarrow>
    presence_run cfg (RecordHookEvent tm ev t) tm
      (if hActor ev = [] then log else log @ [Seen (hActor ev)])"
| sweep: "presence_run cfg t tm log \<Longrightarrow> sweep cfg tm t = (t', dead) \<Longrightarrow>
    presence_run cfg t' tm (log @ map (\<lambda>(a, _). Dead a) dead)"

definition actor_ok :: "tracker \<Rightarrow> time \<Rightarrow> actor_state \<Rightarrow> bool" where
  "actor_ok t tm st \<longleftrightarrow>
     started t \<le> aFirstSeen st \<and> aFirstSeen st \<le> aLastSeen st \<and> aLastSeen st \<le> tm
     \<and> 0 < aEventCount st
     \<and> (if aReaped st then aLastSeen st \<le> aReapedAt st \<and> aReapedAt st \<le> tm else aReapedAt st = 0)"

definition tracker_ok :: "tracker \<Rightarrow> time \<Rightarrow> bool" where
  "tracker_ok t tm \<longleftrightarrow>
     0 < started t \<and> started t \<le> tm \<and> distinct (map fst (actors t))
     \<and> (\<forall>(a, st) \<in> set (actors t). a \<noteq> [] \<and> actor_ok t tm st)"

lemma tracker_okD:
  "tracker_ok t tm \<Longrightarrow> map_of (actors t) a = Some st \<Longrightarrow> a \<noteq> [] \<and> actor_ok t tm st"
  by (auto simp: tracker_ok_def dest!: map_of_SomeD)

lemma tracker_okI:
  assumes "0 < started t" and "started t \<le> tm" and "distinct (map fst (actors t))"
    and "\<And>a st. map_of (actors t) a = Some st \<Longrightarrow> a \<noteq> [] \<and> actor_ok t tm st"
  shows "tracker_ok t tm"
  using assms map_of_eq_Some_iff [OF assms(3)] by (auto simp: tracker_ok_def)

lemma touch_ok:
  "started t \<le> aFirstSeen st \<Longrightarrow> aFirstSeen st \<le> tm \<Longrightarrow> 0 \<le> aEventCount st \<Longrightarrow>
   (aReaped st \<or> aReapedAt st = 0) \<Longrightarrow> actor_ok t tm (touch tm ev st)"
  by (auto simp: actor_ok_def touch_def Let_def)

lemma hook_ok:
  assumes "tracker_ok t tm"
  shows "tracker_ok (RecordHookEvent tm ev t) tm"
proof (cases "hActor ev = []")
  case True
  with assms show ?thesis by (simp add: RecordHookEvent_def)
next
  case False
  define st0 where "st0 = (case map_of (actors t) (hActor ev) of None \<Rightarrow> fresh_actor tm | Some st \<Rightarrow> st)"
  have base: "0 < started t" "started t \<le> tm" "distinct (map fst (actors t))"
    using assms by (auto simp: tracker_ok_def)
  have t': "RecordHookEvent tm ev t = t\<lparr>actors := AList.update (hActor ev) (touch tm ev st0) (actors t)\<rparr>"
    using False by (simp add: RecordHookEvent_def st0_def)
  have "actor_ok t tm (touch tm ev st0)"
  proof (cases "map_of (actors t) (hActor ev)")
    case None
    then show ?thesis using base by (intro touch_ok) (simp_all add: st0_def fresh_actor_def)
  next
    case (Some st)
    with tracker_okD [OF assms Some] show ?thesis
      by (intro touch_ok) (auto simp: st0_def actor_ok_def split: if_splits)
  qed
  then show ?thesis
    unfolding t' using base False tracker_okD [OF assms]
    by (intro tracker_okI) (auto simp: distinct_update update_conv' actor_ok_def split: if_splits)
qed

lemma sweep_ok:
  assumes "tracker_ok t tm" and sw: "sweep cfg tm t = (t', dead)"
  shows "tracker_ok t' tm"
proof (rule tracker_okI)
  have d: "distinct (map fst (actors t))" using assms(1) by (simp add: tracker_ok_def)
  note st = sweep_parts(3) [OF sw]
  show "0 < started t'" "started t' \<le> tm"
    using assms(1) st by (simp_all add: tracker_ok_def)
  show "distinct (map fst (actors t'))" using sweep_distinct [OF d sw] by simp
  fix a s
  assume a: "map_of (actors t') a = Some s"
  then obtain s0 where s0: "map_of (actors t) a = Some s0" "s = swept cfg tm s0"
    using sweep_lookup [OF d sw, of a] by (auto split: option.splits if_splits)
  then show "a \<noteq> [] \<and> actor_ok t' tm s"
    using tracker_okD [OF assms(1) s0(1)] st by (auto simp: swept_def actor_ok_def)
qed

lemma tick_ok: "tracker_ok t tm \<Longrightarrow> 0 \<le> d \<Longrightarrow> tracker_ok t (tm + d)"
  by (fastforce simp: tracker_ok_def actor_ok_def split: if_splits)

lemma presence_run_ok: "presence_run cfg t tm log \<Longrightarrow> tracker_ok t tm"
proof (induction rule: presence_run.induct)
  case (start tm)
  then show ?case by (simp add: tracker_ok_def NewTracker_def)
next
  case (tick t tm log d)
  then show ?case using tick_ok by blast
next
  case (hook t tm log ev)
  then show ?case using hook_ok by blast
next
  case (sweep t tm log t' dead)
  then show ?case using sweep_ok by blast
qed

text \<open>
  In every reachable state an entry has a name, was first seen no earlier than the
  tracker's start and last seen no earlier than first, neither in the future, has seen an
  event, and carries a time of death exactly when it is marked dead, between the last sign
  of life and now.
\<close>

theorem presence_invariant:
  assumes "presence_run cfg t tm log" and "map_of (actors t) a = Some st"
  shows "a \<noteq> [] \<and> started t \<le> aFirstSeen st \<and> aFirstSeen st \<le> aLastSeen st \<and> aLastSeen st \<le> tm
    \<and> 0 < aEventCount st \<and> (aReaped st \<longleftrightarrow> aReapedAt st \<noteq> 0)
    \<and> (aReaped st \<longrightarrow> aLastSeen st \<le> aReapedAt st \<and> aReapedAt st \<le> tm)"
proof -
  have ok: "tracker_ok t tm" using assms(1) by (rule presence_run_ok)
  then have "0 < started t" by (simp add: tracker_ok_def)
  then show ?thesis
    using tracker_okD [OF ok assms(2)] by (auto simp: actor_ok_def split: if_splits)
qed

lemma idle_tracker_run: "presence_run cfg idle_tracker 1000 [Seen ''crew-1'']"
proof -
  have "presence_run cfg (NewTracker 1000) 1000 []" by (rule presence_run.start) simp
  from presence_run.hook [OF this, of "\<lparr>hActor = ''crew-1'', hHookType = ''Stop'', hToolName = [],
      hSessionID = ''s'', hCwd = []\<rparr>"]
  show ?thesis by (simp add: idle_tracker_def)
qed

lemma presence_invariant_witness:
  "\<exists>st. map_of (actors idle_tracker) ''crew-1'' = Some st \<and> started idle_tracker \<le> aFirstSeen st"
proof -
  obtain st where "map_of (actors idle_tracker) ''crew-1'' = Some st"
    by (simp add: idle_tracker_def RecordHookEvent_def NewTracker_def)
  then show ?thesis using presence_invariant [OF idle_tracker_run] by blast
qed

subsection \<open>One death per life\<close>

text \<open>The entries of the log about one agent, true for a death.\<close>

definition about :: "string \<Rightarrow> presence_event list \<Rightarrow> bool list" where
  "about a log = map (\<lambda>e. e = Dead a) (filter (\<lambda>e. e = Seen a \<or> e = Dead a) log)"

fun no_repeat :: "bool list \<Rightarrow> bool" where
  "no_repeat (x # y # xs) = (\<not> (x \<and> y) \<and> no_repeat (y # xs))"
| "no_repeat _ = True"

lemma no_repeat_snoc: "no_repeat (xs @ [b]) \<longleftrightarrow> no_repeat xs \<and> (xs \<noteq> [] \<and> last xs \<longrightarrow> \<not> b)"
  by (induction xs rule: no_repeat.induct) auto

lemma about_append: "about a (xs @ ys) = about a xs @ about a ys"
  by (simp add: about_def)

lemma about_dead:
  "distinct (map fst dead) \<Longrightarrow>
   about a (map (\<lambda>(a, _). Dead a) dead) = (if a \<in> fst ` set dead then [True] else [])"
  by (induction dead) (auto simp: about_def image_iff)

definition death_known :: "string \<Rightarrow> tracker \<Rightarrow> presence_event list \<Rightarrow> bool" where
  "death_known a t log \<longleftrightarrow>
     no_repeat (about a log)
     \<and> (about a log \<noteq> [] \<and> last (about a log) \<longrightarrow>
         (\<forall>st. map_of (actors t) a = Some st \<longrightarrow> aReaped st))"

lemma hook_death_known:
  "death_known a t log \<Longrightarrow>
   death_known a (RecordHookEvent tm ev t) (if hActor ev = [] then log else log @ [Seen (hActor ev)])"
proof (cases "hActor ev = []")
  case True
  then show "death_known a t log \<Longrightarrow> ?thesis" by (simp add: RecordHookEvent_def)
next
  case False
  assume k: "death_known a t log"
  show ?thesis
  proof (cases "hActor ev = a")
    case True
    then have "about a (log @ [Seen (hActor ev)]) = about a log @ [False]"
      by (simp add: about_def)
    then show ?thesis using k False by (simp add: death_known_def no_repeat_snoc)
  next
    case other: False
    then have "about a (log @ [Seen (hActor ev)]) = about a log" by (simp add: about_def)
    then show ?thesis
      using k False other by (simp add: death_known_def RecordHookEvent_def Let_def update_conv')
  qed
qed

lemma sweep_death_known:
  assumes "distinct (map fst (actors t))" and sw: "sweep cfg tm t = (t', dead)"
    and k: "death_known a t log"
  shows "death_known a t' (log @ map (\<lambda>(a, _). Dead a) dead)"
proof (cases "a \<in> fst ` set dead")
  case True
  then obtain sess where "(a, sess) \<in> set dead" by force
  then obtain st where st: "map_of (actors t) a = Some st" "idle_out cfg tm st"
    using sweep_dead [OF assms(1) sw] by blast
  have "\<not> (about a log \<noteq> [] \<and> last (about a log))"
    using k st by (auto simp: death_known_def idle_out_def)
  moreover have "aReaped s" if "map_of (actors t') a = Some s" for s
    using sweep_lookup [OF assms(1) sw, of a] that st by (auto simp: swept_def split: if_splits)
  ultimately show ?thesis
    using k True about_dead [OF sweep_distinct(1) [OF assms(1) sw], of a]
    by (auto simp: death_known_def about_append no_repeat_snoc)
next
  case False
  have "aReaped s" if "map_of (actors t') a = Some s"
    "\<And>st. map_of (actors t) a = Some st \<Longrightarrow> aReaped st" for s
    using sweep_lookup [OF assms(1) sw, of a] that
    by (auto simp: swept_def idle_out_def split: option.splits if_splits)
  then show ?thesis
    using k False about_dead [OF sweep_distinct(1) [OF assms(1) sw], of a]
    by (auto simp: death_known_def about_append)
qed

lemma presence_run_death: "presence_run cfg t tm log \<Longrightarrow> death_known a t log"
proof (induction rule: presence_run.induct)
  case (start tm)
  then show ?case by (simp add: death_known_def about_def)
next
  case (tick t tm log d)
  then show ?case by simp
next
  case (hook t tm log ev)
  then show ?case by (intro hook_death_known)
next
  case (sweep t tm log t' dead)
  then have "distinct (map fst (actors t))"
    using presence_run_ok by (auto simp: tracker_ok_def)
  with sweep show ?case by (intro sweep_death_known)
qed



text \<open>
  The roster lists, most recently active first, one entry for each tracked agent that is
  not stale, with its idle time and session length at the time of the call.
\<close>

theorem Roster_exact:
  assumes "presence_run cfg t tm log"
  shows "sorted_wrt (\<lambda>x y. pLastSeen y \<le> pLastSeen x) (Roster tm stale t)
    \<and> distinct (map pActor (Roster tm stale t))
    \<and> set (Roster tm stale t) =
        {roster_entry tm (started t) (a, st) |a st. map_of (actors t) a = Some st
           \<and> (0 < stale \<longrightarrow> time_sub tm (aLastSeen st) \<le> stale)}"
proof -
  have d: "distinct (map fst (actors t))"
    using presence_run_ok [OF assms] by (simp add: tracker_ok_def)
  let ?live = "filter (\<lambda>(actor, st). \<not> (stale > 0 \<and> time_sub tm (aLastSeen st) > stale)) (actors t)"
  have "map pActor (map (roster_entry tm (started t)) ?live) = map fst ?live"
    by (auto simp: roster_entry_def Let_def)
  then have "distinct (map pActor (Roster tm stale t))"
    using distinct_map_filter [OF d] unfolding Roster_def distinct_map_sort_dir by metis
  moreover have "sorted_wrt (\<lambda>x y. pLastSeen y \<le> pLastSeen x) (Roster tm stale t)"
    using sorted_sort_dir [of True pLastSeen] by (simp add: Roster_def dir_le_def [abs_def])
  moreover have "set (Roster tm stale t) =
        {roster_entry tm (started t) (a, st) |a st. map_of (actors t) a = Some st
           \<and> (0 < stale \<longrightarrow> time_sub tm (aLastSeen st) \<le> stale)}"
    unfolding Roster_def set_sort_dir set_map set_filter map_of_eq_Some_iff [OF d]
    by (auto simp: not_less image_iff) blast+
  ultimately show ?thesis by blast
qed

lemma Roster_exact_witness:
  "map pActor (Roster 1000 0 idle_tracker) = [''crew-1''] \<and>
   distinct (map pActor (Roster 1000 0 idle_tracker))"
proof -
  have "map pActor (Roster 1000 0 idle_tracker) = [''crew-1'']"
    by (simp add: Roster_def idle_tracker_def RecordHookEvent_def NewTracker_def sort_dir_def
        roster_entry_def Let_def)
  then show ?thesis using Roster_exact [OF idle_tracker_run] by blast
qed

end
