(* ===== verification/Server.thy ===== *)
theory Server
  imports Valid Sse Eventbus Presence
begin

text \<open>
  The state of the server (\<open>internal/server/server.go\<close>) beside its database: what it hands
  to the NATS publisher, the hub of the event stream, what it hands to JetStream, the event
  bus and the presence tracker. \<open>recordAndPublish\<close> and the events it takes
  (\<open>internal/events/events.go\<close>), responses, and the invariant every operation of the server
  keeps.
\<close>

subsection \<open>Events (\<open>events.go\<close>)\<close>

datatype srv_event =
    BeadCreated bead
  | BeadUpdated bead "(string \<times> json) list"
  | BeadClosed bead string
  | BeadDeleted string
  | DependencyAdded dependency
  | DependencyRemoved string string string
  | LabelAdded string string
  | LabelRemoved string string
  | CommentAdded comment
  | AdviceCreated bead
  | AdviceUpdated bead "(string \<times> json) list"
  | AdviceDeleted string

abbreviation TopicBeadCreated :: string where "TopicBeadCreated \<equiv> ''beads.bead.created''"
abbreviation TopicBeadUpdated :: string where "TopicBeadUpdated \<equiv> ''beads.bead.updated''"
abbreviation TopicBeadClosed :: string where "TopicBeadClosed \<equiv> ''beads.bead.closed''"
abbreviation TopicBeadDeleted :: string where "TopicBeadDeleted \<equiv> ''beads.bead.deleted''"
abbreviation TopicDependencyAdded :: string where
  "TopicDependencyAdded \<equiv> ''beads.dependency.added''"
abbreviation TopicDependencyRemoved :: string where
  "TopicDependencyRemoved \<equiv> ''beads.dependency.removed''"
abbreviation TopicLabelAdded :: string where "TopicLabelAdded \<equiv> ''beads.label.added''"
abbreviation TopicLabelRemoved :: string where "TopicLabelRemoved \<equiv> ''beads.label.removed''"
abbreviation TopicCommentAdded :: string where "TopicCommentAdded \<equiv> ''beads.comment.added''"
abbreviation TopicAdviceCreated :: string where "TopicAdviceCreated \<equiv> ''beads.advice.created''"
abbreviation TopicAdviceUpdated :: string where "TopicAdviceUpdated \<equiv> ''beads.advice.updated''"
abbreviation TopicAdviceDeleted :: string where "TopicAdviceDeleted \<equiv> ''beads.advice.deleted''"

text \<open>\<open>json.Marshal\<close> by the struct tags; \<open>fmt\<close> renders a time. Malformed raw fields make
  it fail.\<close>

definition opt_time :: "(time \<Rightarrow> string) \<Rightarrow> string \<Rightarrow> time option \<Rightarrow> (string \<times> json) list" where
  "opt_time fmt k t = (case t of None \<Rightarrow> [] | Some tm \<Rightarrow> [(k, JStr (fmt tm))])"

definition dependency_json :: "(time \<Rightarrow> string) \<Rightarrow> dependency \<Rightarrow> json" where
  "dependency_json fmt d = JObj (
     [(''bead_id'', JStr (dBeadID d)), (''depends_on_id'', JStr (dDependsOnID d)),
      (''type'', JStr (dType d)), (''created_at'', JStr (fmt (dCreatedAt d)))]
     @ opt_str ''created_by'' (dCreatedBy d) @ opt_str ''metadata'' (dMetadata d))"

definition comment_json :: "(time \<Rightarrow> string) \<Rightarrow> comment \<Rightarrow> json" where
  "comment_json fmt c = JObj
     [(''id'', JInt (cID c)), (''bead_id'', JStr (cBeadID c)), (''author'', JStr (cAuthor c)),
      (''text'', JStr (cText c)), (''created_at'', JStr (fmt (cCreatedAt c)))]"

definition bead_json :: "(time \<Rightarrow> string) \<Rightarrow> bead \<Rightarrow> json option" where
  "bead_json fmt b =
     (case bFields b of
        RawBad \<Rightarrow> None
      | f \<Rightarrow> Some (JObj (
          [(''id'', JStr (bID b))] @ opt_str ''slug'' (bSlug b)
          @ [(''kind'', JStr (bKind b)), (''type'', JStr (bType b)), (''title'', JStr (bTitle b))]
          @ opt_str ''description'' (bDescription b) @ opt_str ''notes'' (bNotes b)
          @ [(''status'', JStr (bStatus b)), (''priority'', JInt (bPriority b))]
          @ opt_str ''assignee'' (bAssignee b) @ opt_str ''owner'' (bOwner b)
          @ [(''created_at'', JStr (fmt (bCreatedAt b)))] @ opt_str ''created_by'' (bCreatedBy b)
          @ [(''updated_at'', JStr (fmt (bUpdatedAt b)))]
          @ opt_time fmt ''closed_at'' (bClosedAt b) @ opt_str ''closed_by'' (bClosedBy b)
          @ opt_time fmt ''due_at'' (bDueAt b) @ opt_time fmt ''defer_until'' (bDeferUntil b)
          @ (case f of Raw j \<Rightarrow> [(''fields'', j)] | _ \<Rightarrow> [])
          @ (if bLabels b = [] then [] else [(''labels'', JArr (map JStr (bLabels b)))])
          @ (if bDependencies b = [] then []
             else [(''dependencies'', JArr (map (dependency_json fmt) (bDependencies b)))])
          @ (if bComments b = [] then []
             else [(''comments'', JArr (map (comment_json fmt) (bComments b)))]))))"

fun marshal_event :: "(time \<Rightarrow> string) \<Rightarrow> srv_event \<Rightarrow> raw option" where
  "marshal_event fmt (BeadCreated b) = map_option (\<lambda>j. Raw (JObj [(''bead'', j)])) (bead_json fmt b)"
| "marshal_event fmt (BeadUpdated b ch) =
     map_option (\<lambda>j. Raw (JObj [(''bead'', j), (''changes'', JObj (sort_key fst ch))])) (bead_json fmt b)"
| "marshal_event fmt (BeadClosed b who) =
     map_option (\<lambda>j. Raw (JObj ([(''bead'', j)] @ opt_str ''closed_by'' who))) (bead_json fmt b)"
| "marshal_event fmt (BeadDeleted i) = Some (Raw (JObj [(''bead_id'', JStr i)]))"
| "marshal_event fmt (DependencyAdded d) = Some (Raw (JObj [(''dependency'', dependency_json fmt d)]))"
| "marshal_event fmt (DependencyRemoved b on ty) =
     Some (Raw (JObj [(''bead_id'', JStr b), (''depends_on_id'', JStr on), (''type'', JStr ty)]))"
| "marshal_event fmt (LabelAdded b l) = Some (Raw (JObj [(''bead_id'', JStr b), (''label'', JStr l)]))"
| "marshal_event fmt (LabelRemoved b l) = Some (Raw (JObj [(''bead_id'', JStr b), (''label'', JStr l)]))"
| "marshal_event fmt (CommentAdded c) = Some (Raw (JObj [(''comment'', comment_json fmt c)]))"
| "marshal_event fmt (AdviceCreated b) = map_option (\<lambda>j. Raw (JObj [(''bead'', j)])) (bead_json fmt b)"
| "marshal_event fmt (AdviceUpdated b ch) =
     map_option (\<lambda>j. Raw (JObj [(''bead'', j), (''changes'', JObj (sort_key fst ch))])) (bead_json fmt b)"
| "marshal_event fmt (AdviceDeleted i) = Some (Raw (JObj [(''bead_id'', JStr i)]))"

subsection \<open>The server\<close>

text \<open>
  \<open>svOutbox\<close> is the sequence of calls of the publisher, \<open>svJetStream\<close> that of publishing to
  JetStream (both may fail, which is only logged); \<open>svBus\<close> is \<open>None\<close> when no bus is
  configured, and \<open>svWorld\<close> the world its handlers act on.
\<close>

record 'w server = pg +
  svOutbox :: "(string \<times> srv_event) list"
  svHub :: "raw sse_hub"
  svJetStream :: "(string \<times> raw) list"
  svBus :: "'w bus option"
  svWorld :: 'w
  svPresence :: "tracker option"
  svFmt :: "time \<Rightarrow> string"

definition topicToMutationType :: "string \<Rightarrow> string" where
  "topicToMutationType topic =
     (if topic = TopicBeadCreated then ''MutationCreate''
      else if topic = TopicBeadUpdated then ''MutationUpdate''
      else if topic = TopicBeadClosed then ''MutationStatus''
      else if topic = TopicBeadDeleted then ''MutationDelete''
      else if topic = TopicCommentAdded then ''MutationComment''
      else [])"

definition broadcastEvent :: "string \<Rightarrow> raw \<Rightarrow> 'w server \<Rightarrow> 'w server" where
  "broadcastEvent topic payload s = s\<lparr>svHub := broadcast topic payload (svHub s)\<rparr>"

definition publish_mutation :: "string \<Rightarrow> raw \<Rightarrow> 'w server \<Rightarrow> 'w server" where
  "publish_mutation topic payload s =
     (case svBus s of
        None \<Rightarrow> s
      | Some b \<Rightarrow>
          (let mt = topicToMutationType topic in
           if mt \<noteq> [] then
             s\<lparr>svJetStream := svJetStream s @ PublishRaw b (''mutations.'' @ mt) payload\<rparr>
           else s))"

text \<open>\<open>recordAndPublish\<close>: a failure to record is logged and the rest goes on.\<close>

definition recordAndPublish ::
  "string \<Rightarrow> string \<Rightarrow> string \<Rightarrow> srv_event \<Rightarrow> ('w server, unit) op" where
  "recordAndPublish topic beadID actor ev s =
     (case marshal_event (svFmt s) ev of
        None \<Rightarrow> (Inr (), s)
      | Some payload \<Rightarrow>
          (case queryRecordEvent \<lparr>eID = 0, eTopic = topic, eBeadID = beadID, eActor = actor,
                  ePayload = payload, eCreatedAt = 0\<rparr> s of
             (_, s) \<Rightarrow>
               let s = s\<lparr>svOutbox := svOutbox s @ [(topic, ev)]\<rparr>;
                   s = broadcastEvent topic payload s
               in (Inr (), publish_mutation topic payload s)))"

subsection \<open>Responses\<close>

text \<open>The rows of the graph (\<open>internal/model/graph.go\<close>) and of the agent roster; times are
  rendered to the second.\<close>

record graph_node =
  nID :: string
  nTitle :: string
  nStatus :: string
  nIssueType :: string
  nParentID :: string
  nAssignee :: string
  nPriority :: int
  nLabels :: "string list"
  nBlockedBy :: "string list"
  nCreatedAt :: "time option"
  nUpdatedAt :: "time option"
  nDescription :: string
  nNotes :: string
  nDepCount :: nat
  nDepByCount :: nat

record graph_edge =
  gSource :: string
  gTarget :: string
  gType :: string

record roster_row =
  rwActor :: string
  rwTaskID :: string
  rwTaskTitle :: string
  rwIdle :: duration
  rwLastEvent :: string
  rwToolName :: string
  rwSessionID :: string
  rwCwd :: string
  rwReaped :: bool

record unclaimed_task =
  unID :: string
  unTitle :: string
  unPriority :: int

record bus_status =
  bsJetStream :: bool
  bsHandlerCount :: nat
  bsStreams :: "string list"
  bsHandlers :: "string list"

type_synonym fields = "(string \<times> json) list"

datatype body =
    NoBody
  | ErrorBody string
  | BeadBody bead
  | BeadsBody "bead list" nat
  | ConfigBody config
  | ConfigsBody "config list"
  | DepsBody "dependency list"
  | DepBody dependency
  | LabelsBody "string list"
  | CommentBody comment
  | CommentsBody "comment list"
  | EventsBody "event list"
  | GatesBody "gate_row list"
  | HookBody bool string "string list"
  | GraphBody "graph_node list" "graph_edge list" "graph_stats option"
  | StatsBody graph_stats
  | RosterBody "roster_row list" "unclaimed_task list"
  | BusStatusBody bus_status
  | DecisionBody fields bead fields
  | DecisionsBody "(fields \<times> bead) list"
  | JsonBody json
  | StreamBody nat "raw sse_event list"
  | BusStreamBody "string list"

text \<open>An HTTP status and body; a panic of a handler is recovered by \<open>net/http\<close>, which drops
  the connection.\<close>

datatype resp = Resp nat body | Aborted

definition error_resp :: "nat \<Rightarrow> string \<Rightarrow> resp" where
  "error_resp code m = Resp code (ErrorBody m)"

text \<open>The status codes of gRPC the service uses.\<close>

datatype code = InvalidArgument | NotFound | Internal | Unauthenticated | Crashed

type_synonym 'a rpc = "(code \<times> string) + 'a"

text \<open>\<open>status.Errorf(codes.Internal, prefix + "%v", err)\<close>; a panic is not an error value.\<close>

definition internal :: "string \<Rightarrow> err \<Rightarrow> code \<times> string" where
  "internal p e = (if is_panic e then (Crashed, err_text e) else (Internal, p @ err_text e))"

definition storeError :: "err \<Rightarrow> string \<Rightarrow> code \<times> string" where
  "storeError e entity =
     (if is_panic e then (Crashed, err_text e)
      else if is_no_rows e then (NotFound, entity @ '' not found'')
      else (Internal, ''failed to get '' @ entity @ '': '' @ err_text e))"

text \<open>An operation whose outcome, error or not, becomes a response.\<close>

definition respond :: "('s, 'a) op \<Rightarrow> (err \<Rightarrow> 'r) \<Rightarrow> ('a \<Rightarrow> 'r) \<Rightarrow> 's \<Rightarrow> 'r \<times> 's" where
  "respond m bad good s = (case m s of (Inl e, s') \<Rightarrow> (bad e, s') | (Inr x, s') \<Rightarrow> (good x, s'))"

text \<open>A response that needs no operation; an operation whose error is only logged.\<close>

definition reply :: "'r \<Rightarrow> 's \<Rightarrow> 'r \<times> 's" where
  "reply r s = (r, s)"

definition best_effort :: "('s, 'a) op \<Rightarrow> ('s, unit) op" where
  "best_effort m =
     attempt m (\<lambda>r. case r of Inl e \<Rightarrow> if is_panic e then fail e else ret () | Inr _ \<Rightarrow> ret ())"

text \<open>An error response, unless the error is a panic.\<close>

definition http_fail :: "nat \<Rightarrow> string \<Rightarrow> err \<Rightarrow> resp" where
  "http_fail st m e = (if is_panic e then Aborted else error_resp st m)"

subsection \<open>What publishing keeps and does\<close>

lemma broadcastEvent_simps [simp]:
  "db (broadcastEvent tp p s) = db s" "svOutbox (broadcastEvent tp p s) = svOutbox s"
  "svBus (broadcastEvent tp p s) = svBus s" "svJetStream (broadcastEvent tp p s) = svJetStream s"
  "faults (broadcastEvent tp p s) = faults s"
  by (simp_all add: broadcastEvent_def)

lemma publish_mutation_simps [simp]:
  "db (publish_mutation tp p s) = db s" "svOutbox (publish_mutation tp p s) = svOutbox s"
  "faults (publish_mutation tp p s) = faults s"
  by (auto simp: publish_mutation_def Let_def split: option.split)

lemma recordAndPublish_ok: "fst (recordAndPublish tp i a ev s) = Inr ()"
  by (auto simp: recordAndPublish_def Let_def split: option.split prod.split)

lemma sound_recordAndPublish [sound_ops]: "returns sound (recordAndPublish tp i a ev) any"
proof -
  have "sound (snd (queryRecordEvent e s))" if "sound s" for e and s :: "'w server"
  proof -
    have "returns (sound :: 'w server \<Rightarrow> bool) (queryRecordEvent e) any" by (rule sound_ops)
    then show ?thesis using that by (simp add: returns_def)
  qed
  then show ?thesis
    by (auto simp: returns_def recordAndPublish_def Let_def sound_def split_beta split: option.split)
qed

text \<open>The rows other than the event log, and every event published so far, stay.\<close>

definition same_but_events :: "tables \<Rightarrow> tables \<Rightarrow> bool" where
  "same_but_events t t' \<longleftrightarrow> t' = t\<lparr>tEvents := tEvents t', tEventSeq := tEventSeq t'\<rparr>"

lemma same_but_events_refl [simp]: "same_but_events t t"
  by (simp add: same_but_events_def)

lemma same_but_events_trans: "same_but_events t u \<Longrightarrow> same_but_events u v \<Longrightarrow> same_but_events t v"
  by (cases t, cases u, cases v) (simp add: same_but_events_def)

lemma queryRecordEvent_rows:
  "same_but_events (db s) (db (snd (queryRecordEvent e s)))"
  "pg.more (snd (queryRecordEvent e s)) = pg.more s"
  by (auto simp: queryRecordEvent_def stmt_now_def stmt_def run_sql_def sql_insert_event_def Let_def
      same_but_events_def split: list.splits option.splits prod.splits sum.splits)

lemma svOutbox_more: "pg.more s' = pg.more s \<Longrightarrow> svOutbox s' = svOutbox s"
  by (cases s, cases s') simp

text \<open>
  What one call publishes: the event goes out once, in order, and nothing but the event log
  of the database changes.
\<close>

lemma recordAndPublish_effect:
  "same_but_events (db s) (db (snd (recordAndPublish tp i a ev s)))"
  "svOutbox (snd (recordAndPublish tp i a ev s)) =
     svOutbox s @ (if marshal_event (svFmt s) ev = None then [] else [(tp, ev)])"
proof -
  let ?e = "\<lambda>p. \<lparr>eID = 0, eTopic = tp, eBeadID = i, eActor = a, ePayload = p, eCreatedAt = 0\<rparr>"
  have "same_but_events (db s) (db (snd (queryRecordEvent (?e p) s)))"
    and "svOutbox (snd (queryRecordEvent (?e p) s)) = svOutbox s" for p
    by (rule queryRecordEvent_rows, rule svOutbox_more, rule queryRecordEvent_rows)
  then show "same_but_events (db s) (db (snd (recordAndPublish tp i a ev s)))"
    and "svOutbox (snd (recordAndPublish tp i a ev s)) =
     svOutbox s @ (if marshal_event (svFmt s) ev = None then [] else [(tp, ev)])"
    by (auto simp: recordAndPublish_def Let_def split_beta split: option.split)
qed

subsection \<open>What a handler keeps\<close>

definition safe :: "('s \<Rightarrow> bool) \<Rightarrow> ('s \<Rightarrow> 'r \<times> 's) \<Rightarrow> bool" where
  "safe I h \<longleftrightarrow> (\<forall>s. I s \<longrightarrow> I (snd (h s)))"

named_theorems safe_handlers \<open>handlers keep the invariant of the server\<close>

lemma safeD: "safe I h \<Longrightarrow> I s \<Longrightarrow> I (snd (h s))"
  by (simp add: safe_def)

lemma safe_reply: "safe I (reply r)"
  by (simp add: safe_def reply_def)

lemma safe_respond: "returns I m Q \<Longrightarrow> safe I (respond m bad good)"
  by (fastforce simp: safe_def returns_def respond_def split: prod.split sum.split)

lemma safe_if: "(c \<Longrightarrow> safe I h) \<Longrightarrow> (\<not> c \<Longrightarrow> safe I k) \<Longrightarrow> safe I (if c then h else k)"
  by simp

lemmas safe_intros = safe_if safe_reply safe_respond

lemma returns_best_effort: "returns I m Q \<Longrightarrow> returns I (best_effort m) any"
  unfolding best_effort_def
  by (rule returns_attempt [where P = Q])
    (auto intro: returns_ret returns_fail split: sum.split)

text \<open>A server on given tables, without bus, clients or failures.\<close>

definition idle_server :: "tables \<Rightarrow> unit server" where
  "idle_server t = \<lparr>db = t, faults = [], now = 1000, db_now = 2000, render = (\<lambda>_. []),
     svOutbox = [], svHub = newSSEHub, svJetStream = [], svBus = None, svWorld = (),
     svPresence = None, svFmt = (\<lambda>_. ''T'')\<rparr>"

lemma idle_server_simps [simp]:
  "db (idle_server t) = t" "faults (idle_server t) = []" "svOutbox (idle_server t) = []"
  "now (idle_server t) = 1000" "db_now (idle_server t) = 2000" "svBus (idle_server t) = None"
  "svFmt (idle_server t) x = ''T''" "svPresence (idle_server t) = None"
  by (simp_all add: idle_server_def)

end
