(* ===== verification/Configs.thy ===== *)
theory Configs
  imports Server
begin

text \<open>
  Configuration entries (\<open>internal/server/config.go\<close>, \<open>http_config.go\<close>): the builtin
  defaults, the resolution of a bead type, and the gRPC and HTTP operations. What the
  operations answer is one lookup, stored entry first, in a reading and in a listing.
\<close>

subsection \<open>The builtin entries\<close>

definition field_json :: "string \<Rightarrow> string \<Rightarrow> json" where
  "field_json n ty = JObj [(''name'', JStr n), (''type'', JStr ty)]"

definition required_json :: "string \<Rightarrow> string \<Rightarrow> json" where
  "required_json n ty = JObj [(''name'', JStr n), (''type'', JStr ty), (''required'', JBool True)]"

definition enum_json :: "string \<Rightarrow> string list \<Rightarrow> json" where
  "enum_json n vs = JObj [(''name'', JStr n), (''type'', JStr ''enum''), (''values'', JArr (map JStr vs))]"

definition type_json :: "string \<Rightarrow> json list \<Rightarrow> json" where
  "type_json kind fs = JObj [(''kind'', JStr kind), (''fields'', JArr fs)]"

definition builtin :: "string \<Rightarrow> json \<Rightarrow> config" where
  "builtin key v = \<lparr>kKey = key, kValue = Raw v, kCreatedAt = 0, kUpdatedAt = 0\<rparr>"

definition builtinConfigs :: "config list" where
  "builtinConfigs =
    [builtin ''view:ready'' (JObj
       [(''filter'', JObj [(''status'', JArr [JStr ''open'', JStr ''in_progress'']),
                           (''kind'', JArr [JStr ''issue''])]),
        (''sort'', JStr ''priority''), (''limit'', JInt 5)]),
     builtin ''type:epic'' (type_json ''issue'' []),
     builtin ''type:task'' (type_json ''issue'' []),
     builtin ''type:feature'' (type_json ''issue'' []),
     builtin ''type:chore'' (type_json ''issue'' []),
     builtin ''type:bug'' (type_json ''issue'' []),
     builtin ''type:advice'' (type_json ''data''
       [field_json ''hook_command'' ''string'',
        enum_json ''hook_trigger'' [''session-end'', ''before-commit'', ''before-push'', ''before-handoff''],
        field_json ''hook_timeout'' ''integer'',
        enum_json ''hook_on_failure'' [''block'', ''warn'', ''ignore''],
        field_json ''subscriptions'' ''string[]'',
        field_json ''subscriptions_exclude'' ''string[]'']),
     builtin ''type:jack'' (type_json ''data''
       [required_json ''jack_target'' ''string'', required_json ''jack_reason'' ''string'',
        required_json ''jack_revert_plan'' ''string'', field_json ''jack_ttl'' ''string'',
        field_json ''jack_expires_at'' ''string'', field_json ''jack_original_ttl'' ''string'',
        field_json ''jack_extension_count'' ''integer'', field_json ''jack_cumulative_ttl'' ''string'',
        field_json ''jack_reverted'' ''boolean'', field_json ''jack_closed_reason'' ''string'',
        field_json ''jack_closed_at'' ''string'', field_json ''jack_escalated'' ''boolean'',
        field_json ''jack_escalated_at'' ''string'', field_json ''jack_changes'' ''json'',
        field_json ''jack_rig'' ''string'']),
     builtin ''type:mail'' (type_json ''data'' []),
     builtin ''type:agent'' (type_json ''config''
       [required_json ''agent'' ''string'', required_json ''role'' ''string'',
        required_json ''project'' ''string'', field_json ''mode'' ''string'',
        field_json ''agent_state'' ''string'', field_json ''mock_scenario'' ''string'',
        field_json ''stop_requested'' ''string'', field_json ''gate_satisfied_by'' ''string'',
        field_json ''advice_subscriptions'' ''string[]'',
        field_json ''advice_subscriptions_exclude'' ''string[]'']),
     builtin ''type:decision'' (type_json ''data''
       [required_json ''prompt'' ''string'', field_json ''options'' ''json'',
        field_json ''context'' ''string'', field_json ''session'' ''string'',
        field_json ''requested_by'' ''string'', field_json ''requesting_agent_bead_id'' ''string'',
        field_json ''chosen'' ''string'', field_json ''rationale'' ''string'',
        field_json ''response_text'' ''string'', field_json ''responded_by'' ''string'',
        field_json ''responded_at'' ''string'', field_json ''required_artifact'' ''string'',
        enum_json ''artifact_status'' [''pending'', ''submitted'', ''accepted'']]),
     builtin ''type:report'' (type_json ''data''
       [required_json ''decision_id'' ''string'', required_json ''report_type'' ''string'',
        required_json ''content'' ''string'', field_json ''format'' ''string'']),
     builtin ''type:role'' (type_json ''config'' []),
     builtin ''type:rig'' (type_json ''config'' []),
     builtin ''type:convoy'' (type_json ''config'' []),
     builtin ''type:config'' (type_json ''config'' []),
     builtin ''type:event'' (type_json ''data'' []),
     builtin ''type:gate'' (type_json ''data'' []),
     builtin ''type:message'' (type_json ''data'' []),
     builtin ''type:formula'' (type_json ''data''
       [field_json ''vars'' ''json'', field_json ''steps'' ''json'',
        field_json ''default_roles'' ''json'', field_json ''assigned_agent'' ''string'']),
     builtin ''type:molecule'' (type_json ''issue''
       [field_json ''formula_id'' ''string'', field_json ''applied_vars'' ''json'',
        field_json ''ephemeral'' ''boolean'']),
     builtin ''type:mention'' (type_json ''data'' []),
     builtin ''type:artifact'' (type_json ''data'' []),
     builtin ''type:runbook'' (type_json ''data'' [])]"

text \<open>\<open>builtinConfigs[key]\<close>.\<close>

definition find_builtin :: "string \<Rightarrow> config option" where
  "find_builtin key = List.find (\<lambda>c. kKey c = key) builtinConfigs"

text \<open>The namespace index of a key: the text before a colon that is not its first byte. The
  order of a namespace, which the source leaves to a map, is that of the list.\<close>

definition key_namespace :: "string \<Rightarrow> string option" where
  "key_namespace key =
     (case index_byte (CHR '':'') key of
        Some i \<Rightarrow> if i > 0 then Some (take i key) else None
      | None \<Rightarrow> None)"

definition builtinConfigsByNamespace :: "string \<Rightarrow> config list" where
  "builtinConfigsByNamespace ns = filter (\<lambda>c. key_namespace (kKey c) = Some ns) builtinConfigs"

subsection \<open>Resolving a bead type\<close>

text \<open>\<open>json.Unmarshal(config.Value, &tc)\<close>; the text of a decoding error is not modelled.\<close>

definition decode_field_def :: "json \<Rightarrow> field_def option" where
  "decode_field_def j =
     decode_struct (\<lambda>k v s.
       if fold_eq k ''name'' then map_option (\<lambda>x. s\<lparr>fdName := x\<rparr>) (decode_string v (fdName s))
       else if fold_eq k ''type'' then map_option (\<lambda>x. s\<lparr>fdType := x\<rparr>) (decode_string v (fdType s))
       else if fold_eq k ''required'' then
         map_option (\<lambda>x. s\<lparr>fdRequired := x\<rparr>) (decode_bool v (fdRequired s))
       else if fold_eq k ''values'' then map_option (\<lambda>x. s\<lparr>fdValues := x\<rparr>) (decode_strings v)
       else Some s) (Raw j) \<lparr>fdName = [], fdType = [], fdRequired = False, fdValues = []\<rparr>"

definition decode_field_defs :: "json \<Rightarrow> field_def list option" where
  "decode_field_defs j =
     (case j of
        JNull \<Rightarrow> Some []
      | JArr xs \<Rightarrow> those (map decode_field_def xs)
      | _ \<Rightarrow> None)"

definition decode_type_config :: "raw \<Rightarrow> type_config option" where
  "decode_type_config r =
     decode_struct (\<lambda>k v s.
       if fold_eq k ''kind'' then map_option (\<lambda>x. s\<lparr>tcKind := x\<rparr>) (decode_string v (tcKind s))
       else if fold_eq k ''fields'' then map_option (\<lambda>x. s\<lparr>tcFields := x\<rparr>) (decode_field_defs v)
       else Some s) r \<lparr>tcKind = [], tcFields = []\<rparr>"

definition json_error :: err where
  "json_error = OtherError ''json: cannot unmarshal''"

definition resolveTypeConfig :: "string \<Rightarrow> ('z pg_scheme, type_config option) op" where
  "resolveTypeConfig beadType =
     (let key = ''type:'' @ beadType in
      attempt (queryGetConfig key) (\<lambda>r.
        case (case r of
                Inl e \<Rightarrow> if is_no_rows e then Inr (find_builtin key) else Inl e
              | Inr c \<Rightarrow> Inr (Some c)) of
          Inl e \<Rightarrow> fail e
        | Inr None \<Rightarrow> ret None
        | Inr (Some c) \<Rightarrow>
            (case decode_type_config (kValue c) of
               None \<Rightarrow> fail json_error
             | Some tc \<Rightarrow> ret (Some tc))))"

subsection \<open>Listing\<close>

definition listConfigsWithBuiltins :: "string \<Rightarrow> ('z pg_scheme, config list) op" where
  "listConfigsWithBuiltins ns =
     and_then (queryListConfigs ns) (\<lambda>configs.
       ret (configs @ filter (\<lambda>b. kKey b \<notin> kKey ` set configs) (builtinConfigsByNamespace ns)))"

subsection \<open>gRPC\<close>

definition SetConfig :: "string \<Rightarrow> raw \<Rightarrow> 'w server \<Rightarrow> config rpc \<times> 'w server" where
  "SetConfig key value s =
     (if key = [] then (Inl (InvalidArgument, ''key is required''), s)
      else respond
        (querySetConfig \<lparr>kKey = key, kValue = value, kCreatedAt = 0, kUpdatedAt = 0\<rparr>)
        (\<lambda>e. Inl (internal ''failed to set config: '' e)) Inr s)"

definition GetConfig :: "string \<Rightarrow> 'w server \<Rightarrow> config rpc \<times> 'w server" where
  "GetConfig key s =
     (if key = [] then (Inl (InvalidArgument, ''key is required''), s)
      else respond (queryGetConfig key)
        (\<lambda>e. if is_no_rows e
             then (case find_builtin key of
                     Some b \<Rightarrow> Inr b | None \<Rightarrow> Inl (storeError e ''config''))
             else Inl (storeError e ''config'')) Inr s)"

definition ListConfigs :: "string \<Rightarrow> 'w server \<Rightarrow> config list rpc \<times> 'w server" where
  "ListConfigs ns s =
     (if ns = [] then (Inl (InvalidArgument, ''namespace is required''), s)
      else respond (listConfigsWithBuiltins ns)
        (\<lambda>e. Inl (internal ''failed to list configs: '' e)) Inr s)"

definition DeleteConfig :: "string \<Rightarrow> 'w server \<Rightarrow> unit rpc \<times> 'w server" where
  "DeleteConfig key s =
     (if key = [] then (Inl (InvalidArgument, ''key is required''), s)
      else respond (queryDeleteConfig key)
        (\<lambda>e. if is_no_rows e then Inl (NotFound, ''config not found'')
             else Inl (internal ''failed to delete config: '' e)) Inr s)"

subsection \<open>HTTP\<close>

definition handleSetConfig :: "string \<Rightarrow> raw \<Rightarrow> 'w server \<Rightarrow> resp \<times> 'w server" where
  "handleSetConfig key body s =
     (if key = [] then (error_resp 400 ''key is required'', s)
      else case decode_struct
             (\<lambda>k j v. if fold_eq k ''value'' then Some (Raw j) else Some v) body RawNil of
        None \<Rightarrow> (error_resp 400 ''invalid JSON body'', s)
      | Some v \<Rightarrow>
          respond (querySetConfig \<lparr>kKey = key, kValue = v, kCreatedAt = 0, kUpdatedAt = 0\<rparr>)
            (\<lambda>e. error_resp 500 ''failed to set config'') (\<lambda>c. Resp 200 (ConfigBody c)) s)"

definition handleGetConfig :: "string \<Rightarrow> 'w server \<Rightarrow> resp \<times> 'w server" where
  "handleGetConfig key s =
     (if key = [] then (error_resp 400 ''key is required'', s)
      else respond (queryGetConfig key)
        (\<lambda>e. if is_no_rows e
             then (case find_builtin key of
                     Some b \<Rightarrow> Resp 200 (ConfigBody b)
                   | None \<Rightarrow> error_resp 404 ''config not found'')
             else error_resp 500 ''failed to get config'')
        (\<lambda>c. Resp 200 (ConfigBody c)) s)"

definition handleListConfigs :: "string \<Rightarrow> 'w server \<Rightarrow> resp \<times> 'w server" where
  "handleListConfigs ns s =
     (if ns = [] then (error_resp 400 ''namespace query parameter is required'', s)
      else respond (listConfigsWithBuiltins ns)
        (\<lambda>e. error_resp 500 ''failed to list configs'') (\<lambda>cs. Resp 200 (ConfigsBody cs)) s)"

definition handleDeleteConfig :: "string \<Rightarrow> 'w server \<Rightarrow> resp \<times> 'w server" where
  "handleDeleteConfig key s =
     (if key = [] then (error_resp 400 ''key is required'', s)
      else respond (queryDeleteConfig key)
        (\<lambda>e. if is_no_rows e then error_resp 404 ''config not found''
             else error_resp 500 ''failed to delete config'')
        (\<lambda>_. Resp 204 NoBody) s)"

subsection \<open>One lookup\<close>

text \<open>What a key is worth: the stored entry, or else the builtin one.\<close>

definition effective :: "tables \<Rightarrow> string \<Rightarrow> config option" where
  "effective t key = (case find_config key t of Some c \<Rightarrow> Some c | None \<Rightarrow> find_builtin key)"

lemma GetConfig_effective:
  assumes "faults s = []" and "key \<noteq> []"
  shows "fst (GetConfig key s) =
    (case effective (db s) key of Some c \<Rightarrow> Inr c | None \<Rightarrow> Inl (NotFound, ''config not found''))"
  using assms
  by (auto simp: GetConfig_def respond_def queryGetConfig_def stmt_no_faults sql_select_config_def
      effective_def storeError_def split: option.splits)

lemma find_config_iff:
  "db_wf t \<Longrightarrow> find_config k t = Some c \<longleftrightarrow> c \<in> set (tConfigs t) \<and> kKey c = k"
  unfolding find_config_def db_wf_def keys_ok_def by (auto simp: find_key_iff)

lemma distinct_builtin_keys: "distinct (map kKey builtinConfigs)"
  by (simp add: builtinConfigs_def builtin_def)

lemma find_builtin_iff: "find_builtin k = Some c \<longleftrightarrow> c \<in> set builtinConfigs \<and> kKey c = k"
  unfolding find_builtin_def using distinct_builtin_keys by (auto simp: find_key_iff)

lemma key_namespace_prefix:
  assumes "CHR '':'' \<notin> set ns" and "ns \<noteq> []"
  shows "key_namespace k = Some ns \<longleftrightarrow> has_prefix k (ns @ '':'')"
proof
  assume "key_namespace k = Some ns"
  then obtain i where i: "index_byte (CHR '':'') k = Some i" "take i k = ns"
    by (auto simp: key_namespace_def split: option.splits if_splits)
  then have "k = ns @ CHR '':'' # drop (Suc i) k"
    using index_byte_Some [OF i(1)] by (metis id_take_nth_drop)
  then show "has_prefix k (ns @ '':'')" by (auto simp: has_prefix_iff)
next
  assume "has_prefix k (ns @ '':'')"
  then obtain r where "k = ns @ CHR '':'' # r" by (auto simp: has_prefix_iff)
  then show "key_namespace k = Some ns"
    using assms by (simp add: key_namespace_def index_byte_append)
qed

text \<open>A namespace the pattern of the listing reads literally.\<close>

definition namespace_ok :: "string \<Rightarrow> bool" where
  "namespace_ok ns \<longleftrightarrow> ns \<noteq> [] \<and> plain ns \<and> CHR '':'' \<notin> set ns"

lemma configs_like_set:
  "namespace_ok ns \<Longrightarrow>
   set (configs_like ns t) = {c \<in> set (tConfigs t). has_prefix (kKey c) (ns @ '':'')}"
  using sql_like_prefix [of "ns @ '':''"] by (simp add: configs_like_def namespace_ok_def plain_def)

lemma listConfigs_merge:
  assumes "db_wf t" and ns: "namespace_ok ns"
  defines "cs \<equiv> configs_like ns t"
  defines "all \<equiv> cs @ filter (\<lambda>b. kKey b \<notin> kKey ` set cs) (builtinConfigsByNamespace ns)"
  shows "distinct (map kKey all)"
    and "c \<in> set all \<longleftrightarrow> has_prefix (kKey c) (ns @ '':'') \<and> effective t (kKey c) = Some c"
proof -
  have "distinct (map kKey (tConfigs t))" using assms(1) by (simp add: db_wf_def keys_ok_def)
  then have "distinct (map kKey cs)"
    by (simp add: cs_def configs_like_def distinct_map inj_on_def)
  moreover have "distinct (map kKey (builtinConfigsByNamespace ns))"
    unfolding builtinConfigsByNamespace_def by (rule distinct_map_filter [OF distinct_builtin_keys])
  ultimately show "distinct (map kKey all)"
    by (auto simp: all_def intro: distinct_map_filter) (metis imageI)
  have cs: "c \<in> set cs \<longleftrightarrow> c \<in> set (tConfigs t) \<and> has_prefix (kKey c) (ns @ '':'')" for c
    unfolding cs_def configs_like_set [OF ns] by simp
  have bs: "c \<in> set (builtinConfigsByNamespace ns) \<longleftrightarrow>
      c \<in> set builtinConfigs \<and> has_prefix (kKey c) (ns @ '':'')" for c
    using ns by (simp add: builtinConfigsByNamespace_def namespace_ok_def key_namespace_prefix)
  have stored: "find_config (kKey c) t = None \<longleftrightarrow> kKey c \<notin> kKey ` set cs"
    if "has_prefix (kKey c) (ns @ '':'')"
    unfolding find_config_None using that cs by (auto simp: image_iff)
  show "c \<in> set all \<longleftrightarrow> has_prefix (kKey c) (ns @ '':'') \<and> effective t (kKey c) = Some c"
  proof (cases "has_prefix (kKey c) (ns @ '':'')")
    case False
    then show ?thesis by (simp add: all_def cs bs)
  next
    case True
    show ?thesis
    proof (cases "find_config (kKey c) t")
      case None
      then show ?thesis
        using True stored [OF True] cs [of c] bs [of c]
        by (auto simp: all_def effective_def find_builtin_iff)
    next
      case (Some d)
      then have "kKey c \<in> kKey ` set cs" using stored [OF True] by auto
      then show ?thesis
        using True Some cs [of c] find_config_iff [OF assms(1), of "kKey c" c]
        by (auto simp: all_def effective_def)
    qed
  qed
qed

text \<open>
  C16: a listing of a namespace and the reading of a single key tell the same story: the
  listing holds, once each and with the same value, exactly the keys of the namespace that a
  reading finds, whether stored, builtin, or builtin and overridden.
\<close>

theorem listing_agrees_with_get:
  assumes "db_wf (db s)" and "namespace_ok ns" and "ListConfigs ns s = (Inr cs, s')"
    and "db s2 = db s" and "faults s2 = []"
  shows "distinct (map kKey cs) \<and>
    (\<forall>c. c \<in> set cs \<longleftrightarrow> has_prefix (kKey c) (ns @ '':'') \<and> fst (GetConfig (kKey c) s2) = Inr c)"
proof -
  obtain rows s1 where r: "queryListConfigs ns s = (Inr rows, s1)"
    and cs: "cs = rows @ filter (\<lambda>b. kKey b \<notin> kKey ` set rows) (builtinConfigsByNamespace ns)"
    using assms(2,3)
    by (auto simp: ListConfigs_def namespace_ok_def respond_def listConfigsWithBuiltins_def
        split: prod.splits sum.splits dest!: and_then_Inr [THEN iffD1]) (auto simp: ret_def)
  have rows: "rows = configs_like ns (db s)"
    using r select_Inr [of "configs_like ns" s rows s1] by (simp add: queryListConfigs_def)
  have get: "fst (GetConfig k s2) = Inr c \<longleftrightarrow> effective (db s) k = Some c" if "k \<noteq> []" for k c
    using GetConfig_effective [OF assms(5) that] assms(4) by (auto split: option.split)
  have ne: "kKey c \<noteq> []" if "has_prefix (kKey c) (ns @ '':'')" for c
    using that by (auto simp: has_prefix_def)
  show ?thesis
    using listConfigs_merge [OF assms(1,2)] get ne unfolding cs rows by blast
qed

lemma listing_agrees_with_get_witness:
  "length (projr (fst (ListConfigs ''view'' (idle_server no_tables)))) = 1
   \<and> fst (GetConfig ''view:ready'' (idle_server no_tables)) =
      Inr (hd (projr (fst (ListConfigs ''view'' (idle_server no_tables)))))"
proof -
  let ?s = "idle_server no_tables"
  have ns: "namespace_ok ''view''" by (simp add: namespace_ok_def plain_def)
  have run: "ListConfigs ''view'' ?s =
      (Inr (filter (\<lambda>c. key_namespace (kKey c) = Some ''view'') builtinConfigs), ?s)"
    by (simp add: ListConfigs_def respond_def listConfigsWithBuiltins_def queryListConfigs_def
        op_defs no_faults configs_like_def builtinConfigsByNamespace_def) (simp add: no_tables_def)
  have one: "filter (\<lambda>c. key_namespace (kKey c) = Some ''view'') builtinConfigs = [hd builtinConfigs]"
    by (simp add: builtinConfigs_def builtin_def key_namespace_def)
  have "\<forall>c. c \<in> set [hd builtinConfigs] \<longleftrightarrow>
      has_prefix (kKey c) ''view:'' \<and> fst (GetConfig (kKey c) ?s) = Inr c"
    using listing_agrees_with_get [OF _ ns run [unfolded one], of ?s] db_wf_no_tables by simp
  moreover have "kKey (hd builtinConfigs) = ''view:ready''"
    by (simp add: builtinConfigs_def builtin_def)
  ultimately show ?thesis by (simp add: run one) (metis list.set_intros(1))
qed

subsection \<open>Overriding\<close>

lemma find_config_set:
  assumes v: "jsonb_required (kValue c) = Inr v"
  shows "find_config k (snd (sql_set_config tm c t)) =
    (if k = kKey c
     then Some \<lparr>kKey = k, kValue = v,
                kCreatedAt = (case find_config k t of None \<Rightarrow> tm | Some old \<Rightarrow> kCreatedAt old),
                kUpdatedAt = tm\<rparr>
     else find_config k t)"
proof (cases "find_config (kKey c) t")
  case None
  then show ?thesis
    by (auto simp: sql_set_config_def v find_config_def find_append split: option.split)
next
  case (Some old)
  have "find_config k (snd (sql_set_config tm c t)) =
      map_option (\<lambda>r. if kKey r = kKey c then r\<lparr>kValue := v, kUpdatedAt := tm\<rparr> else r)
        (find_config k t)"
    unfolding find_config_def using Some
    by (simp add: sql_set_config_def v find_map_if)
  moreover have "kKey r = k" if "find_config k t = Some r" for r
    using that find_Some_mem unfolding find_config_def by fast
  ultimately show ?thesis using Some by (cases "find_config k t") (auto intro: config.equality)
qed

lemma find_config_delete:
  "find_config k (snd (sql_delete_config key t)) = (if k = key then None else find_config k t)"
  by (auto simp: sql_delete_config_def find_config_def find_None_iff
      intro!: find_filter_other)

lemma SetConfig_run:
  assumes "faults s = []" and "key \<noteq> []"
  shows "SetConfig key (Raw v) s =
    (let r = sql_set_config (db_now s) \<lparr>kKey = key, kValue = Raw v, kCreatedAt = 0, kUpdatedAt = 0\<rparr> (db s)
     in (Inr \<lparr>kKey = key, kValue = Raw v, kCreatedAt = fst (projr (fst r)), kUpdatedAt = db_now s\<rparr>,
         s\<lparr>db := snd r\<rparr>))"
  using assms
  by (auto simp: SetConfig_def respond_def querySetConfig_def and_then_def stmt_now_no_faults
      sql_set_config_def jsonb_required_def ret_def Let_def split: option.split)

lemma DeleteConfig_run:
  assumes "faults s = []" and "key \<noteq> []" and "find_config key (db s) = Some c"
  shows "DeleteConfig key s = (Inr (), s\<lparr>db := snd (sql_delete_config key (db s))\<rparr>)"
proof -
  have "filter (\<lambda>c. kKey c = key) (tConfigs (db s)) \<noteq> []"
    using assms(3) find_Some_mem unfolding find_config_def filter_empty_conv by fast
  then show ?thesis
    using assms(1,2) by (simp add: DeleteConfig_def respond_def queryDeleteConfig_def and_then_def
        stmt_no_faults sql_delete_config_def ret_def)
qed

text \<open>
  C16: an entry overrides the builtin one for as long as it exists. After a \<open>SetConfig\<close> the key
  reads as the value set (as \<open>JSONB\<close> keeps it), every other key as before; after a
  \<open>DeleteConfig\<close> the key reads as the builtin entry again, or is not found.
\<close>

theorem override_and_revert:
  assumes "faults s = []" and "key \<noteq> []"
    and "s1 = snd (SetConfig key (Raw v) s)" and "s2 = snd (DeleteConfig key s1)"
  shows "(\<exists>c. fst (GetConfig key s1) = Inr c \<and> kKey c = key \<and> kValue c = Raw (jsonb v)
            \<and> kUpdatedAt c = db_now s)
     \<and> (\<forall>k. k \<noteq> key \<longrightarrow> k \<noteq> [] \<longrightarrow>
            fst (GetConfig k s1) = fst (GetConfig k s) \<and> fst (GetConfig k s2) = fst (GetConfig k s))
     \<and> fst (GetConfig key s2) =
        (case find_builtin key of Some b \<Rightarrow> Inr b | None \<Rightarrow> Inl (NotFound, ''config not found''))"
proof -
  let ?c = "\<lparr>kKey = key, kValue = Raw v, kCreatedAt = 0, kUpdatedAt = 0\<rparr>"
  have j: "jsonb_required (kValue ?c) = Inr (Raw (jsonb v))" by (simp add: jsonb_required_def)
  have s1: "db s1 = snd (sql_set_config (db_now s) ?c (db s))" "faults s1 = []"
    using assms(1) by (simp_all add: assms(3) SetConfig_run [OF assms(1,2)] Let_def)
  note set_ = find_config_set [OF j, of _ "db_now s" "db s", folded s1(1)]
  obtain c where c: "find_config key (db s1) = Some c" using set_ [of key] by simp
  have s2: "db s2 = snd (sql_delete_config key (db s1))" "faults s2 = []"
    using s1(2) by (simp_all add: assms(4) DeleteConfig_run [OF s1(2) assms(2) c])
  note del = find_config_delete [of _ key "db s1", folded s2(1)]
  have e: "effective (db s2) key = find_builtin key" by (simp add: effective_def del)
  have o: "effective (db s1) k = effective (db s) k" "effective (db s2) k = effective (db s) k"
    if "k \<noteq> key" for k
    using that by (simp_all add: effective_def set_ del)
  show ?thesis
    using assms(2) o e
    by (auto simp: GetConfig_effective s1(2) s2(2) assms(1))
      (auto simp: effective_def set_)
qed

lemma override_and_revert_witness:
  "let s1 = snd (SetConfig ''type:task'' (Raw (JObj [(''kind'', JStr ''data'')])) (idle_server no_tables));
       s2 = snd (DeleteConfig ''type:task'' s1)
   in fst (GetConfig ''type:task'' s2) =
      Inr (builtin ''type:task'' (type_json ''issue'' []))"
proof -
  have "find_builtin ''type:task'' = Some (builtin ''type:task'' (type_json ''issue'' []))"
    by (simp add: find_builtin_def builtinConfigs_def builtin_def)
  then show ?thesis
    using override_and_revert [OF _ _ refl refl, of "idle_server no_tables" "''type:task''"]
    by (simp add: Let_def)
qed

subsection \<open>The builtin types\<close>

lemma decode_field_json:
  "decode_field_def (field_json n ty) =
     Some \<lparr>fdName = n, fdType = ty, fdRequired = False, fdValues = []\<rparr>"
  "decode_field_def (required_json n ty) =
     Some \<lparr>fdName = n, fdType = ty, fdRequired = True, fdValues = []\<rparr>"
  by (simp_all add: decode_field_def_def field_json_def required_json_def decode_struct_def
      fold_eq_def ascii_upper_def decode_string_def decode_bool_def)

lemma decode_enum_json:
  "decode_field_def (enum_json n vs) =
     Some \<lparr>fdName = n, fdType = ''enum'', fdRequired = False, fdValues = vs\<rparr>"
proof -
  have "those (map (\<lambda>x. decode_string x []) (map JStr vs)) = Some vs"
    by (induction vs) (simp_all add: decode_string_def)
  then show ?thesis
    by (simp add: decode_field_def_def enum_json_def decode_struct_def fold_eq_def ascii_upper_def
        decode_string_def decode_strings_def)
qed

lemma decode_type_json:
  "decode_type_config (Raw (type_json kind fs)) =
     map_option (\<lambda>ds. \<lparr>tcKind = kind, tcFields = ds\<rparr>) (those (map decode_field_def fs))"
  by (simp add: decode_type_config_def type_json_def decode_struct_def fold_eq_def ascii_upper_def
      decode_string_def decode_field_defs_def option.map_comp comp_def split: option.split)

definition known_field_types :: "string list" where
  "known_field_types =
     [''string'', ''integer'', ''float'', ''boolean'', ''timestamp'', ''enum'', ''string[]'',
      ''enum[]'', ''json'']"

definition usable :: "type_config \<Rightarrow> bool" where
  "usable tc \<longleftrightarrow>
     Kind_IsValid (tcKind tc) \<and> distinct (map fdName (tcFields tc))
     \<and> list_all (\<lambda>d. fdType d \<in> set known_field_types) (tcFields tc)"

definition builtin_usable :: "config \<Rightarrow> bool" where
  "builtin_usable c \<longleftrightarrow>
     (has_prefix (kKey c) ''type:'' \<longrightarrow> (\<exists>tc. decode_type_config (kValue c) = Some tc \<and> usable tc))"

lemma builtin_usable_type:
  "(case those (map decode_field_def fs) of
      None \<Rightarrow> False | Some ds \<Rightarrow> usable \<lparr>tcKind = kind, tcFields = ds\<rparr>) \<Longrightarrow>
   builtin_usable (builtin k (type_json kind fs))"
  by (simp add: builtin_usable_def builtin_def decode_type_json split: option.splits)

lemma all_builtin_usable: "list_all builtin_usable builtinConfigs"
  unfolding builtinConfigs_def list.pred_inject
  by (intro conjI TrueI builtin_usable_type)
    (simp_all add: decode_field_json decode_enum_json usable_def known_field_types_def
      Kind_IsValid_def builtin_usable_def builtin_def has_prefix_def)

lemma resolve_run:
  assumes "faults s = []"
  shows "resolveTypeConfig ty s =
    (case effective (db s) (''type:'' @ ty) of
       None \<Rightarrow> (Inr None, s)
     | Some c \<Rightarrow> (case decode_type_config (kValue c) of
                    None \<Rightarrow> (Inl json_error, s) | Some tc \<Rightarrow> (Inr (Some tc), s)))"
  using assms
  by (auto simp: resolveTypeConfig_def Let_def attempt_def queryGetConfig_def stmt_no_faults
      sql_select_config_def effective_def ret_def fail_def split: option.splits)

text \<open>
  C17: every builtin type that is not overridden resolves to a usable definition: a valid
  kind, distinct field names, and field types the validation knows.
\<close>

theorem builtin_types_resolve:
  assumes "faults s = []" and "find_config (''type:'' @ ty) (db s) = None"
    and "find_builtin (''type:'' @ ty) \<noteq> None"
  shows "\<exists>tc. resolveTypeConfig ty s = (Inr (Some tc), s) \<and> usable tc"
proof -
  obtain c where c: "find_builtin (''type:'' @ ty) = Some c" using assms(3) by auto
  then have "c \<in> set builtinConfigs" "kKey c = ''type:'' @ ty" by (simp_all add: find_builtin_iff)
  then have "builtin_usable c" "has_prefix (kKey c) ''type:''"
    using all_builtin_usable by (auto simp: list_all_iff has_prefix_def)
  then obtain tc where "decode_type_config (kValue c) = Some tc" "usable tc"
    by (auto simp: builtin_usable_def)
  then show ?thesis
    using c assms(2) by (simp add: resolve_run [OF assms(1)] effective_def)
qed

lemma builtin_types_resolve_witness:
  "\<exists>tc. resolveTypeConfig ''decision'' (idle_server no_tables) = (Inr (Some tc), idle_server no_tables)
        \<and> usable tc"
  by (rule builtin_types_resolve)
    (simp_all add: find_config_def no_tables_def find_builtin_def builtinConfigs_def builtin_def)

subsection \<open>What the operations keep\<close>

lemma sound_resolveTypeConfig [sound_ops]: "returns sound (resolveTypeConfig ty) any"
  unfolding resolveTypeConfig_def Let_def
  by (intro returns_attempt [where P = any] sound_ops)
    (auto intro: returns_basic split: option.split sum.split)

lemma sound_listConfigsWithBuiltins [sound_ops]: "returns sound (listConfigsWithBuiltins ns) any"
  unfolding listConfigsWithBuiltins_def by (intro returns_basic sound_ops TrueI)

end
