(* ===== verification/Beads.thy ===== *)
theory Beads
  imports Configs
begin

text \<open>
  Creating, patching and merging beads (\<open>internal/server/beads.go\<close>, and \<open>mergeBeadFields\<close>
  of \<open>http.go\<close>): the transport-agnostic operations with every statement they run, what a
  success has stored and published, and what a failure leaves behind.
\<close>

subsection \<open>Inputs\<close>

record create_input =
  iTitle :: string
  iKind :: string
  iType :: string
  iDescription :: string
  iNotes :: string
  iPriority :: int
  iAssignee :: string
  iOwner :: string
  iLabels :: "string list"
  iCreatedBy :: string
  iFields :: raw
  iDueAt :: "time option"
  iDeferUntil :: "time option"

text \<open>A \<open>nil\<close> pointer, slice or message is \<^const>\<open>None\<close> or \<^const>\<open>RawNil\<close>.\<close>

record update_input =
  uTitle :: "string option"
  uDescription :: "string option"
  uNotes :: "string option"
  uStatus :: "string option"
  uPriority :: "int option"
  uAssignee :: "string option"
  uOwner :: "string option"
  uDueAt :: "time option"
  uDeferUntil :: "time option"
  uFields :: raw
  uLabels :: "string list option"
  uDueAtSet :: bool
  uDeferUntilSet :: bool
  uLabelsSet :: bool

subsection \<open>Creating\<close>

definition new_bead :: "time \<Rightarrow> string \<Rightarrow> string \<Rightarrow> string \<Rightarrow> create_input \<Rightarrow> bead" where
  "new_bead tm i ty kind inp =
     \<lparr>bID = i, bSlug = [], bKind = kind, bType = ty, bTitle = iTitle inp,
      bDescription = iDescription inp, bNotes = iNotes inp, bStatus = StatusOpen,
      bPriority = iPriority inp, bAssignee = iAssignee inp, bOwner = iOwner inp,
      bCreatedAt = tm, bCreatedBy = iCreatedBy inp, bUpdatedAt = tm, bClosedAt = None,
      bClosedBy = [], bDueAt = iDueAt inp, bDeferUntil = iDeferUntil inp,
      bFields = (if \<not> raw_empty (iFields inp) then iFields inp else RawNil),
      bLabels = iLabels inp, bDependencies = [], bComments = []\<rparr>"

text \<open>The transaction: the row, then the labels one by one.\<close>

definition insert_with_labels :: "bead \<Rightarrow> ('z pg_scheme, unit) op" where
  "insert_with_labels b =
     and_then (wrap ''failed to create bead'' (queryCreateBead b)) (\<lambda>_.
       for_each (\<lambda>l. wrap (''failed to add label '' @ go_quote l) (queryAddLabel (bID b) l)) (bLabels b))"

definition announce_created :: "bead \<Rightarrow> ('w server, bead) op" where
  "announce_created b =
     and_then (recordAndPublish TopicBeadCreated (bID b) (bCreatedBy b) (BeadCreated b)) (\<lambda>_.
     and_then (if bType b = TypeAdvice
               then recordAndPublish TopicAdviceCreated (bID b) (bCreatedBy b) (AdviceCreated b)
               else ret ()) (\<lambda>_.
     ret b))"

text \<open>\<open>gen\<close> is the outcome of \<open>idgen.Generate()\<close>.\<close>

definition createBead :: "string res \<Rightarrow> create_input \<Rightarrow> ('w server, bead) op" where
  "createBead gen inp =
     (if iTitle inp = [] then fail (InputError ''title is required'')
      else case gen of
        Inl e \<Rightarrow> fail (WrapErr ''failed to generate ID'' e)
      | Inr i \<Rightarrow>
          (let ty = resolve_alias (iType inp) in
           and_then (wrap ''failed to resolve type config'' (resolveTypeConfig ty)) (\<lambda>r.
             case r of
               None \<Rightarrow> fail (InputError (''unknown bead type '' @ ty))
             | Some tc \<Rightarrow>
                 and_then get_state (\<lambda>s.
                   let b = new_bead (now s) i ty (tcKind tc) inp in
                   if ValidateBead b \<noteq> [] then
                     fail (InputError (''invalid bead: '' @ ve_text (ValidateBead b)))
                   else if ValidateFields (bFields b) (tcFields tc) \<noteq> [] then
                     fail (InputError (''invalid fields: ''
                             @ ve_text (ValidateFields (bFields b) (tcFields tc))))
                   else
                     and_then (RunInTransaction (insert_with_labels b)) (\<lambda>_.
                     announce_created b)))))"

subsection \<open>Patching\<close>

type_synonym changes = "(string \<times> json) list"

definition set_if ::
  "'a option \<Rightarrow> ('a \<Rightarrow> bead \<Rightarrow> bead) \<Rightarrow> string \<Rightarrow> ('a \<Rightarrow> json) \<Rightarrow> bead \<times> changes \<Rightarrow> bead \<times> changes" where
  "set_if v f k j bc =
     (case v of None \<Rightarrow> bc | Some x \<Rightarrow> (f x (fst bc), snd bc @ [(k, j x)]))"

definition time_json :: "(time \<Rightarrow> string) \<Rightarrow> time option \<Rightarrow> json" where
  "time_json fmt t = (case t of None \<Rightarrow> JNull | Some tm \<Rightarrow> JStr (fmt tm))"

text \<open>A zero time clears the column.\<close>

definition unzero :: "time option \<Rightarrow> time option" where
  "unzero t = (if t = Some 0 then None else t)"

definition patch_columns ::
  "(time \<Rightarrow> string) \<Rightarrow> update_input \<Rightarrow> bead \<times> changes \<Rightarrow> bead \<times> changes" where
  "patch_columns fmt u bc =
     (let bc = set_if (uTitle u) (\<lambda>x b. b\<lparr>bTitle := x\<rparr>) ''title'' JStr bc;
          bc = set_if (uDescription u) (\<lambda>x b. b\<lparr>bDescription := x\<rparr>) ''description'' JStr bc;
          bc = set_if (uNotes u) (\<lambda>x b. b\<lparr>bNotes := x\<rparr>) ''notes'' JStr bc;
          bc = set_if (uStatus u) (\<lambda>x b. b\<lparr>bStatus := x\<rparr>) ''status'' JStr bc;
          bc = set_if (uPriority u) (\<lambda>x b. b\<lparr>bPriority := x\<rparr>) ''priority'' JInt bc;
          bc = set_if (uAssignee u) (\<lambda>x b. b\<lparr>bAssignee := x\<rparr>) ''assignee'' JStr bc;
          bc = set_if (uOwner u) (\<lambda>x b. b\<lparr>bOwner := x\<rparr>) ''owner'' JStr bc;
          bc = set_if (if uDueAtSet u then Some (unzero (uDueAt u)) else None)
                 (\<lambda>x b. b\<lparr>bDueAt := x\<rparr>) ''due_at'' (time_json fmt) bc
      in set_if (if uDeferUntilSet u then Some (unzero (uDeferUntil u)) else None)
           (\<lambda>x b. b\<lparr>bDeferUntil := x\<rparr>) ''defer_until'' (time_json fmt) bc)"

text \<open>The merge of field objects, in \<open>updateBead\<close> and in \<open>mergeBeadFields\<close>.\<close>

definition existing_fields :: "raw \<Rightarrow> gomap" where
  "existing_fields f = (if \<not> raw_empty f then fst (unmarshal_map f (Some [])) else Some [])"

definition merge_fields :: "raw \<Rightarrow> raw \<Rightarrow> raw res" where
  "merge_fields f patch =
     (case (case unmarshal_map patch None of
              (m, True) \<Rightarrow> assign_all (gomap_list m) (existing_fields f)
            | (_, False) \<Rightarrow> Inr (existing_fields f)) of
        Inl e \<Rightarrow> Inl e
      | Inr m \<Rightarrow> Inr (marshal_map m))"

definition raw_json :: "raw \<Rightarrow> json" where
  "raw_json r = (case r of Raw j \<Rightarrow> j | _ \<Rightarrow> JNull)"

definition patch_fields :: "update_input \<Rightarrow> bead \<times> changes \<Rightarrow> (bead \<times> changes) res" where
  "patch_fields u bc =
     (if uFields u = RawNil then Inr bc
      else case merge_fields (bFields (fst bc)) (uFields u) of
        Inl e \<Rightarrow> Inl e
      | Inr f \<Rightarrow> Inr ((fst bc)\<lparr>bFields := f\<rparr>, snd bc @ [(''fields'', raw_json f)]))"

definition labels_json :: "string list option \<Rightarrow> json" where
  "labels_json ls = (case ls of None \<Rightarrow> JNull | Some xs \<Rightarrow> JArr (map JStr xs))"

definition patch_labels :: "update_input \<Rightarrow> bead \<times> changes \<Rightarrow> bead \<times> changes" where
  "patch_labels u bc =
     (if uLabelsSet u
      then ((fst bc)\<lparr>bLabels := (case uLabels u of None \<Rightarrow> [] | Some ls \<Rightarrow> ls)\<rparr>,
            snd bc @ [(''labels'', labels_json (uLabels u))])
      else bc)"

definition reconcile_closed :: "(time \<Rightarrow> string) \<Rightarrow> time \<Rightarrow> bead \<times> changes \<Rightarrow> bead \<times> changes" where
  "reconcile_closed fmt tm bc =
     (let bc = (if bStatus (fst bc) = StatusClosed \<and> bClosedAt (fst bc) = None
                then ((fst bc)\<lparr>bClosedAt := Some tm\<rparr>, snd bc @ [(''closed_at'', JStr (fmt tm))])
                else bc)
      in if bStatus (fst bc) \<noteq> StatusClosed \<and> bClosedAt (fst bc) \<noteq> None
         then ((fst bc)\<lparr>bClosedAt := None\<rparr>, snd bc @ [(''closed_at'', JNull)])
         else bc)"

definition patch_bead ::
  "(time \<Rightarrow> string) \<Rightarrow> time \<Rightarrow> update_input \<Rightarrow> bead \<Rightarrow> (bead \<times> changes) res" where
  "patch_bead fmt tm u b =
     (case patch_fields u (patch_columns fmt u (b, [])) of
        Inl e \<Rightarrow> Inl e
      | Inr bc \<Rightarrow>
          (case reconcile_closed fmt tm (patch_labels u bc) of
             (b, ch) \<Rightarrow> Inr (b\<lparr>bUpdatedAt := tm\<rparr>, ch)))"

definition reconcileLabels :: "string \<Rightarrow> string list \<Rightarrow> ('z pg_scheme, unit) op" where
  "reconcileLabels bid newLabels =
     and_then (queryGetLabels bid) (\<lambda>existing.
     and_then (for_each (\<lambda>l. if l \<notin> set newLabels then queryRemoveLabel bid l else ret ()) existing) (\<lambda>_.
     for_each (\<lambda>l. if l \<notin> set existing then queryAddLabel bid l else ret ()) newLabels))"

definition check_patched_fields :: "update_input \<Rightarrow> bead \<Rightarrow> ('z pg_scheme, unit) op" where
  "check_patched_fields u b =
     (if uFields u = RawNil then ret ()
      else and_then (wrap ''failed to resolve type config'' (resolveTypeConfig (bType b))) (\<lambda>r.
        case r of
          None \<Rightarrow> ret ()
        | Some tc \<Rightarrow>
            if ValidateFields (bFields b) (tcFields tc) \<noteq> [] then
              fail (InputError (''invalid fields: ''
                      @ ve_text (ValidateFields (bFields b) (tcFields tc))))
            else ret ()))"

definition announce_updated :: "bead \<Rightarrow> changes \<Rightarrow> ('w server, bead) op" where
  "announce_updated b ch =
     and_then (recordAndPublish TopicBeadUpdated (bID b) [] (BeadUpdated b ch)) (\<lambda>_.
     and_then (if bType b = TypeAdvice
               then recordAndPublish TopicAdviceUpdated (bID b) [] (AdviceUpdated b ch)
               else ret ()) (\<lambda>_.
     ret b))"

text \<open>\<open>Scan\<close> writes the time of the database into the bead that is announced and returned.\<close>

definition updateBead :: "string \<Rightarrow> update_input \<Rightarrow> ('w server, bead) op" where
  "updateBead bid u =
     and_then (queryGetBead bid) (\<lambda>b0.
     and_then get_state (\<lambda>s.
       case patch_bead (svFmt s) (now s) u b0 of
         Inl e \<Rightarrow> fail e
       | Inr (b, ch) \<Rightarrow>
           if ValidateBead b \<noteq> [] then
             fail (InputError (''invalid bead: '' @ ve_text (ValidateBead b)))
           else
             and_then (check_patched_fields u b) (\<lambda>_.
             and_then (wrap ''failed to update bead'' (queryUpdateBead b)) (\<lambda>tm.
             and_then (if uLabelsSet u
                       then wrap ''failed to reconcile labels'' (reconcileLabels (bID b) (bLabels b))
                       else ret ()) (\<lambda>_.
             announce_updated (b\<lparr>bUpdatedAt := tm\<rparr>) ch)))))"

text \<open>\<open>mergeBeadFields\<close>: neither the bead nor the fields are validated.\<close>

definition mergeBeadFields :: "string \<Rightarrow> (string \<times> json) list \<Rightarrow> ('z pg_scheme, unit) op" where
  "mergeBeadFields bid extra =
     and_then (wrap ''get bead'' (queryGetBead bid)) (\<lambda>b.
       case assign_all extra (existing_fields (bFields b)) of
         Inl e \<Rightarrow> fail e
       | Inr m \<Rightarrow> and_then (queryUpdateBead (b\<lparr>bFields := marshal_map m\<rparr>)) (\<lambda>_. ret ()))"

definition reportTypeFromLabels :: "string list \<Rightarrow> string" where
  "reportTypeFromLabels labels =
     (case List.find (\<lambda>l. has_prefix l ''report:'') labels of
        Some l \<Rightarrow> trim_prefix l ''report:'' | None \<Rightarrow> [])"

subsection \<open>Every bead written is valid\<close>

lemma keeps_insert_with_labels: "keeps pg_step (insert_with_labels b)"
  unfolding insert_with_labels_def by (intro keeps_basic store_keeps)

lemma sound_insert_with_labels: "bead_valid b \<Longrightarrow> returns sound (insert_with_labels b) any"
  unfolding insert_with_labels_def
  by (intro returns_basic returns_for_each sound_queryCreateBead sound_ops TrueI)

lemma sound_announce_created: "Q b \<Longrightarrow> returns sound (announce_created b) Q"
  unfolding announce_created_def
  by (auto intro!: returns_ret returns_and_then [where P = any] sound_ops)

lemma sound_announce_updated: "Q b \<Longrightarrow> returns sound (announce_updated b ch) Q"
  unfolding announce_updated_def
  by (auto intro!: returns_ret returns_and_then [where P = any] sound_ops)

lemma sound_createBead [sound_ops]: "returns sound (createBead gen inp) bead_valid"
proof -
  have step: "returns sound
      (if ValidateBead b \<noteq> [] then fail e1
       else if c then fail e2
       else and_then (RunInTransaction (insert_with_labels b)) (\<lambda>_. announce_created b)) bead_valid"
    for b e1 e2 c
    by (auto simp: ValidateBead_Nil intro!: returns_fail returns_and_then [where P = any]
        sound_RunInTransaction keeps_insert_with_labels sound_insert_with_labels
        sound_announce_created)
  show ?thesis
    unfolding createBead_def Let_def
    by (auto intro!: returns_fail returns_and_then [where P = any] returns_wrap sound_ops
        returns_get_state [THEN returns_any] step split: sum.split option.split)
qed

lemma sound_reconcileLabels [sound_ops]: "returns sound (reconcileLabels i ls) any"
  unfolding reconcileLabels_def
  by (auto intro!: returns_ret returns_and_then [where P = any] returns_for_each sound_ops)

lemma sound_check_patched_fields [sound_ops]: "returns sound (check_patched_fields u b) any"
  unfolding check_patched_fields_def
  by (auto intro!: returns_ret returns_fail returns_wrap returns_and_then [where P = any] sound_ops
      split: option.split)

lemma bead_valid_time [simp]: "bead_valid (b\<lparr>bUpdatedAt := tm\<rparr>) = bead_valid b"
  by (simp add: bead_valid_def)

lemma sound_updateBead [sound_ops]: "returns sound (updateBead i u) bead_valid"
  unfolding updateBead_def
  by (auto intro!: returns_ret returns_fail returns_wrap returns_and_then [where P = any] sound_ops
      sound_queryGetBead [THEN returns_any] returns_get_state [THEN returns_any]
      sound_queryUpdateBead sound_announce_updated
      simp: ValidateBead_Nil split: sum.split prod.split)

lemma bead_valid_merged: "bead_valid b \<Longrightarrow> bead_valid (b\<lparr>bFields := marshal_map m\<rparr>)"
  by (auto simp: bead_valid_def marshal_map_def split: option.split)

lemma sound_mergeBeadFields [sound_ops]: "returns sound (mergeBeadFields i extra) any"
  unfolding mergeBeadFields_def
proof (rule returns_and_then)
  show "returns sound (wrap ''get bead'' (queryGetBead i)) bead_valid"
    by (rule returns_wrap, rule returns_mono, rule sound_queryGetBead) simp
next
  fix b assume "bead_valid b"
  then show "returns sound (case assign_all extra (existing_fields (bFields b)) of
        Inl e \<Rightarrow> fail e
      | Inr m \<Rightarrow> and_then (queryUpdateBead (b\<lparr>bFields := marshal_map m\<rparr>)) (\<lambda>_. ret ())) any"
    by (auto intro!: returns_ret returns_fail returns_and_then [where P = any]
        sound_queryUpdateBead bead_valid_merged split: sum.split)
qed

subsection \<open>Labels\<close>

text \<open>Only the label rows changed.\<close>

definition same_but_labels :: "tables \<Rightarrow> tables \<Rightarrow> bool" where
  "same_but_labels t t' \<longleftrightarrow> t' = t\<lparr>tLabels := tLabels t'\<rparr>"

lemma same_but_labels_refl [simp]: "same_but_labels t t"
  by (simp add: same_but_labels_def)

lemma same_but_labels_trans: "same_but_labels t u \<Longrightarrow> same_but_labels u v \<Longrightarrow> same_but_labels t v"
  by (cases t, cases u, cases v) (simp add: same_but_labels_def)

lemma same_but_labelsD:
  "same_but_labels t t' \<Longrightarrow>
   tBeads t' = tBeads t \<and> tDeps t' = tDeps t \<and> tComments t' = tComments t
   \<and> tConfigs t' = tConfigs t \<and> tGates t' = tGates t"
  by (cases t, cases t') (simp add: same_but_labels_def)

lemma set_labels_of: "l \<in> set (labels_of i t) \<longleftrightarrow> (i, l) \<in> set (tLabels t)"
  by (force simp: labels_of_def)

lemma queryAddLabel_run:
  "queryAddLabel i l s = (Inr u, s') \<Longrightarrow>
   same_but_labels (db s) (db s') \<and> set (tLabels (db s')) = insert (i, l) (set (tLabels (db s)))"
  by (auto simp: queryAddLabel_def stmt_Inr sql_insert_label_def same_but_labels_def split: if_splits)

lemma queryRemoveLabel_run:
  "queryRemoveLabel i l s = (Inr u, s') \<Longrightarrow>
   same_but_labels (db s) (db s') \<and> set (tLabels (db s')) = set (tLabels (db s)) - {(i, l)}"
  by (auto simp: queryRemoveLabel_def stmt_Inr sql_delete_label_def same_but_labels_def)

text \<open>A loop that adds, and a loop that removes, the labels that satisfy a condition.\<close>

lemma add_labels_run:
  assumes "\<And>l s u s'. add l s = (Inr u, s') \<Longrightarrow> queryAddLabel i l s = (Inr u, s')"
  shows "for_each (\<lambda>l. if P l then add l else ret ()) ls s = (Inr u, s') \<Longrightarrow>
   same_but_labels (db s) (db s')
   \<and> set (tLabels (db s')) = set (tLabels (db s)) \<union> {(i, l) | l. l \<in> set ls \<and> P l}"
proof (induction ls arbitrary: s)
  case (Cons l ls)
  then obtain u1 s1 where
    h: "(if P l then add l else ret ()) s = (Inr u1, s1)" and
    t: "for_each (\<lambda>l. if P l then add l else ret ()) ls s1 = (Inr u, s')"
    by (auto simp: and_then_Inr)
  have "same_but_labels (db s) (db s1)
      \<and> set (tLabels (db s1)) = set (tLabels (db s)) \<union> {(i, l') | l'. l' = l \<and> P l'}"
    using h by (auto simp: ret_Inr dest!: assms queryAddLabel_run split: if_splits)
  with Cons.IH [OF t] show ?case by (auto intro: same_but_labels_trans)
qed (auto simp: ret_Inr)

lemma remove_labels_run:
  "for_each (\<lambda>l. if P l then queryRemoveLabel i l else ret ()) ls s = (Inr u, s') \<Longrightarrow>
   same_but_labels (db s) (db s')
   \<and> set (tLabels (db s')) = set (tLabels (db s)) - {(i, l) | l. l \<in> set ls \<and> P l}"
proof (induction ls arbitrary: s)
  case (Cons l ls)
  then obtain u1 s1 where
    h: "(if P l then queryRemoveLabel i l else ret ()) s = (Inr u1, s1)" and
    t: "for_each (\<lambda>l. if P l then queryRemoveLabel i l else ret ()) ls s1 = (Inr u, s')"
    by (auto simp: and_then_Inr)
  have "same_but_labels (db s) (db s1)
      \<and> set (tLabels (db s1)) = set (tLabels (db s)) - {(i, l') | l'. l' = l \<and> P l'}"
    using h by (auto simp: ret_Inr dest!: queryRemoveLabel_run split: if_splits)
  with Cons.IH [OF t] show ?case by (auto intro: same_but_labels_trans)
qed (auto simp: ret_Inr)

lemma reconcileLabels_run:
  assumes "reconcileLabels i ls s = (Inr u, s')"
  shows "same_but_labels (db s) (db s')"
    and "(j, l) \<in> set (tLabels (db s')) \<longleftrightarrow> (if j = i then l \<in> set ls else (j, l) \<in> set (tLabels (db s)))"
proof -
  obtain ex s1 u1 s2 where g: "queryGetLabels i s = (Inr ex, s1)"
    and r: "for_each (\<lambda>l. if l \<notin> set ls then queryRemoveLabel i l else ret ()) ex s1 = (Inr u1, s2)"
    and a: "for_each (\<lambda>l. if l \<notin> set ex then queryAddLabel i l else ret ()) ls s2 = (Inr u, s')"
    using assms by (auto simp: reconcileLabels_def and_then_Inr)
  have ex: "ex = labels_of i (db s)" "db s1 = db s"
    using g select_Inr [of "labels_of i"] by (auto simp: queryGetLabels_def)
  note a' = add_labels_run [of "queryAddLabel i" i "\<lambda>l. l \<notin> set ex", OF _ a]
  note r' = remove_labels_run [OF r]
  show "same_but_labels (db s) (db s')"
    using r' a' ex(2) by (auto intro: same_but_labels_trans)
  have "l \<in> set ex \<longleftrightarrow> (i, l) \<in> set (tLabels (db s))" for l
    by (simp add: ex(1) set_labels_of)
  then show "(j, l) \<in> set (tLabels (db s')) \<longleftrightarrow>
      (if j = i then l \<in> set ls else (j, l) \<in> set (tLabels (db s)))"
    using r' a' ex(2) by auto
qed

subsection \<open>What a creation stores and publishes\<close>

lemma for_each_True: "for_each f xs = for_each (\<lambda>x. if True then f x else ret ()) xs"
  by simp

lemma insert_with_labels_run:
  assumes "insert_with_labels b s = (Inr u, s')"
  shows "\<exists>f. jsonb_store (bFields b) = Some f \<and> bID b \<notin> bead_ids (db s)
    \<and> tBeads (db s') = tBeads (db s) @ [bead_row b f]
    \<and> set (tLabels (db s')) = set (tLabels (db s)) \<union> {(bID b, l) | l. l \<in> set (bLabels b)}"
proof -
  let ?add = "\<lambda>l. wrap (''failed to add label '' @ go_quote l) (queryAddLabel (bID b) l)"
  obtain u1 s1 where c: "queryCreateBead b s = (Inr u1, s1)"
    and l: "for_each (\<lambda>l. if True then ?add l else ret ()) (bLabels b) s1 = (Inr u, s')"
    using assms by (auto simp: insert_with_labels_def and_then_Inr wrap_Inr)
  obtain f where f: "jsonb_store (bFields b) = Some f" "bID b \<notin> bead_ids (db s)"
    "db s1 = db s\<lparr>tBeads := tBeads (db s) @ [bead_row b f]\<rparr>"
    using c by (auto simp: queryCreateBead_def stmt_Inr sql_insert_bead_def split: option.splits if_splits)
  have "same_but_labels (db s1) (db s') \<and>
      set (tLabels (db s')) = set (tLabels (db s1)) \<union> {(bID b, l) | l. l \<in> set (bLabels b) \<and> True}"
    by (rule add_labels_run [OF _ l]) (simp add: wrap_Inr)
  then show ?thesis using f same_but_labelsD [of "db s1" "db s'"] by auto
qed

lemma marshal_created:
  assumes "bead_valid b"
  shows "marshal_event fmt (BeadCreated b) \<noteq> None" "marshal_event fmt (AdviceCreated b) \<noteq> None"
    and "marshal_event fmt (BeadUpdated b ch) \<noteq> None" "marshal_event fmt (AdviceUpdated b ch) \<noteq> None"
    and "marshal_event fmt (BeadClosed b who) \<noteq> None"
proof -
  have "bead_json fmt b \<noteq> None"
    using assms by (cases "bFields b") (auto simp: bead_json_def bead_valid_def)
  then show "marshal_event fmt (BeadCreated b) \<noteq> None" "marshal_event fmt (AdviceCreated b) \<noteq> None"
    "marshal_event fmt (BeadUpdated b ch) \<noteq> None" "marshal_event fmt (AdviceUpdated b ch) \<noteq> None"
    "marshal_event fmt (BeadClosed b who) \<noteq> None"
    by simp_all
qed

text \<open>Two announcements one after the other, the second for advice only.\<close>

lemma announce_run:
  assumes run: "and_then (recordAndPublish tp1 i a ev1) (\<lambda>_.
      and_then (if c then recordAndPublish tp2 i a ev2 else ret ()) (\<lambda>_. ret x)) s = (r, s')"
    and m: "\<And>fmt. marshal_event fmt ev1 \<noteq> None" "\<And>fmt. marshal_event fmt ev2 \<noteq> None"
  shows "r = Inr x \<and> same_but_events (db s) (db s')
    \<and> svOutbox s' = svOutbox s @ [(tp1, ev1)] @ (if c then [(tp2, ev2)] else [])"
proof -
  obtain s1 where s1: "recordAndPublish tp1 i a ev1 s = (Inr (), s1)"
    using recordAndPublish_ok [of tp1 i a ev1 s] by (metis prod.collapse)
  obtain s2 where s2: "recordAndPublish tp2 i a ev2 s1 = (Inr (), s2)"
    using recordAndPublish_ok [of tp2 i a ev2 s1] by (metis prod.collapse)
  have "same_but_events (db s) (db s1)" "svOutbox s1 = svOutbox s @ [(tp1, ev1)]"
    using recordAndPublish_effect(1) [of s tp1 i a ev1] recordAndPublish_effect(2) [of tp1 i a ev1 s]
      m(1) by (simp_all add: s1)
  moreover have "same_but_events (db s1) (db s2)" "svOutbox s2 = svOutbox s1 @ [(tp2, ev2)]"
    using recordAndPublish_effect(1) [of s1 tp2 i a ev2] recordAndPublish_effect(2) [of tp2 i a ev2 s1]
      m(2) by (simp_all add: s2)
  ultimately show ?thesis
    using run s1 s2 by (auto simp: and_then_def ret_def split: if_splits intro: same_but_events_trans)
qed

lemma announce_created_run:
  "announce_created b s = (r, s') \<Longrightarrow> bead_valid b \<Longrightarrow>
   r = Inr b \<and> same_but_events (db s) (db s')
   \<and> svOutbox s' = svOutbox s @ [(TopicBeadCreated, BeadCreated b)]
        @ (if bType b = TypeAdvice then [(TopicAdviceCreated, AdviceCreated b)] else [])"
  unfolding announce_created_def by (rule announce_run) (assumption | rule marshal_created)+

lemma announce_updated_run:
  "announce_updated b ch s = (r, s') \<Longrightarrow> bead_valid b \<Longrightarrow>
   r = Inr b \<and> same_but_events (db s) (db s')
   \<and> svOutbox s' = svOutbox s @ [(TopicBeadUpdated, BeadUpdated b ch)]
        @ (if bType b = TypeAdvice then [(TopicAdviceUpdated, AdviceUpdated b ch)] else [])"
  unfolding announce_updated_def by (rule announce_run) (assumption | rule marshal_created)+

text \<open>Resolving a type reads only.\<close>

definition read_step :: "'z pg_scheme \<Rightarrow> 'z pg_scheme \<Rightarrow> bool" where
  "read_step s s' \<longleftrightarrow>
     db s' = db s \<and> now s' = now s \<and> db_now s' = db_now s \<and> pg.more s' = pg.more s"

interpretation read_step: state_relation read_step
  by unfold_locales (auto simp: read_step_def)

lemma reads_stmt: "(\<And>t. snd (f t) = t) \<Longrightarrow> keeps read_step (stmt f)"
  by (auto simp: keeps_def stmt_def run_sql_def read_step_def
      split: prod.splits list.splits option.splits) (metis snd_conv)+

lemma reads_resolveTypeConfig: "keeps read_step (resolveTypeConfig ty)"
  unfolding resolveTypeConfig_def Let_def queryGetConfig_def
  by (intro read_step.keeps_ops reads_stmt)
    (auto simp: sql_select_config_def intro: read_step.keeps_ops split: option.split sum.split)

lemma read_stepD:
  "keeps read_step m \<Longrightarrow> m s = (r, s') \<Longrightarrow>
   db s' = db s \<and> now s' = now s \<and> db_now s' = db_now s \<and> pg.more s' = pg.more s"
  unfolding keeps_def read_step_def by (metis snd_conv)

text \<open>The steps of a creation that succeeds.\<close>

lemma createBead_steps:
  assumes "createBead gen inp s = (Inr b, s')"
  obtains i tc s1 s2 where "gen = Inr i" "iTitle inp \<noteq> []"
    "resolveTypeConfig (resolve_alias (iType inp)) s = (Inr (Some tc), s1)"
    "b = new_bead (now s1) i (resolve_alias (iType inp)) (tcKind tc) inp"
    "bead_valid b" "ValidateFields (bFields b) (tcFields tc) = []"
    "RunInTransaction (insert_with_labels b) s1 = (Inr (), s2)"
    "announce_created b s2 = (Inr b, s')"
proof -
  obtain i where i: "gen = Inr i" "iTitle inp \<noteq> []"
    using assms by (auto simp: createBead_def fail_Inr split: if_splits sum.splits)
  obtain tc s1 where r: "resolveTypeConfig (resolve_alias (iType inp)) s = (Inr (Some tc), s1)"
    and rest: "(let b = new_bead (now s1) i (resolve_alias (iType inp)) (tcKind tc) inp in
       if ValidateBead b \<noteq> [] then fail (InputError (''invalid bead: '' @ ve_text (ValidateBead b)))
       else if ValidateFields (bFields b) (tcFields tc) \<noteq> [] then
         fail (InputError (''invalid fields: '' @ ve_text (ValidateFields (bFields b) (tcFields tc))))
       else and_then (RunInTransaction (insert_with_labels b)) (\<lambda>_. announce_created b)) s1 =
       (Inr b, s')"
    using assms i
    by (auto simp: createBead_def Let_def and_then_Inr wrap_Inr fail_Inr get_state_def
        split: option.splits)
  define b' where "b' = new_bead (now s1) i (resolve_alias (iType inp)) (tcKind tc) inp"
  have v: "bead_valid b'" "ValidateFields (bFields b') (tcFields tc) = []"
    using rest by (auto simp: Let_def b'_def [symmetric] fail_Inr ValidateBead_Nil split: if_splits)
  then obtain s2 where t: "RunInTransaction (insert_with_labels b') s1 = (Inr (), s2)"
    and an: "announce_created b' s2 = (Inr b, s')"
    using rest by (auto simp: Let_def b'_def [symmetric] ValidateBead_Nil and_then_Inr)
  have "b = b'" using announce_created_run [OF an v(1)] by simp
  then show thesis using that [OF i r _ _ _ t [folded \<open>b = b'\<close>]] v an by (simp add: b'_def)
qed

lemma and_then_Inl:
  "and_then m f s = (Inl e, s') \<longleftrightarrow>
   m s = (Inl e, s') \<or> (\<exists>x s1. m s = (Inr x, s1) \<and> f x s1 = (Inl e, s'))"
  by (auto simp: and_then_def split: prod.splits sum.splits)

lemma wrap_Inl: "wrap p m s = (Inl e, s') \<longleftrightarrow> (\<exists>e0. m s = (Inl e0, s') \<and> e = WrapErr p e0)"
  by (auto simp: wrap_def split: prod.splits sum.splits)

lemma same_rows_refl [simp]: "same_rows t t"
  by (simp add: same_rows_def)

lemma insert_transaction_fails:
  assumes "RunInTransaction (insert_with_labels b) s = (Inl e, s')"
  shows "same_rows (db s) (db s') \<and> pg.more s' = pg.more s"
proof -
  have "pg_step s s'"
    using keeps_RunInTransaction [OF keeps_insert_with_labels [of b]] assms
    unfolding keeps_def by (metis snd_conv)
  then show ?thesis
    using RunInTransaction_outcome [of s "insert_with_labels b"] assms by (simp add: pg_step_def)
qed

text \<open>
  C18: a creation is all or nothing. Whatever fails, be it the input, the type, the
  validation, the id, or any statement of the transaction, no row of any table has changed
  and nothing was published.
\<close>

theorem createBead_fails_clean:
  assumes "createBead gen inp s = (Inl e, s')"
  shows "same_rows (db s) (db s') \<and> svOutbox s' = svOutbox s \<and> svHub s' = svHub s"
proof -
  have more: "svOutbox t = svOutbox u \<and> svHub t = svHub u" if "pg.more t = pg.more u"
    for t u :: "'a server" using that by (cases t, cases u) simp
  have tx: "same_rows (db s) (db s') \<and> svOutbox s' = svOutbox s \<and> svHub s' = svHub s"
    if "and_then (RunInTransaction (insert_with_labels b)) (\<lambda>_. announce_created b) s1 = (Inl e, s')"
      and "bead_valid b" and "db s1 = db s \<and> pg.more s1 = pg.more s" for b s1
    using that(1)
  proof (unfold and_then_Inl, elim disjE exE conjE)
    assume "RunInTransaction (insert_with_labels b) s1 = (Inl e, s')"
    then have "same_rows (db s1) (db s') \<and> pg.more s' = pg.more s1"
      by (rule insert_transaction_fails)
    then show ?thesis using that(3) more [of s' s] by simp
  next
    fix u s2 assume "announce_created b s2 = (Inl e, s')"
    then show ?thesis using announce_created_run that(2) by blast
  qed
  show ?thesis
  proof (cases "iTitle inp = [] \<or> (\<exists>e. gen = Inl e)")
    case True
    then show ?thesis using assms by (auto simp: createBead_def fail_def split: if_splits)
  next
    case False
    then obtain i where i: "gen = Inr i" "iTitle inp \<noteq> []" by (cases gen) auto
    obtain r s1 where r: "resolveTypeConfig (resolve_alias (iType inp)) s = (r, s1)"
      by (cases "resolveTypeConfig (resolve_alias (iType inp)) s")
    have same: "db s1 = db s \<and> pg.more s1 = pg.more s"
      using read_stepD [OF reads_resolveTypeConfig r] by simp
    show ?thesis
    proof (cases "\<exists>tc. r = Inr (Some tc)")
      case False
      then have "s' = s1"
        using assms i r
        by (cases r) (auto simp: createBead_def Let_def and_then_def wrap_def fail_def
            split: option.splits)
      then show ?thesis using same more [of s1 s] by simp
    next
      case True
      then obtain tc where tc: "r = Inr (Some tc)" by auto
      define b where "b = new_bead (now s1) i (resolve_alias (iType inp)) (tcKind tc) inp"
      have "s' = s1 \<or> bead_valid b \<and>
          and_then (RunInTransaction (insert_with_labels b)) (\<lambda>_. announce_created b) s1 = (Inl e, s')"
        using assms i r tc
        by (auto simp: createBead_def Let_def and_then_def [of "wrap p m" for p m] wrap_def
            and_then_def [of get_state] get_state_def fail_def b_def [symmetric] ValidateBead_Nil
            split: if_splits)
      then show ?thesis using same more [of s1 s] tx [of b s1] by auto
    qed
  qed
qed

lemma same_but_eventsD:
  "same_but_events t t' \<Longrightarrow>
   tBeads t' = tBeads t \<and> tLabels t' = tLabels t \<and> tDeps t' = tDeps t \<and> tComments t' = tComments t
   \<and> tConfigs t' = tConfigs t \<and> tGates t' = tGates t"
  by (cases t, cases t') (simp add: same_but_events_def)

lemma find_bead_snoc:
  "tBeads t' = tBeads t @ [b] \<Longrightarrow> bID b \<notin> bead_ids t \<Longrightarrow>
   find_bead j t' = (if j = bID b then Some b else find_bead j t)"
proof -
  assume t': "tBeads t' = tBeads t @ [b]" and n: "bID b \<notin> bead_ids t"
  have "find_bead (bID b) t = None" using n find_bead_None [of "bID b" t] by blast
  moreover have "find_bead j t' =
      (case find_bead j t of None \<Rightarrow> if bID b = j then Some b else None | r \<Rightarrow> r)"
    by (simp add: find_bead_def t' find_append split: option.split)
  ultimately show ?thesis by (auto split: option.splits)
qed

lemma labels_of_fresh: "db_wf t \<Longrightarrow> i \<notin> bead_ids t \<Longrightarrow> (i, l) \<notin> set (tLabels t)"
  by (auto simp: db_wf_def refs_ok_def)

text \<open>
  C19: a creation that succeeds stored exactly one new bead: the one returned, made of the
  input, open, valid, under a fresh id, with exactly the requested labels; every other bead
  and its labels are as before; and it was announced once (and once more as advice).
\<close>

theorem createBead_stores:
  fixes s :: "'w server"
  assumes "createBead gen inp s = (Inr b, s')" and "db_wf (db s)"
  shows "gen = Inr (bID b) \<and> bead_valid b
    \<and> (\<exists>kind. b = new_bead (now s) (bID b) (resolve_alias (iType inp)) kind inp)
    \<and> find_bead (bID b) (db s) = None
    \<and> (\<exists>f. jsonb_store (bFields b) = Some f \<and> find_bead (bID b) (db s') = Some (bead_row b f))
    \<and> set (labels_of (bID b) (db s')) = set (iLabels inp)
    \<and> (\<forall>j. j \<noteq> bID b \<longrightarrow> find_bead j (db s') = find_bead j (db s)
          \<and> set (labels_of j (db s')) = set (labels_of j (db s)))
    \<and> svOutbox s' = svOutbox s @ [(TopicBeadCreated, BeadCreated b)]
        @ (if bType b = TypeAdvice then [(TopicAdviceCreated, AdviceCreated b)] else [])"
  using assms(1)
proof (rule createBead_steps)
  fix i tc s1 s2
  assume i: "gen = Inr i"
    and r: "resolveTypeConfig (resolve_alias (iType inp)) s = (Inr (Some tc), s1)"
    and b: "b = new_bead (now s1) i (resolve_alias (iType inp)) (tcKind tc) inp"
    and v: "bead_valid b"
    and t: "RunInTransaction (insert_with_labels b) s1 = (Inr (), s2)"
    and an: "announce_created b s2 = (Inr b, s')"
  have s1: "db s1 = db s" "now s1 = now s" "pg.more s1 = pg.more s"
    using read_stepD [OF reads_resolveTypeConfig r] by simp_all
  have bi: "bID b = i" "bLabels b = iLabels inp" by (simp_all add: b new_bead_def)
  obtain sa :: "'w server" where sa: "db sa = db s" "fst (insert_with_labels b sa) = Inr ()"
    "db s2 = db (snd (insert_with_labels b sa))"
    using RunInTransaction_outcome [of s1 "insert_with_labels b"] t s1(1) by auto
  obtain f where f: "jsonb_store (bFields b) = Some f" "bID b \<notin> bead_ids (db s)"
    "tBeads (db s2) = tBeads (db s) @ [bead_row b f]"
    "set (tLabels (db s2)) = set (tLabels (db s)) \<union> {(bID b, l) | l. l \<in> set (bLabels b)}"
  proof -
    have "insert_with_labels b sa = (Inr (), snd (insert_with_labels b sa))"
      using sa(2) by (simp add: prod_eq_iff)
    from insert_with_labels_run [OF this] show thesis using that sa(1,3) by auto
  qed
  have "pg.more s2 = pg.more s1"
    using keeps_RunInTransaction [OF keeps_insert_with_labels [of b]] t
    unfolding keeps_def pg_step_def by (metis snd_conv)
  then have out: "svOutbox s2 = svOutbox s" using s1(3) svOutbox_more by metis
  note ann = announce_created_run [OF an v]
  have beads: "tBeads (db s') = tBeads (db s) @ [bead_row b f]" and
    labels: "set (tLabels (db s')) = set (tLabels (db s)) \<union> {(bID b, l) | l. l \<in> set (bLabels b)}"
    using ann same_but_eventsD [of "db s2" "db s'"] f by simp_all
  have find: "find_bead j (db s') = (if j = bID b then Some (bead_row b f) else find_bead j (db s))" for j
    using find_bead_snoc [OF beads, of j] f(2) by simp
  have lab: "set (labels_of j (db s')) = (if j = bID b then set (iLabels inp) else set (labels_of j (db s)))" for j
    using labels labels_of_fresh [OF assms(2) f(2)] by (auto simp: set_labels_of bi(2))
  have ex: "\<exists>kind. b = new_bead (now s) (bID b) (resolve_alias (iType inp)) kind inp"
    using b s1(2) bi(1) by (intro exI [of _ "tcKind tc"]) simp
  have "find_bead (bID b) (db s) = None" using f(2) find_bead_None [of "bID b" "db s"] by blast
  then show ?thesis
    using i bi(1) v f(1) find lab ann out ex by auto
qed

subsection \<open>A creation, run\<close>

definition sample_input :: create_input where
  "sample_input = \<lparr>iTitle = ''Fix'', iKind = [], iType = ''task'', iDescription = [], iNotes = [],
     iPriority = 2, iAssignee = [], iOwner = [], iLabels = [''ui''], iCreatedBy = ''ada'',
     iFields = RawNil, iDueAt = None, iDeferUntil = None\<rparr>"

definition sample_created :: bead where
  "sample_created = new_bead 1000 ''kd-1'' ''task'' ''issue'' sample_input"

lemma sample_created_valid: "bead_valid sample_created"
  by (simp add: sample_created_def new_bead_def sample_input_def bead_valid_def trim_space_def
      is_space_rune_def rune_count_def Status_IsValid_def Kind_IsValid_def)

lemma sample_resolve:
  "faults s = [] \<Longrightarrow> find_config ''type:task'' (db s) = None \<Longrightarrow>
   resolveTypeConfig ''task'' s = (Inr (Some \<lparr>tcKind = ''issue'', tcFields = []\<rparr>), s)"
  by (simp add: resolve_run effective_def find_builtin_def builtinConfigs_def builtin_def
      decode_type_json)

definition sample_after :: tables where
  "sample_after = no_tables\<lparr>tBeads := [bead_row sample_created RawNil], tLabels := [(''kd-1'', ''ui'')]\<rparr>"

lemma sample_insert:
  "RunInTransaction (insert_with_labels sample_created) (idle_server no_tables) =
   (Inr (), idle_server sample_after)"
  by (simp add: RunInTransaction_def insert_with_labels_def and_then_def wrap_def ret_def
      queryCreateBead_def queryAddLabel_def no_faults sql_insert_bead_def sql_insert_label_def
      sample_created_def new_bead_def sample_input_def jsonb_store_def bead_ids_def no_tables_def
      sample_after_def idle_server_def bead_row_def)

lemma sample_create:
  "createBead (Inr ''kd-1'') sample_input (idle_server no_tables) =
   announce_created sample_created (idle_server sample_after)"
proof -
  have none: "find_config ''type:task'' no_tables = None"
    by (simp add: find_config_def no_tables_def)
  have v: "ValidateBead sample_created = []" using sample_created_valid by (simp add: ValidateBead_Nil)
  have t: "resolve_alias (iType sample_input) = ''task''" "iTitle sample_input \<noteq> []"
    by (simp_all add: sample_input_def resolve_alias_def TypeAliases_def)
  have f: "ValidateFields (bFields sample_created) [] = []"
    by (simp add: sample_created_def new_bead_def sample_input_def ValidateFields_def)
  show ?thesis
    using v f t none sample_insert
    by (simp add: createBead_def Let_def and_then_def wrap_def get_state_def sample_resolve
        sample_created_def [symmetric])
qed

lemma sample_create_Inr:
  "\<exists>s'. createBead (Inr ''kd-1'') sample_input (idle_server no_tables) = (Inr sample_created, s')"
proof -
  obtain r s' where "announce_created sample_created (idle_server sample_after) = (r, s')"
    by (cases "announce_created sample_created (idle_server sample_after)")
  then show ?thesis using announce_created_run sample_created_valid unfolding sample_create by blast
qed

lemma createBead_stores_witness:
  "set (labels_of ''kd-1'' (db (snd (createBead (Inr ''kd-1'') sample_input (idle_server no_tables))))) = {''ui''}
   \<and> svOutbox (snd (createBead (Inr ''kd-1'') sample_input (idle_server no_tables))) =
      [(TopicBeadCreated, BeadCreated sample_created)]"
proof -
  obtain s' where run: "createBead (Inr ''kd-1'') sample_input (idle_server no_tables) =
      (Inr sample_created, s')" using sample_create_Inr by blast
  have "bID sample_created = ''kd-1''" "iLabels sample_input = [''ui'']" "bType sample_created \<noteq> TypeAdvice"
    by (simp_all add: sample_created_def new_bead_def sample_input_def)
  then show ?thesis
    using createBead_stores [OF run] db_wf_no_tables by (simp add: run)
qed

lemma createBead_fails_clean_witness:
  "same_rows no_tables (db (snd (createBead (Inr ''kd-1'') (sample_input\<lparr>iTitle := []\<rparr>) (idle_server no_tables))))"
proof -
  have run: "createBead (Inr ''kd-1'') (sample_input\<lparr>iTitle := []\<rparr>) (idle_server no_tables) =
      (Inl (InputError ''title is required''), idle_server no_tables)"
    by (simp add: createBead_def fail_def)
  show ?thesis using createBead_fails_clean [OF run] by (simp add: run)
qed

end
