(* ===== verification/Update.thy ===== *)
theory Update
  imports Beads
begin

text \<open>
  What a patch of a bead does (\<open>updateBead\<close>, \<open>reconcileLabels\<close>, \<open>mergeBeadFields\<close>): the law of
  the field merge, and the row, labels and announcements after a patch, column by column.
\<close>

subsection \<open>The field merge\<close>

lemma raw_field_RawNil: "raw_field RawNil k = None"
  by (simp add: raw_field_def)

lemma raw_field_existing: "raw_field f k = map_of (gomap_list (existing_fields f)) k"
proof (cases f)
  case (Raw j)
  then show ?thesis by (cases j) (simp_all add: raw_field_def existing_fields_def raw_empty_def unmarshal_map_def)
qed (simp_all add: raw_field_def existing_fields_def raw_empty_def)

lemma distinct_existing: "distinct (map fst (gomap_list (existing_fields f)))"
  by (simp add: existing_fields_def distinct_unmarshal_map)

lemma raw_field_decoded: "raw_field r k = Some v \<Longrightarrow> decode_any v = v"
proof (cases r)
  case (Raw j)
  assume v: "raw_field r k = Some v"
  show ?thesis
  proof (cases j)
    case (JObj kvs)
    have "put_all (map (map_prod (\<lambda>k. k) decode_any) kvs) [] =
        map (map_prod (\<lambda>k. k) decode_any) (put_all kvs [])"
      using put_all_map_value [of decode_any kvs "[]"] by simp
    then show ?thesis
      using v by (auto simp: raw_field_def Raw JObj map_of_map map_prod_def decode_any_idem)
  qed (use v in \<open>simp_all add: raw_field_def Raw unmarshal_map_def\<close>)
qed (simp_all add: raw_field_def)

text \<open>Every assigned key reads as assigned, every other key as before.\<close>

lemma merged_field:
  assumes "assign_all kvs (existing_fields f) = Inr m" and "distinct (map fst kvs)"
  shows "raw_field (marshal_map m) k =
    (case map_of kvs k of Some v \<Rightarrow> Some (decode_any v) | None \<Rightarrow> raw_field f k)"
proof (cases "existing_fields f")
  case None
  then have "kvs = []" "m = None" using assms(1) by (auto simp: assign_all_def split: if_splits)
  then show ?thesis
    using None by (simp add: raw_field_existing [of f]) (simp add: raw_field_def marshal_map_def)
next
  case (Some old)
  then have m: "m = Some (put_all kvs old)" using assms(1) by simp
  have d: "distinct (map fst old)" using distinct_existing [of f] Some by simp
  have "raw_field (marshal_map m) k = map_option decode_any ((map_of old ++ map_of (rev kvs)) k)"
    unfolding m raw_field_marshal [OF distinct_put_all [OF d]] map_of_put_all ..
  moreover have "map_of (rev kvs) = map_of kvs" by (rule map_of_rev_distinct [OF assms(2)])
  moreover have "map_option decode_any (map_of old k) = map_of old k"
    using raw_field_decoded [of f k] Some by (cases "map_of old k") (auto simp: raw_field_existing [of f])
  ultimately show ?thesis
    using Some by (simp add: raw_field_existing [of f] map_add_def split: option.split)
qed

lemma merge_fields_law:
  assumes "merge_fields f p = Inr f'"
  shows "raw_field f' k = (case raw_field p k of Some v \<Rightarrow> Some v | None \<Rightarrow> raw_field f k)"
proof -
  obtain m ok where u: "unmarshal_map p None = (m, ok)" by (cases "unmarshal_map p None")
  have d: "distinct (map fst (gomap_list m))"
    using distinct_unmarshal_map [of None p] u by simp
  have p: "raw_field p k = map_of (gomap_list m) k" by (simp add: raw_field_def u)
  show ?thesis
  proof (cases ok)
    case True
    then obtain r where r: "assign_all (gomap_list m) (existing_fields f) = Inr r" "f' = marshal_map r"
      using assms u by (auto simp: merge_fields_def split: sum.splits)
    show ?thesis
      using merged_field [OF r(1) d, of k] raw_field_decoded [of p k]
      by (auto simp: r(2) p split: option.splits)
  next
    case False
    then have "f' = marshal_map (existing_fields f)" "raw_field p k = None"
      using assms u by (auto simp: merge_fields_def raw_field_def unmarshal_map_def
          split: raw.splits json.splits)
    then show ?thesis
      using merged_field [of "[]" f "existing_fields f" k]
      by (simp add: assign_all_def split: option.splits)
  qed
qed

text \<open>A \<open>null\<close> stored in the column makes the next merge panic.\<close>

lemma null_fields_panic:
  "merge_fields (Raw JNull) (Raw (JObj [(k, v)])) = Inl (Panic ''assignment to entry in nil map'')"
  by (simp add: merge_fields_def existing_fields_def raw_empty_def assign_all_def)

subsection \<open>The patched bead\<close>

definition pick :: "'a option \<Rightarrow> 'a \<Rightarrow> 'a" where
  "pick v old = (case v of None \<Rightarrow> old | Some x \<Rightarrow> x)"

lemma set_if_columns:
  "fst (set_if v (\<lambda>x b. b\<lparr>bTitle := x\<rparr>) k j bc) = (fst bc)\<lparr>bTitle := pick v (bTitle (fst bc))\<rparr>"
  "fst (set_if v (\<lambda>x b. b\<lparr>bDescription := x\<rparr>) k j bc) =
     (fst bc)\<lparr>bDescription := pick v (bDescription (fst bc))\<rparr>"
  "fst (set_if v (\<lambda>x b. b\<lparr>bNotes := x\<rparr>) k j bc) = (fst bc)\<lparr>bNotes := pick v (bNotes (fst bc))\<rparr>"
  "fst (set_if v (\<lambda>x b. b\<lparr>bStatus := x\<rparr>) k j bc) = (fst bc)\<lparr>bStatus := pick v (bStatus (fst bc))\<rparr>"
  "fst (set_if v (\<lambda>x b. b\<lparr>bAssignee := x\<rparr>) k j bc) =
     (fst bc)\<lparr>bAssignee := pick v (bAssignee (fst bc))\<rparr>"
  "fst (set_if v (\<lambda>x b. b\<lparr>bOwner := x\<rparr>) k j bc) = (fst bc)\<lparr>bOwner := pick v (bOwner (fst bc))\<rparr>"
  by (cases v; simp add: set_if_def pick_def)+

lemma set_if_other_columns:
  "fst (set_if p (\<lambda>x b. b\<lparr>bPriority := x\<rparr>) k j bc) =
     (fst bc)\<lparr>bPriority := pick p (bPriority (fst bc))\<rparr>"
  "fst (set_if t (\<lambda>x b. b\<lparr>bDueAt := x\<rparr>) k j' bc) = (fst bc)\<lparr>bDueAt := pick t (bDueAt (fst bc))\<rparr>"
  "fst (set_if t (\<lambda>x b. b\<lparr>bDeferUntil := x\<rparr>) k j' bc) =
     (fst bc)\<lparr>bDeferUntil := pick t (bDeferUntil (fst bc))\<rparr>"
  by (cases p; simp add: set_if_def pick_def) (cases t; simp add: set_if_def pick_def)+

definition patched_columns :: "update_input \<Rightarrow> bead \<Rightarrow> bead" where
  "patched_columns u b =
     b\<lparr>bTitle := pick (uTitle u) (bTitle b), bDescription := pick (uDescription u) (bDescription b),
       bNotes := pick (uNotes u) (bNotes b), bStatus := pick (uStatus u) (bStatus b),
       bPriority := pick (uPriority u) (bPriority b), bAssignee := pick (uAssignee u) (bAssignee b),
       bOwner := pick (uOwner u) (bOwner b),
       bDueAt := (if uDueAtSet u then unzero (uDueAt u) else bDueAt b),
       bDeferUntil := (if uDeferUntilSet u then unzero (uDeferUntil u) else bDeferUntil b)\<rparr>"

lemma patch_columns_eq: "fst (patch_columns fmt u (b, ch)) = patched_columns u b"
  by (simp add: patch_columns_def Let_def set_if_columns set_if_other_columns patched_columns_def)
    (simp add: pick_def)

definition closed_time :: "time \<Rightarrow> string \<Rightarrow> time option \<Rightarrow> time option" where
  "closed_time tm st old =
     (if st = StatusClosed then (case old of None \<Rightarrow> Some tm | Some t \<Rightarrow> Some t) else None)"

lemma reconcile_closed_eq:
  "fst (reconcile_closed fmt tm bc) =
   (fst bc)\<lparr>bClosedAt := closed_time tm (bStatus (fst bc)) (bClosedAt (fst bc))\<rparr>"
  by (cases "bClosedAt (fst bc)") (auto simp: reconcile_closed_def Let_def closed_time_def)

lemma patch_bead_eq:
  assumes "patch_bead fmt tm u b0 = Inr (b, ch)"
  obtains f where "if uFields u = RawNil then f = bFields b0 else merge_fields (bFields b0) (uFields u) = Inr f"
    "b = (patched_columns u b0)\<lparr>bFields := f,
        bLabels := (if uLabelsSet u then (case uLabels u of None \<Rightarrow> [] | Some ls \<Rightarrow> ls) else bLabels b0),
        bClosedAt := closed_time tm (pick (uStatus u) (bStatus b0)) (bClosedAt b0), bUpdatedAt := tm\<rparr>"
proof -
  obtain bc where bc: "patch_fields u (patch_columns fmt u (b0, [])) = Inr bc"
    and b: "b = (fst (reconcile_closed fmt tm (patch_labels u bc)))\<lparr>bUpdatedAt := tm\<rparr>"
    using assms by (auto simp: patch_bead_def split: sum.splits prod.splits)
  have old: "bFields (patched_columns u b0) = bFields b0" by (simp add: patched_columns_def)
  obtain f where f: "if uFields u = RawNil then f = bFields b0 else merge_fields (bFields b0) (uFields u) = Inr f"
    and fst_bc: "fst bc = (patched_columns u b0)\<lparr>bFields := f\<rparr>"
  proof (cases "uFields u = RawNil")
    case True
    then have "fst bc = (patched_columns u b0)\<lparr>bFields := bFields b0\<rparr>"
      using bc by (auto simp: patch_fields_def patch_columns_eq) (simp add: patched_columns_def)
    then show thesis using that True by simp
  next
    case False
    then obtain f where "merge_fields (bFields b0) (uFields u) = Inr f"
      "fst bc = (patched_columns u b0)\<lparr>bFields := f\<rparr>"
      using bc by (auto simp: patch_fields_def old patch_columns_eq split: sum.splits)
    then show thesis using that False by simp
  qed
  have "fst (patch_labels u bc) = (fst bc)\<lparr>bLabels :=
      (if uLabelsSet u then (case uLabels u of None \<Rightarrow> [] | Some ls \<Rightarrow> ls) else bLabels (fst bc))\<rparr>"
    by (simp add: patch_labels_def)
  then show thesis
    using that [OF f] b by (simp add: reconcile_closed_eq fst_bc patched_columns_def)
qed

subsection \<open>A patch, step by step\<close>

lemma reads_select: "keeps read_step (select g)"
  unfolding select_def by (rule reads_stmt) simp

lemma reads_queryGetBead: "keeps read_step (queryGetBead i)"
  unfolding queryGetBead_def fetch_relations_def queryGetLabels_def queryGetDependencies_def
    queryGetComments_def
  by (intro read_step.keeps_ops reads_stmt reads_select)
    (simp add: sql_select_bead_def split: option.split)

lemma queryGetBead_run:
  assumes "queryGetBead i s = (Inr b, s')"
  shows "\<exists>row. find_bead i (db s) = Some row
    \<and> b = row\<lparr>bLabels := labels_of i (db s), bDependencies := deps_of i (db s),
              bComments := comments_of i (db s)\<rparr>"
proof -
  obtain row s1 s2 s3 ls ds cs where
    g: "stmt (sql_select_bead i) s = (Inr row, s1)" "select (labels_of i) s1 = (Inr ls, s2)"
      "select (deps_of i) s2 = (Inr ds, s3)" "select (comments_of i) s3 = (Inr cs, s')"
    and b: "b = row\<lparr>bLabels := ls, bDependencies := ds, bComments := cs\<rparr>"
    using assms by (auto simp: queryGetBead_def fetch_relations_def queryGetLabels_def
        queryGetDependencies_def queryGetComments_def and_then_Inr ret_Inr)
  have "find_bead i (db s) = Some row" "db s1 = db s"
    using g(1) by (auto simp: stmt_Inr sql_select_bead_def split: option.splits)
  then show ?thesis
    using b select_Inr [OF g(2)] select_Inr [OF g(3)] select_Inr [OF g(4)] by auto
qed

lemma reads_check_patched_fields: "keeps read_step (check_patched_fields u b)"
  unfolding check_patched_fields_def
  by (auto intro!: read_step.keeps_ops reads_resolveTypeConfig split: option.split)

lemma queryUpdateBead_run:
  "queryUpdateBead b s = (Inr tm, s') \<Longrightarrow>
   \<exists>f row. jsonb_store (bFields b) = Some f \<and> find_bead (bID b) (db s) = Some row
     \<and> db s' = map_bead (bID b) (updated_row tm b f) (db s) \<and> tm = db_now s"
  by (auto simp: queryUpdateBead_def stmt_now_def stmt_Inr sql_update_bead_def split: option.splits)

lemma keeps_more: "keeps pg_step m \<Longrightarrow> m s = (r, s') \<Longrightarrow> pg.more s' = pg.more s"
  unfolding keeps_def pg_step_def by (metis snd_conv)

lemma find_map_bead:
  "(\<And>b. bID (f b) = bID b) \<Longrightarrow>
   find_bead j (map_bead i f t) = (if j = i then map_option f (find_bead i t) else find_bead j t)"
proof -
  assume f: "\<And>b. bID (f b) = bID b"
  have "find_bead j (map_bead i f t) =
      map_option (\<lambda>b. if bID b = i then f b else b) (find_bead j t)"
    unfolding find_bead_def map_bead_def using find_map_if [of bID f j i, OF f] by simp
  moreover have "bID b = j" if "find_bead j t = Some b" for b
    using find_bead_Some [OF that] by simp
  ultimately show ?thesis by (cases "find_bead j t") auto
qed

lemma updateBead_steps:
  assumes "updateBead i u s = (Inr b, s')"
  obtains b0 s1 b1 ch s2 tm s3 s4 where
    "queryGetBead i s = (Inr b0, s1)" "patch_bead (svFmt s1) (now s1) u b0 = Inr (b1, ch)"
    "bead_valid b1" "check_patched_fields u b1 s1 = (Inr (), s2)"
    "queryUpdateBead b1 s2 = (Inr tm, s3)"
    "(if uLabelsSet u then reconcileLabels (bID b1) (bLabels b1) else ret ()) s3 = (Inr (), s4)"
    "announce_updated (b1\<lparr>bUpdatedAt := tm\<rparr>) ch s4 = (Inr b, s')"
proof -
  obtain b0 s1 where g: "queryGetBead i s = (Inr b0, s1)"
    and rest: "(case patch_bead (svFmt s1) (now s1) u b0 of
         Inl e \<Rightarrow> fail e
       | Inr (b, ch) \<Rightarrow>
           if ValidateBead b \<noteq> [] then
             fail (InputError (''invalid bead: '' @ ve_text (ValidateBead b)))
           else
             and_then (check_patched_fields u b) (\<lambda>_.
             and_then (wrap ''failed to update bead'' (queryUpdateBead b)) (\<lambda>tm.
             and_then (if uLabelsSet u
                       then wrap ''failed to reconcile labels'' (reconcileLabels (bID b) (bLabels b))
                       else ret ()) (\<lambda>_.
             announce_updated (b\<lparr>bUpdatedAt := tm\<rparr>) ch)))) s1 = (Inr b, s')"
    using assms by (auto simp: updateBead_def and_then_Inr [of "queryGetBead i"] and_then_def
        [of get_state] get_state_def)
  obtain b1 ch where p: "patch_bead (svFmt s1) (now s1) u b0 = Inr (b1, ch)"
    using rest by (auto simp: fail_Inr split: sum.splits)
  have v: "bead_valid b1"
    using rest p by (auto simp: fail_Inr ValidateBead_Nil split: if_splits)
  then have "ValidateBead b1 = []" by (simp add: ValidateBead_Nil)
  then show thesis
    using that [OF g p v] rest p by (auto simp: and_then_Inr wrap_Inr split: if_splits)
qed

subsection \<open>The row after a patch\<close>

text \<open>The row \<open>new\<close> is \<open>old\<close> patched by \<open>u\<close>, column by column; \<open>tm\<close> is the clock of the server,
  \<open>dbtm\<close> that of the database.\<close>

definition row_patched :: "time \<Rightarrow> time \<Rightarrow> update_input \<Rightarrow> bead \<Rightarrow> bead \<Rightarrow> bool" where
  "row_patched tm dbtm u old new \<longleftrightarrow>
     bTitle new = pick (uTitle u) (bTitle old)
     \<and> bDescription new = pick (uDescription u) (bDescription old)
     \<and> bNotes new = pick (uNotes u) (bNotes old)
     \<and> bStatus new = pick (uStatus u) (bStatus old)
     \<and> bPriority new = pick (uPriority u) (bPriority old)
     \<and> bAssignee new = pick (uAssignee u) (bAssignee old)
     \<and> bOwner new = pick (uOwner u) (bOwner old)
     \<and> bDueAt new = map_option pg_time (if uDueAtSet u then unzero (uDueAt u) else bDueAt old)
     \<and> bDeferUntil new =
         map_option pg_time (if uDeferUntilSet u then unzero (uDeferUntil u) else bDeferUntil old)
     \<and> bClosedAt new = map_option pg_time (closed_time tm (bStatus new) (bClosedAt old))
     \<and> bUpdatedAt new = dbtm
     \<and> (bID new, bSlug new, bKind new, bType new, bCreatedAt new, bCreatedBy new, bClosedBy new) =
       (bID old, bSlug old, bKind old, bType old, bCreatedAt old, bCreatedBy old, bClosedBy old)
     \<and> (\<forall>k. raw_field (bFields new) k =
            (case raw_field (uFields u) k of Some v \<Rightarrow> Some v | None \<Rightarrow> raw_field (bFields old) k))"

lemma row_patched_updated:
  assumes "if uFields u = RawNil then f = bFields b0 else merge_fields (bFields b0) (uFields u) = Inr f"
    and "b0 = old\<lparr>bLabels := ls, bDependencies := ds, bComments := cs\<rparr>"
    and "b = (patched_columns u b0)\<lparr>bFields := f, bLabels := ls',
        bClosedAt := closed_time tm (pick (uStatus u) (bStatus b0)) (bClosedAt b0), bUpdatedAt := tm\<rparr>"
    and "jsonb_store (bFields b) = Some f'"
  shows "row_patched tm dbtm u old (updated_row dbtm b f' old)"
proof -
  have "raw_field f' k = (case raw_field (uFields u) k of Some v \<Rightarrow> Some v | None \<Rightarrow> raw_field (bFields old) k)"
    for k
  proof -
    have b0: "bFields b0 = bFields old" by (simp add: assms(2))
    have "raw_field f' k = raw_field f k"
      using raw_field_jsonb [OF assms(4)] by (simp add: assms(3))
    moreover have "raw_field f k = (case raw_field (uFields u) k of Some v \<Rightarrow> Some v
        | None \<Rightarrow> raw_field (bFields old) k)"
      using assms(1) [unfolded b0] merge_fields_law [of "bFields old" "uFields u" f k]
      by (cases "uFields u = RawNil") (simp_all add: raw_field_RawNil)
    ultimately show ?thesis by simp
  qed
  then show ?thesis
    by (simp add: row_patched_def updated_row_def bead_row_def assms(2,3) patched_columns_def)
qed

text \<open>
  C20: a patch that succeeds changes the row of its bead in the columns the patch names and in
  no other (with the fields merged key by key, the closing time following the status, and the
  database's clock as the update time), makes its labels exactly the requested ones when
  labels are part of the patch, leaves every other bead and label alone, and is announced.
\<close>

theorem updateBead_patches:
  fixes s :: "'w server"
  assumes "updateBead i u s = (Inr b, s')" and "db_wf (db s)"
  shows "(\<exists>old new ch. find_bead i (db s) = Some old \<and> find_bead i (db s') = Some new
      \<and> row_patched (now s) (db_now s) u old new \<and> bead_valid b
      \<and> svOutbox s' = svOutbox s @ [(TopicBeadUpdated, BeadUpdated b ch)]
          @ (if bType old = TypeAdvice then [(TopicAdviceUpdated, AdviceUpdated b ch)] else []))
    \<and> (\<forall>j. set (labels_of j (db s')) =
          (if j = i \<and> uLabelsSet u then set (case uLabels u of None \<Rightarrow> [] | Some ls \<Rightarrow> ls)
           else set (labels_of j (db s))))
    \<and> (\<forall>j. j \<noteq> i \<longrightarrow> find_bead j (db s') = find_bead j (db s))"
  using assms(1)
proof (rule updateBead_steps)
  fix b0 s1 b1 ch s2 tm s3 s4
  assume g: "queryGetBead i s = (Inr b0, s1)"
    and p: "patch_bead (svFmt s1) (now s1) u b0 = Inr (b1, ch)" and v: "bead_valid b1"
    and c: "check_patched_fields u b1 s1 = (Inr (), s2)"
    and q: "queryUpdateBead b1 s2 = (Inr tm, s3)"
    and l: "(if uLabelsSet u then reconcileLabels (bID b1) (bLabels b1) else ret ()) s3 = (Inr (), s4)"
    and an: "announce_updated (b1\<lparr>bUpdatedAt := tm\<rparr>) ch s4 = (Inr b, s')"
  have s1: "db s1 = db s" "now s1 = now s" "db_now s1 = db_now s" "pg.more s1 = pg.more s"
    using read_stepD [OF reads_queryGetBead g] by simp_all
  have s2: "db s2 = db s" "db_now s2 = db_now s" "pg.more s2 = pg.more s"
    using read_stepD [OF reads_check_patched_fields c] s1 by simp_all
  obtain old where old: "find_bead i (db s) = Some old"
    "b0 = old\<lparr>bLabels := labels_of i (db s), bDependencies := deps_of i (db s),
              bComments := comments_of i (db s)\<rparr>"
    using queryGetBead_run [OF g] by auto
  have oldi: "bID old = i" using find_bead_Some [OF old(1)] by simp
  obtain f where f: "if uFields u = RawNil then f = bFields b0
      else merge_fields (bFields b0) (uFields u) = Inr f"
    and b1: "b1 = (patched_columns u b0)\<lparr>bFields := f,
        bLabels := (if uLabelsSet u then (case uLabels u of None \<Rightarrow> [] | Some ls \<Rightarrow> ls) else bLabels b0),
        bClosedAt := closed_time (now s1) (pick (uStatus u) (bStatus b0)) (bClosedAt b0),
        bUpdatedAt := now s1\<rparr>"
    using patch_bead_eq [OF p] by blast
  have b1i: "bID b1 = i" "bType b1 = bType old"
    using oldi by (simp_all add: b1 patched_columns_def old(2))
  obtain f' where f': "jsonb_store (bFields b1) = Some f'"
    and s3: "db s3 = map_bead i (updated_row tm b1 f') (db s)" "tm = db_now s"
    using queryUpdateBead_run [OF q] b1i s2 by auto
  have patched: "row_patched (now s) (db_now s) u old (updated_row tm b1 f' old)"
    using row_patched_updated [OF f old(2) b1 f'] s1(2) s3(2) by simp
  have s4: "same_but_labels (db s3) (db s4)" and labels: "set (labels_of j (db s4)) =
      (if j = i \<and> uLabelsSet u then set (case uLabels u of None \<Rightarrow> [] | Some ls \<Rightarrow> ls)
       else set (labels_of j (db s)))" for j
  proof -
    have old_labels: "set (labels_of j (db s3)) = set (labels_of j (db s))" for j
      by (simp add: labels_of_def s3(1))
    have "same_but_labels (db s3) (db s4) \<and> set (labels_of j (db s4)) =
      (if j = i \<and> uLabelsSet u then set (case uLabels u of None \<Rightarrow> [] | Some ls \<Rightarrow> ls)
       else set (labels_of j (db s3)))" for j
    proof (cases "uLabelsSet u")
      case True
      then have r: "reconcileLabels i (bLabels b1) s3 = (Inr (), s4)" using l b1i(1) by simp
      show ?thesis
        using reconcileLabels_run [OF r] True
        by (auto simp: set_labels_of b1 split: option.splits)
    next
      case False
      then show ?thesis using l by (simp add: ret_Inr)
    qed
    then show "same_but_labels (db s3) (db s4)" "set (labels_of j (db s4)) =
      (if j = i \<and> uLabelsSet u then set (case uLabels u of None \<Rightarrow> [] | Some ls \<Rightarrow> ls)
       else set (labels_of j (db s)))"
      using old_labels by simp_all
  qed
  have "pg.more s4 = pg.more s3"
    by (rule keeps_more [where m = "if uLabelsSet u then reconcileLabels (bID b1) (bLabels b1) else ret ()",
          OF _ l]) (auto simp: reconcileLabels_def intro!: keeps_basic store_keeps)
  moreover have "pg.more s3 = pg.more s2"
    by (rule keeps_more [where m = "queryUpdateBead b1", OF _ q]) (rule store_keeps)
  ultimately have out: "svOutbox s4 = svOutbox s" using s2(3) svOutbox_more by metis
  have v': "bead_valid (b1\<lparr>bUpdatedAt := tm\<rparr>)" using v by simp
  note ann = announce_updated_run [OF an v']
  have rows: "tBeads (db s') = tBeads (map_bead i (updated_row tm b1 f') (db s))"
    "tLabels (db s') = tLabels (db s4)"
    using ann same_but_eventsD [of "db s4" "db s'"] same_but_labelsD [OF s4] by (simp_all add: s3(1))
  have find: "find_bead j (db s') = (if j = i then Some (updated_row tm b1 f' old) else find_bead j (db s))"
    for j
    using find_map_bead [of "updated_row tm b1 f'" j i "db s"] old(1)
    by (simp add: find_bead_def rows(1))
  have "b = b1\<lparr>bUpdatedAt := tm\<rparr>" using ann by simp
  then have "\<exists>old new ch. find_bead i (db s) = Some old \<and> find_bead i (db s') = Some new
      \<and> row_patched (now s) (db_now s) u old new \<and> bead_valid b
      \<and> svOutbox s' = svOutbox s @ [(TopicBeadUpdated, BeadUpdated b ch)]
          @ (if bType old = TypeAdvice then [(TopicAdviceUpdated, AdviceUpdated b ch)] else [])"
    using old(1) find [of i] patched v' ann out b1i(2) by auto
  then show ?thesis
    using find labels by (simp add: labels_of_def rows(2))
qed

definition no_patch :: update_input where
  "no_patch = \<lparr>uTitle = None, uDescription = None, uNotes = None, uStatus = None, uPriority = None,
     uAssignee = None, uOwner = None, uDueAt = None, uDeferUntil = None, uFields = RawNil,
     uLabels = None, uDueAtSet = False, uDeferUntilSet = False, uLabelsSet = False\<rparr>"

definition sample_patch :: update_input where
  "sample_patch = no_patch\<lparr>uStatus := Some ''closed'', uLabels := Some [''api''], uLabelsSet := True\<rparr>"

definition sample_row :: bead where
  "sample_row = bead_row sample_created RawNil"

definition sample_read :: bead where
  "sample_read = sample_row\<lparr>bLabels := [''ui'']\<rparr>"

definition sample_patched :: bead where
  "sample_patched = sample_read\<lparr>bStatus := ''closed'', bLabels := [''api''], bClosedAt := Some 1000,
     bUpdatedAt := 1000\<rparr>"

lemma sample_row_simps:
  "bID sample_row = ''kd-1''" "bStatus sample_row = ''open''" "bClosedAt sample_row = None"
  "bType sample_row = ''task''" "bFields sample_row = RawNil" "bLabels sample_row = []"
  "bDependencies sample_row = []" "bComments sample_row = []" "bUpdatedAt sample_row = 1000"
  by (simp_all add: sample_row_def bead_row_def sample_created_def new_bead_def sample_input_def
      pg_time_def)

lemma sample_patched_valid: "bead_valid sample_patched"
  using sample_created_valid
  by (simp add: sample_patched_def sample_read_def sample_row_def bead_valid_def bead_row_def
      Status_IsValid_def)

lemma sample_patch_bead:
  "patch_bead (\<lambda>_. ''T'') 1000 sample_patch sample_read =
   Inr (sample_patched, [(''status'', JStr ''closed''), (''labels'', JArr [JStr ''api'']),
                         (''closed_at'', JStr ''T'')])"
  by (simp add: patch_bead_def patch_fields_def patch_columns_def set_if_def sample_patch_def
      no_patch_def patch_labels_def labels_json_def reconcile_closed_def sample_read_def
      sample_row_simps sample_patched_def)

lemma sample_get:
  "faults s = [] \<Longrightarrow> db s = sample_after \<Longrightarrow> queryGetBead ''kd-1'' s = (Inr sample_read, s)"
  by (simp add: queryGetBead_def fetch_relations_def queryGetLabels_def queryGetDependencies_def
      queryGetComments_def and_then_def no_faults sql_select_bead_def find_bead_def ret_def
      sample_after_def labels_of_def deps_of_def comments_of_def no_tables_def sample_read_def
      sample_row_simps flip: sample_row_def)

definition sample_closed :: "time \<Rightarrow> tables" where
  "sample_closed tm = no_tables\<lparr>tBeads := [updated_row tm sample_patched RawNil sample_row],
     tLabels := [(''kd-1'', ''api'')]\<rparr>"

lemma sample_patched_simps:
  "bID sample_patched = ''kd-1''" "bFields sample_patched = RawNil" "bLabels sample_patched = [''api'']"
  "bType sample_patched = ''task''"
  by (simp_all add: sample_patched_def sample_read_def sample_row_simps)

lemma sample_write:
  "faults s = [] \<Longrightarrow> db s = sample_after \<Longrightarrow>
   queryUpdateBead sample_patched s =
     (Inr (db_now s), s\<lparr>db := map_bead ''kd-1'' (updated_row (db_now s) sample_patched RawNil) sample_after\<rparr>)"
  by (simp add: queryUpdateBead_def stmt_now_no_faults sql_update_bead_def sample_patched_simps
      jsonb_store_def find_bead_def sample_after_def sample_row_simps flip: sample_row_def)

lemma sample_relabel:
  "faults s = [] \<Longrightarrow> db s = map_bead ''kd-1'' (updated_row tm sample_patched RawNil) sample_after \<Longrightarrow>
   reconcileLabels ''kd-1'' [''api''] s = (Inr (), s\<lparr>db := sample_closed tm\<rparr>)"
  by (simp add: reconcileLabels_def queryGetLabels_def queryRemoveLabel_def queryAddLabel_def
      and_then_def no_faults ret_def labels_of_def sql_delete_label_def sql_insert_label_def
      bead_ids_def map_bead_def sample_after_def sample_row_simps sample_closed_def no_tables_def
      flip: sample_row_def)

lemma sample_update:
  "updateBead ''kd-1'' sample_patch (idle_server sample_after) =
   announce_updated (sample_patched\<lparr>bUpdatedAt := 2000\<rparr>)
     [(''status'', JStr ''closed''), (''labels'', JArr [JStr ''api'']), (''closed_at'', JStr ''T'')]
     (idle_server (sample_closed 2000))"
proof -
  let ?s = "idle_server sample_after"
  have v: "ValidateBead sample_patched = []" using sample_patched_valid by (simp add: ValidateBead_Nil)
  have fmt: "svFmt ?s = (\<lambda>_. ''T'')" by (simp add: idle_server_def)
  have db: "idle_server t\<lparr>db := t'\<rparr> = idle_server t'" for t t' by (simp add: idle_server_def)
  show ?thesis
    by (simp add: updateBead_def and_then_def sample_get get_state_def fmt sample_patch_bead v
        check_patched_fields_def wrap_def ret_def sample_write sample_relabel db sample_patched_simps)
      (simp add: sample_patch_def no_patch_def sample_relabel db)
qed

lemma updateBead_patches_witness:
  "set (labels_of ''kd-1'' (db (snd (updateBead ''kd-1'' sample_patch (idle_server sample_after))))) = {''api''}
   \<and> (\<exists>new. find_bead ''kd-1'' (db (snd (updateBead ''kd-1'' sample_patch (idle_server sample_after)))) = Some new
        \<and> bStatus new = ''closed'' \<and> bClosedAt new = Some 1000 \<and> bTitle new = ''Fix'')"
proof -
  let ?b = "sample_patched\<lparr>bUpdatedAt := 2000\<rparr>"
  obtain r s' where "updateBead ''kd-1'' sample_patch (idle_server sample_after) = (r, s')"
    by (cases "updateBead ''kd-1'' sample_patch (idle_server sample_after)")
  moreover have "bead_valid ?b" using sample_patched_valid by simp
  ultimately have run: "updateBead ''kd-1'' sample_patch (idle_server sample_after) = (Inr ?b, s')"
    using announce_updated_run unfolding sample_update by blast
  have wf: "db_wf sample_after"
    by (simp add: sample_after_def no_tables_def db_wf_defs bead_ids_def row_ok_def bead_row_def
        sample_created_def new_bead_def)
  have old: "find_bead ''kd-1'' sample_after = Some sample_row"
    by (simp add: find_bead_def sample_after_def sample_row_simps flip: sample_row_def)
  have u: "uTitle sample_patch = None" "uStatus sample_patch = Some ''closed''"
    "uLabels sample_patch = Some [''api'']" "uLabelsSet sample_patch"
    by (simp_all add: sample_patch_def no_patch_def)
  have t: "bTitle sample_row = ''Fix''"
    by (simp add: sample_row_def bead_row_def sample_created_def new_bead_def sample_input_def)
  show ?thesis
    using updateBead_patches [OF run] wf old u t
    by (auto simp: run row_patched_def pick_def closed_time_def sample_row_simps pg_time_def)
qed

end
