(* ===== verification/Proto.thy ===== *)
theory Proto
  imports Model "HOL-Library.Word"
begin

text \<open>
  The messages of the gRPC service and their conversions: those of the server
  (\<open>internal/server/convert.go\<close>) and those of the client (\<open>internal/client/grpc.go\<close>). A message
  is what the other side receives: a \<open>bytes\<close> field without presence that is empty arrives as
  \<open>nil\<close>. Round trip: what a client reads is what the server sent, less three fields the
  messages or the client drop.
\<close>

subsection \<open>Scalars\<close>

text \<open>\<open>int32(n)\<close> of a Go \<open>int\<close>: the low 32 bits, read as a signed number.\<close>

definition int32 :: "int \<Rightarrow> int" where
  "int32 n = sint (word_of_int n :: 32 word)"

lemma int32_id: "- (2 ^ 31) \<le> n \<Longrightarrow> n < 2 ^ 31 \<Longrightarrow> int32 n = n"
  unfolding int32_def by (simp add: sint_sbintrunc' signed_take_bit_int_eq_self)

lemma int32_range: "- (2 ^ 31) \<le> int32 n \<and> int32 n < 2 ^ 31"
  unfolding int32_def
  using sint_ge [of "word_of_int n :: 32 word"] sint_lt [of "word_of_int n :: 32 word"] by simp

text \<open>\<open>google.protobuf.Timestamp\<close>: seconds since 1970 and nanoseconds.\<close>

record timestamp =
  tsSeconds :: int
  tsNanos :: int

definition unix_epoch :: time where "unix_epoch = 62135596800 * second"

definition ts_New :: "time \<Rightarrow> timestamp" where
  "ts_New t = \<lparr>tsSeconds = (t - unix_epoch) div second, tsNanos = (t - unix_epoch) mod second\<rparr>"

definition ts_AsTime :: "timestamp \<Rightarrow> time" where
  "ts_AsTime ts = unix_epoch + tsSeconds ts * second + tsNanos ts"

lemma AsTime_New [simp]: "ts_AsTime (ts_New t) = t"
  by (simp add: ts_AsTime_def ts_New_def)

lemma AsTime_comp_New [simp]: "ts_AsTime \<circ> ts_New = (\<lambda>t. t)"
  by (simp add: fun_eq_iff)

text \<open>\<open>bytes\<close> without presence, and how a client reads them.\<close>

definition wire_bytes :: "raw \<Rightarrow> raw" where
  "wire_bytes r = (if raw_empty r then RawNil else r)"

lemma wire_bytes_simps [simp]: "wire_bytes (Raw j) = Raw j" "wire_bytes RawNil = RawNil"
  by (simp_all add: wire_bytes_def)

subsection \<open>Messages\<close>

record pb_dependency =
  pdBeadId :: string
  pdDependsOnId :: string
  pdType :: string
  pdCreatedAt :: "timestamp option"
  pdCreatedBy :: string
  pdMetadata :: string

record pb_comment =
  pcId :: int
  pcBeadId :: string
  pcAuthor :: string
  pcText :: string
  pcCreatedAt :: "timestamp option"

record pb_event =
  peId :: int
  peTopic :: string
  peBeadId :: string
  peActor :: string
  pePayload :: raw
  peCreatedAt :: "timestamp option"

record pb_config =
  pkKey :: string
  pkValue :: raw
  pkCreatedAt :: "timestamp option"
  pkUpdatedAt :: "timestamp option"

record pb_bead =
  pbId :: string
  pbSlug :: string
  pbKind :: string
  pbType :: string
  pbTitle :: string
  pbDescription :: string
  pbNotes :: string
  pbStatus :: string
  pbPriority :: int
  pbAssignee :: string
  pbOwner :: string
  pbCreatedAt :: "timestamp option"
  pbCreatedBy :: string
  pbUpdatedAt :: "timestamp option"
  pbClosedAt :: "timestamp option"
  pbDueAt :: "timestamp option"
  pbDeferUntil :: "timestamp option"
  pbFields :: raw
  pbLabels :: "string list"
  pbDependencies :: "pb_dependency list"
  pbComments :: "pb_comment list"

subsection \<open>The server's conversions\<close>

definition dependencyToProto :: "dependency \<Rightarrow> pb_dependency" where
  "dependencyToProto d =
     \<lparr>pdBeadId = dBeadID d, pdDependsOnId = dDependsOnID d, pdType = dType d,
      pdCreatedAt = Some (ts_New (dCreatedAt d)), pdCreatedBy = dCreatedBy d,
      pdMetadata = dMetadata d\<rparr>"

definition commentToProto :: "comment \<Rightarrow> pb_comment" where
  "commentToProto c =
     \<lparr>pcId = cID c, pcBeadId = cBeadID c, pcAuthor = cAuthor c, pcText = cText c,
      pcCreatedAt = Some (ts_New (cCreatedAt c))\<rparr>"

definition eventToProto :: "event \<Rightarrow> pb_event" where
  "eventToProto e =
     \<lparr>peId = eID e, peTopic = eTopic e, peBeadId = eBeadID e, peActor = eActor e,
      pePayload = wire_bytes (ePayload e), peCreatedAt = Some (ts_New (eCreatedAt e))\<rparr>"

definition configToProto :: "config \<Rightarrow> pb_config" where
  "configToProto c =
     \<lparr>pkKey = kKey c, pkValue = wire_bytes (kValue c),
      pkCreatedAt = Some (ts_New (kCreatedAt c)), pkUpdatedAt = Some (ts_New (kUpdatedAt c))\<rparr>"

definition beadToProto :: "bead \<Rightarrow> pb_bead" where
  "beadToProto b =
     \<lparr>pbId = bID b, pbSlug = bSlug b, pbKind = bKind b, pbType = bType b, pbTitle = bTitle b,
      pbDescription = bDescription b, pbNotes = bNotes b, pbStatus = bStatus b,
      pbPriority = int32 (bPriority b), pbAssignee = bAssignee b, pbOwner = bOwner b,
      pbCreatedAt = Some (ts_New (bCreatedAt b)), pbCreatedBy = bCreatedBy b,
      pbUpdatedAt = Some (ts_New (bUpdatedAt b)), pbClosedAt = map_option ts_New (bClosedAt b),
      pbDueAt = map_option ts_New (bDueAt b), pbDeferUntil = map_option ts_New (bDeferUntil b),
      pbFields = wire_bytes (bFields b), pbLabels = bLabels b,
      pbDependencies = map dependencyToProto (bDependencies b),
      pbComments = map commentToProto (bComments b)\<rparr>"

definition protoTimestamp :: "timestamp option \<Rightarrow> time option" where
  "protoTimestamp ts = map_option ts_AsTime ts"

subsection \<open>The client's conversions\<close>

text \<open>A missing timestamp leaves the zero time.\<close>

definition time_or_zero :: "timestamp option \<Rightarrow> time" where
  "time_or_zero ts = (case ts of None \<Rightarrow> 0 | Some t \<Rightarrow> ts_AsTime t)"

lemma time_or_zero_New [simp]: "time_or_zero (Some (ts_New t)) = t"
  by (simp add: time_or_zero_def)

definition protoDependencyToModel :: "pb_dependency \<Rightarrow> dependency" where
  "protoDependencyToModel p =
     \<lparr>dBeadID = pdBeadId p, dDependsOnID = pdDependsOnId p, dType = pdType p,
      dCreatedAt = time_or_zero (pdCreatedAt p), dCreatedBy = pdCreatedBy p, dMetadata = []\<rparr>"

definition protoCommentToModel :: "pb_comment \<Rightarrow> comment" where
  "protoCommentToModel p =
     \<lparr>cID = pcId p, cBeadID = pcBeadId p, cAuthor = pcAuthor p, cText = pcText p,
      cCreatedAt = time_or_zero (pcCreatedAt p)\<rparr>"

definition protoEventToModel :: "pb_event \<Rightarrow> event" where
  "protoEventToModel p =
     \<lparr>eID = peId p, eTopic = peTopic p, eBeadID = peBeadId p, eActor = peActor p,
      ePayload = pePayload p, eCreatedAt = time_or_zero (peCreatedAt p)\<rparr>"

definition protoConfigToModel :: "pb_config \<Rightarrow> config" where
  "protoConfigToModel p =
     \<lparr>kKey = pkKey p, kValue = pkValue p, kCreatedAt = time_or_zero (pkCreatedAt p),
      kUpdatedAt = time_or_zero (pkUpdatedAt p)\<rparr>"

definition protoBeadToModel :: "pb_bead \<Rightarrow> bead" where
  "protoBeadToModel p =
     \<lparr>bID = pbId p, bSlug = pbSlug p, bKind = pbKind p, bType = pbType p, bTitle = pbTitle p,
      bDescription = pbDescription p, bNotes = pbNotes p, bStatus = pbStatus p,
      bPriority = pbPriority p, bAssignee = pbAssignee p, bOwner = pbOwner p,
      bCreatedAt = time_or_zero (pbCreatedAt p), bCreatedBy = pbCreatedBy p,
      bUpdatedAt = time_or_zero (pbUpdatedAt p), bClosedAt = map_option ts_AsTime (pbClosedAt p),
      bClosedBy = [], bDueAt = map_option ts_AsTime (pbDueAt p),
      bDeferUntil = map_option ts_AsTime (pbDeferUntil p),
      bFields = (if \<not> raw_empty (pbFields p) then pbFields p else RawNil),
      bLabels = pbLabels p, bDependencies = map protoDependencyToModel (pbDependencies p),
      bComments = map protoCommentToModel (pbComments p)\<rparr>"

subsection \<open>Round trips\<close>

lemma comment_over_wire [simp]: "protoCommentToModel (commentToProto c) = c"
  by (simp add: protoCommentToModel_def commentToProto_def)

lemma dependency_over_wire: "protoDependencyToModel (dependencyToProto d) = d\<lparr>dMetadata := []\<rparr>"
  by (simp add: protoDependencyToModel_def dependencyToProto_def)

lemma event_over_wire:
  "protoEventToModel (eventToProto e) = e\<lparr>ePayload := wire_bytes (ePayload e)\<rparr>"
  by (simp add: protoEventToModel_def eventToProto_def)

lemma config_over_wire:
  "protoConfigToModel (configToProto c) = c\<lparr>kValue := wire_bytes (kValue c)\<rparr>"
  by (simp add: protoConfigToModel_def configToProto_def)

lemma wire_bytes_empty: "raw_empty (wire_bytes r) \<Longrightarrow> wire_bytes r = RawNil"
  by (auto simp: wire_bytes_def split: if_splits)

text \<open>What a gRPC client sees of a bead: everything but who closed it and the metadata of its
  dependencies, which the messages or the client drop.\<close>

definition over_wire :: "bead \<Rightarrow> bead" where
  "over_wire b =
     b\<lparr>bPriority := int32 (bPriority b), bClosedBy := [], bFields := wire_bytes (bFields b),
       bDependencies := map (\<lambda>d. d\<lparr>dMetadata := []\<rparr>) (bDependencies b)\<rparr>"

lemma bead_over_wire: "protoBeadToModel (beadToProto b) = over_wire b"
  by (simp add: protoBeadToModel_def beadToProto_def over_wire_def option.map_comp
      dependency_over_wire comp_def option.map_ident wire_bytes_empty)

lemma over_wire_valid:
  assumes "bead_valid b"
  shows "over_wire b =
    b\<lparr>bClosedBy := [], bFields := wire_bytes (bFields b),
      bDependencies := map (\<lambda>d. d\<lparr>dMetadata := []\<rparr>) (bDependencies b)\<rparr>"
proof -
  have "int32 (bPriority b) = bPriority b"
    using assms by (intro int32_id) (auto simp: bead_valid_def)
  then show ?thesis by (simp add: over_wire_def)
qed

text \<open>A metadata is lost on the way to the client.\<close>

lemma metadata_lost:
  "dMetadata (protoDependencyToModel (dependencyToProto (d\<lparr>dMetadata := m\<rparr>))) = []"
  by (simp add: dependency_over_wire)

text \<open>A priority out of 32 bits wraps on its way to the server: this one arrives as 2.\<close>

lemma priority_wraps: "int32 4294967298 = 2"
  by (simp add: int32_def)

end
