(* ===== verification/BeadsApi.thy ===== *)
theory BeadsApi
  imports Update Proto
begin

text \<open>
  The operations on beads as the two transports offer them: gRPC
  (\<open>internal/server/beads.go\<close>) and HTTP (\<open>internal/server/http_beads.go\<close>), with the decoding of
  requests, the guards and the mapping of errors to codes. Both answer alike where they are
  meant to.
\<close>

subsection \<open>gRPC requests\<close>

record pb_create =
  qTitle :: string
  qKind :: string
  qType :: string
  qDescription :: string
  qNotes :: string
  qPriority :: int
  qAssignee :: string
  qOwner :: string
  qDueAt :: "timestamp option"
  qDeferUntil :: "timestamp option"
  qFields :: raw
  qLabels :: "string list"
  qCreatedBy :: string

record pb_update =
  vTitle :: "string option"
  vDescription :: "string option"
  vNotes :: "string option"
  vStatus :: "string option"
  vPriority :: "int option"
  vAssignee :: "string option"
  vOwner :: "string option"
  vDueAt :: "timestamp option"
  vDeferUntil :: "timestamp option"
  vFields :: raw
  vLabels :: "string list"

record pb_list =
  lStatus :: "string list"
  lType :: "string list"
  lKind :: "string list"
  lPriority :: "int option"
  lAssignee :: string
  lLabels :: "string list"
  lSearch :: string
  lLimit :: int
  lOffset :: int
  lSort :: string
  lFieldFilters :: "(string \<times> string) list"

definition create_of_request :: "pb_create \<Rightarrow> create_input" where
  "create_of_request q =
     \<lparr>iTitle = qTitle q, iKind = qKind q, iType = qType q, iDescription = qDescription q,
      iNotes = qNotes q, iPriority = qPriority q, iAssignee = qAssignee q, iOwner = qOwner q,
      iLabels = qLabels q, iCreatedBy = qCreatedBy q, iFields = qFields q,
      iDueAt = protoTimestamp (qDueAt q), iDeferUntil = protoTimestamp (qDeferUntil q)\<rparr>"

definition update_of_request :: "pb_update \<Rightarrow> update_input" where
  "update_of_request v =
     \<lparr>uTitle = vTitle v, uDescription = vDescription v, uNotes = vNotes v, uStatus = vStatus v,
      uPriority = vPriority v, uAssignee = vAssignee v, uOwner = vOwner v,
      uDueAt = protoTimestamp (vDueAt v), uDeferUntil = protoTimestamp (vDeferUntil v),
      uFields = vFields v, uLabels = (if vLabels v \<noteq> [] then Some (vLabels v) else None),
      uDueAtSet = (vDueAt v \<noteq> None), uDeferUntilSet = (vDeferUntil v \<noteq> None),
      uLabelsSet = (vLabels v \<noteq> [])\<rparr>"

definition filter_of_request :: "pb_list \<Rightarrow> bead_filter" where
  "filter_of_request l =
     no_filter\<lparr>fAssignee := lAssignee l, fLabels := lLabels l, fSearch := lSearch l,
       fSort := lSort l, fLimit := lLimit l, fOffset := lOffset l, fStatus := lStatus l,
       fType := map resolve_alias (lType l), fKind := lKind l, fPriority := lPriority l,
       fFields := lFieldFilters l\<rparr>"

subsection \<open>gRPC\<close>

text \<open>The order of the tests of \<open>UpdateBead\<close> and, less the second, of \<open>CreateBead\<close>.\<close>

definition create_status :: "err \<Rightarrow> code \<times> string" where
  "create_status e =
     (case as_input_error e of
        Some m \<Rightarrow> (InvalidArgument, m) | None \<Rightarrow> internal [] e)"

definition update_status :: "err \<Rightarrow> code \<times> string" where
  "update_status e =
     (case as_input_error e of
        Some m \<Rightarrow> (InvalidArgument, m)
      | None \<Rightarrow> if is_no_rows e then (NotFound, ''bead not found'') else internal [] e)"

definition CreateBead :: "string res \<Rightarrow> pb_create \<Rightarrow> 'w server \<Rightarrow> pb_bead rpc \<times> 'w server" where
  "CreateBead gen q =
     respond (createBead gen (create_of_request q)) (\<lambda>e. Inl (create_status e)) (Inr \<circ> beadToProto)"

definition GetBead :: "string \<Rightarrow> 'w server \<Rightarrow> pb_bead rpc \<times> 'w server" where
  "GetBead i =
     (if i = [] then reply (Inl (InvalidArgument, ''id is required''))
      else respond (queryGetBead i) (\<lambda>e. Inl (storeError e ''bead'')) (Inr \<circ> beadToProto))"

definition ListBeads :: "pb_list \<Rightarrow> 'w server \<Rightarrow> (pb_bead list \<times> int) rpc \<times> 'w server" where
  "ListBeads l =
     respond (queryListBeads (filter_of_request l))
       (\<lambda>e. Inl (internal ''failed to list beads: '' e))
       (\<lambda>(beads, n). Inr (map beadToProto beads, int32 (int n)))"

definition UpdateBead :: "string \<Rightarrow> pb_update \<Rightarrow> 'w server \<Rightarrow> pb_bead rpc \<times> 'w server" where
  "UpdateBead i v =
     (if i = [] then reply (Inl (InvalidArgument, ''id is required''))
      else respond (updateBead i (update_of_request v)) (\<lambda>e. Inl (update_status e))
             (Inr \<circ> beadToProto))"

text \<open>Closing announces the bead; closing advice announces its end, on gRPC only.\<close>

definition announce_closed :: "string \<Rightarrow> bead \<Rightarrow> ('w server, unit) op" where
  "announce_closed closedBy b =
     recordAndPublish TopicBeadClosed (bID b) closedBy (BeadClosed b closedBy)"

definition close_advice :: "string \<Rightarrow> bead \<Rightarrow> ('w server, unit) op" where
  "close_advice closedBy b =
     (if bType b = TypeAdvice
      then recordAndPublish TopicAdviceDeleted (bID b) closedBy (AdviceDeleted (bID b))
      else ret ())"

definition CloseBead :: "string \<Rightarrow> string \<Rightarrow> 'w server \<Rightarrow> pb_bead rpc \<times> 'w server" where
  "CloseBead i closedBy =
     (if i = [] then reply (Inl (InvalidArgument, ''id is required''))
      else respond
        (and_then (queryCloseBead i closedBy) (\<lambda>b.
         and_then (announce_closed closedBy b) (\<lambda>_.
         and_then (close_advice closedBy b) (\<lambda>_.
         ret b))))
        (\<lambda>e. Inl (storeError e ''bead'')) (Inr \<circ> beadToProto))"

definition delete_and_announce :: "string \<Rightarrow> ('w server, unit) op" where
  "delete_and_announce i =
     and_then (queryDeleteBead i) (\<lambda>_.
       recordAndPublish TopicBeadDeleted i [] (BeadDeleted i))"

definition DeleteBead :: "string \<Rightarrow> 'w server \<Rightarrow> unit rpc \<times> 'w server" where
  "DeleteBead i =
     (if i = [] then reply (Inl (InvalidArgument, ''id is required''))
      else respond (delete_and_announce i)
        (\<lambda>e. if is_no_rows e then Inl (NotFound, ''bead not found'')
             else Inl (internal ''failed to delete bead: '' e)) Inr)"

subsection \<open>Decoding HTTP requests\<close>

definition decode_time :: "json \<Rightarrow> time option option" where
  "decode_time j =
     (case j of JNull \<Rightarrow> Some None | JStr s \<Rightarrow> map_option Some (parse_time s) | _ \<Rightarrow> None)"

definition decode_string_ptr :: "json \<Rightarrow> string option option" where
  "decode_string_ptr j = (case j of JNull \<Rightarrow> Some None | JStr s \<Rightarrow> Some (Some s) | _ \<Rightarrow> None)"

definition decode_int_ptr :: "json \<Rightarrow> int option option" where
  "decode_int_ptr j = (if j = JNull then Some None else map_option Some (decode_int j 0))"

definition decode_slice :: "json \<Rightarrow> string list option option" where
  "decode_slice j = (if j = JNull then Some None else map_option Some (decode_strings j))"

definition create_field :: "string \<Rightarrow> json \<Rightarrow> create_input \<Rightarrow> create_input option" where
  "create_field k j inp =
     (if fold_eq k ''title'' then map_option (\<lambda>x. inp\<lparr>iTitle := x\<rparr>) (decode_string j (iTitle inp))
      else if fold_eq k ''kind'' then map_option (\<lambda>x. inp\<lparr>iKind := x\<rparr>) (decode_string j (iKind inp))
      else if fold_eq k ''type'' then map_option (\<lambda>x. inp\<lparr>iType := x\<rparr>) (decode_string j (iType inp))
      else if fold_eq k ''description'' then
        map_option (\<lambda>x. inp\<lparr>iDescription := x\<rparr>) (decode_string j (iDescription inp))
      else if fold_eq k ''notes'' then map_option (\<lambda>x. inp\<lparr>iNotes := x\<rparr>) (decode_string j (iNotes inp))
      else if fold_eq k ''priority'' then
        map_option (\<lambda>x. inp\<lparr>iPriority := x\<rparr>) (decode_int j (iPriority inp))
      else if fold_eq k ''assignee'' then
        map_option (\<lambda>x. inp\<lparr>iAssignee := x\<rparr>) (decode_string j (iAssignee inp))
      else if fold_eq k ''owner'' then map_option (\<lambda>x. inp\<lparr>iOwner := x\<rparr>) (decode_string j (iOwner inp))
      else if fold_eq k ''labels'' then map_option (\<lambda>x. inp\<lparr>iLabels := x\<rparr>) (decode_strings j)
      else if fold_eq k ''created_by'' then
        map_option (\<lambda>x. inp\<lparr>iCreatedBy := x\<rparr>) (decode_string j (iCreatedBy inp))
      else if fold_eq k ''fields'' then Some (inp\<lparr>iFields := Raw j\<rparr>)
      else if fold_eq k ''due_at'' then map_option (\<lambda>x. inp\<lparr>iDueAt := x\<rparr>) (decode_time j)
      else if fold_eq k ''defer_until'' then map_option (\<lambda>x. inp\<lparr>iDeferUntil := x\<rparr>) (decode_time j)
      else Some inp)"

definition no_create :: create_input where
  "no_create = \<lparr>iTitle = [], iKind = [], iType = [], iDescription = [], iNotes = [],
     iPriority = 0, iAssignee = [], iOwner = [], iLabels = [], iCreatedBy = [], iFields = RawNil,
     iDueAt = None, iDeferUntil = None\<rparr>"

definition decode_create :: "raw \<Rightarrow> create_input option" where
  "decode_create body = decode_struct create_field body no_create"

definition update_field :: "string \<Rightarrow> json \<Rightarrow> update_input \<Rightarrow> update_input option" where
  "update_field k j u =
     (if fold_eq k ''title'' then map_option (\<lambda>x. u\<lparr>uTitle := x\<rparr>) (decode_string_ptr j)
      else if fold_eq k ''description'' then
        map_option (\<lambda>x. u\<lparr>uDescription := x\<rparr>) (decode_string_ptr j)
      else if fold_eq k ''notes'' then map_option (\<lambda>x. u\<lparr>uNotes := x\<rparr>) (decode_string_ptr j)
      else if fold_eq k ''status'' then map_option (\<lambda>x. u\<lparr>uStatus := x\<rparr>) (decode_string_ptr j)
      else if fold_eq k ''priority'' then map_option (\<lambda>x. u\<lparr>uPriority := x\<rparr>) (decode_int_ptr j)
      else if fold_eq k ''assignee'' then map_option (\<lambda>x. u\<lparr>uAssignee := x\<rparr>) (decode_string_ptr j)
      else if fold_eq k ''owner'' then map_option (\<lambda>x. u\<lparr>uOwner := x\<rparr>) (decode_string_ptr j)
      else if fold_eq k ''due_at'' then map_option (\<lambda>x. u\<lparr>uDueAt := x\<rparr>) (decode_time j)
      else if fold_eq k ''defer_until'' then map_option (\<lambda>x. u\<lparr>uDeferUntil := x\<rparr>) (decode_time j)
      else if fold_eq k ''fields'' then Some (u\<lparr>uFields := Raw j\<rparr>)
      else if fold_eq k ''labels'' then map_option (\<lambda>x. u\<lparr>uLabels := x\<rparr>) (decode_slice j)
      else Some u)"

definition no_update :: update_input where
  "no_update = \<lparr>uTitle = None, uDescription = None, uNotes = None, uStatus = None,
     uPriority = None, uAssignee = None, uOwner = None, uDueAt = None, uDeferUntil = None,
     uFields = RawNil, uLabels = None, uDueAtSet = False, uDeferUntilSet = False,
     uLabelsSet = False\<rparr>"

definition decode_update :: "raw \<Rightarrow> update_input option" where
  "decode_update body =
     map_option (\<lambda>u. u\<lparr>uDueAtSet := uDueAt u \<noteq> None, uDeferUntilSet := uDeferUntil u \<noteq> None,
                      uLabelsSet := uLabels u \<noteq> None\<rparr>)
       (decode_struct update_field body no_update)"

text \<open>\<open>url.Values\<close>: the pairs of the query, in order.\<close>

type_synonym query = "(string \<times> string) list"

definition q_get :: "query \<Rightarrow> string \<Rightarrow> string" where
  "q_get q k = (case map_of q k of Some v \<Rightarrow> v | None \<Rightarrow> [])"

definition q_all :: "query \<Rightarrow> string \<Rightarrow> string list" where
  "q_all q k = map snd (filter (\<lambda>(k', _). k' = k) q)"

definition q_list :: "query \<Rightarrow> string \<Rightarrow> string list" where
  "q_list q k = (if q_get q k \<noteq> [] then split_byte (CHR '','') (q_get q k) else [])"

definition q_int :: "query \<Rightarrow> string \<Rightarrow> int option" where
  "q_int q k = (if q_get q k \<noteq> [] then atoi (q_get q k) else None)"

definition field_filters :: "string list \<Rightarrow> (string \<times> string) list" where
  "field_filters ff =
     put_all (concat (map (\<lambda>f. case cut_byte (CHR ''='') f of Some kv \<Rightarrow> [kv] | None \<Rightarrow> []) ff)) []"

definition filter_of_query :: "query \<Rightarrow> bead_filter" where
  "filter_of_query q =
     no_filter\<lparr>fAssignee := q_get q ''assignee'', fSearch := q_get q ''search'',
       fSort := q_get q ''sort'', fStatus := q_list q ''status'', fType := q_list q ''type'',
       fKind := q_list q ''kind'', fLabels := q_list q ''labels'', fPriority := q_int q ''priority'',
       fLimit := (case q_int q ''limit'' of Some n \<Rightarrow> n | None \<Rightarrow> 0),
       fOffset := (case q_int q ''offset'' of Some n \<Rightarrow> n | None \<Rightarrow> 0),
       fNoOpenDeps := (q_get q ''no_open_deps'' = ''true''),
       fFields := field_filters (q_all q ''field'')\<rparr>"

subsection \<open>HTTP\<close>

text \<open>\<open>writeError(500, err.Error())\<close>.\<close>

definition http_500 :: "err \<Rightarrow> resp" where
  "http_500 e = http_fail 500 (err_text e) e"

definition create_failed :: "err \<Rightarrow> resp" where
  "create_failed e =
     (case as_input_error e of Some m \<Rightarrow> error_resp 400 m | None \<Rightarrow> http_500 e)"

definition update_failed :: "err \<Rightarrow> resp" where
  "update_failed e =
     (case as_input_error e of
        Some m \<Rightarrow> error_resp 400 m
      | None \<Rightarrow> if is_no_rows e then error_resp 404 ''bead not found'' else http_500 e)"

definition bead_or :: "string \<Rightarrow> err \<Rightarrow> resp" where
  "bead_or m e = (if is_no_rows e then error_resp 404 ''bead not found'' else http_fail 500 m e)"

definition handleCreateBead :: "string res \<Rightarrow> raw \<Rightarrow> 'w server \<Rightarrow> resp \<times> 'w server" where
  "handleCreateBead gen body =
     (case decode_create body of
        None \<Rightarrow> reply (error_resp 400 ''invalid JSON body'')
      | Some inp \<Rightarrow> respond (createBead gen inp) create_failed (Resp 201 \<circ> BeadBody))"

definition handleListBeads :: "query \<Rightarrow> 'w server \<Rightarrow> resp \<times> 'w server" where
  "handleListBeads q =
     respond (queryListBeads (filter_of_query q)) (http_fail 500 ''failed to list beads'')
       (\<lambda>(beads, n). Resp 200 (BeadsBody beads n))"

definition handleGetBead :: "string \<Rightarrow> 'w server \<Rightarrow> resp \<times> 'w server" where
  "handleGetBead i =
     (if i = [] then reply (error_resp 400 ''id is required'')
      else respond (queryGetBead i) (bead_or ''failed to get bead'') (Resp 200 \<circ> BeadBody))"

definition handleDeleteBead :: "string \<Rightarrow> 'w server \<Rightarrow> resp \<times> 'w server" where
  "handleDeleteBead i =
     (if i = [] then reply (error_resp 400 ''id is required'')
      else respond (delete_and_announce i) (bead_or ''failed to delete bead'')
             (\<lambda>_. Resp 204 NoBody))"

definition handleUpdateBead :: "string \<Rightarrow> raw \<Rightarrow> 'w server \<Rightarrow> resp \<times> 'w server" where
  "handleUpdateBead i body =
     (if i = [] then reply (error_resp 400 ''id is required'')
      else case decode_update body of
        None \<Rightarrow> reply (error_resp 400 ''invalid JSON body'')
      | Some u \<Rightarrow> respond (updateBead i u) update_failed (Resp 200 \<circ> BeadBody))"

text \<open>The body of a close: who closes, and fields to merge first (a failure is only logged).\<close>

definition close_body :: "raw \<Rightarrow> string \<times> (string \<times> json) list" where
  "close_body body =
     (let kvs = gomap_list (fst (unmarshal_map body None)) in
      (case map_of kvs ''closed_by'' of Some (JStr who) \<Rightarrow> who | _ \<Rightarrow> [],
       filter (\<lambda>(k, _). k \<noteq> ''closed_by'') kvs))"

definition handleCloseBead :: "string \<Rightarrow> raw \<Rightarrow> 'w server \<Rightarrow> resp \<times> 'w server" where
  "handleCloseBead i body =
     (if i = [] then reply (error_resp 400 ''id is required'')
      else case close_body body of (closedBy, extra) \<Rightarrow>
        respond
          (and_then (if extra \<noteq> [] then best_effort (mergeBeadFields i extra) else ret ()) (\<lambda>_.
           and_then (queryCloseBead i closedBy) (\<lambda>b.
           and_then (announce_closed closedBy b) (\<lambda>_.
           ret b))))
          (bead_or ''failed to close bead'') (Resp 200 \<circ> BeadBody))"

subsection \<open>What the handlers keep\<close>

lemma returns_drop: "returns I m Q \<Longrightarrow> returns I (and_then m (\<lambda>_. ret x)) any"
  by (rule returns_and_then [where P = any]) (auto intro: returns_any returns_ret)

lemma sound_announce_closed [sound_ops]:
  "returns sound (announce_closed c b) any" "returns sound (close_advice c b) any"
  unfolding announce_closed_def close_advice_def by (auto intro: sound_ops returns_ret)

lemma sound_delete_and_announce [sound_ops]: "returns sound (delete_and_announce i) any"
  unfolding delete_and_announce_def by (intro returns_and_then [where P = any] sound_ops)

lemma sound_close_steps:
  "returns sound
     (and_then (queryCloseBead i c) (\<lambda>b. and_then (announce_closed c b) (\<lambda>_. ret b))) any"
  "returns sound
     (and_then (queryCloseBead i c) (\<lambda>b. and_then (announce_closed c b) (\<lambda>_.
      and_then (close_advice c b) (\<lambda>_. ret b)))) any"
  by (intro returns_and_then [where P = any] sound_queryCloseBead [THEN returns_any] sound_ops
      returns_ret TrueI)+

lemma safe_bead_handlers [safe_handlers]:
  "safe sound (CreateBead gen q)" "safe sound (GetBead i)" "safe sound (ListBeads l)"
  "safe sound (UpdateBead i v)" "safe sound (CloseBead i c)" "safe sound (DeleteBead i)"
  unfolding CreateBead_def GetBead_def ListBeads_def UpdateBead_def CloseBead_def DeleteBead_def
  by (intro safe_if safe_reply safe_respond, rule sound_ops sound_close_steps)+

lemma safe_bead_http [safe_handlers]:
  "safe sound (handleCreateBead gen body)" "safe sound (handleListBeads q)"
  "safe sound (handleGetBead i)" "safe sound (handleDeleteBead i)"
  "safe sound (handleUpdateBead i body)" "safe sound (handleCloseBead i body)"
  unfolding handleCreateBead_def handleListBeads_def handleGetBead_def handleDeleteBead_def
    handleUpdateBead_def handleCloseBead_def
  by (auto intro!: safe_reply safe_respond sound_ops returns_best_effort returns_ret
      returns_and_then [where P = any] sound_queryCloseBead [THEN returns_any]
      split: option.split prod.split)

subsection \<open>The two transports\<close>

fun http_code :: "code \<Rightarrow> nat" where
  "http_code InvalidArgument = 400"
| "http_code NotFound = 404"
| "http_code Unauthenticated = 401"
| "http_code Internal = 500"
| "http_code Crashed = 500"

text \<open>The same outcome: the same bead, or an error of the same kind; and the same state after.\<close>

definition error_agrees :: "code \<times> string \<Rightarrow> resp \<Rightarrow> bool" where
  "error_agrees c h \<longleftrightarrow>
     (if fst c = Crashed then h = Aborted else \<exists>m. h = error_resp (http_code (fst c)) m)"

definition agree :: "nat \<Rightarrow> pb_bead rpc \<times> 's \<Rightarrow> resp \<times> 's \<Rightarrow> bool" where
  "agree ok r h \<longleftrightarrow>
     snd r = snd h
     \<and> (case fst r of
          Inl c \<Rightarrow> error_agrees c (fst h)
        | Inr p \<Rightarrow> \<exists>b. p = beadToProto b \<and> fst h = Resp ok (BeadBody b))"

lemma agree_respond:
  "(\<And>e. error_agrees (bad e) (bad' e)) \<Longrightarrow>
   agree ok (respond m (\<lambda>e. Inl (bad e)) (Inr \<circ> beadToProto) s) (respond m bad' (Resp ok \<circ> BeadBody) s)"
  by (cases "m s"; cases "fst (m s)") (simp_all add: respond_def agree_def)

lemma errors_agree:
  "error_agrees (internal p e) (http_fail 500 m e)"
  "error_agrees (create_status e) (create_failed e)"
  "error_agrees (update_status e) (update_failed e)"
  "is_no_rows e \<Longrightarrow> \<not> is_panic e"
  "error_agrees (storeError e x) (bead_or m e)"
proof -
  show i: "error_agrees (internal p e) (http_fail 500 m e)" for p m
    by (auto simp: error_agrees_def internal_def http_fail_def)
  show c: "error_agrees (create_status e) (create_failed e)"
    using i by (auto simp: create_status_def create_failed_def http_500_def error_agrees_def
        split: option.split)
  show "error_agrees (update_status e) (update_failed e)"
    using i by (auto simp: update_status_def update_failed_def http_500_def error_agrees_def
        split: option.split)
  show n: "is_no_rows e \<Longrightarrow> \<not> is_panic e" by (induction e rule: is_no_rows.induct) auto
  then show "error_agrees (storeError e x) (bead_or m e)"
    by (auto simp: storeError_def bead_or_def http_fail_def error_agrees_def)
qed

text \<open>
  C21: the two transports are one service. The same creation, reading or update, asked over
  gRPC or over HTTP, leaves the same state of the server and gives the same bead, or an error
  of the same kind.
\<close>

theorem transports_agree:
  assumes "decode_create cbody = Some (create_of_request q)"
    and "decode_update ubody = Some (update_of_request v)"
  shows "agree 201 (CreateBead gen q s) (handleCreateBead gen cbody s)
    \<and> agree 200 (GetBead i s) (handleGetBead i s)
    \<and> agree 200 (UpdateBead i v s) (handleUpdateBead i ubody s)"
proof (intro conjI)
  show "agree 201 (CreateBead gen q s) (handleCreateBead gen cbody s)"
    by (auto simp: CreateBead_def handleCreateBead_def assms(1) intro!: agree_respond errors_agree)
  have missing: "agree 200 (reply (Inl (InvalidArgument, t)) s) (reply (error_resp 400 t) s)" for t
    by (auto simp: agree_def reply_def error_agrees_def)
  show "agree 200 (GetBead i s) (handleGetBead i s)"
    using missing by (auto simp: GetBead_def handleGetBead_def intro!: agree_respond errors_agree)
  show "agree 200 (UpdateBead i v s) (handleUpdateBead i ubody s)"
    using missing
    by (auto simp: UpdateBead_def handleUpdateBead_def assms(2) intro!: agree_respond errors_agree)
qed

definition sample_request :: pb_create where
  "sample_request = \<lparr>qTitle = ''Fix'', qKind = [], qType = ''task'', qDescription = [], qNotes = [],
     qPriority = 2, qAssignee = [], qOwner = [], qDueAt = None, qDeferUntil = None,
     qFields = RawNil, qLabels = [''ui''], qCreatedBy = ''ada''\<rparr>"

definition sample_body :: raw where
  "sample_body = Raw (JObj [(''title'', JStr ''Fix''), (''type'', JStr ''task''), (''priority'', JInt 2),
     (''labels'', JArr [JStr ''ui'']), (''created_by'', JStr ''ada'')])"

definition sample_close :: pb_update where
  "sample_close = \<lparr>vTitle = None, vDescription = None, vNotes = None, vStatus = Some ''closed'',
     vPriority = None, vAssignee = None, vOwner = None, vDueAt = None, vDeferUntil = None,
     vFields = RawNil, vLabels = []\<rparr>"

lemma sample_requests_decode:
  "decode_create sample_body = Some (create_of_request sample_request)"
  "create_of_request sample_request = sample_input"
  "decode_update (Raw (JObj [(''status'', JStr ''closed'')])) = Some (update_of_request sample_close)"
  by (simp_all add: decode_create_def decode_update_def sample_body_def decode_struct_def
      create_field_def update_field_def fold_eq_def ascii_upper_def byte_def decode_string_def
      decode_int_def int64_ok_def decode_strings_def decode_string_ptr_def no_create_def
      no_update_def create_of_request_def update_of_request_def sample_request_def
      sample_close_def protoTimestamp_def sample_input_def)

lemma transports_agree_witness:
  "\<exists>b s'. CreateBead (Inr ''kd-1'') sample_request (idle_server no_tables) = (Inr (beadToProto b), s')
     \<and> handleCreateBead (Inr ''kd-1'') sample_body (idle_server no_tables) = (Resp 201 (BeadBody b), s')"
proof -
  obtain s' where run: "createBead (Inr ''kd-1'') sample_input (idle_server no_tables) =
      (Inr sample_created, s')" using sample_create_Inr by blast
  then have c: "CreateBead (Inr ''kd-1'') sample_request (idle_server no_tables) =
      (Inr (beadToProto sample_created), s')"
    by (simp add: CreateBead_def respond_def sample_requests_decode)
  have "agree 201 (CreateBead (Inr ''kd-1'') sample_request (idle_server no_tables))
      (handleCreateBead (Inr ''kd-1'') sample_body (idle_server no_tables))"
    using transports_agree [OF sample_requests_decode(1,3)] by blast
  then show ?thesis by (auto simp: c agree_def prod_eq_iff)
qed

end
