(* ===== verification/Relations.thy ===== *)
theory Relations
  imports BeadsApi
begin

text \<open>
  Dependencies, labels, comments and events of a bead: the gRPC operations of
  \<open>internal/server/server.go\<close> and the HTTP handlers of \<open>internal/server/http_relations.go\<close>.
\<close>

subsection \<open>The operations\<close>

definition new_dependency :: "time \<Rightarrow> string \<Rightarrow> string \<Rightarrow> string \<Rightarrow> string \<Rightarrow> dependency" where
  "new_dependency tm b on ty who =
     \<lparr>dBeadID = b, dDependsOnID = on, dType = ty, dCreatedAt = tm, dCreatedBy = who, dMetadata = []\<rparr>"

definition add_dependency ::
  "string \<Rightarrow> string \<Rightarrow> string \<Rightarrow> string \<Rightarrow> ('w server, dependency) op" where
  "add_dependency b on ty who =
     and_then get_state (\<lambda>s.
     let d = new_dependency (now s) b on ty who in
     and_then (queryAddDependency d) (\<lambda>_.
     and_then (recordAndPublish TopicDependencyAdded b who (DependencyAdded d)) (\<lambda>_.
     ret d)))"

definition remove_dependency :: "string \<Rightarrow> string \<Rightarrow> string \<Rightarrow> ('w server, unit) op" where
  "remove_dependency b on ty =
     and_then (queryRemoveDependency b on ty) (\<lambda>_.
     recordAndPublish TopicDependencyRemoved b [] (DependencyRemoved b on ty))"

definition remove_label :: "string \<Rightarrow> string \<Rightarrow> ('w server, unit) op" where
  "remove_label b l =
     and_then (queryRemoveLabel b l) (\<lambda>_.
     recordAndPublish TopicLabelRemoved b [] (LabelRemoved b l))"

text \<open>The statement fills in the id and the time.\<close>

definition add_comment :: "string \<Rightarrow> string \<Rightarrow> string \<Rightarrow> ('w server, comment) op" where
  "add_comment b author txt =
     and_then get_state (\<lambda>s.
     and_then (queryAddComment \<lparr>cID = 0, cBeadID = b, cAuthor = author, cText = txt,
         cCreatedAt = now s\<rparr>) (\<lambda>c.
     and_then (recordAndPublish TopicCommentAdded b author (CommentAdded c)) (\<lambda>_.
     ret c)))"

text \<open>A failure before and one after the label is written are reported differently.\<close>

definition add_label :: "string \<Rightarrow> string \<Rightarrow> (err \<Rightarrow> 'r) \<Rightarrow> (err \<Rightarrow> 'r) \<Rightarrow> (bead \<Rightarrow> 'r) \<Rightarrow>
    'w server \<Rightarrow> 'r \<times> 'w server" where
  "add_label b l add_failed get_failed good s =
     (case queryAddLabel b l s of
        (Inl e, s) \<Rightarrow> (add_failed e, s)
      | (Inr _, s) \<Rightarrow>
          respond (queryGetBead b) get_failed good
            (snd (recordAndPublish TopicLabelAdded b [] (LabelAdded b l) s)))"

subsection \<open>gRPC\<close>

definition invalid :: "string \<Rightarrow> 's \<Rightarrow> 'a rpc \<times> 's" where
  "invalid m = reply (Inl (InvalidArgument, m))"

definition AddDependency ::
  "string \<Rightarrow> string \<Rightarrow> string \<Rightarrow> string \<Rightarrow> 'w server \<Rightarrow> pb_dependency rpc \<times> 'w server" where
  "AddDependency b on ty who =
     (if b = [] then invalid ''bead_id is required''
      else if on = [] then invalid ''depends_on_id is required''
      else respond (add_dependency b on ty who)
        (\<lambda>e. Inl (internal ''failed to add dependency: '' e)) (Inr \<circ> dependencyToProto))"

definition RemoveDependency ::
  "string \<Rightarrow> string \<Rightarrow> string \<Rightarrow> 'w server \<Rightarrow> unit rpc \<times> 'w server" where
  "RemoveDependency b on ty =
     (if b = [] then invalid ''bead_id is required''
      else if on = [] then invalid ''depends_on_id is required''
      else respond (remove_dependency b on ty)
        (\<lambda>e. Inl (internal ''failed to remove dependency: '' e)) Inr)"

definition GetDependencies :: "string \<Rightarrow> 'w server \<Rightarrow> pb_dependency list rpc \<times> 'w server" where
  "GetDependencies b =
     (if b = [] then invalid ''bead_id is required''
      else respond (queryGetDependencies b)
        (\<lambda>e. Inl (internal ''failed to get dependencies: '' e)) (Inr \<circ> map dependencyToProto))"

definition AddLabel :: "string \<Rightarrow> string \<Rightarrow> 'w server \<Rightarrow> pb_bead rpc \<times> 'w server" where
  "AddLabel b l =
     (if b = [] then invalid ''bead_id is required''
      else if l = [] then invalid ''label is required''
      else add_label b l (\<lambda>e. Inl (internal ''failed to add label: '' e))
        (\<lambda>e. Inl (internal ''failed to get bead after adding label: '' e)) (Inr \<circ> beadToProto))"

definition RemoveLabel :: "string \<Rightarrow> string \<Rightarrow> 'w server \<Rightarrow> unit rpc \<times> 'w server" where
  "RemoveLabel b l =
     (if b = [] then invalid ''bead_id is required''
      else if l = [] then invalid ''label is required''
      else respond (remove_label b l) (\<lambda>e. Inl (internal ''failed to remove label: '' e)) Inr)"

definition GetLabels :: "string \<Rightarrow> 'w server \<Rightarrow> string list rpc \<times> 'w server" where
  "GetLabels b =
     (if b = [] then invalid ''bead_id is required''
      else respond (queryGetLabels b) (\<lambda>e. Inl (internal ''failed to get labels: '' e)) Inr)"

definition AddComment ::
  "string \<Rightarrow> string \<Rightarrow> string \<Rightarrow> 'w server \<Rightarrow> pb_comment rpc \<times> 'w server" where
  "AddComment b author txt =
     (if b = [] then invalid ''bead_id is required''
      else if txt = [] then invalid ''text is required''
      else respond (add_comment b author txt)
        (\<lambda>e. Inl (internal ''failed to add comment: '' e)) (Inr \<circ> commentToProto))"

definition GetComments :: "string \<Rightarrow> 'w server \<Rightarrow> pb_comment list rpc \<times> 'w server" where
  "GetComments b =
     (if b = [] then invalid ''bead_id is required''
      else respond (queryGetComments b)
        (\<lambda>e. Inl (internal ''failed to get comments: '' e)) (Inr \<circ> map commentToProto))"

definition GetEvents :: "string \<Rightarrow> 'w server \<Rightarrow> pb_event list rpc \<times> 'w server" where
  "GetEvents b =
     (if b = [] then invalid ''bead_id is required''
      else respond (queryGetEvents b)
        (\<lambda>e. Inl (internal ''failed to get events: '' e)) (Inr \<circ> map eventToProto))"

definition Health :: "'w server \<Rightarrow> string rpc \<times> 'w server" where
  "Health = reply (Inr ''ok'')"

subsection \<open>HTTP\<close>

definition bad_request :: "string \<Rightarrow> 's \<Rightarrow> resp \<times> 's" where
  "bad_request m = reply (error_resp 400 m)"

definition handleGetDependencies :: "string \<Rightarrow> 'w server \<Rightarrow> resp \<times> 'w server" where
  "handleGetDependencies b =
     (if b = [] then bad_request ''id is required''
      else respond (queryGetDependencies b) (http_fail 500 ''failed to get dependencies'')
        (Resp 200 \<circ> DepsBody))"

definition handleGetReverseDependencies :: "string \<Rightarrow> 'w server \<Rightarrow> resp \<times> 'w server" where
  "handleGetReverseDependencies b =
     (if b = [] then bad_request ''id is required''
      else respond (queryGetReverseDependencies b)
        (http_fail 500 ''failed to get reverse dependencies'') (Resp 200 \<circ> DepsBody))"

text \<open>Bodies: \<open>(depends_on_id, type, created_by)\<close>, a label, \<open>(author, text)\<close>.\<close>

definition decode_dependency :: "raw \<Rightarrow> (string \<times> string \<times> string) option" where
  "decode_dependency body =
     decode_struct (\<lambda>k j (on, ty, who).
       if fold_eq k ''depends_on_id'' then map_option (\<lambda>x. (x, ty, who)) (decode_string j on)
       else if fold_eq k ''type'' then map_option (\<lambda>x. (on, x, who)) (decode_string j ty)
       else if fold_eq k ''created_by'' then map_option (\<lambda>x. (on, ty, x)) (decode_string j who)
       else Some (on, ty, who)) body ([], [], [])"

definition decode_label :: "raw \<Rightarrow> string option" where
  "decode_label body =
     decode_struct (\<lambda>k j l. if fold_eq k ''label'' then decode_string j l else Some l) body []"

definition decode_comment :: "raw \<Rightarrow> (string \<times> string) option" where
  "decode_comment body =
     decode_struct (\<lambda>k j (au, tx).
       if fold_eq k ''author'' then map_option (\<lambda>x. (x, tx)) (decode_string j au)
       else if fold_eq k ''text'' then map_option (\<lambda>x. (au, x)) (decode_string j tx)
       else Some (au, tx)) body ([], [])"

definition handleAddDependency :: "string \<Rightarrow> raw \<Rightarrow> 'w server \<Rightarrow> resp \<times> 'w server" where
  "handleAddDependency b body =
     (if b = [] then bad_request ''id is required''
      else case decode_dependency body of
        None \<Rightarrow> bad_request ''invalid JSON body''
      | Some (on, ty, who) \<Rightarrow>
          if on = [] then bad_request ''depends_on_id is required''
          else respond (add_dependency b on ty who) (http_fail 500 ''failed to add dependency'')
            (Resp 201 \<circ> DepBody))"

definition handleRemoveDependency :: "string \<Rightarrow> query \<Rightarrow> 'w server \<Rightarrow> resp \<times> 'w server" where
  "handleRemoveDependency b q =
     (if b = [] then bad_request ''id is required''
      else if q_get q ''depends_on_id'' = [] then
        bad_request ''depends_on_id query parameter is required''
      else respond (remove_dependency b (q_get q ''depends_on_id'') (q_get q ''type''))
        (http_fail 500 ''failed to remove dependency'') (\<lambda>_. Resp 204 NoBody))"

definition handleGetLabels :: "string \<Rightarrow> 'w server \<Rightarrow> resp \<times> 'w server" where
  "handleGetLabels b =
     (if b = [] then bad_request ''id is required''
      else respond (queryGetLabels b) (http_fail 500 ''failed to get labels'')
        (Resp 200 \<circ> LabelsBody))"

definition handleAddLabel :: "string \<Rightarrow> raw \<Rightarrow> 'w server \<Rightarrow> resp \<times> 'w server" where
  "handleAddLabel b body =
     (if b = [] then bad_request ''id is required''
      else case decode_label body of
        None \<Rightarrow> bad_request ''invalid JSON body''
      | Some l \<Rightarrow>
          if l = [] then bad_request ''label is required''
          else add_label b l (http_fail 500 ''failed to add label'')
            (http_fail 500 ''failed to get bead after adding label'') (Resp 201 \<circ> BeadBody))"

definition handleRemoveLabel :: "string \<Rightarrow> string \<Rightarrow> 'w server \<Rightarrow> resp \<times> 'w server" where
  "handleRemoveLabel b l =
     (if b = [] then bad_request ''id is required''
      else if l = [] then bad_request ''label is required''
      else respond (remove_label b l) (http_fail 500 ''failed to remove label'')
        (\<lambda>_. Resp 204 NoBody))"

definition handleGetComments :: "string \<Rightarrow> 'w server \<Rightarrow> resp \<times> 'w server" where
  "handleGetComments b =
     (if b = [] then bad_request ''id is required''
      else respond (queryGetComments b) (http_fail 500 ''failed to get comments'')
        (Resp 200 \<circ> CommentsBody))"

definition handleAddComment :: "string \<Rightarrow> raw \<Rightarrow> 'w server \<Rightarrow> resp \<times> 'w server" where
  "handleAddComment b body =
     (if b = [] then bad_request ''id is required''
      else case decode_comment body of
        None \<Rightarrow> bad_request ''invalid JSON body''
      | Some (author, txt) \<Rightarrow>
          if txt = [] then bad_request ''text is required''
          else respond (add_comment b author txt) (http_fail 500 ''failed to add comment'')
            (Resp 201 \<circ> CommentBody))"

definition handleGetEvents :: "string \<Rightarrow> 'w server \<Rightarrow> resp \<times> 'w server" where
  "handleGetEvents b =
     (if b = [] then bad_request ''id is required''
      else respond (queryGetEvents b) (http_fail 500 ''failed to get events'')
        (Resp 200 \<circ> EventsBody))"

subsection \<open>What the handlers keep\<close>

lemma sound_relation_ops [sound_ops]:
  "returns sound (add_dependency b on ty who) any" "returns sound (remove_dependency b on ty) any"
  "returns sound (remove_label b l) any" "returns sound (add_comment b a x) any"
  unfolding add_dependency_def remove_dependency_def remove_label_def add_comment_def Let_def
  by (intro returns_and_then [where P = any] returns_get_state [THEN returns_any] returns_ret
      sound_ops TrueI)+

lemma safe_add_label [safe_handlers]: "safe sound (add_label b l f g h)"
  unfolding safe_def
proof (intro allI impI)
  fix s :: "'w server" assume s: "sound s"
  have "returns sound (queryAddLabel b l :: ('w server, unit) op) any" by (rule sound_ops)
  then have "sound (snd (queryAddLabel b l s))" using s by (simp add: returns_def)
  then have "sound (snd (recordAndPublish TopicLabelAdded b [] (LabelAdded b l) (snd (queryAddLabel b l s))))"
    using sound_recordAndPublish unfolding returns_def by blast
  then show "sound (snd (add_label b l f g h s))"
    using \<open>sound (snd (queryAddLabel b l s))\<close> safe_respond [OF sound_queryGetBead, THEN safeD]
    by (auto simp: add_label_def split: prod.split sum.split)
qed

lemma safe_relations [safe_handlers]:
  "safe sound (AddDependency b on ty who)" "safe sound (RemoveDependency b on ty)"
  "safe sound (GetDependencies b)" "safe sound (AddLabel b l)" "safe sound (RemoveLabel b l)"
  "safe sound (GetLabels b)" "safe sound (AddComment b a x)" "safe sound (GetComments b)"
  "safe sound (GetEvents b)" "safe sound Health"
  unfolding AddDependency_def RemoveDependency_def GetDependencies_def AddLabel_def RemoveLabel_def
    GetLabels_def AddComment_def GetComments_def GetEvents_def Health_def invalid_def
  by (intro safe_intros safe_add_label; rule sound_ops)+

lemma safe_relations_http [safe_handlers]:
  "safe sound (handleGetDependencies b)" "safe sound (handleGetReverseDependencies b)"
  "safe sound (handleAddDependency b body)" "safe sound (handleRemoveDependency b q)"
  "safe sound (handleGetLabels b)" "safe sound (handleAddLabel b body)"
  "safe sound (handleRemoveLabel b l)" "safe sound (handleGetComments b)"
  "safe sound (handleAddComment b body)" "safe sound (handleGetEvents b)"
  unfolding handleGetDependencies_def handleGetReverseDependencies_def handleAddDependency_def
    handleRemoveDependency_def handleGetLabels_def handleAddLabel_def handleRemoveLabel_def
    handleGetComments_def handleAddComment_def handleGetEvents_def bad_request_def
  by (auto intro!: safe_reply safe_respond safe_add_label sound_ops split: option.split)

subsection \<open>Labels are sets\<close>

lemma queryGetBead_no_faults:
  "faults s = [] \<Longrightarrow>
   queryGetBead i s =
     (case find_bead i (db s) of
        None \<Rightarrow> (Inl ErrNoRows, s)
      | Some row \<Rightarrow> (Inr (row\<lparr>bLabels := labels_of i (db s), bDependencies := deps_of i (db s),
                             bComments := comments_of i (db s)\<rparr>), s))"
  by (simp add: queryGetBead_def fetch_relations_def queryGetLabels_def queryGetDependencies_def
      queryGetComments_def op_defs no_faults sql_select_bead_def split: option.split)

lemma recordAndPublish_faults: "faults s = [] \<Longrightarrow> faults (snd (recordAndPublish tp i a ev s)) = []"
  by (auto simp: recordAndPublish_def queryRecordEvent_def no_faults Let_def split: option.split)

lemma recordAndPublish_db:
  "labels_of b (db (snd (recordAndPublish tp i a ev s))) = labels_of b (db s)"
  "find_bead b (db (snd (recordAndPublish tp i a ev s))) = find_bead b (db s)"
  using same_but_eventsD [OF recordAndPublish_effect(1) [of s tp i a ev]]
  by (simp_all add: labels_of_def find_bead_def)

text \<open>The abstract state: the set of labels of every bead.\<close>

definition label_sets :: "tables \<Rightarrow> string \<Rightarrow> string set" where
  "label_sets t b = set (labels_of b t)"

lemma label_sets_insert:
  "(b, l) \<notin> set (tLabels t) \<Longrightarrow>
   label_sets (t\<lparr>tLabels := tLabels t @ [(b, l)]\<rparr>) = (label_sets t)(b := insert l (label_sets t b))"
  by (auto simp: fun_eq_iff label_sets_def labels_of_def)

lemma label_sets_delete:
  "label_sets (t\<lparr>tLabels := filter (\<lambda>x. x \<noteq> (b, l)) (tLabels t)\<rparr>) =
   (label_sets t)(b := label_sets t b - {l})"
  by (auto simp: fun_eq_iff label_sets_def set_labels_of)

lemma label_sets_announced:
  "label_sets (db (snd (recordAndPublish tp i a ev s))) = label_sets (db s)"
  by (simp add: fun_eq_iff label_sets_def recordAndPublish_db)

lemma find_bead_row: "i \<in> bead_ids t \<longleftrightarrow> (\<exists>row. find_bead i t = Some row)"
  using find_bead_None [of i t] by (cases "find_bead i t") auto

lemma AddLabel_run:
  fixes s :: "'w server"
  assumes wf: "db_wf (db s)" and f: "faults s = []" and b: "find_bead b (db s) = Some row"
    and ne: "b \<noteq> []" "l \<noteq> []"
  shows "\<exists>s1. AddLabel b l s = (Inr (beadToProto (row\<lparr>bLabels := labels_of b (db s1),
            bDependencies := deps_of b (db s1), bComments := comments_of b (db s1)\<rparr>)), s1)
          \<and> label_sets (db s1) = (label_sets (db s))(b := insert l (label_sets (db s) b))"
proof -
  have "b \<in> bead_ids (db s)" using b by (simp add: find_bead_row)
  then obtain s0 where add: "queryAddLabel b l s = (Inr (), s0)" "faults s0 = []"
      "find_bead b (db s0) = Some row"
      "label_sets (db s0) = (label_sets (db s))(b := insert l (label_sets (db s) b))"
  proof (cases "(b, l) \<in> set (tLabels (db s))")
    case True
    then have "queryAddLabel b l s = (Inr (), s)"
      using f by (simp add: queryAddLabel_def no_faults sql_insert_label_def)
    moreover have "(label_sets (db s))(b := insert l (label_sets (db s) b)) = label_sets (db s)"
      using True by (auto simp: fun_eq_iff label_sets_def set_labels_of)
    ultimately show thesis using that [of s] f b by simp
  next
    case False
    let ?s = "s\<lparr>db := (db s)\<lparr>tLabels := tLabels (db s) @ [(b, l)]\<rparr>\<rparr>"
    have "queryAddLabel b l s = (Inr (), ?s)"
      using f False \<open>b \<in> bead_ids (db s)\<close>
      by (simp add: queryAddLabel_def no_faults sql_insert_label_def)
    then show thesis
      using that [of ?s] f b label_sets_insert [OF False] by (simp add: find_bead_def)
  qed
  let ?s1 = "snd (recordAndPublish TopicLabelAdded b [] (LabelAdded b l) s0)"
  have "AddLabel b l s = (Inr (beadToProto (row\<lparr>bLabels := labels_of b (db ?s1),
            bDependencies := deps_of b (db ?s1), bComments := comments_of b (db ?s1)\<rparr>)), ?s1)"
    using ne add recordAndPublish_faults [OF add(2)]
    by (simp add: AddLabel_def add_label_def respond_def queryGetBead_no_faults recordAndPublish_db)
  then show ?thesis using add(4) label_sets_announced by metis
qed

text \<open>
  The labels of a bead are a set. Adding a label to a bead that exists inserts it into the
  set of that bead and returns the bead with exactly that set; adding one to a bead that does
  not exist fails and changes nothing; removing deletes it; no other bead's set changes;
  reading lists the set.
\<close>

theorem labels_refine_sets:
  fixes s :: "'w server"
  assumes "db_wf (db s)" and "faults s = []" and "b \<noteq> []" and "l \<noteq> []"
  shows "(find_bead b (db s) \<noteq> None \<longrightarrow>
            (\<exists>p s'. AddLabel b l s = (Inr p, s')
              \<and> label_sets (db s') = (label_sets (db s))(b := insert l (label_sets (db s) b))
              \<and> set (pbLabels p) = label_sets (db s') b))
     \<and> (find_bead b (db s) = None \<longrightarrow> (\<exists>m. AddLabel b l s = (Inl (Internal, m), s)))
     \<and> (\<exists>s'. RemoveLabel b l s = (Inr (), s')
           \<and> label_sets (db s') = (label_sets (db s))(b := label_sets (db s) b - {l}))
     \<and> (\<exists>ls. GetLabels b s = (Inr ls, s) \<and> set ls = label_sets (db s) b)"
proof (intro conjI impI)
  assume "find_bead b (db s) \<noteq> None"
  then obtain row where "find_bead b (db s) = Some row" by auto
  from AddLabel_run [OF assms(1,2) this assms(3,4)]
  show "\<exists>p s'. AddLabel b l s = (Inr p, s')
      \<and> label_sets (db s') = (label_sets (db s))(b := insert l (label_sets (db s) b))
      \<and> set (pbLabels p) = label_sets (db s') b"
    by (force simp: beadToProto_def label_sets_def)
next
  assume "find_bead b (db s) = None"
  then have "b \<notin> bead_ids (db s)" by (simp add: find_bead_row)
  then show "\<exists>m. AddLabel b l s = (Inl (Internal, m), s)"
    using labels_of_fresh [OF assms(1)] assms(2-4)
    by (simp add: AddLabel_def add_label_def queryAddLabel_def no_faults sql_insert_label_def
        internal_def fk_violation_def)
next
  let ?s0 = "s\<lparr>db := (db s)\<lparr>tLabels := filter (\<lambda>x. x \<noteq> (b, l)) (tLabels (db s))\<rparr>\<rparr>"
  have "queryRemoveLabel b l s = (Inr (), ?s0)"
    using assms(2) by (simp add: queryRemoveLabel_def no_faults sql_delete_label_def)
  then have "RemoveLabel b l s =
      (Inr (), snd (recordAndPublish TopicLabelRemoved b [] (LabelRemoved b l) ?s0))"
    using assms(3,4)
    by (simp add: RemoveLabel_def respond_def remove_label_def and_then_def split_beta
        recordAndPublish_ok)
  then show "\<exists>s'. RemoveLabel b l s = (Inr (), s')
      \<and> label_sets (db s') = (label_sets (db s))(b := label_sets (db s) b - {l})"
    by (simp add: label_sets_announced label_sets_delete)
next
  show "\<exists>ls. GetLabels b s = (Inr ls, s) \<and> set ls = label_sets (db s) b"
    using assms(2,3)
    by (simp add: GetLabels_def respond_def queryGetLabels_def no_faults label_sets_def)
qed

lemma labels_refine_sets_witness:
  "\<exists>p s'. AddLabel ''kd-1'' ''urgent'' (idle_server sample_tables) = (Inr p, s')
     \<and> set (pbLabels p) = {''urgent'', ''wip''}"
proof -
  have "label_sets sample_tables ''kd-1'' = {''wip''}"
    by (simp add: label_sets_def labels_of_def sample_tables_def no_tables_def)
  moreover have "find_bead ''kd-1'' sample_tables \<noteq> None"
    by (simp add: find_bead_def sample_tables_def sample_bead_def)
  moreover have "db_wf sample_tables" by (rule db_wf_sample)
  ultimately show ?thesis
    using labels_refine_sets [of "idle_server sample_tables" "''kd-1''" "''urgent''"] by fastforce
qed

end
