(* ===== verification/Advice.thy ===== *)
theory Advice
  imports Model
begin

text \<open>
  Advice targeting: which advice beads reach which agent. The server's matcher
  (\<open>internal/model/advice.go\<close>) and the CLI's copy of it (\<open>cmd/kd/advice_diff.go\<close>), which
  differs in treating \<open>project:X\<close> and \<open>rig:X\<close> as the same scope. A Go
  \<open>map[string]bool\<close> used as a set is a HOL set; a \<open>map[int][]string\<close> is an association
  list, whose order the matcher's result does not depend on.
\<close>

subsection \<open>Group prefixes\<close>

text \<open>The loop of \<open>StripGroupPrefix\<close> at index \<open>i\<close>, on the bytes from there on.\<close>

fun strip_loop :: "nat \<Rightarrow> string \<Rightarrow> string option" where
  "strip_loop i [] = None"
| "strip_loop i (c # cs) =
     (if c = CHR '':'' \<and> 1 < i then Some cs
      else if \<not> is_digit c then None
      else strip_loop (Suc i) cs)"

definition StripGroupPrefix :: "string \<Rightarrow> string" where
  "StripGroupPrefix label =
     (if 3 \<le> length label \<and> hd label = CHR ''g'' then
        (case strip_loop 1 (tl label) of Some rest \<Rightarrow> rest | None \<Rightarrow> label)
      else label)"

text \<open>The group number and the rest of a label, where \<open>ParseGroups\<close> finds a prefix.\<close>

definition group_of :: "string \<Rightarrow> (int \<times> string) option" where
  "group_of label =
     (if has_prefix label ''g'' then
        (case index_byte (CHR '':'') label of
           None \<Rightarrow> None
         | Some idx \<Rightarrow>
             if 1 < idx then
               (case sscan_int (tl (take idx label)) of
                  None \<Rightarrow> None
                | Some n \<Rightarrow> Some (n, drop (Suc idx) label))
             else None)
      else None)"

fun parse_groups_from ::
  "string list \<Rightarrow> (int \<times> string list) list \<Rightarrow> int \<Rightarrow> (int \<times> string list) list" where
  "parse_groups_from [] groups nxt = groups"
| "parse_groups_from (label # labels) groups nxt =
     (case group_of label of
        Some (n, rest) \<Rightarrow> parse_groups_from labels (add_to n rest groups) nxt
      | None \<Rightarrow> parse_groups_from labels (add_to nxt label groups) (nxt + 1))"

definition ParseGroups :: "string list \<Rightarrow> (int \<times> string list) list" where
  "ParseGroups labels = parse_groups_from labels [] 1000"

subsection \<open>The server's matcher\<close>

fun all_match :: "string list \<Rightarrow> string set \<Rightarrow> bool" where
  "all_match [] S = True"
| "all_match (l # ls) S = (if l \<notin> S then False else all_match ls S)"

fun any_group :: "(int \<times> string list) list \<Rightarrow> string set \<Rightarrow> bool" where
  "any_group [] S = False"
| "any_group ((n, ls) # gs) S =
     (if ls = [] then any_group gs S else if all_match ls S then True else any_group gs S)"

fun required_ok :: "string list \<Rightarrow> string set \<Rightarrow> bool" where
  "required_ok [] S = True"
| "required_ok (l # ls) S =
     (let clean = StripGroupPrefix l in
      if has_prefix clean ''rig:'' \<and> clean \<notin> S then False
      else if has_prefix clean ''agent:'' \<and> clean \<notin> S then False
      else required_ok ls S)"

definition MatchesSubscriptions :: "string list \<Rightarrow> string list \<Rightarrow> bool" where
  "MatchesSubscriptions adviceLabels subscriptions =
     (let subSet = set subscriptions
      in if \<not> required_ok adviceLabels subSet then False
         else any_group (ParseGroups adviceLabels) subSet)"

definition singularize :: "string \<Rightarrow> string" where
  "singularize plural = (if has_suffix plural ''s'' then trim_suffix plural ''s'' else plural)"

definition BuildAgentSubscriptions :: "string \<Rightarrow> string list \<Rightarrow> string list" where
  "BuildAgentSubscriptions agentID extra =
     (let parts = split_byte (CHR ''/'') agentID;
          subs = extra @ [''global'', ''agent:'' @ agentID];
          subs = (if parts ! 0 \<noteq> [] then subs @ [''rig:'' @ parts ! 0] else subs)
      in if 2 \<le> length parts then
           let rolePlural = parts ! 1; subs = subs @ [''role:'' @ rolePlural];
               roleSingular = singularize rolePlural
           in if roleSingular \<noteq> rolePlural then subs @ [''role:'' @ roleSingular] else subs
         else subs)"

subsection \<open>The CLI's matcher\<close>

definition kd_stripGroupPrefix :: "string \<Rightarrow> string" where
  "kd_stripGroupPrefix label =
     (if 3 \<le> length label \<and> hd label = CHR ''g'' then
        (case strip_loop 1 (tl label) of Some rest \<Rightarrow> rest | None \<Rightarrow> label)
      else label)"

definition kd_parseGroups :: "string list \<Rightarrow> (int \<times> string list) list" where
  "kd_parseGroups labels = parse_groups_from labels [] 1000"

fun kd_required_ok :: "string list \<Rightarrow> string set \<Rightarrow> bool" where
  "kd_required_ok [] S = True"
| "kd_required_ok (l # ls) S =
     (let clean = kd_stripGroupPrefix l in
      if has_prefix clean ''project:'' \<and> clean \<notin> S
         \<and> ''rig:'' @ trim_prefix clean ''project:'' \<notin> S then False
      else if has_prefix clean ''rig:'' \<and> clean \<notin> S
         \<and> ''project:'' @ trim_prefix clean ''rig:'' \<notin> S then False
      else if has_prefix clean ''agent:'' \<and> clean \<notin> S then False
      else kd_required_ok ls S)"

definition kd_matchesSubscriptions :: "string list \<Rightarrow> string set \<Rightarrow> bool" where
  "kd_matchesSubscriptions adviceLabels subSet =
     (if \<not> kd_required_ok adviceLabels subSet then False
      else any_group (kd_parseGroups adviceLabels) subSet)"

definition makeSet :: "string list \<Rightarrow> string set" where
  "makeSet items = foldl (\<lambda>s item. insert item s) {} items"

definition isTargetingLabel :: "string \<Rightarrow> bool" where
  "isTargetingLabel label =
     (let clean = kd_stripGroupPrefix label in
      if clean = ''global'' then True
      else if has_prefix clean ''project:'' then True
      else if has_prefix clean ''rig:'' then True
      else if has_prefix clean ''role:'' then True
      else if has_prefix clean ''agent:'' then True
      else False)"

text \<open>The loop of \<open>categorizeScope\<close>: \<open>agent:\<close> returns at once, the others go on.\<close>

fun scope_loop :: "string list \<Rightarrow> string \<times> string \<Rightarrow> string \<times> string" where
  "scope_loop [] (scope, target) = (if scope = '''' then ''global'' else scope, target)"
| "scope_loop (l # ls) (scope, target) =
     (let clean = kd_stripGroupPrefix l in
      if has_prefix clean ''agent:'' then (''agent'', trim_prefix clean ''agent:'')
      else if has_prefix clean ''role:'' then
        scope_loop ls (''role'', trim_prefix clean ''role:'')
      else if has_prefix clean ''project:'' \<and> scope \<noteq> ''role'' then
        scope_loop ls (''project'', trim_prefix clean ''project:'')
      else if has_prefix clean ''rig:'' \<and> scope \<noteq> ''role'' \<and> scope \<noteq> ''project'' then
        scope_loop ls (''project'', trim_prefix clean ''rig:'')
      else if clean = ''global'' \<and> scope = '''' then scope_loop ls (''global'', '''')
      else scope_loop ls (scope, target))"

definition categorizeScope :: "string list \<Rightarrow> string \<times> string" where
  "categorizeScope labels = scope_loop labels ('''', '''')"

definition buildScopeHeader :: "string \<Rightarrow> string \<Rightarrow> string" where
  "buildScopeHeader scope target =
     (if scope = ''global'' then ''Global''
      else if scope = ''project'' then ''Project: '' @ target
      else if scope = ''role'' then ''Role: '' @ target
      else if scope = ''agent'' then ''Agent: '' @ target
      else scope)"

text \<open>The environment variables of the agent's process are arguments.\<close>

definition kd_singularize :: "string \<Rightarrow> string" where
  "kd_singularize plural = (if has_suffix plural ''s'' then trim_suffix plural ''s'' else plural)"

definition kd_buildAgentSubscriptions :: "string \<Rightarrow> string \<Rightarrow> string \<Rightarrow> string list" where
  "kd_buildAgentSubscriptions agent project role =
     [''global'']
     @ (if agent \<noteq> '''' then [''agent:'' @ agent] else [])
     @ (if project \<noteq> '''' then [''project:'' @ project, ''rig:'' @ project] else [])
     @ (if role \<noteq> '''' then
          (''role:'' @ role)
          # (if kd_singularize role \<noteq> role then [''role:'' @ kd_singularize role] else [])
        else [])"

text \<open>
  \<open>printAdviceDiff\<close>: the advice beads it prints for a claimed bead with labels
  \<open>claimed\<close>, among all open advice (\<open>None\<close> when the request for it failed).
\<close>

definition adviceDiff :: "string list \<Rightarrow> string list \<Rightarrow> bead list option \<Rightarrow> bead list" where
  "adviceDiff baseSubs claimed allAdvice =
     (if baseSubs = [] then []
      else let enriched = baseSubs @ filter isTargetingLabel claimed
           in if length enriched = length baseSubs then []
              else case allAdvice of
                None \<Rightarrow> []
              | Some advs \<Rightarrow>
                  filter (\<lambda>a. kd_matchesSubscriptions (bLabels a) (makeSet enriched)
                              \<and> \<not> kd_matchesSubscriptions (bLabels a) (makeSet baseSubs)) advs)"

text \<open>What it prints of one of them: the header, the title and a preview of at most three
  lines of the description.\<close>

definition adviceDiffLines :: "bead \<Rightarrow> string list" where
  "adviceDiffLines a =
     (let (scope, target) = categorizeScope (bLabels a);
          ls = split_byte (CHR 0x0A) (bDescription a)
      in [''  ['' @ buildScopeHeader scope target @ ''] '' @ bTitle a]
         @ (if bDescription a \<noteq> '''' \<and> bDescription a \<noteq> bTitle a then
              map (\<lambda>l. ''    '' @ l) (take 3 ls) @ (if 3 < length ls then [''    ...''] else [])
            else []))"

lemmas label_eval = StripGroupPrefix_def group_of_def sscan_int_def is_digit_def
  digits_val_def int64_ok_def is_space_rune_def has_prefix_def

subsection \<open>Lemmas on the loops\<close>

lemma all_match_set: "all_match ls S \<longleftrightarrow> set ls \<subseteq> S"
  by (induction ls) auto

lemma any_group_ex: "any_group gs S \<longleftrightarrow> (\<exists>(n, ls) \<in> set gs. ls \<noteq> [] \<and> set ls \<subseteq> S)"
  by (induction gs) (auto simp: all_match_set split: if_splits)

lemma makeSet_set: "makeSet items = set items"
proof -
  have "foldl (\<lambda>s item. insert item s) A items = A \<union> set items" for A
    by (induction items arbitrary: A) auto
  then show ?thesis by (simp add: makeSet_def)
qed

lemma kd_strip_eq: "kd_stripGroupPrefix = StripGroupPrefix"
  by (rule ext) (simp add: kd_stripGroupPrefix_def StripGroupPrefix_def)

lemma kd_parse_eq: "kd_parseGroups = ParseGroups"
  by (rule ext) (simp add: kd_parseGroups_def ParseGroups_def)

text \<open>The scope rules of the two matchers as predicates.\<close>

definition scope_in :: "string set \<Rightarrow> string \<Rightarrow> bool" where
  "scope_in S c \<longleftrightarrow>
     (has_prefix c ''rig:'' \<longrightarrow> c \<in> S) \<and> (has_prefix c ''agent:'' \<longrightarrow> c \<in> S)"

definition kd_scope_in :: "string set \<Rightarrow> string \<Rightarrow> bool" where
  "kd_scope_in S c \<longleftrightarrow>
     (has_prefix c ''project:'' \<longrightarrow> c \<in> S \<or> ''rig:'' @ trim_prefix c ''project:'' \<in> S)
     \<and> (has_prefix c ''rig:'' \<longrightarrow> c \<in> S \<or> ''project:'' @ trim_prefix c ''rig:'' \<in> S)
     \<and> (has_prefix c ''agent:'' \<longrightarrow> c \<in> S)"

lemma required_ok_iff: "required_ok ls S \<longleftrightarrow> (\<forall>l \<in> set ls. scope_in S (StripGroupPrefix l))"
  by (induction ls) (auto simp: Let_def scope_in_def)

lemma kd_required_ok_iff:
  "kd_required_ok ls S \<longleftrightarrow> (\<forall>l \<in> set ls. kd_scope_in S (StripGroupPrefix l))"
  by (induction ls) (auto simp: Let_def kd_scope_in_def kd_strip_eq)

subsection \<open>What the groups contain\<close>

text \<open>The labels that end in group \<open>n\<close>, the next free number being \<open>nxt\<close>.\<close>

fun members :: "string list \<Rightarrow> int \<Rightarrow> int \<Rightarrow> string list" where
  "members [] nxt n = []"
| "members (l # ls) nxt n =
     (case group_of l of
        Some (m, r) \<Rightarrow> (if m = n then [r] else []) @ members ls nxt n
      | None \<Rightarrow> (if nxt = n then [l] else []) @ members ls (nxt + 1) n)"

lemma group_at_parse:
  "slice_at (parse_groups_from ls gs nxt) n = slice_at gs n @ members ls nxt n"
  by (induction ls gs nxt rule: parse_groups_from.induct)
     (auto simp: slice_at_add_to split: option.splits)

lemma distinct_parse:
  "distinct (map fst gs) \<Longrightarrow> distinct (map fst (parse_groups_from ls gs nxt))"
  by (induction ls gs nxt rule: parse_groups_from.induct)
     (auto simp: distinct_add_to split: option.splits)

lemma any_group_at:
  "distinct (map fst gs) \<Longrightarrow>
   any_group gs S \<longleftrightarrow> (\<exists>n. slice_at gs n \<noteq> [] \<and> set (slice_at gs n) \<subseteq> S)"
proof -
  assume d: "distinct (map fst gs)"
  have "any_group gs S \<longleftrightarrow> (\<exists>n ls. map_of gs n = Some ls \<and> ls \<noteq> [] \<and> set ls \<subseteq> S)"
    unfolding any_group_ex map_of_eq_Some_iff [OF d] by blast
  also have "\<dots> \<longleftrightarrow> (\<exists>n. slice_at gs n \<noteq> [] \<and> set (slice_at gs n) \<subseteq> S)"
    by (rule arg_cong [of _ _ Ex], rule ext) (simp add: slice_at_def split: option.split)
  finally show ?thesis .
qed

lemma any_group_members:
  "any_group (ParseGroups ls) S \<longleftrightarrow>
   (\<exists>n. members ls 1000 n \<noteq> [] \<and> set (members ls 1000 n) \<subseteq> S)"
  using any_group_at [OF distinct_parse, of "[]" ls 1000 S]
  by (simp add: ParseGroups_def group_at_parse)

text \<open>No label carries a group number that an unprefixed label may be given.\<close>

definition small_groups :: "string list \<Rightarrow> bool" where
  "small_groups ls \<longleftrightarrow>
     list_all (\<lambda>l. case group_of l of None \<Rightarrow> True | Some (n, _) \<Rightarrow> n < 1000) ls"

text \<open>The rule of the comments: AND within a numbered group, OR across groups and
  unprefixed labels.\<close>

definition group_rule :: "string list \<Rightarrow> string set \<Rightarrow> bool" where
  "group_rule ls S \<longleftrightarrow>
     (\<exists>l \<in> set ls. group_of l = None \<and> l \<in> S)
     \<or> (\<exists>n. (\<exists>l \<in> set ls. \<exists>r. group_of l = Some (n, r))
            \<and> (\<forall>l \<in> set ls. \<forall>r. group_of l = Some (n, r) \<longrightarrow> r \<in> S))"

lemma small_groups_Cons:
  "small_groups (l # ls) \<longleftrightarrow>
   (\<forall>n r. group_of l = Some (n, r) \<longrightarrow> n < 1000) \<and> small_groups ls"
  by (auto simp: small_groups_def split: option.splits)

lemma small_groups_num:
  "small_groups ls \<Longrightarrow> l \<in> set ls \<Longrightarrow> group_of l = Some (n, r) \<Longrightarrow> n < 1000"
  by (auto simp: small_groups_def list_all_iff)

lemma members_low:
  "n < nxt \<Longrightarrow> set (members ls nxt n) = {r. \<exists>l \<in> set ls. group_of l = Some (n, r)}"
  by (induction ls nxt n rule: members.induct) (auto split: option.splits)

lemma members_below:
  "small_groups ls \<Longrightarrow> 1000 \<le> n \<Longrightarrow> n < nxt \<Longrightarrow> members ls nxt n = []"
  by (induction ls nxt n rule: members.induct)
     (auto simp: small_groups_Cons split: option.splits)

lemma members_high:
  "small_groups ls \<Longrightarrow> 1000 \<le> nxt \<Longrightarrow>
   (\<exists>n \<ge> nxt. members ls nxt n \<noteq> [] \<and> set (members ls nxt n) \<subseteq> S) \<longleftrightarrow>
   (\<exists>l \<in> set ls. group_of l = None \<and> l \<in> S)"
proof (induction ls arbitrary: nxt)
  case Nil
  then show ?case by simp
next
  case (Cons l ls)
  from Cons.prems(1) have sg: "small_groups ls"
      and low: "\<And>n r. group_of l = Some (n, r) \<Longrightarrow> n < 1000"
    by (auto simp: small_groups_Cons)
  show ?case
  proof (cases "group_of l")
    case (Some nr)
    obtain n0 r0 where nr: "nr = (n0, r0)" by (cases nr)
    have "n0 < 1000" using low Some nr by simp
    then have eq: "members (l # ls) nxt n = members ls nxt n" if "nxt \<le> n" for n
      using that Cons.prems(2) by (simp add: Some nr)
    have "(\<exists>n \<ge> nxt. members (l # ls) nxt n \<noteq> [] \<and> set (members (l # ls) nxt n) \<subseteq> S) \<longleftrightarrow>
          (\<exists>n \<ge> nxt. members ls nxt n \<noteq> [] \<and> set (members ls nxt n) \<subseteq> S)"
      using eq by metis
    then show ?thesis
      using Cons.IH [OF sg Cons.prems(2)] Some by simp
  next
    case None
    have at: "members (l # ls) nxt nxt = [l]"
      using members_below [OF sg Cons.prems(2), of "nxt + 1"] by (simp add: None)
    have above: "members (l # ls) nxt n = members ls (nxt + 1) n" if "nxt + 1 \<le> n" for n
      using that by (simp add: None)
    have "(\<exists>n \<ge> nxt. members (l # ls) nxt n \<noteq> [] \<and> set (members (l # ls) nxt n) \<subseteq> S) \<longleftrightarrow>
          l \<in> S \<or> (\<exists>n \<ge> nxt + 1. members ls (nxt + 1) n \<noteq> [] \<and> set (members ls (nxt + 1) n) \<subseteq> S)"
      (is "?L \<longleftrightarrow> ?R")
    proof
      assume ?L
      then obtain n where n: "nxt \<le> n" "members (l # ls) nxt n \<noteq> []"
          "set (members (l # ls) nxt n) \<subseteq> S" by blast
      show ?R
      proof (cases "n = nxt")
        case True
        with n at show ?thesis by simp
      next
        case False
        with n have "nxt + 1 \<le> n" by simp
        with n above [of n] show ?thesis by metis
      qed
    next
      assume ?R
      then show ?L
        using at above by (metis empty_set insert_subset list.distinct(1) list.simps(15)
            order_refl zle_add1_eq_le less_imp_le empty_subsetI add1_zle_eq)
    qed
    then show ?thesis
      using Cons.IH [OF sg, of "nxt + 1"] Cons.prems(2) by (auto simp: None)
  qed
qed

lemma any_group_rule: "small_groups ls \<Longrightarrow> any_group (ParseGroups ls) S \<longleftrightarrow> group_rule ls S"
proof -
  assume sg: "small_groups ls"
  have low: "n < 1000 \<and> set (members ls 1000 n) \<noteq> {} \<and> set (members ls 1000 n) \<subseteq> S \<longleftrightarrow>
      (\<exists>l \<in> set ls. \<exists>r. group_of l = Some (n, r))
      \<and> (\<forall>l \<in> set ls. \<forall>r. group_of l = Some (n, r) \<longrightarrow> r \<in> S)" for n
  proof (cases "n < 1000")
    case True
    then show ?thesis by (auto simp: members_low)
  next
    case False
    then show ?thesis using small_groups_num [OF sg] by blast
  qed
  have "any_group (ParseGroups ls) S \<longleftrightarrow>
      (\<exists>n \<ge> 1000. members ls 1000 n \<noteq> [] \<and> set (members ls 1000 n) \<subseteq> S)
      \<or> (\<exists>n < 1000. set (members ls 1000 n) \<noteq> {} \<and> set (members ls 1000 n) \<subseteq> S)"
    unfolding any_group_members by (metis set_empty not_less)
  also have "\<dots> \<longleftrightarrow> group_rule ls S"
    unfolding members_high [OF sg order_refl] group_rule_def
    using low by (intro arg_cong2 [of _ _ _ _ "(\<or>)"] refl) blast
  finally show ?thesis .
qed

subsection \<open>The contract of a matcher\<close>

text \<open>
  A matcher requires every label, its group prefix stripped, to be in scope, and one group
  to be contained in the subscriptions; a label in scope stays in scope when subscriptions
  are added, and an \<open>agent:\<close> label is in scope only for its agent.
\<close>

locale subscription_matcher =
  fixes matches :: "string list \<Rightarrow> string set \<Rightarrow> bool"
    and ok :: "string set \<Rightarrow> string \<Rightarrow> bool"
  assumes matches_iff:
      "matches ls S \<longleftrightarrow>
       (\<forall>l \<in> set ls. ok S (StripGroupPrefix l)) \<and> any_group (ParseGroups ls) S"
    and ok_mono: "S \<subseteq> T \<Longrightarrow> ok S c \<Longrightarrow> ok T c"
    and ok_agent: "ok S c \<Longrightarrow> has_prefix c ''agent:'' \<Longrightarrow> c \<in> S"
begin

lemma mono: "S \<subseteq> T \<Longrightarrow> matches ls S \<Longrightarrow> matches ls T"
proof -
  assume st: "S \<subseteq> T" and m: "matches ls S"
  have "any_group (ParseGroups ls) T"
    using m st unfolding matches_iff any_group_ex by blast
  then show ?thesis using m ok_mono [OF st] by (simp add: matches_iff)
qed

lemma scoped:
  "matches ls S \<Longrightarrow> l \<in> set ls \<Longrightarrow> has_prefix (StripGroupPrefix l) ''agent:'' \<Longrightarrow>
   StripGroupPrefix l \<in> S"
  using matches_iff ok_agent by blast

lemma no_labels: "\<not> matches [] S"
  by (simp add: matches_iff ParseGroups_def)

lemma rule:
  "small_groups ls \<Longrightarrow>
   matches ls S \<longleftrightarrow> (\<forall>l \<in> set ls. ok S (StripGroupPrefix l)) \<and> group_rule ls S"
  by (simp add: matches_iff any_group_rule)

lemma newly_matched:
  "matches ls (A \<union> B) \<and> \<not> matches ls A \<longleftrightarrow> (matches ls (A \<union> B) \<noteq> matches ls A)"
  using mono [of A "A \<union> B" ls] by blast

end

interpretation server_matcher: subscription_matcher
  "\<lambda>ls S. required_ok ls S \<and> any_group (ParseGroups ls) S" scope_in
  by unfold_locales (auto simp: required_ok_iff scope_in_def)

interpretation cli_matcher: subscription_matcher kd_matchesSubscriptions kd_scope_in
  by unfold_locales
     (auto simp: kd_matchesSubscriptions_def kd_required_ok_iff kd_parse_eq kd_scope_in_def)

lemma MatchesSubscriptions_iff:
  "MatchesSubscriptions ls subs \<longleftrightarrow>
   required_ok ls (set subs) \<and> any_group (ParseGroups ls) (set subs)"
  by (auto simp: MatchesSubscriptions_def Let_def)


text \<open>
  C7: the server delivers an advice bead exactly when every \<open>rig:\<close> and \<open>agent:\<close> label of
  it (its group prefix stripped) is subscribed, and an unprefixed label is subscribed or all
  labels of some numbered group are, provided no label carries a group number of 1000 or
  more.
\<close>

theorem MatchesSubscriptions_rule:
  assumes "small_groups ls"
  shows "MatchesSubscriptions ls subs \<longleftrightarrow>
    (\<forall>l \<in> set ls. \<forall>x. StripGroupPrefix l \<in> {''rig:'' @ x, ''agent:'' @ x} \<longrightarrow>
       StripGroupPrefix l \<in> set subs)
    \<and> group_rule ls (set subs)"
  using server_matcher.rule [OF assms, of "set subs"]
  unfolding MatchesSubscriptions_iff scope_in_def has_prefix_iff by blast

lemma MatchesSubscriptions_rule_witness:
  "small_groups [''g0:role:crew'', ''g0:rig:a'', ''wip'']
   \<and> MatchesSubscriptions [''g0:role:crew'', ''g0:rig:a'', ''wip''] [''global'', ''rig:a'', ''role:crew'']
     = ((\<forall>l \<in> set [''g0:role:crew'', ''g0:rig:a'', ''wip'']. \<forall>x.
           StripGroupPrefix l \<in> {''rig:'' @ x, ''agent:'' @ x} \<longrightarrow>
           StripGroupPrefix l \<in> set [''global'', ''rig:a'', ''role:crew''])
        \<and> group_rule [''g0:role:crew'', ''g0:rig:a'', ''wip''] (set [''global'', ''rig:a'', ''role:crew'']))"
proof -
  have "small_groups [''g0:role:crew'', ''g0:rig:a'', ''wip'']"
    by (simp add: small_groups_def label_eval)
  then show ?thesis using MatchesSubscriptions_rule by blast
qed

text \<open>
  The advice diff printed after a claim lists, in order and whatever the base
  subscriptions, exactly the fetched advice beads whose delivery the claimed bead's
  targeting labels change; adding labels never takes an advice bead away.
\<close>

theorem adviceDiff_exact:
  assumes "base \<noteq> []"
  shows "adviceDiff base claimed (Some advs) =
           filter (\<lambda>a. kd_matchesSubscriptions (bLabels a) (set base)
                       \<noteq> kd_matchesSubscriptions (bLabels a)
                            (set base \<union> set (filter isTargetingLabel claimed))) advs"
proof (cases "filter isTargetingLabel claimed = []")
  case True
  then show ?thesis by (simp add: adviceDiff_def Let_def)
next
  case False
  then show ?thesis
    using assms
    by (auto simp: adviceDiff_def Let_def makeSet_set intro!: filter_cong
        dest: cli_matcher.mono [OF Un_upper1])
qed

lemma adviceDiff_exact_witness:
  "adviceDiff [''global''] [''role:crew'', ''wip''] (Some []) = []"
  using adviceDiff_exact [of "[''global'']" "[''role:crew'', ''wip'']" "[]"] by simp



text \<open>
  Where the two readings of a group prefix part, and where a group number meets the numbers
  handed to unprefixed labels.
\<close>

lemma rig_scope_missed:
  "group_of ''g1x:rig:foo'' = Some (1, ''rig:foo'') \<and> StripGroupPrefix ''g1x:rig:foo'' = ''g1x:rig:foo''
   \<and> \<not> MatchesSubscriptions [''g1:rig:foo'', ''global''] [''global'']
   \<and> MatchesSubscriptions [''g1x:rig:foo'', ''global''] [''global'']"
  by (simp add: MatchesSubscriptions_iff any_group_members label_eval)

lemma group_number_collision:
  "MatchesSubscriptions [''wip'', ''g7:docs''] [''wip'']
   \<and> \<not> MatchesSubscriptions [''wip'', ''g1000:docs''] [''wip'']"
  by (simp add: MatchesSubscriptions_iff ParseGroups_def add_to_def label_eval)

end
