(* ===== verification/Hooks.thy ===== *)
theory Hooks
  imports Relations Advice
begin

text \<open>
  Advice hooks (\<open>internal/hooks\<close>): the shell commands that advice beads attach to the moments
  of an agent's session, the bounds of their timeouts, which of them run, and what their
  failures do. What a command, \<open>git\<close> or the file system does is a parameter (\<open>host\<close>) that
  acts on the world of the server.
\<close>

subsection \<open>The host\<close>

text \<open>
  \<open>hoRun cmd timeout dir env\<close> runs \<open>sh -c cmd\<close>: its standard output and error and the text of
  the error, if any. \<open>hoGitStatus dir\<close> is the output of \<open>git status --porcelain\<close>, or \<open>None\<close>
  when it fails.
\<close>

record 'w host =
  hoRun :: "string \<Rightarrow> duration \<Rightarrow> string \<Rightarrow> (string \<times> string) list \<Rightarrow> 'w
    \<Rightarrow> (string \<times> string \<times> string option) \<times> 'w"
  hoIsDir :: "string \<Rightarrow> 'w \<Rightarrow> bool"
  hoGitStatus :: "string \<Rightarrow> 'w \<Rightarrow> string option"
  hoCancelled :: "'w \<Rightarrow> string option"

subsection \<open>Running a command (\<open>executor.go\<close>)\<close>

abbreviation DefaultTimeout :: duration where "DefaultTimeout \<equiv> 30 * second"
abbreviation MaxTimeout :: duration where "MaxTimeout \<equiv> 300 * second"

text \<open>\<open>time.Duration(n) * time.Second\<close>: the product of two \<open>int64\<close>, which wraps.\<close>

definition int64_mult :: "int \<Rightarrow> int \<Rightarrow> int" where
  "int64_mult m n = sint (word_of_int m * word_of_int n :: 64 word)"

definition hook_timeout :: "int \<Rightarrow> duration" where
  "hook_timeout timeoutSec =
     (let timeout = int64_mult timeoutSec second;
          timeout = (if timeout \<le> 0 then DefaultTimeout else timeout)
      in if timeout > MaxTimeout then MaxTimeout else timeout)"

text \<open>The output (standard error when there is no standard output) and the error.\<close>

definition Execute ::
  "'w host \<Rightarrow> string \<Rightarrow> int \<Rightarrow> string \<Rightarrow> (string \<times> string) list \<Rightarrow> 'w \<Rightarrow> (string \<times> string option) \<times> 'w" where
  "Execute ho command timeoutSec cwd env w =
     (let dir = (if cwd \<noteq> [] \<and> hoIsDir ho cwd w then cwd else []) in
      case hoRun ho command (hook_timeout timeoutSec) dir env w of
        ((stdout, stderr, e), w') \<Rightarrow>
          (let output = trim_space stdout in
           ((if output = [] then trim_space stderr else output, e), w')))"

subsection \<open>The check of the work tree (\<open>autocheck.go\<close>)\<close>

definition em_dash :: string where
  "em_dash = [CHR 0xE2, CHR 0x80, CHR 0x94]"

definition CheckCommitPush :: "'w host \<Rightarrow> string \<Rightarrow> 'w \<Rightarrow> string" where
  "CheckCommitPush ho cwd w =
     (if cwd = [] then []
      else case hoGitStatus ho cwd w of
        None \<Rightarrow> []
      | Some out \<Rightarrow>
          if length (trim_space out) > 0
          then ''you have uncommitted changes '' @ em_dash @ '' run git add/commit/push''
          else [])"

subsection \<open>Session events (\<open>handler.go\<close>)\<close>

abbreviation TriggerSessionEnd :: string where "TriggerSessionEnd \<equiv> ''session-end''"
abbreviation OnFailureBlock :: string where "OnFailureBlock \<equiv> ''block''"
abbreviation OnFailureWarn :: string where "OnFailureWarn \<equiv> ''warn''"

record session_event =
  seAgentID :: string
  seTrigger :: string
  seCWD :: string

record hook_response =
  hrBlock :: bool
  hrReason :: string
  hrWarnings :: "string list"

definition no_response :: hook_response where
  "no_response = \<lparr>hrBlock = False, hrReason = [], hrWarnings = []\<rparr>"

record advice_fields =
  afCommand :: string
  afTrigger :: string
  afTimeout :: int
  afOnFailure :: string
  afSubscriptions :: "string list"
  afExclude :: "string list"

definition parseAdviceFields :: "raw \<Rightarrow> advice_fields option" where
  "parseAdviceFields r =
     (let none = \<lparr>afCommand = [], afTrigger = [], afTimeout = 0, afOnFailure = [],
                  afSubscriptions = [], afExclude = []\<rparr> in
      if raw_empty r then Some none
      else decode_struct (\<lambda>k j f.
        if fold_eq k ''hook_command'' then
          map_option (\<lambda>x. f\<lparr>afCommand := x\<rparr>) (decode_string j (afCommand f))
        else if fold_eq k ''hook_trigger'' then
          map_option (\<lambda>x. f\<lparr>afTrigger := x\<rparr>) (decode_string j (afTrigger f))
        else if fold_eq k ''hook_timeout'' then
          map_option (\<lambda>x. f\<lparr>afTimeout := x\<rparr>) (decode_int j (afTimeout f))
        else if fold_eq k ''hook_on_failure'' then
          map_option (\<lambda>x. f\<lparr>afOnFailure := x\<rparr>) (decode_string j (afOnFailure f))
        else if fold_eq k ''subscriptions'' then
          map_option (\<lambda>x. f\<lparr>afSubscriptions := x\<rparr>) (decode_strings j)
        else if fold_eq k ''subscriptions_exclude'' then
          map_option (\<lambda>x. f\<lparr>afExclude := x\<rparr>) (decode_strings j)
        else Some f) r none)"

text \<open>The agent's own subscriptions: \<open>(advice_subscriptions, advice_subscriptions_exclude)\<close>.\<close>

definition agent_subscriptions :: "raw \<Rightarrow> (string list \<times> string list) option" where
  "agent_subscriptions r =
     decode_struct (\<lambda>k j (subs, exc).
       if fold_eq k ''advice_subscriptions'' then map_option (\<lambda>x. (x, exc)) (decode_strings j)
       else if fold_eq k ''advice_subscriptions_exclude'' then
         map_option (\<lambda>x. (subs, x)) (decode_strings j)
       else Some (subs, exc)) r ([], [])"

definition agent_filter :: "string \<Rightarrow> bead_filter" where
  "agent_filter agentID =
     no_filter\<lparr>fType := [''agent''], fStatus := [StatusOpen, StatusInProgress],
       fFields := [(''agent'', last (split_byte (CHR ''/'') agentID))], fLimit := 1\<rparr>"

definition enrichAgentSubscriptions ::
  "string \<Rightarrow> string list \<Rightarrow> ('z pg_scheme, string list) op" where
  "enrichAgentSubscriptions agentID subs =
     attempt (queryListBeads (agent_filter agentID)) (\<lambda>r.
       ret (case r of
              Inl e \<Rightarrow> subs
            | Inr ([], _) \<Rightarrow> subs
            | Inr (a # _, _) \<Rightarrow>
                (case agent_subscriptions (bFields a) of
                   None \<Rightarrow> subs
                 | Some (extra, exc) \<Rightarrow> filter (\<lambda>x. x \<notin> set exc) (subs @ extra))))"

definition blocked_reason :: "bead \<Rightarrow> advice_fields \<Rightarrow> string \<Rightarrow> string \<Rightarrow> string" where
  "blocked_reason b f e out =
     ''Advice hook blocked: '' @ bTitle b @ [CHR 10] @ ''Command: '' @ afCommand f @ [CHR 10]
     @ ''Error: '' @ e @ [CHR 10] @ ''Output: '' @ out"

definition hook_warning :: "bead \<Rightarrow> string \<Rightarrow> string \<Rightarrow> string" where
  "hook_warning b e out =
     ''Advice hook warning: '' @ bTitle b @ '' '' @ em_dash @ '' '' @ out @ '' (exit: '' @ e @ '')''"

text \<open>The loop over the advice beads, up to the first failure that blocks.\<close>

fun hook_loop ::
  "'w host \<Rightarrow> session_event \<Rightarrow> string list \<Rightarrow> bead list \<Rightarrow> hook_response \<Rightarrow> 'w \<Rightarrow> hook_response \<times> 'w" where
  "hook_loop ho ev subs [] r w = (r, w)"
| "hook_loop ho ev subs (b # bs) r w =
     (case parseAdviceFields (bFields b) of
        None \<Rightarrow> hook_loop ho ev subs bs r w
      | Some f \<Rightarrow>
          if afCommand f = [] \<or> afTrigger f \<noteq> seTrigger ev then hook_loop ho ev subs bs r w
          else if \<not> MatchesSubscriptions (bLabels b) subs then hook_loop ho ev subs bs r w
          else case Execute ho (afCommand f) (afTimeout f) (seCWD ev)
                      [(''KD_AGENT'', seAgentID ev)] w of
            ((out, None), w') \<Rightarrow> hook_loop ho ev subs bs r w'
          | ((out, Some e), w') \<Rightarrow>
              if afOnFailure f = OnFailureBlock then
                (r\<lparr>hrBlock := True, hrReason := blocked_reason b f e out\<rparr>, w')
              else if afOnFailure f = OnFailureWarn then
                hook_loop ho ev subs bs (r\<lparr>hrWarnings := hrWarnings r @ [hook_warning b e out]\<rparr>) w'
              else hook_loop ho ev subs bs r w')"

definition open_advice :: bead_filter where
  "open_advice = no_filter\<lparr>fType := [TypeAdvice], fStatus := [StatusOpen]\<rparr>"

definition HandleSessionEvent ::
  "'w host \<Rightarrow> session_event \<Rightarrow> 'w server \<Rightarrow> hook_response \<times> 'w server" where
  "HandleSessionEvent ho ev s =
     (if seAgentID ev = [] \<or> seTrigger ev = [] then (no_response, s)
      else case queryListBeads open_advice s of
        (Inl e, s) \<Rightarrow> (no_response, s)
      | (Inr (beads, _), s) \<Rightarrow>
          (case enrichAgentSubscriptions (seAgentID ev) (BuildAgentSubscriptions (seAgentID ev) []) s of
             (r, s) \<Rightarrow>
               (let subs = (case r of Inl _ \<Rightarrow> [] | Inr subs \<Rightarrow> subs) in
                case hook_loop ho ev subs beads no_response (svWorld s) of
                  (resp, w) \<Rightarrow> (resp, s\<lparr>svWorld := w\<rparr>))))"

text \<open>The subscriber: every message that decodes is handled, in order; only logs come of it.\<close>

definition decode_session_event :: "raw \<Rightarrow> session_event option" where
  "decode_session_event r =
     decode_struct (\<lambda>k j e.
       if fold_eq k ''agent_id'' then
         map_option (\<lambda>x. e\<lparr>seAgentID := x\<rparr>) (decode_string j (seAgentID e))
       else if fold_eq k ''trigger'' then
         map_option (\<lambda>x. e\<lparr>seTrigger := x\<rparr>) (decode_string j (seTrigger e))
       else if fold_eq k ''cwd'' then map_option (\<lambda>x. e\<lparr>seCWD := x\<rparr>) (decode_string j (seCWD e))
       else Some e) r \<lparr>seAgentID = [], seTrigger = [], seCWD = []\<rparr>"

fun subscriber_loop :: "'w host \<Rightarrow> raw list \<Rightarrow> 'w server \<Rightarrow> 'w server" where
  "subscriber_loop ho [] s = s"
| "subscriber_loop ho (m # ms) s =
     (case decode_session_event m of
        None \<Rightarrow> subscriber_loop ho ms s
      | Some ev \<Rightarrow> subscriber_loop ho ms (snd (HandleSessionEvent ho ev s)))"

subsection \<open>Timeouts\<close>

lemma int64_mult_id:
  "- (2 ^ 63) \<le> m * n \<Longrightarrow> m * n < 2 ^ 63 \<Longrightarrow> int64_mult m n = m * n"
  unfolding int64_mult_def wi_hom_mult sint_sbintrunc' by (simp add: signed_take_bit_int_eq_self)

text \<open>
  C22: the timeout of a hook command is always positive and at most five minutes, whatever
  number the advice bead holds, even where the product with a second wraps; a number of
  seconds from 1 to 300 is taken as it is, a larger one (short of the wrap) is five minutes,
  zero or less is half a minute.
\<close>

theorem hook_timeout_bounds:
  "0 < hook_timeout n \<and> hook_timeout n \<le> MaxTimeout
   \<and> (1 \<le> n \<and> n \<le> 300 \<longrightarrow> hook_timeout n = n * second)
   \<and> (300 < n \<and> n \<le> 9223372036 \<longrightarrow> hook_timeout n = MaxTimeout)
   \<and> (- 9223372036 \<le> n \<and> n \<le> 0 \<longrightarrow> hook_timeout n = DefaultTimeout)"
proof -
  have m: "int64_mult n second = n * second" if "- 9223372036 \<le> n" "n \<le> 9223372036"
    using that by (intro int64_mult_id) (simp_all add: second_def)
  show ?thesis
    using m by (auto simp: hook_timeout_def Let_def second_def)
qed

lemma hook_timeout_bounds_witness:
  "hook_timeout 45 = 45 * second \<and> hook_timeout 86400 = MaxTimeout \<and> hook_timeout (- 3) = DefaultTimeout"
  using hook_timeout_bounds [of 45] hook_timeout_bounds [of 86400] hook_timeout_bounds [of "- 3"]
  by simp

text \<open>Past the wrap a long timeout becomes the default one.\<close>

lemma huge_timeout_wraps: "hook_timeout 9223372037 = DefaultTimeout"
  by (simp add: hook_timeout_def int64_mult_def second_def)

subsection \<open>Which hooks run\<close>

text \<open>The hooks that apply, in the order of the listing, and all of them run one after the other.\<close>

definition hook_of :: "session_event \<Rightarrow> string list \<Rightarrow> bead \<Rightarrow> (bead \<times> advice_fields) option" where
  "hook_of ev subs b =
     (case parseAdviceFields (bFields b) of
        None \<Rightarrow> None
      | Some f \<Rightarrow>
          if afCommand f \<noteq> [] \<and> afTrigger f = seTrigger ev \<and> MatchesSubscriptions (bLabels b) subs
          then Some (b, f) else None)"

definition applicable :: "session_event \<Rightarrow> string list \<Rightarrow> bead list \<Rightarrow> (bead \<times> advice_fields) list" where
  "applicable ev subs bs = List.map_filter (hook_of ev subs) bs"

definition run_hook ::
  "'w host \<Rightarrow> session_event \<Rightarrow> bead \<times> advice_fields \<Rightarrow> 'w \<Rightarrow> (string \<times> string option) \<times> 'w" where
  "run_hook ho ev h w =
     Execute ho (afCommand (snd h)) (afTimeout (snd h)) (seCWD ev) [(''KD_AGENT'', seAgentID ev)] w"

type_synonym hook_run = "(bead \<times> advice_fields) \<times> string \<times> string option"

fun run_all ::
  "'w host \<Rightarrow> session_event \<Rightarrow> (bead \<times> advice_fields) list \<Rightarrow> 'w \<Rightarrow> hook_run list \<times> 'w" where
  "run_all ho ev [] w = ([], w)"
| "run_all ho ev (h # hs) w =
     (case run_hook ho ev h w of
        (res, w') \<Rightarrow> (case run_all ho ev hs w' of (runs, w'') \<Rightarrow> ((h, res) # runs, w'')))"

definition blocks :: "hook_run \<Rightarrow> bool" where
  "blocks x \<longleftrightarrow> snd (snd x) \<noteq> None \<and> afOnFailure (snd (fst x)) = OnFailureBlock"

definition warnings_of :: "hook_run list \<Rightarrow> string list" where
  "warnings_of runs =
     List.map_filter (\<lambda>((b, f), out, e).
       case e of None \<Rightarrow> None
       | Some t \<Rightarrow> if afOnFailure f = OnFailureWarn then Some (hook_warning b t out) else None) runs"

lemma warnings_of_simps [simp]:
  "warnings_of [] = []"
  "warnings_of (((b, f), out, None) # rs) = warnings_of rs"
  "warnings_of (((b, f), out, Some t) # rs) =
     (if afOnFailure f = OnFailureWarn then hook_warning b t out # warnings_of rs else warnings_of rs)"
  by (simp_all add: warnings_of_def map_filter_simps)

lemma applicable_simps [simp]:
  "applicable ev subs [] = []"
  "hook_of ev subs b = None \<Longrightarrow> applicable ev subs (b # bs) = applicable ev subs bs"
  "hook_of ev subs b = Some h \<Longrightarrow> applicable ev subs (b # bs) = h # applicable ev subs bs"
  by (simp_all add: applicable_def map_filter_simps)

lemma hook_loop_skip: "hook_of ev subs b = None \<Longrightarrow> hook_loop ho ev subs (b # bs) r w = hook_loop ho ev subs bs r w"
  by (auto simp: hook_of_def split: option.splits if_splits)

lemma hook_loop_run:
  "hook_of ev subs b = Some h \<Longrightarrow>
   hook_loop ho ev subs (b # bs) r w =
     (case run_hook ho ev h w of
        ((out, None), w') \<Rightarrow> hook_loop ho ev subs bs r w'
      | ((out, Some e), w') \<Rightarrow>
          if blocks (h, out, Some e) then
            (r\<lparr>hrBlock := True, hrReason := blocked_reason (fst h) (snd h) e out\<rparr>, w')
          else hook_loop ho ev subs bs (r\<lparr>hrWarnings := hrWarnings r @ warnings_of [(h, out, Some e)]\<rparr>) w')"
  by (auto simp: hook_of_def run_hook_def blocks_def split: option.splits if_splits prod.splits)

text \<open>
  The advice hooks of a session event run in the order of the listing, exactly those with
  a command, the event's trigger and a matching subscription. Either all of them run, none
  blocks, and the answer gains the warnings of those that failed and warn; or they run up to
  the first one that fails and blocks: the answer blocks for that one, and none after it runs.
\<close>

theorem hooks_stop_at_block:
  "(\<exists>runs w'. run_all ho ev (applicable ev subs bs) w = (runs, w') \<and> list_all (\<lambda>x. \<not> blocks x) runs
      \<and> hook_loop ho ev subs bs r w = (r\<lparr>hrWarnings := hrWarnings r @ warnings_of runs\<rparr>, w'))
   \<or> (\<exists>pre h post runs w1 out e w2.
        applicable ev subs bs = pre @ h # post
      \<and> run_all ho ev pre w = (runs, w1) \<and> list_all (\<lambda>x. \<not> blocks x) runs
      \<and> run_hook ho ev h w1 = ((out, Some e), w2) \<and> blocks (h, out, Some e)
      \<and> hook_loop ho ev subs bs r w =
          (r\<lparr>hrBlock := True, hrReason := blocked_reason (fst h) (snd h) e out,
             hrWarnings := hrWarnings r @ warnings_of runs\<rparr>, w2))"
proof (induction bs arbitrary: r w)
  case (Cons b bs)
  show ?case
  proof (cases "hook_of ev subs b")
    case None
    then show ?thesis using Cons.IH [of w r] by (simp only: hook_loop_skip applicable_simps)
  next
    case (Some h)
    obtain out e w' where run: "run_hook ho ev h w = ((out, e), w')"
      by (cases "run_hook ho ev h w") auto
    obtain hb hf where h: "h = (hb, hf)" by (cases h)
    show ?thesis
    proof (cases "blocks (h, out, e)")
      case True
      then obtain t where "e = Some t" by (auto simp: blocks_def)
      then show ?thesis
        using True run hook_loop_run [OF Some, of ho bs r w] Some
        by (intro disjI2 exI [of _ "[]"] exI [of _ h] exI [of _ "applicable ev subs bs"]) auto
    next
      case False
      let ?r = "r\<lparr>hrWarnings := hrWarnings r @ warnings_of [(h, out, e)]\<rparr>"
      have step: "hook_loop ho ev subs (b # bs) r w = hook_loop ho ev subs bs ?r w'"
        using False run hook_loop_run [OF Some, of ho bs r w] by (cases e) (simp_all add: h)
      have warn: "warnings_of [(h, out, e)] @ warnings_of runs = warnings_of ((h, out, e) # runs)" for runs
        by (cases e) (simp_all add: h)
      show ?thesis
        using Cons.IH [of w' ?r]
      proof (elim disjE exE conjE)
        fix runs w''
        assume "run_all ho ev (applicable ev subs bs) w' = (runs, w'')" "list_all (\<lambda>x. \<not> blocks x) runs"
          "hook_loop ho ev subs bs ?r w' = (?r\<lparr>hrWarnings := hrWarnings ?r @ warnings_of runs\<rparr>, w'')"
        then show ?thesis
          using Some run False warn [of runs]
          by (intro disjI1 exI [of _ "(h, out, e) # runs"] exI [of _ w'']) (simp add: step del: hook_loop.simps)
      next
        fix pre h' post runs w1 out' e' w2
        assume "applicable ev subs bs = pre @ h' # post" "run_all ho ev pre w' = (runs, w1)"
          "list_all (\<lambda>x. \<not> blocks x) runs" "run_hook ho ev h' w1 = ((out', Some e'), w2)"
          "blocks (h', out', Some e')"
          "hook_loop ho ev subs bs ?r w' =
            (?r\<lparr>hrBlock := True, hrReason := blocked_reason (fst h') (snd h') e' out',
               hrWarnings := hrWarnings ?r @ warnings_of runs\<rparr>, w2)"
        then show ?thesis
          using Some run False warn [of runs]
          by (intro disjI2 exI [of _ "h # pre"] exI [of _ h'] exI [of _ post]
              exI [of _ "(h, out, e) # runs"] exI [of _ w1] exI [of _ out'] exI [of _ e'] exI [of _ w2])
            (simp add: step del: hook_loop.simps)
      qed
    qed
  qed
qed simp

subsection \<open>What the handler keeps\<close>

lemma sound_enrich [sound_ops]: "returns sound (enrichAgentSubscriptions a subs) any"
  unfolding enrichAgentSubscriptions_def
  by (rule returns_attempt [OF sound_queryListBeads]) (auto intro: returns_ret)

lemma returns_state: "returns I m Q \<Longrightarrow> I s \<Longrightarrow> m s = (r, s') \<Longrightarrow> I s'"
  unfolding returns_def by (metis snd_conv)

lemma sound_world [simp]: "sound (svWorld_update f s) = sound s"
  by (simp add: sound_def)

lemma safe_HandleSessionEvent [safe_handlers]:
  "safe (sound :: 'w server \<Rightarrow> bool) (HandleSessionEvent ho ev)"
  unfolding safe_def
proof (intro allI impI)
  fix s :: "'w server" assume s: "sound s"
  obtain r1 s1 where l: "queryListBeads open_advice s = (r1, s1)"
    by (cases "queryListBeads open_advice s")
  obtain r2 s2 where e: "enrichAgentSubscriptions (seAgentID ev)
      (BuildAgentSubscriptions (seAgentID ev) []) s1 = (r2, s2)"
    by (cases "enrichAgentSubscriptions (seAgentID ev) (BuildAgentSubscriptions (seAgentID ev) []) s1")
  have "sound s1" by (rule returns_state [OF sound_queryListBeads s l])
  moreover have "sound s2" by (rule returns_state [OF sound_enrich \<open>sound s1\<close> e])
  ultimately show "sound (snd (HandleSessionEvent ho ev s))"
    using s by (auto simp: HandleSessionEvent_def l e Let_def split: sum.split prod.split)
qed

end
