(* ===== verification/HookGates.thy ===== *)
theory HookGates
  imports Hooks
begin

text \<open>
  The hook endpoint and the gates of an agent (\<open>internal/server/http_hooks.go\<close>,
  \<open>http_gates.go\<close>): a session may stop only past its decision gate, which has to be satisfied
  in a recognised way and is used up by the stop.
\<close>

subsection \<open>The gates of an agent (\<open>http_gates.go\<close>)\<close>

definition handleListGates :: "string \<Rightarrow> 'w server \<Rightarrow> resp \<times> 'w server" where
  "handleListGates a =
     (if a = [] then bad_request ''id is required''
      else respond (ListGates a) http_500 (Resp 200 \<circ> GatesBody))"

definition status_body :: "string \<Rightarrow> body" where
  "status_body st = JsonBody (JObj [(''status'', JStr st)])"

definition handleSatisfyGate :: "string \<Rightarrow> string \<Rightarrow> 'w server \<Rightarrow> resp \<times> 'w server" where
  "handleSatisfyGate a g =
     (if a = [] \<or> g = [] then bad_request ''id and gate_id are required''
      else respond (and_then (UpsertGate a g) (\<lambda>_. MarkGateSatisfied a g)) http_500
        (\<lambda>_. Resp 200 (status_body ''satisfied'')))"

definition handleClearGate :: "string \<Rightarrow> string \<Rightarrow> 'w server \<Rightarrow> resp \<times> 'w server" where
  "handleClearGate a g =
     (if a = [] \<or> g = [] then bad_request ''id and gate_id are required''
      else respond (ClearGate a g) http_500 (\<lambda>_. Resp 200 (status_body ''pending'')))"

subsection \<open>Requests\<close>

record emit_request =
  emAgentBeadID :: string
  emHookType :: string
  emSessionID :: string
  emCWD :: string
  emActor :: string
  emToolName :: string

definition decode_emit :: "raw \<Rightarrow> emit_request option" where
  "decode_emit body =
     decode_struct (\<lambda>k j e.
       if fold_eq k ''agent_bead_id'' then
         map_option (\<lambda>x. e\<lparr>emAgentBeadID := x\<rparr>) (decode_string j (emAgentBeadID e))
       else if fold_eq k ''hook_type'' then
         map_option (\<lambda>x. e\<lparr>emHookType := x\<rparr>) (decode_string j (emHookType e))
       else if fold_eq k ''claude_session_id'' then
         map_option (\<lambda>x. e\<lparr>emSessionID := x\<rparr>) (decode_string j (emSessionID e))
       else if fold_eq k ''cwd'' then map_option (\<lambda>x. e\<lparr>emCWD := x\<rparr>) (decode_string j (emCWD e))
       else if fold_eq k ''actor'' then
         map_option (\<lambda>x. e\<lparr>emActor := x\<rparr>) (decode_string j (emActor e))
       else if fold_eq k ''tool_name'' then
         map_option (\<lambda>x. e\<lparr>emToolName := x\<rparr>) (decode_string j (emToolName e))
       else Some e) body
       \<lparr>emAgentBeadID = [], emHookType = [], emSessionID = [], emCWD = [], emActor = [], emToolName = []\<rparr>"

definition record_presence :: "emit_request \<Rightarrow> 'w server \<Rightarrow> 'w server" where
  "record_presence q s =
     (case svPresence s of
        None \<Rightarrow> s
      | Some t \<Rightarrow>
          if emActor q \<noteq> [] then
            s\<lparr>svPresence := Some (RecordHookEvent (now s)
                \<lparr>hActor = emActor q, hHookType = emHookType q, hToolName = emToolName q,
                 hSessionID = emSessionID q, hCwd = emCWD q\<rparr> t)\<rparr>
          else s)"

subsection \<open>The decision gate of a stop\<close>

abbreviation decision :: string where "decision \<equiv> ''decision''"

text \<open>Anything but a clear \<open>satisfied\<close> counts as not satisfied.\<close>

definition gate_satisfied :: "string \<Rightarrow> ('z pg_scheme, bool) op" where
  "gate_satisfied a =
     and_then (best_effort (UpsertGate a decision)) (\<lambda>_.
     attempt (IsGateSatisfied a decision) (\<lambda>r. ret (r = Inr True)))"

definition satisfied_by_field :: "raw \<Rightarrow> string" where
  "satisfied_by_field r =
     (if raw_empty r then []
      else case unmarshal_map r None of
        (m, True) \<Rightarrow>
          (case map_of (gomap_list m) ''gate_satisfied_by'' of Some (JStr x) \<Rightarrow> x | _ \<Rightarrow> [])
      | (_, False) \<Rightarrow> [])"

definition satisfied_by :: "string \<Rightarrow> ('z pg_scheme, string) op" where
  "satisfied_by a =
     attempt (queryGetBead a) (\<lambda>r.
       ret (case r of Inl _ \<Rightarrow> [] | Inr b \<Rightarrow> satisfied_by_field (bFields b)))"

definition recognised :: "string \<Rightarrow> bool" where
  "recognised x \<longleftrightarrow> x = ''yield'' \<or> x = ''operator'' \<or> x = ''manual-force''"

text \<open>Using up the gate: neither failure stops the stop.\<close>

definition consume_gate :: "string \<Rightarrow> ('z pg_scheme, unit) op" where
  "consume_gate a =
     and_then (best_effort (ClearGate a decision)) (\<lambda>_.
     best_effort (mergeBeadFields a [(''gate_satisfied_by'', JNull)]))"

definition not_offered :: string where
  "not_offered = ''decision: decision point offered before session end''"

definition quoted :: "string \<Rightarrow> string" where
  "quoted x = [CHR 0x27] @ x @ [CHR 0x27]"

definition not_yielded :: string where
  "not_yielded = ''decision: gate was not satisfied via '' @ quoted ''gb yield'' @ '' '' @ em_dash
     @ '' create a decision with '' @ quoted ''gb decision create'' @ '' then call ''
     @ quoted ''gb yield''"

text \<open>The reason to block a stop, if any.\<close>

definition stop_gate :: "string \<Rightarrow> ('z pg_scheme, string option) op" where
  "stop_gate a =
     and_then (gate_satisfied a) (\<lambda>ok.
     if \<not> ok then ret (Some not_offered)
     else and_then (satisfied_by a) (\<lambda>who.
     if \<not> recognised who then ret (Some not_yielded)
     else and_then (consume_gate a) (\<lambda>_. ret None)))"

subsection \<open>The endpoint\<close>

definition bus_event_of :: "emit_request \<Rightarrow> bus_event" where
  "bus_event_of q =
     \<lparr>vType = emHookType q, vSessionID = emSessionID q, vTranscriptPath = [], vCwd = emCWD q,
      vPermissionMode = [], vRaw = RawNil, vToolName = emToolName q, vToolInput = [],
      vToolResponse = [], vPrompt = [], vSource = [], vModel = [], vAgentID = [], vAgentType = [],
      vError = [], vActor = emActor q, vPublishedAt = None\<rparr>"

definition check_worktree :: "'w host \<Rightarrow> emit_request \<Rightarrow> hook_response \<Rightarrow> 'w server \<Rightarrow> hook_response" where
  "check_worktree ho q r s =
     (let warning = CheckCommitPush ho (emCWD q) (svWorld s) in
      if warning \<noteq> [] then r\<lparr>hrWarnings := hrWarnings r @ [warning]\<rparr> else r)"

definition run_stop_hooks ::
  "'w host \<Rightarrow> emit_request \<Rightarrow> hook_response \<Rightarrow> 'w server \<Rightarrow> hook_response \<times> 'w server" where
  "run_stop_hooks ho q r s =
     (if emHookType q = ''Stop'' then
        (let agentID = (if emActor q \<noteq> [] then emActor q else emAgentBeadID q) in
         case HandleSessionEvent ho
                \<lparr>seAgentID = agentID, seTrigger = TriggerSessionEnd, seCWD = emCWD q\<rparr> s of
           (hr, s) \<Rightarrow>
             (let r = (if hrBlock hr \<and> \<not> hrBlock r
                       then r\<lparr>hrBlock := True, hrReason := hrReason hr\<rparr> else r)
              in (r\<lparr>hrWarnings := hrWarnings r @ hrWarnings hr\<rparr>, s)))
      else (r, s))"

definition dispatch_hook ::
  "'w host \<Rightarrow> emit_request \<Rightarrow> hook_response \<Rightarrow> 'w server \<Rightarrow> hook_response \<times> 'w server" where
  "dispatch_hook ho q r s =
     (case svBus s of
        None \<Rightarrow> (r, s)
      | Some b \<Rightarrow>
          (let d = Dispatch (svFmt s) (now s) (hoCancelled ho) (Some (bus_event_of q)) b (svWorld s);
               r = (case dpError d of
                      Some _ \<Rightarrow> r
                    | None \<Rightarrow>
                        (case dpResult d of
                           Some br \<Rightarrow>
                             if rBlock br \<and> \<not> hrBlock r
                             then r\<lparr>hrBlock := rBlock br, hrReason := rReason br\<rparr> else r
                         | None \<Rightarrow> r))
           in (r, s\<lparr>svWorld := dpWorld d, svJetStream := svJetStream s @ dpPublished d\<rparr>)))"

definition emit_response :: "hook_response \<Rightarrow> resp" where
  "emit_response r = Resp 200 (HookBody (hrBlock r) (hrReason r) (hrWarnings r))"

definition finish_hook :: "'w host \<Rightarrow> emit_request \<Rightarrow> 'w server \<Rightarrow> resp \<times> 'w server" where
  "finish_hook ho q s =
     (case run_stop_hooks ho q (check_worktree ho q no_response s) s of
        (r, s) \<Rightarrow> (case dispatch_hook ho q r s of (r, s) \<Rightarrow> (emit_response r, s)))"

definition handle_stop :: "'w host \<Rightarrow> emit_request \<Rightarrow> 'w server \<Rightarrow> resp \<times> 'w server" where
  "handle_stop ho q s =
     (case stop_gate (emAgentBeadID q) s of
        (Inl e, s) \<Rightarrow> (Aborted, s)
      | (Inr (Some reason), s) \<Rightarrow>
          (emit_response (no_response\<lparr>hrBlock := True, hrReason := reason\<rparr>), s)
      | (Inr None, s) \<Rightarrow> finish_hook ho q s)"

definition handleHookEmit :: "'w host \<Rightarrow> raw \<Rightarrow> 'w server \<Rightarrow> resp \<times> 'w server" where
  "handleHookEmit ho body s =
     (case decode_emit body of
        None \<Rightarrow> (error_resp 400 ''invalid JSON body'', s)
      | Some q \<Rightarrow>
          (let s = record_presence q s in
           if emAgentBeadID q = [] then (emit_response no_response, s)
           else if emHookType q = ''Stop'' then handle_stop ho q s
           else finish_hook ho q s))"

definition decode_publish :: "raw \<Rightarrow> (string \<times> raw) option" where
  "decode_publish body =
     decode_struct (\<lambda>k j (subject, payload).
       if fold_eq k ''subject'' then map_option (\<lambda>x. (x, payload)) (decode_string j subject)
       else if fold_eq k ''payload'' then Some (subject, Raw j)
       else Some (subject, payload)) body ([], RawNil)"

definition handleHookPublish :: "raw \<Rightarrow> 'w server \<Rightarrow> resp \<times> 'w server" where
  "handleHookPublish body s =
     (case decode_publish body of
        None \<Rightarrow> (error_resp 400 ''invalid JSON body'', s)
      | Some (subject, payload) \<Rightarrow>
          if subject = [] then (error_resp 400 ''subject is required'', s)
          else if raw_empty payload then (error_resp 400 ''payload is required'', s)
          else case svBus s of
            None \<Rightarrow> (error_resp 503 ''event bus not configured'', s)
          | Some b \<Rightarrow>
              (Resp 204 NoBody, s\<lparr>svJetStream := svJetStream s @ PublishRaw b subject payload\<rparr>))"

definition handleExecuteHooks :: "'w host \<Rightarrow> raw \<Rightarrow> 'w server \<Rightarrow> resp \<times> 'w server" where
  "handleExecuteHooks ho body s =
     (case decode_session_event body of
        None \<Rightarrow> (error_resp 400 ''invalid JSON body'', s)
      | Some ev \<Rightarrow>
          if seAgentID ev = [] then (error_resp 400 ''agent_id is required'', s)
          else if seTrigger ev = [] then (error_resp 400 ''trigger is required'', s)
          else case HandleSessionEvent ho ev s of (r, s) \<Rightarrow> (emit_response r, s))"

subsection \<open>What the steps of the gate keep\<close>

context state_relation
begin

lemma keeps_best_effort: "keeps R m \<Longrightarrow> keeps R (best_effort m)"
  unfolding best_effort_def
  by (intro keeps_attempt) (auto intro: keeps_ret keeps_fail split: sum.split)

end

text \<open>A view of the tables an operation does not change; no new fault after none.\<close>

definition same :: "(tables \<Rightarrow> 'v) \<Rightarrow> 'z pg_scheme \<Rightarrow> 'z pg_scheme \<Rightarrow> bool" where
  "same v s s' \<longleftrightarrow> v (db s') = v (db s) \<and> (faults s = [] \<longrightarrow> faults s' = [])"

interpretation same: state_relation "same v" for v
  by unfold_locales (auto simp: same_def)

lemma keeps_same_stmt: "(\<And>t. v (snd (f t)) = v t) \<Longrightarrow> keeps (same v) (stmt f)"
  by (auto simp: keeps_def stmt_def run_sql_def same_def split: list.split option.split prod.splits)
    (metis snd_conv)+

lemma keeps_same_stmt_now:
  "(\<And>tm t. v (snd (f tm t)) = v t) \<Longrightarrow> keeps (same v) (stmt_now f)"
  unfolding stmt_now_def keeps_def using keeps_same_stmt [of v, unfolded keeps_def] by blast

lemma keeps_same_select: "keeps (same v) (select g)"
  unfolding select_def by (rule keeps_same_stmt) simp

lemma keeps_same_queryGetBead: "keeps (same v) (queryGetBead i)"
  unfolding queryGetBead_def fetch_relations_def queryGetLabels_def queryGetDependencies_def
    queryGetComments_def
  by (intro same.keeps_ops keeps_same_stmt keeps_same_select)
    (auto simp: sql_select_bead_def split: option.split)

lemma keeps_same_queryListBeads: "keeps (same v) (queryListBeads f)"
proof -
  have "keeps (same v) (list_beads r f)" for r
    unfolding list_beads_def Let_def
    by (auto intro!: same.keeps_ops keeps_same_select split: prod.split)
  then show ?thesis unfolding keeps_def queryListBeads_def by blast
qed

lemma sameD:
  "keeps (same v) m \<Longrightarrow> m s = (r, s') \<Longrightarrow> v (db s') = v (db s) \<and> (faults s = [] \<longrightarrow> faults s' = [])"
  unfolding keeps_def same_def by (metis snd_conv)

lemma gate_statements_keep_beads:
  "keeps (same tBeads) (UpsertGate a g)" "keeps (same tBeads) (IsGateSatisfied a g)"
  "keeps (same tBeads) (ClearGate a g)"
  unfolding UpsertGate_def IsGateSatisfied_def ClearGate_def
  by (auto intro!: same.keeps_ops keeps_same_stmt split: sum.split
      simp: sql_upsert_gate_def sql_gate_status_def sql_set_gate_def split: option.split)

lemma mergeBeadFields_keeps_gates: "keeps (same tGates) (mergeBeadFields i kvs)"
  unfolding mergeBeadFields_def queryUpdateBead_def
  by (auto intro!: same.keeps_ops keeps_same_stmt_now keeps_same_queryGetBead split: sum.split
      simp: sql_update_bead_def map_bead_def split: option.split)

lemma keeps_same_enrich: "keeps (same v) (enrichAgentSubscriptions a subs)"
  unfolding enrichAgentSubscriptions_def
  by (intro same.keeps_ops keeps_same_queryListBeads)

lemma HandleSessionEvent_db:
  assumes "HandleSessionEvent ho ev s = (r, s')"
  shows "db s' = db s" and "faults s = [] \<Longrightarrow> faults s' = []"
proof -
  obtain r1 s1 where l: "queryListBeads open_advice s = (r1, s1)"
    by (cases "queryListBeads open_advice s")
  obtain r2 s2 where e: "enrichAgentSubscriptions (seAgentID ev)
      (BuildAgentSubscriptions (seAgentID ev) []) s1 = (r2, s2)"
    by (cases "enrichAgentSubscriptions (seAgentID ev) (BuildAgentSubscriptions (seAgentID ev) []) s1")
  note same = sameD [OF keeps_same_queryListBeads [where v = "\<lambda>t. t"] l]
    sameD [OF keeps_same_enrich [where v = "\<lambda>t. t"] e]
  have "db s' = db s \<and> (faults s = [] \<longrightarrow> faults s' = [])"
    using assms same
    by (auto simp: HandleSessionEvent_def l e Let_def split: if_splits sum.splits prod.splits)
  then show "db s' = db s" and "faults s = [] \<Longrightarrow> faults s' = []" by simp_all
qed

lemma finish_hook_db:
  assumes "finish_hook ho q s = (r, s')"
  shows "db s' = db s"
proof -
  obtain h s1 where r: "run_stop_hooks ho q (check_worktree ho q no_response s) s = (h, s1)"
    by (cases "run_stop_hooks ho q (check_worktree ho q no_response s) s")
  then have "db s1 = db s"
    by (auto simp: run_stop_hooks_def Let_def split: if_splits prod.splits
        dest: HandleSessionEvent_db(1))
  moreover have "db (snd (dispatch_hook ho q h s1)) = db s1"
    by (simp add: dispatch_hook_def Let_def split: option.split)
  ultimately show ?thesis using assms by (auto simp: finish_hook_def r split: prod.splits)
qed

lemma record_presence_simps [simp]:
  "db (record_presence q s) = db s" "faults (record_presence q s) = faults s"
  by (simp_all add: record_presence_def split: option.split)

subsection \<open>The gate, from its client's side\<close>

text \<open>The protocol of the endpoint over any store of gates.\<close>

context gate_store
begin

lemma upsert_then_read:
  assumes "upsert a g s = (r, s1)" and "is_sat a g s1 = (r2, s2)"
  shows "r2 = Inr True \<Longrightarrow> gates s a g = Some True"
    and "gates s2 x y = Some True \<longleftrightarrow> gates s x y = Some True"
    and "gates s a g \<noteq> Some True \<Longrightarrow> r2 \<noteq> Inr True"
proof -
  have up: "gates s1 x y = Some True \<longleftrightarrow> gates s x y = Some True" for x y
    by (rule upsert_never_satisfies [OF assms(1)])
  have rd: "gates s2 = gates s1" "\<And>v. r2 = Inr v \<Longrightarrow> v = (gates s1 a g = Some True)"
    using assms(2) by (cases r2; auto dest: is_sat_ok is_sat_fail)+
  show "r2 = Inr True \<Longrightarrow> gates s a g = Some True"
    and "gates s2 x y = Some True \<longleftrightarrow> gates s x y = Some True"
    and "gates s a g \<noteq> Some True \<Longrightarrow> r2 \<noteq> Inr True"
    using up rd by auto
qed

end

lemma best_effort_Inr: "best_effort m s = (Inr (), s') \<Longrightarrow> \<exists>r. m s = (r, s')"
  by (auto simp: best_effort_def attempt_def ret_def fail_def split: prod.splits sum.splits if_splits)

lemma best_effort_ok: "m s = (Inr x, s') \<Longrightarrow> best_effort m s = (Inr (), s')"
  by (simp add: best_effort_def attempt_def ret_def)

lemma UpsertGate_best_effort: "\<exists>s'. best_effort (UpsertGate a g) s = (Inr (), s')"
  by (auto simp: best_effort_def attempt_def ret_def fail_def UpsertGate_def stmt_def run_sql_def
      sql_upsert_gate_def fk_violation_def split: prod.splits list.splits option.splits sum.splits)

lemma gate_satisfied_steps:
  assumes "gate_satisfied a s = (Inr ok, s')"
  obtains r s1 r2 where "UpsertGate a decision s = (r, s1)" "IsGateSatisfied a decision s1 = (r2, s')"
    "ok = (r2 = Inr True)"
proof -
  obtain s1 where u: "best_effort (UpsertGate a decision) s = (Inr (), s1)"
    and rest: "attempt (IsGateSatisfied a decision) (\<lambda>r. ret (r = Inr True)) s1 = (Inr ok, s')"
    using assms by (auto simp: gate_satisfied_def and_then_Inr)
  obtain r where "UpsertGate a decision s = (r, s1)" using best_effort_Inr [OF u] by blast
  moreover obtain r2 where "IsGateSatisfied a decision s1 = (r2, s')" "ok = (r2 = Inr True)"
    using rest by (cases "IsGateSatisfied a decision s1") (auto simp: attempt_def ret_def)
  ultimately show thesis using that by blast
qed

lemma stop_gate_blocks:
  assumes "gate_map_of (db s) a decision \<noteq> Some True"
  shows "\<exists>s'. stop_gate a s = (Inr (Some not_offered), s')"
proof -
  obtain s1 where u: "best_effort (UpsertGate a decision) s = (Inr (), s1)"
    using UpsertGate_best_effort by blast
  obtain r where up: "UpsertGate a decision s = (r, s1)" using best_effort_Inr [OF u] by blast
  obtain r2 s2 where rd: "IsGateSatisfied a decision s1 = (r2, s2)"
    by (cases "IsGateSatisfied a decision s1")
  have "r2 \<noteq> Inr True" by (rule pg_gates.upsert_then_read(3) [OF up rd assms])
  then have "gate_satisfied a s = (Inr False, s2)"
    by (simp add: gate_satisfied_def and_then_def u attempt_def rd ret_def)
  then show ?thesis by (simp add: stop_gate_def and_then_def ret_def)
qed

lemma stop_gate_passes:
  assumes "stop_gate a s = (Inr None, s')"
  obtains row s1 s2 where "gate_map_of (db s) a decision = Some True"
    "find_bead a (db s) = Some row" "recognised (satisfied_by_field (bFields row))"
    "consume_gate a s2 = (Inr (), s')" "faults s = [] \<Longrightarrow> faults s2 = []"
proof -
  obtain s1 who s2 where g: "gate_satisfied a s = (Inr True, s1)"
    and b: "satisfied_by a s1 = (Inr who, s2)" and r: "recognised who"
    and c: "consume_gate a s2 = (Inr (), s')"
    using assms by (auto simp: stop_gate_def and_then_Inr ret_Inr split: if_splits)
  obtain r0 s0 r2 where up: "UpsertGate a decision s = (r0, s0)"
    and rd: "IsGateSatisfied a decision s0 = (r2, s1)" and "r2 = Inr True"
    using gate_satisfied_steps [OF g] by metis
  have gate: "gate_map_of (db s) a decision = Some True"
    by (rule pg_gates.upsert_then_read(1) [OF up rd \<open>r2 = Inr True\<close>])
  have beads: "tBeads (db s1) = tBeads (db s)" and quiet1: "faults s = [] \<longrightarrow> faults s1 = []"
    using sameD [OF gate_statements_keep_beads(1) up] sameD [OF gate_statements_keep_beads(2) rd]
    by simp_all
  obtain rb where q: "queryGetBead a s1 = (rb, s2)"
    and who: "who = (case rb of Inl _ \<Rightarrow> [] | Inr b \<Rightarrow> satisfied_by_field (bFields b))"
    using b by (auto simp: satisfied_by_def attempt_def ret_def split: prod.splits)
  obtain bd where rb: "rb = Inr bd"
    using who r by (cases rb) (auto simp: recognised_def)
  obtain row where "find_bead a (db s1) = Some row" "bFields bd = bFields row"
    using queryGetBead_run [OF q [unfolded rb]] by auto
  then have "find_bead a (db s) = Some row" "recognised (satisfied_by_field (bFields row))"
    using beads r who rb by (simp_all add: find_bead_def)
  moreover have "faults s = [] \<Longrightarrow> faults s2 = []"
    using quiet1 sameD [OF keeps_same_queryGetBead [where v = tBeads] q] by simp
  ultimately show thesis using that gate c by blast
qed

lemma consume_gate_unsatisfies:
  assumes "consume_gate a s = (Inr (), s')" and "faults s = []"
  shows "gate_map_of (db s') a decision \<noteq> Some True"
proof -
  obtain s1 where c: "best_effort (ClearGate a decision) s = (Inr (), s1)"
    and m: "best_effort (mergeBeadFields a [(''gate_satisfied_by'', JNull)]) s1 = (Inr (), s')"
    using assms(1) by (auto simp: consume_gate_def and_then_Inr)
  have "fst (ClearGate a decision s) = Inr ()"
    using assms(2) by (simp add: ClearGate_def no_faults sql_set_gate_def)
  then have clear: "ClearGate a decision s = (Inr (), s1)"
    using best_effort_Inr [OF c] by auto
  obtain r where "mergeBeadFields a [(''gate_satisfied_by'', JNull)] s1 = (r, s')"
    using best_effort_Inr [OF m] by blast
  then have "tGates (db s') = tGates (db s1)" using sameD [OF mergeBeadFields_keeps_gates] by blast
  then show ?thesis
    using pg_gates.clear_unsatisfies [OF clear] by (simp add: gate_map_of_def)
qed

subsection \<open>A stop\<close>

text \<open>A request to stop, of an agent with a bead.\<close>

definition stops :: "raw \<Rightarrow> string \<Rightarrow> bool" where
  "stops body a \<longleftrightarrow>
     a \<noteq> [] \<and> (\<exists>q. decode_emit body = Some q \<and> emHookType q = ''Stop'' \<and> emAgentBeadID q = a)"

lemma stop_runs:
  "stops body a \<Longrightarrow>
   \<exists>q. emAgentBeadID q = a \<and> handleHookEmit ho body s = handle_stop ho q (record_presence q s)"
  by (auto simp: stops_def handleHookEmit_def Let_def)

lemma unblocked_stop:
  fixes s s' :: "'w server"
  assumes "stops body a" and "handleHookEmit ho body s = (Resp st (HookBody False r w), s')"
  obtains s0 s1 :: "'w server" where "db s0 = db s" "faults s0 = faults s" "stop_gate a s0 = (Inr None, s1)"
    "db s' = db s1"
proof -
  obtain q where q: "emAgentBeadID q = a" "handleHookEmit ho body s = handle_stop ho q (record_presence q s)"
    using stop_runs [OF assms(1)] by metis
  obtain g s1 where g: "stop_gate a (record_presence q s) = (g, s1)"
    by (cases "stop_gate a (record_presence q s)")
  have h: "handle_stop ho q (record_presence q s) = (Resp st (HookBody False r w), s')"
    using assms(2) q(2) by simp
  have "g = Inr None"
    using h by (cases g) (auto simp: handle_stop_def q(1) g emit_response_def split: option.splits)
  then have "finish_hook ho q s1 = (Resp st (HookBody False r w), s')"
    using h by (simp add: handle_stop_def q(1) g)
  then have "db s' = db s1" by (rule finish_hook_db)
  then show thesis using that [of "record_presence q s" s1] g \<open>g = Inr None\<close> by simp
qed

text \<open>
  C23: no session stops past an unsatisfied gate. When a stop is answered without a block, the
  decision gate of the agent was satisfied, and the agent's bead says that it was by
  \<open>gb yield\<close> or by an operator; any failure to find that out blocks.
\<close>

theorem stop_needs_decision:
  fixes s :: "'w server"
  assumes "stops body a" and "handleHookEmit ho body s = (Resp st (HookBody False r w), s')"
  shows "gate_map_of (db s) a ''decision'' = Some True
    \<and> (\<exists>row. find_bead a (db s) = Some row
        \<and> satisfied_by_field (bFields row) \<in> {''yield'', ''operator'', ''manual-force''})"
proof -
  obtain s0 s1 :: "'w server" where s: "db s0 = db s" "stop_gate a s0 = (Inr None, s1)"
    using unblocked_stop [OF assms] by metis
  then show ?thesis by (auto elim!: stop_gate_passes simp: recognised_def)
qed

text \<open>
  C24: a decision lets one stop through. After a stop that was not blocked, with no statement
  failing, the next stop of the same agent is blocked for want of a decision, as long as
  nothing else touches the database.
\<close>

theorem stop_uses_up_gate:
  fixes s :: "'w server"
  assumes "stops body a" and "faults s = []"
    and "handleHookEmit ho body s = (Resp st (HookBody False r w), s')" and "db s2 = db s'"
  shows "fst (handleHookEmit ho body s2) =
    Resp 200 (HookBody True ''decision: decision point offered before session end'' [])"
proof -
  obtain s0 s1 :: "'w server" where s: "faults s0 = faults s" "stop_gate a s0 = (Inr None, s1)" "db s' = db s1"
    using unblocked_stop [OF assms(1,3)] by metis
  then have no: "gate_map_of (db s2) a decision \<noteq> Some True"
    using assms(2,4) by (auto elim!: stop_gate_passes dest!: consume_gate_unsatisfies)
  obtain q where q: "emAgentBeadID q = a"
      "handleHookEmit ho body s2 = handle_stop ho q (record_presence q s2)"
    using stop_runs [OF assms(1)] by metis
  obtain s3 where "stop_gate a (record_presence q s2) = (Inr (Some not_offered), s3)"
    using stop_gate_blocks [of "record_presence q s2" a] no by auto
  then show ?thesis
    by (simp add: q handle_stop_def emit_response_def no_response_def not_offered_def)
qed

subsection \<open>A stop, run\<close>

definition agent_bead :: bead where
  "agent_bead = sample_bead\<lparr>bID := ''kd-a'', bType := ''agent'',
     bFields := Raw (JObj [(''gate_satisfied_by'', JStr ''yield'')])\<rparr>"

definition stop_tables :: tables where
  "stop_tables = no_tables\<lparr>tBeads := [agent_bead],
     tGates := [\<lparr>gAgentBeadID = ''kd-a'', gGateID = ''decision'', gStatus = ''satisfied'',
                 gSatisfiedAt = Some 1\<rparr>]\<rparr>"

definition quiet_host :: "'w host" where
  "quiet_host = \<lparr>hoRun = (\<lambda>_ _ _ _ w. (([], [], None), w)), hoIsDir = (\<lambda>_ _. False),
     hoGitStatus = (\<lambda>_ _. None), hoCancelled = (\<lambda>_. None)\<rparr>"

definition stop_body :: raw where
  "stop_body = Raw (JObj [(''agent_bead_id'', JStr ''kd-a''), (''hook_type'', JStr ''Stop'')])"

lemma stop_body_stops: "stops stop_body ''kd-a''"
  by (simp add: stops_def decode_emit_def stop_body_def decode_struct_def fold_eq_def
      ascii_upper_def decode_string_def)

lemma no_advice:
  assumes "faults s = []" and "\<forall>b \<in> set (tBeads (db s)). bType b \<noteq> TypeAdvice"
  shows "queryListBeads open_advice s = (Inr ([], 0), s)"
proof -
  have "filter (where_ok (render s) open_advice (db s)) (tBeads (db s)) = []"
    using assms(2) by (auto simp: filter_empty_conv where_ok_def open_advice_def)
  then have "list_rows (render s) open_advice (db s) = ([], 0)"
    by (simp add: list_rows_def limit_offset_def order_by_def parseSortClause_def sort_dir_def
        open_advice_def no_filter_def)
  then show ?thesis
    using assms(1)
    by (simp add: queryListBeads_def list_beads_def op_defs no_faults open_advice_def no_filter_def)
qed

lemma quiet_finish:
  fixes s :: "'w server"
  assumes "faults s = []" and "\<forall>b \<in> set (tBeads (db s)). bType b \<noteq> TypeAdvice"
    and "svBus s = None" and "emCWD q = []"
  shows "\<exists>s'. finish_hook ho q s = (Resp 200 (HookBody False [] []), s')"
proof -
  have "\<exists>s'. HandleSessionEvent ho ev s = (no_response, s') \<and> svBus s' = None" for ev
  proof (cases "seAgentID ev = [] \<or> seTrigger ev = []")
    case False
    obtain r s1 where e: "enrichAgentSubscriptions (seAgentID ev)
        (BuildAgentSubscriptions (seAgentID ev) []) s = (r, s1)"
      by (cases "enrichAgentSubscriptions (seAgentID ev) (BuildAgentSubscriptions (seAgentID ev) []) s")
    have "keeps pg_step (enrichAgentSubscriptions (seAgentID ev) (BuildAgentSubscriptions (seAgentID ev) []))"
      unfolding enrichAgentSubscriptions_def by (intro pg_step.keeps_ops store_keeps)
    then have "pg.more s1 = pg.more s" using e unfolding keeps_def pg_step_def by (metis snd_conv)
    then have "svBus s1 = svBus s" by (cases s, cases s1) simp
    then show ?thesis
      using False assms(3) no_advice [OF assms(1,2)] e by (simp add: HandleSessionEvent_def Let_def)
  qed (simp add: HandleSessionEvent_def assms(3))
  then obtain s' where h: "HandleSessionEvent ho
      \<lparr>seAgentID = (if emActor q \<noteq> [] then emActor q else emAgentBeadID q),
       seTrigger = TriggerSessionEnd, seCWD = emCWD q\<rparr> s = (no_response, s')" "svBus s' = None"
    by blast
  then have "run_stop_hooks ho q no_response s =
      (no_response, if emHookType q = ''Stop'' then s' else s)"
    by (simp add: run_stop_hooks_def Let_def) (simp add: no_response_def)
  then show ?thesis
    using h(2) assms(3)
    by (simp add: finish_hook_def check_worktree_def CheckCommitPush_def assms(4) dispatch_hook_def
        emit_response_def no_response_def)
qed

lemma sample_stop_gate:
  "\<exists>s1. stop_gate ''kd-a'' (idle_server stop_tables) = (Inr None, s1) \<and> faults s1 = []
      \<and> svBus s1 = None \<and> (\<forall>b \<in> set (tBeads (db s1)). bType b \<noteq> TypeAdvice)"
proof -
  let ?s = "idle_server stop_tables"
  have "gate_satisfied ''kd-a'' ?s = (Inr True, ?s)"
    by (simp add: gate_satisfied_def best_effort_def attempt_def and_then_def ret_def no_faults
        UpsertGate_def IsGateSatisfied_def sql_upsert_gate_def sql_gate_status_def stop_tables_def
        gate_key_def idle_server_def no_tables_def)
  moreover have get: "queryGetBead ''kd-a'' ?s = (Inr agent_bead, ?s)"
    by (simp add: queryGetBead_no_faults find_bead_def stop_tables_def agent_bead_def sample_bead_def
        labels_of_def deps_of_def comments_of_def no_tables_def)
  ultimately have "stop_gate ''kd-a'' ?s =
      and_then (consume_gate ''kd-a'') (\<lambda>_. ret None) ?s"
    by (simp add: stop_gate_def and_then_def satisfied_by_def attempt_def ret_def
        satisfied_by_field_def agent_bead_def recognised_def)
  moreover obtain s1 where c: "best_effort (ClearGate ''kd-a'' decision) ?s = (Inr (), s1)"
      "faults s1 = []" "svBus s1 = None" "tBeads (db s1) = [agent_bead]" "tLabels (db s1) = []"
      "tDeps (db s1) = []" "tComments (db s1) = []"
    by (simp add: best_effort_def attempt_def ret_def no_faults ClearGate_def sql_set_gate_def
        stop_tables_def no_tables_def idle_server_def)
  moreover have "\<exists>s2. mergeBeadFields ''kd-a'' [(''gate_satisfied_by'', JNull)] s1 = (Inr (), s2)
      \<and> faults s2 = [] \<and> svBus s2 = None \<and> (\<forall>b \<in> set (tBeads (db s2)). bType b \<noteq> TypeAdvice)"
    using c
    by (simp add: mergeBeadFields_def and_then_def wrap_def queryGetBead_no_faults find_bead_def
        labels_of_def deps_of_def comments_of_def agent_bead_def sample_bead_def existing_fields_def
        marshal_map_def put_all_def jsonb_store_def queryUpdateBead_def no_faults sql_update_bead_def
        ret_def map_bead_def updated_row_def bead_row_def)
  ultimately show ?thesis
    by (auto simp: consume_gate_def and_then_def ret_def dest: best_effort_ok)
qed

lemma sample_stop:
  "\<exists>s'. handleHookEmit quiet_host stop_body (idle_server stop_tables) =
     (Resp 200 (HookBody False [] []), s')"
proof -
  obtain s1 where g: "stop_gate ''kd-a'' (idle_server stop_tables) = (Inr None, s1)" "faults s1 = []"
      "svBus s1 = None" "\<forall>b \<in> set (tBeads (db s1)). bType b \<noteq> TypeAdvice"
    using sample_stop_gate by blast
  let ?q = "\<lparr>emAgentBeadID = ''kd-a'', emHookType = ''Stop'', emSessionID = [], emCWD = [],
      emActor = [], emToolName = []\<rparr>"
  have d: "decode_emit stop_body = Some ?q"
    by (simp add: decode_emit_def stop_body_def decode_struct_def fold_eq_def ascii_upper_def
        decode_string_def)
  have "record_presence ?q (idle_server stop_tables) = idle_server stop_tables"
    by (simp add: record_presence_def)
  then show ?thesis
    using quiet_finish [OF g(2,4,3), of ?q quiet_host] g(1)
    by (simp add: handleHookEmit_def d Let_def handle_stop_def)
qed

lemma stop_needs_decision_witness:
  "\<exists>r s'. handleHookEmit quiet_host stop_body (idle_server stop_tables) = (r, s')
     \<and> r = Resp 200 (HookBody False [] []) \<and> gate_map_of stop_tables ''kd-a'' ''decision'' = Some True"
proof -
  obtain s' where r: "handleHookEmit quiet_host stop_body (idle_server stop_tables) =
      (Resp 200 (HookBody False [] []), s')"
    using sample_stop by blast
  from stop_needs_decision [OF stop_body_stops r] show ?thesis using r by simp
qed

lemma stop_uses_up_gate_witness:
  "fst (handleHookEmit quiet_host stop_body
      (snd (handleHookEmit quiet_host stop_body (idle_server stop_tables)))) =
    Resp 200 (HookBody True ''decision: decision point offered before session end'' [])"
proof -
  obtain s' where r: "handleHookEmit quiet_host stop_body (idle_server stop_tables) =
      (Resp 200 (HookBody False [] []), s')"
    using sample_stop by blast
  show ?thesis using stop_uses_up_gate [OF stop_body_stops _ r refl] by (simp add: r)
qed

subsection \<open>What the handlers keep\<close>

lemma sound_presence [simp]: "sound (record_presence q s) = sound s"
  by (simp add: sound_def)

lemma sound_stop_gate [sound_ops]: "returns sound (stop_gate a) any"
proof -
  have "returns sound (gate_satisfied a) any"
    unfolding gate_satisfied_def
    by (intro returns_and_then [where P = any] returns_attempt [where P = any]
        returns_best_effort [where Q = any] sound_ops returns_ret TrueI)
  moreover have "returns sound (satisfied_by a) any"
    unfolding satisfied_by_def
    by (intro returns_attempt [OF sound_queryGetBead] returns_ret TrueI)
  moreover have "returns sound (consume_gate a) any"
    unfolding consume_gate_def
    by (intro returns_and_then [where P = any] returns_best_effort [where Q = any] sound_ops)
  ultimately show ?thesis
    unfolding stop_gate_def
    by (auto intro!: returns_and_then [where P = any] returns_ret)
qed

lemma safe_finish_hook: "safe sound (finish_hook ho q)"
  unfolding safe_def using finish_hook_db by (metis prod.collapse sound_def)

lemma safe_handle_stop: "safe (sound :: 'w server \<Rightarrow> bool) (handle_stop ho q)"
  unfolding safe_def
proof (intro allI impI)
  fix s :: "'w server" assume s: "sound s"
  obtain r s1 where g: "stop_gate (emAgentBeadID q) s = (r, s1)"
    by (cases "stop_gate (emAgentBeadID q) s")
  have "sound s1" by (rule returns_state [OF sound_stop_gate s g])
  then show "sound (snd (handle_stop ho q s))"
    using safeD [OF safe_finish_hook] by (auto simp: handle_stop_def g split: sum.split option.split)
qed

lemma safe_handleHookEmit [safe_handlers]: "safe sound (handleHookEmit ho body)"
  using safe_handle_stop [of ho] safe_finish_hook [of ho]
  by (auto simp: safe_def handleHookEmit_def Let_def split: option.split)

lemma safe_handleHookPublish [safe_handlers]: "safe sound (handleHookPublish body)"
  by (auto simp: safe_def handleHookPublish_def sound_def split: option.split)

lemma safe_handleExecuteHooks [safe_handlers]: "safe sound (handleExecuteHooks ho body)"
  using safe_HandleSessionEvent [of ho]
  by (auto simp: safe_def handleExecuteHooks_def split: option.split prod.split) (metis snd_conv)

lemma safe_gate_handlers [safe_handlers]:
  "safe sound (handleListGates a)" "safe sound (handleSatisfyGate a g)"
  "safe sound (handleClearGate a g)"
  unfolding handleListGates_def handleSatisfyGate_def handleClearGate_def bad_request_def
  by (intro safe_if safe_reply safe_respond [where Q = any] returns_and_then [where P = any]
      sound_ops)+

end
