(* ===== verification/Graph.thy ===== *)
theory Graph
  imports HookGates Configs
begin

text \<open>
  The graph, statistics, ready and blocked views (\<open>internal/server/http_graph.go\<close>). The maps of
  the source are association lists in insertion order, one of the orders in which Go may
  range over them; the six concurrent queries run one after the other.
\<close>

subsection \<open>Arguments\<close>

record graph_args =
  gaStatus :: "string list"
  gaExcludeTypes :: "string list"
  gaTypes :: "string list"
  gaLabels :: "string list"
  gaLabelsAny :: "string list"
  gaPriority :: "int option"
  gaPriorityMin :: "int option"
  gaPriorityMax :: "int option"
  gaParentID :: string
  gaAssignee :: string
  gaQuery :: string
  gaMaxAgeDays :: int
  gaLimit :: int
  gaIncludeDeps :: bool
  gaIncludeBody :: bool
  gaIncludeAgents :: bool
  gaConnectedClosed :: "bool option"

definition no_args :: graph_args where
  "no_args = \<lparr>gaStatus = [], gaExcludeTypes = [], gaTypes = [], gaLabels = [], gaLabelsAny = [],
     gaPriority = None, gaPriorityMin = None, gaPriorityMax = None, gaParentID = [], gaAssignee = [],
     gaQuery = [], gaMaxAgeDays = 0, gaLimit = 0, gaIncludeDeps = False, gaIncludeBody = False,
     gaIncludeAgents = False, gaConnectedClosed = None\<rparr>"

definition decode_bool_ptr :: "json \<Rightarrow> bool option option" where
  "decode_bool_ptr j = (case j of JNull \<Rightarrow> Some None | JBool b \<Rightarrow> Some (Some b) | _ \<Rightarrow> None)"

definition graph_field :: "string \<Rightarrow> json \<Rightarrow> graph_args \<Rightarrow> graph_args option" where
  "graph_field k j a =
     (if fold_eq k ''status'' then map_option (\<lambda>x. a\<lparr>gaStatus := x\<rparr>) (decode_strings j)
      else if fold_eq k ''exclude_types'' then map_option (\<lambda>x. a\<lparr>gaExcludeTypes := x\<rparr>) (decode_strings j)
      else if fold_eq k ''types'' then map_option (\<lambda>x. a\<lparr>gaTypes := x\<rparr>) (decode_strings j)
      else if fold_eq k ''labels'' then map_option (\<lambda>x. a\<lparr>gaLabels := x\<rparr>) (decode_strings j)
      else if fold_eq k ''labels_any'' then map_option (\<lambda>x. a\<lparr>gaLabelsAny := x\<rparr>) (decode_strings j)
      else if fold_eq k ''priority'' then map_option (\<lambda>x. a\<lparr>gaPriority := x\<rparr>) (decode_int_ptr j)
      else if fold_eq k ''priority_min'' then map_option (\<lambda>x. a\<lparr>gaPriorityMin := x\<rparr>) (decode_int_ptr j)
      else if fold_eq k ''priority_max'' then map_option (\<lambda>x. a\<lparr>gaPriorityMax := x\<rparr>) (decode_int_ptr j)
      else if fold_eq k ''parent_id'' then
        map_option (\<lambda>x. a\<lparr>gaParentID := x\<rparr>) (decode_string j (gaParentID a))
      else if fold_eq k ''assignee'' then
        map_option (\<lambda>x. a\<lparr>gaAssignee := x\<rparr>) (decode_string j (gaAssignee a))
      else if fold_eq k ''query'' then map_option (\<lambda>x. a\<lparr>gaQuery := x\<rparr>) (decode_string j (gaQuery a))
      else if fold_eq k ''max_age_days'' then
        map_option (\<lambda>x. a\<lparr>gaMaxAgeDays := x\<rparr>) (decode_int j (gaMaxAgeDays a))
      else if fold_eq k ''limit'' then map_option (\<lambda>x. a\<lparr>gaLimit := x\<rparr>) (decode_int j (gaLimit a))
      else if fold_eq k ''include_deps'' then
        map_option (\<lambda>x. a\<lparr>gaIncludeDeps := x\<rparr>) (decode_bool j (gaIncludeDeps a))
      else if fold_eq k ''include_body'' then
        map_option (\<lambda>x. a\<lparr>gaIncludeBody := x\<rparr>) (decode_bool j (gaIncludeBody a))
      else if fold_eq k ''include_agents'' then
        map_option (\<lambda>x. a\<lparr>gaIncludeAgents := x\<rparr>) (decode_bool j (gaIncludeAgents a))
      else if fold_eq k ''include_connected_closed'' then
        map_option (\<lambda>x. a\<lparr>gaConnectedClosed := x\<rparr>) (decode_bool_ptr j)
      else Some a)"

definition q_positive :: "query \<Rightarrow> string \<Rightarrow> int \<Rightarrow> int" where
  "q_positive q k dflt = (case q_int q k of Some n \<Rightarrow> if n > 0 then n else dflt | None \<Rightarrow> dflt)"

definition q_true :: "query \<Rightarrow> string \<Rightarrow> bool" where
  "q_true q k \<longleftrightarrow> q_get q k = ''true'' \<or> q_get q k = ''1''"

definition graphArgsFromQuery :: "query \<Rightarrow> graph_args" where
  "graphArgsFromQuery q =
     no_args\<lparr>gaLimit := q_positive q ''limit'' 0, gaAssignee := q_get q ''assignee'',
       gaQuery := q_get q ''query'', gaParentID := q_get q ''parent_id'',
       gaMaxAgeDays := q_positive q ''max_age_days'' 0, gaIncludeDeps := q_true q ''include_deps'',
       gaIncludeBody := q_true q ''include_body'', gaIncludeAgents := q_true q ''include_agents'',
       gaConnectedClosed := (if q_true q ''include_connected_closed'' then Some True else None),
       gaStatus := q_all q ''status'', gaTypes := q_all q ''types'',
       gaExcludeTypes := q_all q ''exclude_types'', gaLabels := q_all q ''labels'',
       gaLabelsAny := q_all q ''labels_any''\<rparr>"

definition with_defaults :: "graph_args \<Rightarrow> graph_args" where
  "with_defaults a =
     (let a = (if gaLimit a = 0 then a\<lparr>gaLimit := 500\<rparr> else a);
          a = (if gaStatus a = []
               then a\<lparr>gaStatus := [''open'', ''in_progress'', ''blocked'', ''deferred'']\<rparr> else a)
      in if gaExcludeTypes a = []
         then a\<lparr>gaExcludeTypes := [''message'', ''config'', ''advice'', ''role'', ''event'']\<rparr> else a)"

subsection \<open>The beads of the graph\<close>

definition graph_filter :: "graph_args \<Rightarrow> bead_filter" where
  "graph_filter a =
     no_filter\<lparr>fLimit := gaLimit a, fAssignee := gaAssignee a, fPriority := gaPriority a,
       fPriorityMin := gaPriorityMin a, fPriorityMax := gaPriorityMax a, fLabels := gaLabels a,
       fLabelsAny := gaLabelsAny a, fParentID := gaParentID a, fExcludeTypes := gaExcludeTypes a\<rparr>"

text \<open>\<open>time.Now().AddDate(0, 0, -days)\<close>, in UTC.\<close>

definition age_cutoff :: "time \<Rightarrow> graph_args \<Rightarrow> time" where
  "age_cutoff tm a = tm - gaMaxAgeDays a * (24 * hour)"

definition status_queries :: "time \<Rightarrow> graph_args \<Rightarrow> string \<Rightarrow> bead_filter list" where
  "status_queries tm a st =
     (let f = (graph_filter a)\<lparr>fStatus := [st]\<rparr>;
          f = (if st = ''closed'' \<and> gaMaxAgeDays a > 0
               then f\<lparr>fUpdatedAfter := Some (age_cutoff tm a)\<rparr> else f);
          f = f\<lparr>fSearch := gaQuery a\<rparr>
      in if gaTypes a \<noteq> [] then map (\<lambda>t. f\<lparr>fType := [t]\<rparr>) (gaTypes a) else [f])"

type_synonym bead_map = "(string \<times> bead) list"

definition put_beads :: "bead list \<Rightarrow> bead_map \<Rightarrow> bead_map" where
  "put_beads bs m = put_all (map (\<lambda>b. (bID b, b)) bs) m"

fun collect_beads :: "bead_filter list \<Rightarrow> bead_map \<Rightarrow> ('z pg_scheme, bead_map) op" where
  "collect_beads [] m = ret m"
| "collect_beads (f # fs) m = and_then (queryListBeads f) (\<lambda>(bs, _). collect_beads fs (put_beads bs m))"

definition beadRelevance :: "time \<Rightarrow> bead \<Rightarrow> nat" where
  "beadRelevance tm b =
     (if bStatus b = StatusInProgress then 0
      else if bStatus b = StatusBlocked then 1
      else if bStatus b = StatusOpen then 2
      else if bStatus b = StatusDeferred then 3
      else if bStatus b = StatusClosed then
        (if bUpdatedAt b \<noteq> 0 \<and> time_sub tm (bUpdatedAt b) < 7 * (24 * hour) then 4 else 5)
      else 6)"

definition limit_beads :: "time \<Rightarrow> graph_args \<Rightarrow> bead_map \<Rightarrow> bead_map" where
  "limit_beads tm a m =
     (if int (length m) > gaLimit a then
        take (nat (gaLimit a))
          (sort_key (\<lambda>(_, b). beadRelevance tm b) (sort_key (\<lambda>(_, b). bPriority b) m))
      else m)"

subsection \<open>The batch queries\<close>

record graph_data =
  gdDeps :: "(string \<times> dependency list) list res"
  gdRevDeps :: "(string \<times> dependency list) list res"
  gdCounts :: "(string \<times> dep_counts) list res"
  gdLabels :: "(string \<times> string list) list res"
  gdBlocked :: "(string \<times> string list) list res"
  gdStats :: "graph_stats res"

definition graph_batch :: "string list \<Rightarrow> 'z pg_scheme \<Rightarrow> graph_data \<times> 'z pg_scheme" where
  "graph_batch ids s =
     (case queryGetDependenciesForBeads ids s of (deps, s) \<Rightarrow>
      case queryGetReverseDependenciesForBeads ids s of (revs, s) \<Rightarrow>
      case queryGetDependencyCounts ids s of (counts, s) \<Rightarrow>
      case queryGetLabelsForBeads ids s of (labels, s) \<Rightarrow>
      case queryGetBlockedByForBeads ids s of (blocked, s) \<Rightarrow>
      case queryGetStats s of (stats, s) \<Rightarrow>
        (\<lparr>gdDeps = deps, gdRevDeps = revs, gdCounts = counts, gdLabels = labels,
          gdBlocked = blocked, gdStats = stats\<rparr>, s))"

definition or_empty :: "'a list res \<Rightarrow> 'a list" where
  "or_empty r = (case r of Inl _ \<Rightarrow> [] | Inr xs \<Rightarrow> xs)"

subsection \<open>Edges\<close>

definition edge_key :: "string \<Rightarrow> dependency \<Rightarrow> string" where
  "edge_key src d = src @ ''->'' @ dDependsOnID d @ '':'' @ dType d"

text \<open>The edges of the dependencies, each key once; \<open>seen\<close> are the keys so far.\<close>

fun add_edges :: "(string \<times> dependency) list \<Rightarrow> string set \<Rightarrow> graph_edge list" where
  "add_edges [] seen = []"
| "add_edges ((src, d) # ds) seen =
     (let k = edge_key src d in
      if k \<in> seen then add_edges ds seen
      else \<lparr>gSource = src, gTarget = dDependsOnID d, gType = dType d\<rparr> # add_edges ds (insert k seen))"

definition forward_deps :: "(string \<times> dependency list) list \<Rightarrow> (string \<times> dependency) list" where
  "forward_deps recs = concat (map (\<lambda>(b, ds). map (\<lambda>d. (b, d)) ds) recs)"

definition reverse_deps :: "(string \<times> dependency list) list \<Rightarrow> (string \<times> dependency) list" where
  "reverse_deps recs = concat (map (\<lambda>(_, ds). map (\<lambda>d. (dBeadID d, d)) ds) recs)"

definition graph_edges ::
  "(string \<times> dependency list) list \<Rightarrow> (string \<times> dependency list) list \<Rightarrow> graph_edge list" where
  "graph_edges deps revs = add_edges (forward_deps deps @ reverse_deps revs) {}"

definition absent :: "bead_map \<Rightarrow> string list \<Rightarrow> string list" where
  "absent m ids = dedup_from [] (filter (\<lambda>i. map_of m i = None) ids)"

text \<open>The far ends of the new edges of the forward and of the reverse dependencies.\<close>

definition missing_ids ::
  "graph_args \<Rightarrow> bead_map \<Rightarrow> (string \<times> dependency list) list \<Rightarrow> graph_edge list \<Rightarrow> string list" where
  "missing_ids a m deps edges =
     (if gaIncludeDeps a then
        (let n = length (add_edges (forward_deps deps) {}) in
         absent m (map gTarget (take n edges) @ map gSource (drop n edges)))
      else [])"

definition fetch_missing :: "graph_args \<Rightarrow> string list \<Rightarrow> bead_map \<Rightarrow> ('z pg_scheme, bead_map) op" where
  "fetch_missing a ids m =
     (if ids = [] then ret m
      else attempt (queryGetBeadsByIDs ids) (\<lambda>r.
        ret (put_beads (filter (\<lambda>b. bType b \<notin> set (gaExcludeTypes a)) (or_empty r)) m)))"

definition closed_candidates ::
  "bead_map \<Rightarrow> (string \<times> dependency list) list \<Rightarrow> graph_edge list \<Rightarrow> string list" where
  "closed_candidates m deps edges =
     absent m (concat (map (\<lambda>e. [gSource e, gTarget e]) edges)
               @ map (\<lambda>(_, d). dDependsOnID d) (forward_deps deps))"

definition closed_shown :: "time \<Rightarrow> graph_args \<Rightarrow> bead \<Rightarrow> bool" where
  "closed_shown tm a b \<longleftrightarrow>
     bType b \<notin> set (gaExcludeTypes a) \<and> bStatus b = StatusClosed
     \<and> \<not> (gaMaxAgeDays a > 0 \<and> bUpdatedAt b < age_cutoff tm a)"

definition fetch_closed ::
  "time \<Rightarrow> graph_args \<Rightarrow> (string \<times> dependency list) list \<Rightarrow> graph_edge list \<Rightarrow> bead_map
   \<Rightarrow> ('z pg_scheme, bead_map) op" where
  "fetch_closed tm a deps edges m =
     (if gaConnectedClosed a \<noteq> Some True \<or> closed_candidates m deps edges = [] then ret m
      else attempt (queryGetBeadsByIDs (closed_candidates m deps edges)) (\<lambda>r.
        ret (put_beads (filter (closed_shown tm a) (or_empty r)) m)))"

subsection \<open>Parents\<close>

type_synonym parents = "(string \<times> string) list"

definition parent_rows :: "(string \<times> dependency) list \<Rightarrow> parents" where
  "parent_rows ds =
     map (\<lambda>(b, d). (b, dDependsOnID d)) (filter (\<lambda>(_, d). dType d = DepParentChild) ds)"

definition is_epic :: "bead_map \<Rightarrow> string \<Rightarrow> bool" where
  "is_epic m i \<longleftrightarrow> (case map_of m i of Some b \<Rightarrow> bType b = TypeEpic | None \<Rightarrow> False)"

fun infer_parents :: "bead_map \<Rightarrow> (string \<times> dependency list) list \<Rightarrow> parents \<Rightarrow> parents" where
  "infer_parents m [] p = p"
| "infer_parents m ((b, ds) # recs) p =
     (if map_of p b \<noteq> None then infer_parents m recs p
      else case List.find (\<lambda>d. dType d = DepBlocks \<and> is_epic m (dDependsOnID d)) ds of
        None \<Rightarrow> infer_parents m recs p
      | Some d \<Rightarrow> infer_parents m recs (AList.update b (dDependsOnID d) p))"

definition parents_of ::
  "bead_map \<Rightarrow> (string \<times> dependency list) list \<Rightarrow> (string \<times> dependency list) list \<Rightarrow> parents" where
  "parents_of m deps revs =
     infer_parents m deps
       (put_all (parent_rows (forward_deps deps) @ parent_rows (reverse_deps revs)) [])"

text \<open>\<open>parentOf[i]\<close>.\<close>

definition parent :: "parents \<Rightarrow> string \<Rightarrow> string" where
  "parent p i = (case map_of p i of None \<Rightarrow> [] | Some x \<Rightarrow> x)"

definition promote :: "parents \<Rightarrow> graph_edge \<Rightarrow> graph_edge" where
  "promote p e =
     (if gType e = DepBlocks \<and> parent p (gSource e) = gTarget e
      then e\<lparr>gType := DepParentChild\<rparr> else e)"

subsection \<open>Nodes\<close>

definition to_second :: "time \<Rightarrow> time" where
  "to_second t = t div second * second"

definition bead_node :: "graph_args \<Rightarrow> graph_data \<Rightarrow> parents \<Rightarrow> bead \<Rightarrow> graph_node" where
  "bead_node a d p b =
     (let counts = map_of (or_empty (gdCounts d)) (bID b) in
      \<lparr>nID = bID b, nTitle = bTitle b, nStatus = bStatus b, nIssueType = bType b,
       nParentID = parent p (bID b), nAssignee = bAssignee b, nPriority = bPriority b,
       nLabels = slice_at (or_empty (gdLabels d)) (bID b),
       nBlockedBy = slice_at (or_empty (gdBlocked d)) (bID b),
       nCreatedAt = Some (to_second (bCreatedAt b)), nUpdatedAt = Some (to_second (bUpdatedAt b)),
       nDescription = (if gaIncludeBody a then bDescription b else []),
       nNotes = (if gaIncludeBody a then bNotes b else []),
       nDepCount = (case counts of Some c \<Rightarrow> dcDependencyCount c | None \<Rightarrow> 0),
       nDepByCount = (case counts of Some c \<Rightarrow> dcDependentCount c | None \<Rightarrow> 0)\<rparr>)"

definition agent_node :: "string \<Rightarrow> string \<Rightarrow> graph_node" where
  "agent_node actor status =
     \<lparr>nID = ''agent:'' @ actor, nTitle = actor, nStatus = status, nIssueType = ''agent'',
      nParentID = [], nAssignee = [], nPriority = 0, nLabels = [], nBlockedBy = [],
      nCreatedAt = None, nUpdatedAt = None, nDescription = [], nNotes = [], nDepCount = 0,
      nDepByCount = 0\<rparr>"

definition assigned :: "bead \<Rightarrow> bool" where
  "assigned b \<longleftrightarrow> bAssignee b \<noteq> [] \<and> bStatus b = StatusInProgress"

text \<open>Live agents first, then the assignees that are not among them.\<close>

definition live_agents :: "'w server \<Rightarrow> (string \<times> graph_node) list" where
  "live_agents s =
     (case svPresence s of
        None \<Rightarrow> []
      | Some t \<Rightarrow>
          put_all (map (\<lambda>e. (pActor e, agent_node (pActor e)
                      (if pIdle e < 30 * second then ''active'' else ''idle'')))
                    (filter (\<lambda>e. \<not> pReaped e) (Roster (now s) 0 t))) [])"

fun add_assignees :: "bead list \<Rightarrow> (string \<times> graph_node) list \<Rightarrow> (string \<times> graph_node) list" where
  "add_assignees [] m = m"
| "add_assignees (b # bs) m =
     (if assigned b \<and> map_of m (bAssignee b) = None
      then add_assignees bs (m @ [(bAssignee b, agent_node (bAssignee b) [])])
      else add_assignees bs m)"

definition assigned_edge :: "bead \<Rightarrow> graph_edge" where
  "assigned_edge b = \<lparr>gSource = ''agent:'' @ bAssignee b, gTarget = bID b, gType = ''assigned_to''\<rparr>"

definition add_agents ::
  "'w server \<Rightarrow> bead list \<Rightarrow> graph_node list \<times> graph_edge list \<Rightarrow> graph_node list \<times> graph_edge list" where
  "add_agents s bs ne =
     (case ne of (nodes, edges) \<Rightarrow>
        let agents = add_assignees bs (live_agents s);
            edges = edges @ map assigned_edge
                      (filter (\<lambda>b. assigned b \<and> map_of agents (bAssignee b) \<noteq> None) bs);
            busy = gSource ` set (filter (\<lambda>e. gType e = ''assigned_to'' \<or> gType e = ''requested_by'') edges)
        in (nodes @ filter (\<lambda>n. nID n \<in> busy) (map snd agents), edges))"

subsection \<open>Pruning\<close>

definition active_status :: "string \<Rightarrow> bool" where
  "active_status st \<longleftrightarrow>
     st \<in> {''open'', ''in_progress'', ''blocked'', ''deferred'', ''active'', ''idle''}"

definition neighbors :: "graph_edge list \<Rightarrow> string \<Rightarrow> string list" where
  "neighbors edges i =
     concat (map (\<lambda>e. (if gSource e = i then [gTarget e] else [])
                     @ (if gTarget e = i then [gSource e] else [])) edges)"

definition node_shown :: "graph_node list \<Rightarrow> graph_edge list \<Rightarrow> graph_node \<Rightarrow> bool" where
  "node_shown nodes edges n \<longleftrightarrow>
     (let connected = gSource ` set edges \<union> gTarget ` set edges;
          active = nID ` set (filter (\<lambda>n. active_status (nStatus n)) nodes);
          closed_connected = (\<lambda>i. \<exists>n' \<in> set nodes. nID n' = i \<and> nStatus n' = ''closed''
                                 \<and> list_ex (\<lambda>j. j \<in> active) (neighbors edges i))
      in (if nIssueType n = ''gate'' \<or> nIssueType n = ''decision'' then nID n \<in> connected
          else if nIssueType n = ''agent''
               then nID n \<in> connected \<or> nStatus n = ''active'' \<or> nStatus n = ''idle'' else True)
         \<and> \<not> (nStatus n = ''closed'' \<and> \<not> closed_connected (nID n)))"

definition prune :: "graph_node list \<times> graph_edge list \<Rightarrow> graph_node list \<times> graph_edge list" where
  "prune ne =
     (case ne of (nodes, edges) \<Rightarrow>
        let shown = filter (node_shown nodes edges) nodes;
            ids = nID ` set shown
        in (shown, filter (\<lambda>e. gSource e \<in> ids \<and> gTarget e \<in> ids) edges))"

subsection \<open>The handlers\<close>

text \<open>An operation whose error is answered at once and whose value goes to the next step.\<close>

definition respond_then ::
  "('s, 'a) op \<Rightarrow> (err \<Rightarrow> 'r) \<Rightarrow> ('a \<Rightarrow> 's \<Rightarrow> 'r \<times> 's) \<Rightarrow> 's \<Rightarrow> 'r \<times> 's" where
  "respond_then m bad k s = (case m s of (Inl e, s') \<Rightarrow> (bad e, s') | (Inr x, s') \<Rightarrow> k x s')"

definition graph_request :: "string \<Rightarrow> raw \<Rightarrow> query \<Rightarrow> graph_args option" where
  "graph_request meth body q =
     (if meth = ''POST'' then decode_struct graph_field body no_args
      else if meth = ''GET'' then Some (graphArgsFromQuery q)
      else Some no_args)"

text \<open>The beads fetched beside the ones listed, then parents, nodes, agents and pruning.\<close>

definition build_graph ::
  "graph_args \<Rightarrow> graph_data \<Rightarrow> bead_map \<Rightarrow> ('w server, graph_node list \<times> graph_edge list) op" where
  "build_graph a d m =
     and_then get_state (\<lambda>s.
     let deps = or_empty (gdDeps d); revs = or_empty (gdRevDeps d); edges = graph_edges deps revs in
     and_then (fetch_missing a (missing_ids a m deps edges) m) (\<lambda>m.
     and_then (fetch_closed (now s) a deps edges m) (\<lambda>m.
     let p = parents_of m deps revs; beads = map snd m;
         ne = (map (bead_node a d p) beads, map (promote p) edges)
     in ret (prune (if gaIncludeAgents a then add_agents s beads ne else ne)))))"

definition graph_stats_of :: "graph_data \<Rightarrow> graph_stats option" where
  "graph_stats_of d = (case gdStats d of Inl _ \<Rightarrow> None | Inr st \<Rightarrow> Some st)"

definition graph_of_beads :: "graph_args \<Rightarrow> bead_map \<Rightarrow> 'w server \<Rightarrow> resp \<times> 'w server" where
  "graph_of_beads a m s =
     (case graph_batch (map fst m) s of
        (d, s) \<Rightarrow>
          (case gdDeps d of
             Inl e \<Rightarrow> (http_fail 500 ''failed to get dependencies'' e, s)
           | Inr _ \<Rightarrow>
               (case gdCounts d of
                  Inl e \<Rightarrow> (http_fail 500 ''failed to get dependency counts'' e, s)
                | Inr _ \<Rightarrow>
                    respond (build_graph a d m) (\<lambda>_. Aborted)
                      (\<lambda>(nodes, edges). Resp 200 (GraphBody nodes edges (graph_stats_of d))) s)))"

definition handleGraph :: "string \<Rightarrow> raw \<Rightarrow> query \<Rightarrow> 'w server \<Rightarrow> resp \<times> 'w server" where
  "handleGraph meth body q s =
     (case graph_request meth body q of
        None \<Rightarrow> bad_request ''invalid graph args'' s
      | Some a0 \<Rightarrow>
          let a = with_defaults a0 in
          respond_then (collect_beads (concat (map (status_queries (now s) a) (gaStatus a))) [])
            (http_fail 500 ''failed to list beads'')
            (\<lambda>m. graph_of_beads a (limit_beads (now s) a m)) s)"

definition handleGetStats :: "'w server \<Rightarrow> resp \<times> 'w server" where
  "handleGetStats =
     respond queryGetStats (http_fail 500 ''failed to get stats'') (Resp 200 \<circ> StatsBody)"

text \<open>A blocker that cannot be read does not count.\<close>

fun blocked_by_deps :: "dependency list \<Rightarrow> ('z pg_scheme, bool) op" where
  "blocked_by_deps [] = ret False"
| "blocked_by_deps (d # ds) =
     (if dType d = DepBlocks then
        attempt (queryGetBead (dDependsOnID d)) (\<lambda>r.
          case r of
            Inl _ \<Rightarrow> blocked_by_deps ds
          | Inr b \<Rightarrow> if bStatus b \<noteq> StatusClosed then ret True else blocked_by_deps ds)
      else blocked_by_deps ds)"

fun ready_beads :: "bead list \<Rightarrow> ('z pg_scheme, bead list) op" where
  "ready_beads [] = ret []"
| "ready_beads (b # bs) =
     and_then (queryGetDependencies (bID b)) (\<lambda>deps.
     and_then (blocked_by_deps deps) (\<lambda>blocked.
     and_then (ready_beads bs) (\<lambda>rest.
     ret (if blocked then rest else b # rest))))"

definition by_priority :: "string \<Rightarrow> query \<Rightarrow> bead_filter" where
  "by_priority st q =
     no_filter\<lparr>fStatus := [st], fSort := ''priority'', fLimit := q_positive q ''limit'' 200\<rparr>"

definition handleGetReady :: "query \<Rightarrow> 'w server \<Rightarrow> resp \<times> 'w server" where
  "handleGetReady q =
     respond_then (queryListBeads (by_priority StatusOpen q)) (http_fail 500 ''failed to list beads'')
       (\<lambda>(beads, _). respond (ready_beads beads) (http_fail 500 ''failed to get dependencies'')
          (\<lambda>rs. Resp 200 (BeadsBody rs (length rs))))"

text \<open>A bead whose dependencies cannot be read keeps none.\<close>

fun enrich :: "bead list \<Rightarrow> ('z pg_scheme, bead list) op" where
  "enrich [] = ret []"
| "enrich (b # bs) =
     attempt (queryGetDependencies (bID b)) (\<lambda>r.
     and_then (enrich bs) (\<lambda>rest.
     ret ((case r of Inl _ \<Rightarrow> b | Inr deps \<Rightarrow> b\<lparr>bDependencies := deps\<rparr>) # rest)))"

definition handleGetBlocked :: "query \<Rightarrow> 'w server \<Rightarrow> resp \<times> 'w server" where
  "handleGetBlocked q =
     respond_then (queryListBeads (by_priority StatusBlocked q)) (http_fail 500 ''failed to list beads'')
       (\<lambda>(beads, _). respond (enrich beads) (http_fail 500 ''failed to list beads'')
          (\<lambda>bs. Resp 200 (BeadsBody bs (length bs))))"

subsection \<open>What the handlers keep\<close>

lemma safe_respond_then:
  assumes "returns I m Q" and "\<And>x. safe I (k x)"
  shows "safe I (respond_then m bad k)"
  using assms by (auto simp: safe_def returns_def respond_then_def split: prod.split sum.split)

lemma sound_collect_beads [sound_ops]: "returns sound (collect_beads fs m) any"
proof (induction fs arbitrary: m)
  case (Cons f fs)
  show ?case
    unfolding collect_beads.simps
    by (rule returns_and_then [OF sound_queryListBeads]) (use Cons in auto)
qed (simp add: returns_ret)

lemma sound_fetch [sound_ops]:
  "returns sound (fetch_missing a ids m) any" "returns sound (fetch_closed tm a deps edges m) any"
  unfolding fetch_missing_def fetch_closed_def
  by (auto intro!: returns_ret returns_attempt [OF sound_queryGetBeadsByIDs])

lemma sound_build_graph [sound_ops]: "returns sound (build_graph a d m) any"
  unfolding build_graph_def Let_def
  by (intro returns_and_then [where P = any] returns_get_state [THEN returns_any] sound_ops
      returns_ret TrueI)

lemma returns_snd: "returns I m Q \<Longrightarrow> I s \<Longrightarrow> I (snd (m s))"
  by (simp add: returns_def)

lemma sound_batch_states:
  assumes "sound s"
  shows "sound (snd (queryGetDependenciesForBeads ids s))"
    "sound (snd (queryGetReverseDependenciesForBeads ids s))"
    "sound (snd (queryGetDependencyCounts ids s))" "sound (snd (queryGetLabelsForBeads ids s))"
    "sound (snd (queryGetBlockedByForBeads ids s))" "sound (snd (queryGetStats s))"
  by (rule returns_snd [where Q = any and I = sound]; (rule sound_ops assms)?)+

lemma sound_graph_batch: "sound s \<Longrightarrow> graph_batch ids s = (d, s') \<Longrightarrow> sound s'"
  by (auto simp: graph_batch_def split_beta intro!: sound_batch_states)

lemma sound_blocked_by_deps [sound_ops]: "returns sound (blocked_by_deps ds) any"
proof (induction ds)
  case (Cons d ds)
  then show ?case
    by (auto intro!: returns_attempt [OF sound_queryGetBead] returns_ret split: sum.split)
qed (simp add: returns_ret)

lemma sound_ready_beads [sound_ops]: "returns sound (ready_beads bs) any"
proof (induction bs)
  case (Cons b bs)
  then show ?case
    by (auto intro!: returns_and_then [where P = any] sound_ops returns_ret)
qed (simp add: returns_ret)

lemma sound_enrich_beads [sound_ops]: "returns sound (enrich bs) any"
proof (induction bs)
  case (Cons b bs)
  then show ?case
    by (auto intro!: returns_attempt [where P = any] returns_and_then [where P = any] sound_ops
        returns_ret)
qed (simp add: returns_ret)

lemma safe_graph_of_beads: "safe sound (graph_of_beads a m)"
  unfolding safe_def
  by (auto simp: graph_of_beads_def split: prod.split sum.split dest: sound_graph_batch
      intro: safeD [OF safe_respond [OF sound_build_graph]])

lemma safe_handleGraph [safe_handlers]: "safe sound (handleGraph meth body q)"
  unfolding safe_def
proof (intro allI impI)
  fix s :: "'w server" assume s: "sound s"
  show "sound (snd (handleGraph meth body q s))"
    by (simp add: handleGraph_def bad_request_def reply_def Let_def s
        safeD [OF safe_respond_then [OF sound_collect_beads safe_graph_of_beads] s] split: option.split)
qed

lemma safe_graph [safe_handlers]:
  "safe sound handleGetStats" "safe sound (handleGetReady q)" "safe sound (handleGetBlocked q)"
  unfolding handleGetStats_def handleGetReady_def handleGetBlocked_def
  by (auto intro!: safe_respond [where Q = any] safe_respond_then [OF sound_queryListBeads] sound_ops
      split: prod.split)

subsection \<open>The graph returned is closed\<close>

lemma node_shownD:
  assumes "node_shown nodes edges n" and "nStatus n = ''closed''"
  obtains n' e where "n' \<in> set nodes" "active_status (nStatus n')" "e \<in> set edges"
    "{gSource e, gTarget e} = {nID n, nID n'}"
proof -
  obtain j where j: "j \<in> set (neighbors edges (nID n))"
    and a: "j \<in> nID ` set (filter (\<lambda>n. active_status (nStatus n)) nodes)"
    using assms by (auto simp: node_shown_def Let_def list_ex_iff)
  obtain e where "e \<in> set edges" "{gSource e, gTarget e} = {nID n, j}"
    using j by (fastforce simp: neighbors_def split: if_splits)
  then show thesis using a that by auto
qed

lemma active_node_shown:
  assumes "active_status (nStatus n)" and "e \<in> set edges" and "nID n \<in> {gSource e, gTarget e}"
  shows "node_shown nodes edges n"
  using assms by (auto simp: node_shown_def active_status_def Let_def)

lemma prune_closed:
  assumes "prune (nodes0, edges0) = (nodes, edges)"
  shows "\<forall>e \<in> set edges. gSource e \<in> nID ` set nodes \<and> gTarget e \<in> nID ` set nodes"
    and "\<forall>n \<in> set nodes. nStatus n = ''closed'' \<longrightarrow>
      (\<exists>n' \<in> set nodes. \<exists>e \<in> set edges. active_status (nStatus n')
         \<and> {gSource e, gTarget e} = {nID n, nID n'})"
proof -
  have nodes: "nodes = filter (node_shown nodes0 edges0) nodes0"
    and edges: "edges = filter (\<lambda>e. gSource e \<in> nID ` set nodes \<and> gTarget e \<in> nID ` set nodes) edges0"
    using assms by (auto simp: prune_def Let_def)
  show "\<forall>e \<in> set edges. gSource e \<in> nID ` set nodes \<and> gTarget e \<in> nID ` set nodes"
    by (subst edges) simp
  show "\<forall>n \<in> set nodes. nStatus n = ''closed'' \<longrightarrow>
      (\<exists>n' \<in> set nodes. \<exists>e \<in> set edges. active_status (nStatus n')
         \<and> {gSource e, gTarget e} = {nID n, nID n'})"
  proof (intro ballI impI)
    fix n assume n: "n \<in> set nodes" "nStatus n = ''closed''"
    then obtain n' e where n': "n' \<in> set nodes0" "active_status (nStatus n')" "e \<in> set edges0"
      and ends: "{gSource e, gTarget e} = {nID n, nID n'}"
      unfolding nodes by (auto elim: node_shownD)
    have "nID n' \<in> {gSource e, gTarget e}" using ends by auto
    then have "n' \<in> set nodes" using n' active_node_shown by (auto simp: nodes)
    moreover have "e \<in> set edges"
      using n' n(1) \<open>n' \<in> set nodes\<close> ends by (subst edges) (auto simp: doubleton_eq_iff)
    ultimately show "\<exists>n' \<in> set nodes. \<exists>e \<in> set edges. active_status (nStatus n')
         \<and> {gSource e, gTarget e} = {nID n, nID n'}"
      using n' ends by blast
  qed
qed

lemma build_graph_pruned:
  "build_graph a d m s = (Inr ne, s') \<Longrightarrow> \<exists>ne0. ne = prune ne0"
  by (auto simp: build_graph_def Let_def and_then_Inr ret_Inr get_state_def
      simp del: split_paired_Ex)

text \<open>
  C27: the graph returned is closed: every edge joins two of its nodes, and every closed bead
  in it has an edge to a node of it that is open or active.
\<close>

theorem graph_closed:
  assumes "handleGraph meth body q s = (Resp 200 (GraphBody nodes edges st), s')"
  shows "(\<forall>e \<in> set edges. gSource e \<in> nID ` set nodes \<and> gTarget e \<in> nID ` set nodes)
     \<and> (\<forall>n \<in> set nodes. nStatus n = ''closed'' \<longrightarrow>
          (\<exists>n' \<in> set nodes. \<exists>e \<in> set edges. active_status (nStatus n')
             \<and> {gSource e, gTarget e} = {nID n, nID n'}))"
proof -
  have "\<exists>a d m s0. build_graph a d m s0 = (Inr (nodes, edges), s')"
    using assms
    by (fastforce simp: handleGraph_def Let_def bad_request_def reply_def respond_then_def
        graph_of_beads_def respond_def http_fail_def error_resp_def
        split: option.splits prod.splits sum.splits if_splits)
  then obtain a d m s0 where "build_graph a d m s0 = (Inr (nodes, edges), s')" by blast
  from build_graph_pruned [OF this] obtain n0 e0 where "prune (n0, e0) = (nodes, edges)" by auto
  from prune_closed [OF this] show ?thesis by blast
qed

definition graph_tables :: tables where
  "graph_tables = no_tables\<lparr>
     tBeads := [sample_bead, sample_bead\<lparr>bID := ''kd-2'', bStatus := ''closed''\<rparr>],
     tDeps := [new_dependency 1 ''kd-1'' ''kd-2'' ''blocks'' []]\<rparr>"

definition graph_sample :: "resp \<times> unit server" where
  "graph_sample = handleGraph ''GET'' RawNil [(''include_connected_closed'', ''true'')]
     (idle_server graph_tables)"

lemma graph_sample_run:
  "\<exists>nodes edges st n. fst graph_sample = Resp 200 (GraphBody nodes edges st)
     \<and> n \<in> set nodes \<and> nID n = ''kd-2'' \<and> nStatus n = ''closed''"
proof -
  have "case fst graph_sample of
      Resp c (GraphBody ns es st) \<Rightarrow>
        c = 200 \<and> list_ex (\<lambda>n. nID n = ''kd-2'' \<and> nStatus n = ''closed'') ns
    | _ \<Rightarrow> False"
    by code_simp
  then show ?thesis by (auto simp: list_ex_iff split: resp.splits body.splits)
qed

lemma graph_closed_witness:
  "\<exists>nodes edges st s' n n' e.
     handleGraph ''GET'' RawNil [(''include_connected_closed'', ''true'')] (idle_server graph_tables)
       = (Resp 200 (GraphBody nodes edges st), s')
     \<and> n \<in> set nodes \<and> nID n = ''kd-2'' \<and> n' \<in> set nodes \<and> active_status (nStatus n')
     \<and> e \<in> set edges \<and> {gSource e, gTarget e} = {''kd-2'', nID n'}"
proof -
  obtain nodes edges st n where r: "fst graph_sample = Resp 200 (GraphBody nodes edges st)"
    and n: "n \<in> set nodes" "nID n = ''kd-2''" "nStatus n = ''closed''"
    using graph_sample_run by (elim exE conjE)
  have run: "handleGraph ''GET'' RawNil [(''include_connected_closed'', ''true'')]
      (idle_server graph_tables) = (Resp 200 (GraphBody nodes edges st), snd graph_sample)"
    using r unfolding graph_sample_def by (metis prod.collapse)
  show ?thesis using graph_closed [OF run] n run by metis
qed

subsection \<open>Ready beads\<close>

lemma queryListBeads_no_faults:
  assumes "faults s = []"
  shows "\<exists>page cnt. queryListBeads f s = (Inr (map (with_labels (db s)) page, cnt), s)
           \<and> (page, cnt) = list_rows (render s) f (db s)"
proof -
  have "\<exists>beads cnt. queryListBeads f s = (Inr (beads, cnt), s)"
    using assms
    by (cases "list_rows (render s) f (db s)", cases "fst (list_rows (render s) f (db s)) = []")
      (simp_all add: queryListBeads_def list_beads_def op_defs no_faults Let_def)
  then obtain beads cnt where run: "queryListBeads f s = (Inr (beads, cnt), s)" by blast
  then show ?thesis using queryListBeads_eq [OF run] by auto
qed

definition open_blocker :: "tables \<Rightarrow> dependency \<Rightarrow> bool" where
  "open_blocker t d \<longleftrightarrow>
     dType d = ''blocks'' \<and> (\<exists>row. find_bead (dDependsOnID d) t = Some row \<and> bStatus row \<noteq> ''closed'')"

definition blocked_now :: "tables \<Rightarrow> string \<Rightarrow> bool" where
  "blocked_now t i \<longleftrightarrow> (\<exists>d \<in> set (deps_of i t). open_blocker t d)"

lemma blocked_by_deps_run:
  "faults s = [] \<Longrightarrow> blocked_by_deps ds s = (Inr (\<exists>d \<in> set ds. open_blocker (db s) d), s)"
  by (induction ds)
    (auto simp: op_defs queryGetBead_no_faults open_blocker_def split: option.split)

lemma ready_beads_run:
  "faults s = [] \<Longrightarrow>
   ready_beads bs s = (Inr (filter (\<lambda>b. \<not> blocked_now (db s) (bID b)) bs), s)"
  by (induction bs)
    (auto simp: op_defs blocked_by_deps_run queryGetDependencies_def no_faults blocked_now_def)

lemma found_by_priority:
  "x \<in> set (found r (by_priority st q) t) \<longleftrightarrow> x \<in> set (tBeads t) \<and> bStatus x = st"
  by (simp add: found_def where_ok_def by_priority_def no_filter_def opt_ok_def)

lemma found_by_priority_count: "length (found r (by_priority st q) t) = count_status st t"
  unfolding found_def count_status_def
  by (rule arg_cong [where f = length], rule filter_cong)
    (simp_all add: where_ok_def by_priority_def no_filter_def opt_ok_def)

lemma q_positive_pos: "dflt > 0 \<Longrightarrow> q_positive q k dflt > 0"
  by (simp add: q_positive_def split: option.split)

lemma subset_length_eq:
  "set xs \<subseteq> set ys \<Longrightarrow> distinct xs \<Longrightarrow> length xs = length ys \<Longrightarrow> set xs = set ys"
  by (metis List.finite_set card_subset_eq card_length distinct_card le_antisym card_mono)

text \<open>
  C28: the ready beads are, by ascending priority, open beads none of whose \<open>blocks\<close>
  dependencies leads to a stored bead that is not closed. When no more beads are open than
  the limit (200 unless the query names another), every such bead is listed; nothing is
  changed.
\<close>

theorem ready_spec:
  fixes s :: "'w server"
  assumes "db_wf (db s)" and "faults s = []"
  shows "\<exists>bs. handleGetReady q s = (Resp 200 (BeadsBody bs (length bs)), s)
     \<and> sorted (map bPriority bs) \<and> distinct (map bID bs)
     \<and> (\<forall>b \<in> set bs. \<exists>row \<in> set (tBeads (db s)). bID row = bID b \<and> bStatus row = ''open''
           \<and> \<not> blocked_now (db s) (bID b))
     \<and> (int (count_status ''open'' (db s)) \<le> q_positive q ''limit'' 200 \<longrightarrow>
          (\<forall>row \<in> set (tBeads (db s)). bStatus row = ''open'' \<and> \<not> blocked_now (db s) (bID row) \<longrightarrow>
             bID row \<in> bID ` set bs))"
proof -
  let ?f = "by_priority ''open'' q"
  let ?found = "found (render s) ?f (db s)"
  obtain page cnt where run: "queryListBeads ?f s = (Inr (map (with_labels (db s)) page, cnt), s)"
    and rows: "(page, cnt) = list_rows (render s) ?f (db s)"
    using queryListBeads_no_faults [OF assms(2)] by blast
  note pg = list_rows_page [OF assms(1) rows]
  let ?bs = "filter (\<lambda>b. \<not> blocked_now (db s) (bID b)) (map (with_labels (db s)) page)"
  have "handleGetReady q s = (Resp 200 (BeadsBody ?bs (length ?bs)), s)"
    using run assms(2)
    by (simp add: handleGetReady_def respond_then_def respond_def ready_beads_run)
  moreover have "sorted (map bPriority ?bs)"
  proof -
    have "sorted (map bPriority page)"
      using pg(3)
      by (simp add: by_priority_def parseSortClause_def has_prefix_def trim_prefix_def row_before_def
          dir_le_def [abs_def] sorted_map)
    then show ?thesis by (simp add: filter_map comp_def with_labels_def sorted_filter)
  qed
  moreover have "distinct (map bID ?bs)"
    using pg(2) by (simp add: filter_map comp_def with_labels_def distinct_map_filter)
  moreover have "\<forall>b \<in> set ?bs. \<exists>row \<in> set (tBeads (db s)). bID row = bID b
      \<and> bStatus row = ''open'' \<and> \<not> blocked_now (db s) (bID b)"
    by (auto simp: with_labels_def found_by_priority dest!: subsetD [OF pg(1)])
  moreover have "bID row \<in> bID ` set ?bs"
    if small: "int (count_status ''open'' (db s)) \<le> q_positive q ''limit'' 200"
      and row: "row \<in> set (tBeads (db s))" "bStatus row = ''open''" "\<not> blocked_now (db s) (bID row)"
    for row
  proof -
    have "length page = length ?found"
      using pg(4) small q_positive_pos [of 200 q "''limit''"]
      by (simp add: found_by_priority_count) (simp add: by_priority_def no_filter_def min_def Let_def)
    then have "set page = set ?found"
      using pg(1,2) by (intro subset_length_eq) (simp_all add: distinct_map)
    then have "row \<in> set page" using row by (simp add: found_by_priority)
    then show ?thesis
      using row(3) by (intro image_eqI [where x = "with_labels (db s) row"]) (simp_all add: with_labels_def)
  qed
  ultimately show ?thesis by blast
qed

lemma graph_tables_facts:
  "db_wf graph_tables" "\<not> blocked_now graph_tables ''kd-1''"
  "sample_bead \<in> set (tBeads graph_tables)" "count_status ''open'' graph_tables = 1"
  by (simp_all add: graph_tables_def no_tables_def sample_bead_def db_wf_defs bead_ids_def row_ok_def
      new_dependency_def blocked_now_def deps_of_def open_blocker_def find_bead_def count_status_def)

lemma ready_spec_witness:
  "\<exists>bs. handleGetReady [] (idle_server graph_tables)
      = (Resp 200 (BeadsBody bs (length bs)), idle_server graph_tables)
     \<and> ''kd-1'' \<in> bID ` set bs"
proof -
  have b: "bID sample_bead = ''kd-1''" "bStatus sample_bead = ''open''"
    by (simp_all add: sample_bead_def)
  have q: "q_positive [] ''limit'' 200 = 200" by (simp add: q_positive_def q_int_def q_get_def)
  obtain bs where "handleGetReady [] (idle_server graph_tables)
      = (Resp 200 (BeadsBody bs (length bs)), idle_server graph_tables)"
    and "\<forall>row \<in> set (tBeads graph_tables).
      bStatus row = ''open'' \<and> \<not> blocked_now graph_tables (bID row) \<longrightarrow> bID row \<in> bID ` set bs"
    using ready_spec [of "idle_server graph_tables" "[]"] graph_tables_facts q by auto
  then show ?thesis using graph_tables_facts(2,3) b by metis
qed

end
