(* ===== verification/Views.thy ===== *)
theory Views
  imports Graph
begin

text \<open>
  The agent roster (\<open>internal/server/http_roster.go\<close>), the status and the event stream of the bus
  (\<open>http_bus_status.go\<close>, \<open>http_bus_sse.go\<close>), the event stream of the server (\<open>sse.go\<close>) and the
  routes for beads3d, which turn a call into one of the native handlers (\<open>http_connect.go\<close>).
\<close>

subsection \<open>The roster\<close>

definition stale_threshold :: "query \<Rightarrow> duration" where
  "stale_threshold q =
     (case q_int q ''stale_threshold_secs'' of
        Some n \<Rightarrow> if n > 0 then int64_mult n second else 30 * minute
      | None \<Rightarrow> 30 * minute)"

definition task_filter :: "string \<Rightarrow> bead_filter" where
  "task_filter actor = no_filter\<lparr>fAssignee := actor, fStatus := [StatusInProgress], fLimit := 1\<rparr>"

definition roster_row_of :: "presence_entry \<Rightarrow> (bead list \<times> nat) res \<Rightarrow> roster_row" where
  "roster_row_of e r =
     (let task = (case r of Inr (b # _, _) \<Rightarrow> (bID b, bTitle b) | _ \<Rightarrow> ([], [])) in
      \<lparr>rwActor = pActor e, rwTaskID = fst task, rwTaskTitle = snd task, rwIdle = pIdle e,
       rwLastEvent = pLastEvent e, rwToolName = pToolName e, rwSessionID = pSessionID e,
       rwCwd = pCwd e, rwReaped = pReaped e\<rparr>)"

fun roster_rows :: "presence_entry list \<Rightarrow> ('z pg_scheme, roster_row list) op" where
  "roster_rows [] = ret []"
| "roster_rows (e # es) =
     attempt (queryListBeads (task_filter (pActor e))) (\<lambda>r.
     and_then (roster_rows es) (\<lambda>rows.
     ret (roster_row_of e r # rows)))"

definition unclaimed_of :: "(bead list \<times> nat) res \<Rightarrow> unclaimed_task list" where
  "unclaimed_of r =
     (case r of
        Inl _ \<Rightarrow> []
      | Inr (bs, _) \<Rightarrow>
          map (\<lambda>b. \<lparr>unID = bID b, unTitle = bTitle b, unPriority = bPriority b\<rparr>)
            (filter (\<lambda>b. bAssignee b = []) bs))"

definition agent_roster :: "query \<Rightarrow> tracker \<Rightarrow> ('w server, body) op" where
  "agent_roster q t =
     and_then get_state (\<lambda>s.
     and_then (roster_rows (Roster (now s) (stale_threshold q) t)) (\<lambda>rows.
     attempt (queryListBeads (no_filter\<lparr>fStatus := [StatusInProgress], fLimit := 50\<rparr>)) (\<lambda>r.
     ret (RosterBody rows (unclaimed_of r)))))"

definition handleAgentRoster :: "query \<Rightarrow> 'w server \<Rightarrow> resp \<times> 'w server" where
  "handleAgentRoster q s =
     (case svPresence s of
        None \<Rightarrow> (Resp 200 (RosterBody [] []), s)
      | Some t \<Rightarrow> respond (agent_roster q t) http_500 (Resp 200) s)"

subsection \<open>The event bus\<close>

definition StreamNames :: "string list" where
  "StreamNames = [''hooks'', ''decisions'', ''agents'', ''mail'', ''mutations'', ''config'', ''gate'',
     ''inbox'', ''jack'']"

definition handleBusStatus :: "'w server \<Rightarrow> resp \<times> 'w server" where
  "handleBusStatus s =
     (Resp 200 (BusStatusBody (case svBus s of
        None \<Rightarrow> \<lparr>bsJetStream = False, bsHandlerCount = 0, bsStreams = StreamNames, bsHandlers = []\<rparr>
      | Some b \<Rightarrow>
          \<lparr>bsJetStream = busJS b, bsHandlerCount = length (busHandlers b), bsStreams = StreamNames,
           bsHandlers = map hdID (busHandlers b)\<rparr>)), s)"

definition wanted_streams :: "string \<Rightarrow> string list" where
  "wanted_streams q =
     (if q \<noteq> [] \<and> q \<noteq> ''all''
      then filter (\<lambda>n. n \<noteq> [] \<and> SubjectPrefixForStream n \<noteq> [])
             (map trim_space (split_byte (CHR '','') q))
      else StreamNames)"

text \<open>
  \<open>sub\<close> says for which subjects JetStream grants a subscription. The status line is sent before
  they are asked for, so that a failure of all of them is reported under status 200.
\<close>

definition handleBusEvents :: "(string \<Rightarrow> bool) \<Rightarrow> query \<Rightarrow> 'w server \<Rightarrow> resp \<times> 'w server" where
  "handleBusEvents sub q s =
     (case svBus s of
        None \<Rightarrow> (error_resp 503 ''JetStream not configured (set BEADS_NATS_URL)'', s)
      | Some b \<Rightarrow>
          if \<not> busJS b then (error_resp 503 ''JetStream not configured (set BEADS_NATS_URL)'', s)
          else
            let streams = wanted_streams (q_get q ''stream'') in
            if streams = [] then (error_resp 400 ''no valid stream names provided'', s)
            else
              let subs = filter (\<lambda>n. sub (SubjectPrefixForStream n @ ''>'')) streams in
              if subs = [] then (Resp 200 (ErrorBody ''failed to subscribe to any streams''), s)
              else (Resp 200 (BusStreamBody subs), s))"

text \<open>A message of the stream; its metadata are the sequence number and the time, if any.\<close>

record nats_msg =
  nmSubject :: string
  nmData :: raw
  nmMeta :: "(nat \<times> time) option"

record busSSEEvent =
  beStream :: string
  beType :: string
  beSubject :: string
  beSeq :: nat
  beTS :: time
  bePayload :: json

definition bus_sse_event :: "time \<Rightarrow> string \<Rightarrow> nats_msg \<Rightarrow> busSSEEvent option" where
  "bus_sse_event tm flt msg =
     (let et = EventTypeFromSubject (nmSubject msg) in
      if flt \<noteq> [] \<and> et \<noteq> flt then None
      else
        let meta = (case nmMeta msg of Some (n, at) \<Rightarrow> (n, to_second at) | None \<Rightarrow> (0, to_second tm));
            payload = (case nmData msg of Raw j \<Rightarrow> Some j | RawNil \<Rightarrow> Some JNull | _ \<Rightarrow> None)
        in map_option (\<lambda>p. \<lparr>beStream = StreamForSubject (nmSubject msg), beType = et,
             beSubject = nmSubject msg, beSeq = fst meta, beTS = snd meta, bePayload = p\<rparr>) payload)"

text \<open>What the loop writes for the messages that arrive: numbered from 1, the filtered ones not
  counted.\<close>

fun bus_sse_loop :: "time \<Rightarrow> string \<Rightarrow> nat \<Rightarrow> nats_msg list \<Rightarrow> (nat \<times> busSSEEvent) list" where
  "bus_sse_loop tm flt n [] = []"
| "bus_sse_loop tm flt n (m # ms) =
     (case bus_sse_event tm flt m of
        None \<Rightarrow> bus_sse_loop tm flt n ms
      | Some e \<Rightarrow> (n + 1, e) # bus_sse_loop tm flt (n + 1) ms)"

subsection \<open>The event stream\<close>

definition handleEventStream :: "query \<Rightarrow> string \<Rightarrow> 'w server \<Rightarrow> resp \<times> 'w server" where
  "handleEventStream q lastID s =
     (case open_stream (q_get q ''topics'') lastID (svHub s) of
        (i, replayed, h) \<Rightarrow> (Resp 200 (StreamBody i replayed), s\<lparr>svHub := h\<rparr>))"

subsection \<open>Routes for beads3d\<close>

text \<open>Errors of the decoder are ignored: what does not decode is skipped.\<close>

definition lenient :: "(string \<Rightarrow> json \<Rightarrow> 's \<Rightarrow> 's) \<Rightarrow> raw \<Rightarrow> 's \<Rightarrow> 's" where
  "lenient f r s = (case r of Raw (JObj kvs) \<Rightarrow> foldl (\<lambda>s (k, j). f k j s) s kvs | _ \<Rightarrow> s)"

definition lenient_strings :: "json \<Rightarrow> string list \<Rightarrow> string list" where
  "lenient_strings j old =
     (case j of
        JNull \<Rightarrow> []
      | JArr xs \<Rightarrow> map (\<lambda>x. case x of JStr s \<Rightarrow> s | _ \<Rightarrow> []) xs
      | _ \<Rightarrow> old)"

definition or_old :: "'a \<Rightarrow> 'a option \<Rightarrow> 'a" where
  "or_old old x = (case x of Some v \<Rightarrow> v | None \<Rightarrow> old)"

record connect_list =
  clStatus :: "string list"
  clType :: "string list"
  clKind :: "string list"
  clAssignee :: string
  clSearch :: string
  clSort :: string
  clLimit :: int
  clOffset :: int
  clLabels :: "string list"
  clFields :: "string list"

definition connect_list_field :: "string \<Rightarrow> json \<Rightarrow> connect_list \<Rightarrow> connect_list" where
  "connect_list_field k j c =
     (if fold_eq k ''status'' then c\<lparr>clStatus := lenient_strings j (clStatus c)\<rparr>
      else if fold_eq k ''type'' then c\<lparr>clType := lenient_strings j (clType c)\<rparr>
      else if fold_eq k ''kind'' then c\<lparr>clKind := lenient_strings j (clKind c)\<rparr>
      else if fold_eq k ''assignee'' then
        c\<lparr>clAssignee := or_old (clAssignee c) (decode_string j (clAssignee c))\<rparr>
      else if fold_eq k ''search'' then
        c\<lparr>clSearch := or_old (clSearch c) (decode_string j (clSearch c))\<rparr>
      else if fold_eq k ''sort'' then c\<lparr>clSort := or_old (clSort c) (decode_string j (clSort c))\<rparr>
      else if fold_eq k ''limit'' then c\<lparr>clLimit := or_old (clLimit c) (decode_int j (clLimit c))\<rparr>
      else if fold_eq k ''offset'' then c\<lparr>clOffset := or_old (clOffset c) (decode_int j (clOffset c))\<rparr>
      else if fold_eq k ''labels'' then c\<lparr>clLabels := lenient_strings j (clLabels c)\<rparr>
      else if fold_eq k ''fields'' then c\<lparr>clFields := lenient_strings j (clFields c)\<rparr>
      else c)"

definition no_connect_list :: connect_list where
  "no_connect_list = \<lparr>clStatus = [], clType = [], clKind = [], clAssignee = [], clSearch = [],
     clSort = [], clLimit = 0, clOffset = 0, clLabels = [], clFields = []\<rparr>"

definition q_if :: "bool \<Rightarrow> string \<Rightarrow> string \<Rightarrow> query" where
  "q_if c k v = (if c then [(k, v)] else [])"

definition connect_query :: "connect_list \<Rightarrow> query" where
  "connect_query c =
     q_if (clStatus c \<noteq> []) ''status'' (join_str '','' (clStatus c))
     @ q_if (clType c \<noteq> []) ''type'' (join_str '','' (clType c))
     @ q_if (clKind c \<noteq> []) ''kind'' (join_str '','' (clKind c))
     @ q_if (clAssignee c \<noteq> []) ''assignee'' (clAssignee c)
     @ q_if (clSearch c \<noteq> []) ''search'' (clSearch c)
     @ q_if (clSort c \<noteq> []) ''sort'' (clSort c)
     @ q_if (clLimit c > 0) ''limit'' (show_int (clLimit c))
     @ q_if (clOffset c > 0) ''offset'' (show_int (clOffset c))
     @ map (\<lambda>l. (''label'', l)) (clLabels c)
     @ map (\<lambda>f. (''field'', f)) (clFields c)"

definition connectList :: "raw \<Rightarrow> 'w server \<Rightarrow> resp \<times> 'w server" where
  "connectList body =
     handleListBeads (connect_query (lenient connect_list_field body no_connect_list))"

definition connect_key :: "raw \<Rightarrow> string" where
  "connect_key body =
     lenient (\<lambda>k j key. if fold_eq k ''key'' then or_old key (decode_string j key) else key) body []"

text \<open>The query of the request stays as it was.\<close>

definition connectListConfigs :: "query \<Rightarrow> 'w server \<Rightarrow> resp \<times> 'w server" where
  "connectListConfigs q = handleListConfigs (q_get q ''namespace'')"

definition connectGetConfig :: "query \<Rightarrow> raw \<Rightarrow> 'w server \<Rightarrow> resp \<times> 'w server" where
  "connectGetConfig q body =
     (if connect_key body \<noteq> [] then handleGetConfig (connect_key body)
      else handleListConfigs (q_get q ''namespace''))"

definition connectUpdate :: "raw \<Rightarrow> 'w server \<Rightarrow> resp \<times> 'w server" where
  "connectUpdate body =
     (case unmarshal_map body None of
        (_, False) \<Rightarrow> bad_request ''invalid JSON body''
      | (m, True) \<Rightarrow>
          (case map_of (gomap_list m) ''id'' of
             Some (JStr i) \<Rightarrow>
               if i = [] then bad_request ''missing id field''
               else handleUpdateBead i
                 (marshal_map (map_option (filter (\<lambda>(k, _). k \<noteq> ''id'')) m))
           | _ \<Rightarrow> bad_request ''missing id field''))"

definition handleConnect ::
  "string res \<Rightarrow> string \<Rightarrow> query \<Rightarrow> raw \<Rightarrow> 'w server \<Rightarrow> resp \<times> 'w server" where
  "handleConnect gen meth q body =
     (if meth = ''List'' then connectList body
      else if meth = ''Graph'' then handleGraph ''POST'' body q
      else if meth = ''Stats'' then handleGetStats
      else if meth = ''GetConfig'' then connectGetConfig q body
      else if meth = ''ConfigList'' then connectListConfigs q
      else if meth = ''Blocked'' then handleGetBlocked q
      else if meth = ''Create'' then handleCreateBead gen body
      else if meth = ''Update'' then connectUpdate body
      else reply (error_resp 404 (''unknown method: '' @ meth)))"

subsection \<open>What the handlers keep\<close>

lemma sound_roster_rows [sound_ops]: "returns sound (roster_rows es) any"
proof (induction es)
  case (Cons e es)
  then show ?case
    by (auto intro!: returns_attempt [OF sound_queryListBeads] returns_and_then [where P = any]
        returns_ret)
qed (simp add: returns_ret)

lemma sound_agent_roster [sound_ops]: "returns sound (agent_roster q t) any"
  unfolding agent_roster_def
  by (intro returns_and_then [where P = any] returns_get_state [THEN returns_any] sound_ops
      returns_attempt [OF sound_queryListBeads] returns_ret TrueI)

lemma sound_hub [simp]: "sound (svHub_update f s) = sound s"
  by (simp add: sound_def)

lemma safe_views [safe_handlers]:
  "safe sound (handleAgentRoster q)" "safe sound handleBusStatus" "safe sound (handleBusEvents sub q)"
  "safe sound (handleEventStream q lastID)"
  using safeD [OF safe_respond [OF sound_agent_roster]]
  by (auto simp: safe_def handleAgentRoster_def handleBusStatus_def handleBusEvents_def
      handleEventStream_def Let_def split: option.split prod.split)

lemma sound_respond: "returns sound m Q \<Longrightarrow> sound s \<Longrightarrow> sound (snd (respond m bad good s))"
  by (rule safeD [OF safe_respond])

lemma safe_configs [safe_handlers]:
  "safe sound (SetConfig key v)" "safe sound (GetConfig key)" "safe sound (ListConfigs ns)"
  "safe sound (DeleteConfig key)" "safe sound (handleSetConfig key body)"
  "safe sound (handleGetConfig key)" "safe sound (handleListConfigs ns)"
  "safe sound (handleDeleteConfig key)"
  by (auto simp: safe_def SetConfig_def GetConfig_def ListConfigs_def DeleteConfig_def
      handleSetConfig_def handleGetConfig_def handleListConfigs_def handleDeleteConfig_def
      intro!: sound_respond [where Q = any] sound_ops split: option.split)

lemma safe_connect [safe_handlers]: "safe sound (handleConnect gen meth q body)"
  unfolding handleConnect_def connectList_def connectGetConfig_def connectListConfigs_def
    connectUpdate_def bad_request_def
  by (intro safe_if safe_handlers safe_reply)
    (auto intro!: safe_handlers safe_reply split: prod.split bool.split option.split json.split)

subsection \<open>Divergences\<close>

text \<open>The labels of a Connect \<open>List\<close> call go to \<open>label\<close>, which the listing does not read; a
  \<open>ConfigList\<close> call carries no namespace; a stream no subscription was granted for is reported
  under status 200.\<close>

lemma connect_drops_labels: "fLabels (filter_of_query (connect_query c)) = []"
proof -
  have "map_of (map (\<lambda>l. (''label'', l)) ls) ''labels'' = None" for ls :: "string list"
    by (induction ls) auto
  moreover have "map_of (map (\<lambda>l. (''field'', l)) ls) ''labels'' = None" for ls :: "string list"
    by (induction ls) auto
  ultimately show ?thesis
    by (simp add: filter_of_query_def q_list_def q_get_def connect_query_def q_if_def map_of_append
        map_add_def)
qed

lemma connect_configs_rejected: "fst (handleConnect gen ''ConfigList'' [] body s) =
   error_resp 400 ''namespace query parameter is required''"
  by (simp add: handleConnect_def connectListConfigs_def q_get_def handleListConfigs_def)

lemma bus_failure_under_200:
  "svBus s = Some b \<Longrightarrow> busJS b \<Longrightarrow>
   fst (handleBusEvents (\<lambda>_. False) [] s) = Resp 200 (ErrorBody ''failed to subscribe to any streams'')"
  by (simp add: handleBusEvents_def wanted_streams_def q_get_def StreamNames_def)

end
