(* ===== verification/Decisions.thy ===== *)
theory Decisions
  imports HookGates
begin

text \<open>
  Decisions (\<open>internal/server/http_decisions.go\<close>): reading the decision out of a bead, listing,
  resolving and cancelling, each of which merges fields into the bead and closes it.
\<close>

subsection \<open>The decision in a bead\<close>

text \<open>
  \<open>map[string]json.RawMessage\<close> of the fields; \<open>rend\<close> is the text of a nested value, as the
  \<open>JSONB\<close> column gives it.
\<close>

definition raw_map :: "raw \<Rightarrow> fields" where
  "raw_map r = (case r of Raw (JObj kvs) \<Rightarrow> put_all kvs [] | _ \<Rightarrow> [])"

definition string_keys :: "string list" where
  "string_keys = [''prompt'', ''context'', ''requested_by'', ''responded_by'', ''responded_at'',
     ''response_text'', ''urgency'']"

definition text_of :: "(json \<Rightarrow> string) \<Rightarrow> json \<Rightarrow> string" where
  "text_of rend j = (case decode_string j [] of Some x \<Rightarrow> x | None \<Rightarrow> trim_space (rend j))"

text \<open>\<open>int(n)\<close> of a \<open>float64\<close>.\<close>

definition number_of :: "json \<Rightarrow> int option" where
  "number_of j =
     (case j of
        JInt n \<Rightarrow> Some n | JFloat m e \<Rightarrow> Some (float_trunc m e) | JNull \<Rightarrow> Some 0 | _ \<Rightarrow> None)"

definition when_present :: "fields \<Rightarrow> string \<Rightarrow> (json \<Rightarrow> fields) \<Rightarrow> fields" where
  "when_present m k f = (case map_of m k of None \<Rightarrow> [] | Some j \<Rightarrow> f j)"

definition report_fields :: "bead \<Rightarrow> fields" where
  "report_fields b =
     (let rt = reportTypeFromLabels (bLabels b) in
      if rt \<noteq> [] then [(''report_required'', JBool True), (''report_type'', JStr rt)] else [])"

definition extractDecisionFields :: "(json \<Rightarrow> string) \<Rightarrow> bead \<Rightarrow> fields" where
  "extractDecisionFields rend b =
     (if raw_empty (bFields b) then []
      else case bFields b of
        Raw j \<Rightarrow>
          (if (case j of JObj _ \<Rightarrow> False | JNull \<Rightarrow> False | _ \<Rightarrow> True) then []
           else
             let m = raw_map (Raw j) in
             concat (map (\<lambda>k. when_present m k (\<lambda>v. [(k, JStr (text_of rend v))])) string_keys)
             @ when_present m ''chosen'' (\<lambda>v.
                 case decode_string v [] of
                   Some x \<Rightarrow> [(''selected_option'', JStr x)] | None \<Rightarrow> [])
             @ when_present m ''options'' (\<lambda>v. [(''options'', v)])
             @ concat (map (\<lambda>k. when_present m k (\<lambda>v.
                 case number_of v of Some n \<Rightarrow> [(k, JInt n)] | None \<Rightarrow> []))
                 [''iteration'', ''max_iterations''])
             @ report_fields b)
      | _ \<Rightarrow> [])"

subsection \<open>Reading\<close>

text \<open>A bead that could not be read is \<open>nil\<close>, whatever the error, and reported as not found.\<close>

definition no_decision :: "err \<Rightarrow> resp" where
  "no_decision e = http_fail 404 ''decision not found'' e"

definition handleGetDecision :: "string \<Rightarrow> 'w server \<Rightarrow> resp \<times> 'w server" where
  "handleGetDecision i s =
     (if i = [] then bad_request ''id is required'' s
      else respond (queryGetBead i) no_decision
        (\<lambda>b. Resp 200 (DecisionBody (extractDecisionFields (render s) b) b [])) s)"

definition decisions_filter :: "query \<Rightarrow> bead_filter" where
  "decisions_filter q =
     (let limit = (case q_int q ''limit'' of Some n \<Rightarrow> if n > 0 then n else 0 | None \<Rightarrow> 0) in
      no_filter\<lparr>fType := [TypeDecision], fSort := ''-created_at'',
        fStatus := (if q_get q ''status'' \<noteq> [] then q_list q ''status''
                    else [StatusOpen, StatusInProgress]),
        fLimit := (if limit = 0 then 50 else limit)\<rparr>)"

definition handleListDecisions :: "query \<Rightarrow> 'w server \<Rightarrow> resp \<times> 'w server" where
  "handleListDecisions q s =
     respond (queryListBeads (decisions_filter q)) (http_fail 500 ''failed to list decisions'')
       (\<lambda>(beads, _). Resp 200 (DecisionsBody
          (map (\<lambda>b. (extractDecisionFields (render s) b, b)) beads))) s"

subsection \<open>Resolving and cancelling\<close>

text \<open>The merge, whose failure is only logged, then the close and its announcement.\<close>

definition close_with :: "string \<Rightarrow> fields \<Rightarrow> string \<Rightarrow> ('w server, bead) op" where
  "close_with i extra closedBy =
     and_then (best_effort (mergeBeadFields i extra)) (\<lambda>_.
     and_then (queryCloseBead i closedBy) (\<lambda>b.
     and_then (announce_closed closedBy b) (\<lambda>_.
     ret b)))"

definition decode_resolve :: "raw \<Rightarrow> (string \<times> string \<times> string) option" where
  "decode_resolve body =
     decode_struct (\<lambda>k j (opt, txt, who).
       if fold_eq k ''selected_option'' then map_option (\<lambda>x. (x, txt, who)) (decode_string j opt)
       else if fold_eq k ''response_text'' then map_option (\<lambda>x. (opt, x, who)) (decode_string j txt)
       else if fold_eq k ''responded_by'' then map_option (\<lambda>x. (opt, txt, x)) (decode_string j who)
       else Some (opt, txt, who)) body ([], [], [])"

text \<open>\<open>time.RFC3339\<close> is the text of the time cut to the second.\<close>

definition resolve_fields :: "string \<Rightarrow> string \<Rightarrow> string \<Rightarrow> string \<Rightarrow> fields" where
  "resolve_fields at opt txt who =
     [(''responded_at'', JStr at)] @ opt_str ''chosen'' opt @ opt_str ''response_text'' txt
     @ opt_str ''responded_by'' who"

definition handleResolveDecision :: "string \<Rightarrow> raw \<Rightarrow> 'w server \<Rightarrow> resp \<times> 'w server" where
  "handleResolveDecision i body s =
     (if i = [] then bad_request ''id is required'' s
      else case decode_resolve body of
        None \<Rightarrow> bad_request ''invalid JSON body'' s
      | Some (opt, txt, who) \<Rightarrow>
          if opt = [] \<and> txt = [] then
            bad_request ''selected_option or response_text is required'' s
          else
            respond (close_with i (resolve_fields (svFmt s (now s div second * second)) opt txt who) who)
              no_decision
              (\<lambda>b. Resp 200 (DecisionBody (extractDecisionFields (render s) b) b (report_fields b))) s)"

text \<open>The body of a cancellation may be missing or malformed: what was decoded before the error
  stays.\<close>

definition cancel_body :: "raw \<Rightarrow> string \<times> string" where
  "cancel_body body =
     (case body of
        Raw (JObj kvs) \<Rightarrow>
          foldl (\<lambda>(reason, who) (k, j).
            if fold_eq k ''reason'' then
              (case decode_string j reason of Some x \<Rightarrow> (x, who) | None \<Rightarrow> (reason, who))
            else if fold_eq k ''canceled_by'' then
              (case decode_string j who of Some x \<Rightarrow> (reason, x) | None \<Rightarrow> (reason, who))
            else (reason, who)) ([], []) kvs
      | _ \<Rightarrow> ([], []))"

definition handleCancelDecision :: "string \<Rightarrow> raw \<Rightarrow> 'w server \<Rightarrow> resp \<times> 'w server" where
  "handleCancelDecision i body s =
     (if i = [] then bad_request ''id is required'' s
      else case cancel_body body of
        (reason, who) \<Rightarrow>
          respond (close_with i ([(''canceled'', JBool True)] @ opt_str ''cancel_reason'' reason) who)
            no_decision
            (\<lambda>b. Resp 200 (DecisionBody (extractDecisionFields (render s) b) b [])) s)"

subsection \<open>What the handlers keep\<close>

lemma sound_close_with [sound_ops]: "returns sound (close_with i extra c) any"
  unfolding close_with_def
  by (intro returns_and_then [where P = any] returns_best_effort [where Q = any]
      sound_queryCloseBead [THEN returns_any] sound_ops returns_ret TrueI)

lemma safe_bad_request: "sound s \<Longrightarrow> sound (snd (bad_request m s))"
  by (simp add: bad_request_def reply_def)

lemma safe_decisions [safe_handlers]:
  "safe sound (handleGetDecision i)" "safe sound (handleListDecisions q)"
  "safe sound (handleResolveDecision i body)" "safe sound (handleCancelDecision i body)"
  using safe_respond [OF sound_queryGetBead, THEN safeD] safe_respond [OF sound_queryListBeads, THEN safeD]
    safe_respond [OF sound_close_with, THEN safeD]
  by (auto simp: safe_def handleGetDecision_def handleListDecisions_def handleResolveDecision_def
      handleCancelDecision_def safe_bad_request split: option.split prod.split)

subsection \<open>A resolved decision\<close>

definition merged_bead :: "string \<Rightarrow> tables \<Rightarrow> bead \<Rightarrow> gomap \<Rightarrow> bead" where
  "merged_bead i t row m =
     row\<lparr>bLabels := labels_of i t, bDependencies := deps_of i t, bComments := comments_of i t,
         bFields := marshal_map m\<rparr>"

lemma mergeBeadFields_run:
  assumes "faults s = []" and "find_bead i (db s) = Some row"
  shows "mergeBeadFields i extra s =
    (case assign_all extra (existing_fields (bFields row)) of
       Inl e \<Rightarrow> (Inl e, s)
     | Inr m \<Rightarrow>
         (Inr (), s\<lparr>db := map_bead i (updated_row (db_now s) (merged_bead i (db s) row m)
            (Raw (jsonb (raw_json (marshal_map m))))) (db s)\<rparr>))"
proof -
  have id: "bID row = i" using find_bead_Some [OF assms(2)] by simp
  have j: "jsonb_store (marshal_map m) = Some (Raw (jsonb (raw_json (marshal_map m))))" for m
    by (simp add: jsonb_store_def marshal_map_def raw_json_def split: option.split)
  show ?thesis
    using assms
    by (simp add: mergeBeadFields_def and_then_def wrap_def queryGetBead_no_faults fail_def ret_def
        queryUpdateBead_def no_faults sql_update_bead_def merged_bead_def id j split: sum.split)
qed

lemma fetch_relations_db: "fetch_relations i b s = (r, s') \<Longrightarrow> db s' = db s"
proof -
  have "keeps read_step (fetch_relations i b)"
    unfolding fetch_relations_def queryGetLabels_def queryGetDependencies_def queryGetComments_def
    by (intro read_step.keeps_ops reads_select)
  then show "fetch_relations i b s = (r, s') \<Longrightarrow> db s' = db s" using read_stepD by blast
qed

lemma close_with_steps:
  fixes s :: "'w server"
  assumes "close_with i extra who s = (Inr b, s')" and "faults s = []"
  obtains row m where "find_bead i (db s) = Some row"
    "assign_all extra (existing_fields (bFields row)) = Inr m"
    "\<And>j. find_bead j (db s') =
       (if j = i then Some (closed_row (db_now s) who (updated_row (db_now s)
            (merged_bead i (db s) row m) (Raw (jsonb (raw_json (marshal_map m)))) row))
        else find_bead j (db s))"
proof -
  obtain s1 s2 where m: "best_effort (mergeBeadFields i extra) s = (Inr (), s1)"
    and c: "queryCloseBead i who s1 = (Inr b, s2)"
    and a: "announce_closed who b s2 = (Inr (), s')"
    using assms(1) by (auto simp: close_with_def and_then_Inr ret_Inr)
  obtain row where row: "find_bead i (db s) = Some row"
  proof (cases "find_bead i (db s)")
    case None
    then have "mergeBeadFields i extra s = (Inl (WrapErr ''get bead'' ErrNoRows), s)"
      using assms(2) by (simp add: mergeBeadFields_def and_then_def wrap_def queryGetBead_no_faults)
    then have "s1 = s" using m by (simp add: best_effort_def attempt_def ret_def)
    then show thesis
      using c assms(2) None by (simp add: queryCloseBead_def and_then_Inr no_faults sql_close_bead_def)
  qed
  obtain mm where mm: "assign_all extra (existing_fields (bFields row)) = Inr mm"
  proof (cases "assign_all extra (existing_fields (bFields row))")
    case (Inl e)
    then have "is_panic e" by (auto simp: assign_all_def split: option.splits if_splits)
    then show thesis
      using m Inl by (simp add: best_effort_def attempt_def fail_def mergeBeadFields_run [OF assms(2) row])
  qed
  let ?row = "updated_row (db_now s) (merged_bead i (db s) row mm) (Raw (jsonb (raw_json (marshal_map mm))))"
  have s1: "s1 = s\<lparr>db := map_bead i ?row (db s)\<rparr>"
    using m mm by (simp add: best_effort_def attempt_def ret_def mergeBeadFields_run [OF assms(2) row])
  have f1: "find_bead j (db s1) = (if j = i then Some (?row row) else find_bead j (db s))" for j
    by (simp add: s1 find_map_bead updated_row_def row)
  have s2: "db s2 = map_bead i (closed_row (db_now s) who) (db s1)"
    using c s1 f1 [of i]
    by (auto simp: queryCloseBead_def and_then_Inr stmt_now_def stmt_Inr sql_close_bead_def
        split: option.splits dest!: fetch_relations_db)
  then have "find_bead j (db s2) = (if j = i then Some (closed_row (db_now s) who (?row row))
      else find_bead j (db s))" for j
    by (simp add: s2 find_map_bead closed_row_def f1)
  moreover have "find_bead j (db s') = find_bead j (db s2)" for j
    using a recordAndPublish_db(2) by (metis announce_closed_def snd_conv)
  ultimately show thesis using that [OF row mm] by simp
qed

lemma distinct_resolve_fields: "distinct (map fst (resolve_fields at opt txt who))"
  by (simp add: resolve_fields_def opt_str_def)

lemma resolve_fields_strings:
  "map_of (resolve_fields at opt txt who) k = Some v \<Longrightarrow> decode_any v = v"
  by (auto simp: resolve_fields_def opt_str_def split: if_splits)

text \<open>
  C26: a decision that is resolved is closed by whoever responded, and carries the response:
  every field of the response reads as it was given, every other field of the bead as before;
  no other bead changes.
\<close>

theorem resolved_decision:
  fixes s :: "'w server"
  assumes "handleResolveDecision i body s = (Resp 200 x, s')" and "faults s = []"
    and "decode_resolve body = Some (opt, txt, who)"
  shows "\<exists>row row'. find_bead i (db s) = Some row \<and> find_bead i (db s') = Some row'
    \<and> bStatus row' = ''closed'' \<and> bClosedBy row' = who \<and> bClosedAt row' = Some (db_now s)
    \<and> bTitle row' = bTitle row
    \<and> (\<forall>k. raw_field (bFields row') k =
         (case map_of (resolve_fields (svFmt s (now s div second * second)) opt txt who) k of
            Some v \<Rightarrow> Some v | None \<Rightarrow> raw_field (bFields row) k))
    \<and> (\<forall>j. j \<noteq> i \<longrightarrow> find_bead j (db s') = find_bead j (db s))"
proof -
  let ?extra = "resolve_fields (svFmt s (now s div second * second)) opt txt who"
  obtain b where c: "close_with i ?extra who s = (Inr b, s')"
    using assms(1,3)
    by (auto simp: handleResolveDecision_def bad_request_def reply_def respond_def no_decision_def
        http_fail_def error_resp_def split: if_splits prod.splits sum.splits)
  obtain row m where row: "find_bead i (db s) = Some row"
    and m: "assign_all ?extra (existing_fields (bFields row)) = Inr m"
    and find: "\<And>j. find_bead j (db s') =
       (if j = i then Some (closed_row (db_now s) who (updated_row (db_now s)
            (merged_bead i (db s) row m) (Raw (jsonb (raw_json (marshal_map m)))) row))
        else find_bead j (db s))"
    using close_with_steps [OF c assms(2)] by metis
  have st: "jsonb_store (marshal_map m) = Some (Raw (jsonb (raw_json (marshal_map m))))"
    by (simp add: jsonb_store_def marshal_map_def raw_json_def split: option.split)
  have "raw_field (Raw (jsonb (raw_json (marshal_map m)))) k =
      (case map_of ?extra k of Some v \<Rightarrow> Some v | None \<Rightarrow> raw_field (bFields row) k)" for k
    using raw_field_jsonb [OF st] merged_field [OF m distinct_resolve_fields, of k]
    by (auto simp: resolve_fields_strings split: option.split)
  then show ?thesis
    using row find
    by (simp add: closed_row_def updated_row_def bead_row_def merged_bead_def)
qed

definition decision_bead :: bead where
  "decision_bead = sample_bead\<lparr>bID := ''kd-d'', bType := ''decision'',
     bFields := Raw (JObj [(''prompt'', JStr ''Ship?'')])\<rparr>"

definition decision_tables :: tables where
  "decision_tables = no_tables\<lparr>tBeads := [decision_bead]\<rparr>"

lemma sample_close_with:
  "\<exists>b s'. close_with ''kd-d'' (resolve_fields ''T'' ''yes'' [] ''ada'') ''ada''
     (idle_server decision_tables) = (Inr b, s')"
proof -
  let ?s = "idle_server decision_tables"
  let ?x = "resolve_fields ''T'' ''yes'' [] ''ada''"
  have row: "find_bead ''kd-d'' (db ?s) = Some decision_bead"
    by (simp add: find_bead_def decision_tables_def decision_bead_def)
  obtain mm where mm: "assign_all ?x (existing_fields (bFields decision_bead)) = Inr mm"
    by (simp add: existing_fields_def decision_bead_def)
  let ?u = "updated_row (db_now ?s) (merged_bead ''kd-d'' (db ?s) decision_bead mm)
      (Raw (jsonb (raw_json (marshal_map mm))))"
  define s1 where "s1 = ?s\<lparr>db := map_bead ''kd-d'' ?u (db ?s)\<rparr>"
  have m: "mergeBeadFields ''kd-d'' ?x ?s = (Inr (), s1)" "faults s1 = []"
    by (simp_all add: mergeBeadFields_run [OF _ row] mm s1_def)
  have f: "find_bead ''kd-d'' (db s1) \<noteq> None"
    using row by (simp add: s1_def find_map_bead updated_row_def)
  obtain b s2 where "queryCloseBead ''kd-d'' ''ada'' s1 = (Inr b, s2)"
    using f m(2)
    by (auto simp: queryCloseBead_def and_then_def no_faults sql_close_bead_def fetch_relations_def
        queryGetLabels_def queryGetDependencies_def queryGetComments_def ret_def)
  then show ?thesis
    using best_effort_ok [where m = "mergeBeadFields ''kd-d'' ?x", OF m(1)]
    by (auto simp: close_with_def and_then_def announce_closed_def ret_def recordAndPublish_ok split_beta)
qed

lemma resolved_decision_witness:
  "\<exists>x s' row'. handleResolveDecision ''kd-d''
      (Raw (JObj [(''selected_option'', JStr ''yes''), (''responded_by'', JStr ''ada'')]))
      (idle_server decision_tables) = (Resp 200 x, s')
     \<and> find_bead ''kd-d'' (db s') = Some row' \<and> bStatus row' = ''closed''
     \<and> raw_field (bFields row') ''chosen'' = Some (JStr ''yes'')"
proof -
  let ?body = "Raw (JObj [(''selected_option'', JStr ''yes''), (''responded_by'', JStr ''ada'')])"
  have d: "decode_resolve ?body = Some (''yes'', [], ''ada'')"
    by (simp add: decode_resolve_def decode_struct_def fold_eq_def ascii_upper_def decode_string_def)
  obtain b s' where c: "close_with ''kd-d'' (resolve_fields ''T'' ''yes'' [] ''ada'') ''ada''
     (idle_server decision_tables) = (Inr b, s')"
    using sample_close_with by blast
  then obtain x where run: "handleResolveDecision ''kd-d'' ?body (idle_server decision_tables) = (Resp 200 x, s')"
    by (simp add: handleResolveDecision_def d respond_def)
  show ?thesis
    using resolved_decision [OF run _ d] run by (force simp: resolve_fields_def opt_str_def)
qed

end
