(* ===== verification/Http.thy ===== *)
theory Http
  imports Views Decisions
begin

text \<open>
  The server as its clients reach it: the HTTP routes behind \<open>AuthMiddleware\<close>
  (\<open>internal/server/http.go\<close>), the gRPC methods behind the interceptors
  (\<open>interceptors.go\<close>, \<open>grpc.go\<close>), and every step the state of a running server takes.
\<close>

subsection \<open>Requests\<close>

text \<open>
  The path is the list of its decoded segments (a trailing slash is a last empty one); the
  multiplexer redirects a path that is not clean, so that no inner segment is empty.
\<close>

record http_request =
  rqMethod :: string
  rqPath :: "string list"
  rqQuery :: query
  rqBody :: raw
  rqAuth :: string
  rqLastEventID :: string

text \<open>What a request takes from outside: a fresh id, the host, and JetStream's subscriptions.\<close>

record 'w env =
  evGen :: "string res"
  evHost :: "'w host"
  evSub :: "string \<Rightarrow> bool"

subsection \<open>Routes\<close>

datatype seg = Lit string | Wild | Rest

fun match_path :: "seg list \<Rightarrow> string list \<Rightarrow> string list option" where
  "match_path [] segs = (if segs = [] then Some [] else None)"
| "match_path (Lit x # ps) segs =
     (case segs of [] \<Rightarrow> None | y # ys \<Rightarrow> if x = y then match_path ps ys else None)"
| "match_path (Wild # ps) segs =
     (case segs of [] \<Rightarrow> None
      | y # ys \<Rightarrow> if y = [] then None else map_option ((#) y) (match_path ps ys))"
| "match_path (Rest # ps) segs = (if segs = [] then None else Some [join_str ''/'' segs])"

text \<open>\<open>r.PathValue\<close> of the n-th wildcard.\<close>

definition arg :: "nat \<Rightarrow> string list \<Rightarrow> string" where
  "arg n vs = (if n < length vs then vs ! n else [])"

type_synonym 'w handler =
  "'w env \<Rightarrow> http_request \<Rightarrow> string list \<Rightarrow> 'w server \<Rightarrow> resp \<times> 'w server"

type_synonym 'w route = "string \<times> seg list \<times> 'w handler"

definition v1 :: "seg list \<Rightarrow> seg list" where
  "v1 ps = Lit ''v1'' # ps"

definition handleHealth :: "'w server \<Rightarrow> resp \<times> 'w server" where
  "handleHealth = reply (Resp 200 (JsonBody (JObj [(''status'', JStr ''ok'')])))"

definition bead_routes :: "'w route list" where
  "bead_routes = [
     (''POST'', v1 [Lit ''beads''], \<lambda>e r vs. handleCreateBead (evGen e) (rqBody r)),
     (''GET'', v1 [Lit ''beads''], \<lambda>e r vs. handleListBeads (rqQuery r)),
     (''GET'', v1 [Lit ''beads'', Wild], \<lambda>e r vs. handleGetBead (arg 0 vs)),
     (''PATCH'', v1 [Lit ''beads'', Wild], \<lambda>e r vs. handleUpdateBead (arg 0 vs) (rqBody r)),
     (''POST'', v1 [Lit ''beads'', Wild, Lit ''close''],
        \<lambda>e r vs. handleCloseBead (arg 0 vs) (rqBody r)),
     (''DELETE'', v1 [Lit ''beads'', Wild], \<lambda>e r vs. handleDeleteBead (arg 0 vs)),
     (''GET'', v1 [Lit ''beads'', Wild, Lit ''dependencies''],
        \<lambda>e r vs. handleGetDependencies (arg 0 vs)),
     (''GET'', v1 [Lit ''beads'', Wild, Lit ''dependents''],
        \<lambda>e r vs. handleGetReverseDependencies (arg 0 vs)),
     (''POST'', v1 [Lit ''beads'', Wild, Lit ''dependencies''],
        \<lambda>e r vs. handleAddDependency (arg 0 vs) (rqBody r)),
     (''DELETE'', v1 [Lit ''beads'', Wild, Lit ''dependencies''],
        \<lambda>e r vs. handleRemoveDependency (arg 0 vs) (rqQuery r)),
     (''GET'', v1 [Lit ''beads'', Wild, Lit ''labels''], \<lambda>e r vs. handleGetLabels (arg 0 vs)),
     (''POST'', v1 [Lit ''beads'', Wild, Lit ''labels''],
        \<lambda>e r vs. handleAddLabel (arg 0 vs) (rqBody r)),
     (''DELETE'', v1 [Lit ''beads'', Wild, Lit ''labels'', Wild],
        \<lambda>e r vs. handleRemoveLabel (arg 0 vs) (arg 1 vs)),
     (''GET'', v1 [Lit ''beads'', Wild, Lit ''comments''], \<lambda>e r vs. handleGetComments (arg 0 vs)),
     (''POST'', v1 [Lit ''beads'', Wild, Lit ''comments''],
        \<lambda>e r vs. handleAddComment (arg 0 vs) (rqBody r)),
     (''GET'', v1 [Lit ''beads'', Wild, Lit ''events''], \<lambda>e r vs. handleGetEvents (arg 0 vs))]"

definition view_routes :: "'w route list" where
  "view_routes = [
     (''PUT'', v1 [Lit ''configs'', Rest], \<lambda>e r vs. handleSetConfig (arg 0 vs) (rqBody r)),
     (''GET'', v1 [Lit ''configs'', Rest], \<lambda>e r vs. handleGetConfig (arg 0 vs)),
     (''GET'', v1 [Lit ''configs''], \<lambda>e r vs. handleListConfigs (q_get (rqQuery r) ''namespace'')),
     (''DELETE'', v1 [Lit ''configs'', Rest], \<lambda>e r vs. handleDeleteConfig (arg 0 vs)),
     (''GET'', v1 [Lit ''graph''], \<lambda>e r vs. handleGraph (rqMethod r) (rqBody r) (rqQuery r)),
     (''POST'', v1 [Lit ''graph''], \<lambda>e r vs. handleGraph (rqMethod r) (rqBody r) (rqQuery r)),
     (''GET'', v1 [Lit ''stats''], \<lambda>e r vs. handleGetStats),
     (''GET'', v1 [Lit ''ready''], \<lambda>e r vs. handleGetReady (rqQuery r)),
     (''GET'', v1 [Lit ''blocked''], \<lambda>e r vs. handleGetBlocked (rqQuery r))]"

definition event_routes :: "'w route list" where
  "event_routes = [
     (''POST'', v1 [Lit ''hooks'', Lit ''execute''],
        \<lambda>e r vs. handleExecuteHooks (evHost e) (rqBody r)),
     (''POST'', v1 [Lit ''hooks'', Lit ''emit''], \<lambda>e r vs. handleHookEmit (evHost e) (rqBody r)),
     (''POST'', v1 [Lit ''hooks'', Lit ''publish''], \<lambda>e r vs. handleHookPublish (rqBody r)),
     (''GET'', v1 [Lit ''events'', Lit ''stream''],
        \<lambda>e r vs. handleEventStream (rqQuery r) (rqLastEventID r)),
     (''GET'', v1 [Lit ''bus'', Lit ''events''], \<lambda>e r vs. handleBusEvents (evSub e) (rqQuery r)),
     (''GET'', v1 [Lit ''bus'', Lit ''status''], \<lambda>e r vs. handleBusStatus),
     (''GET'', v1 [Lit ''decisions'', Wild], \<lambda>e r vs. handleGetDecision (arg 0 vs)),
     (''GET'', v1 [Lit ''decisions''], \<lambda>e r vs. handleListDecisions (rqQuery r)),
     (''POST'', v1 [Lit ''decisions'', Wild, Lit ''resolve''],
        \<lambda>e r vs. handleResolveDecision (arg 0 vs) (rqBody r)),
     (''POST'', v1 [Lit ''decisions'', Wild, Lit ''cancel''],
        \<lambda>e r vs. handleCancelDecision (arg 0 vs) (rqBody r)),
     (''GET'', v1 [Lit ''health''], \<lambda>e r vs. handleHealth),
     (''GET'', v1 [Lit ''agents'', Wild, Lit ''gates''], \<lambda>e r vs. handleListGates (arg 0 vs)),
     (''POST'', v1 [Lit ''agents'', Wild, Lit ''gates'', Wild, Lit ''satisfy''],
        \<lambda>e r vs. handleSatisfyGate (arg 0 vs) (arg 1 vs)),
     (''DELETE'', v1 [Lit ''agents'', Wild, Lit ''gates'', Wild],
        \<lambda>e r vs. handleClearGate (arg 0 vs) (arg 1 vs)),
     (''GET'', v1 [Lit ''agents'', Lit ''roster''], \<lambda>e r vs. handleAgentRoster (rqQuery r)),
     (''POST'', [Lit ''bd.v1.BeadsService'', Wild],
        \<lambda>e r vs. handleConnect (evGen e) (arg 0 vs) (rqQuery r) (rqBody r))]"

definition routes :: "'w route list" where
  "routes = bead_routes @ view_routes @ event_routes"

text \<open>A pattern for \<open>GET\<close> takes \<open>HEAD\<close> requests too. No request has two routes (below), so the
  precedence of the multiplexer plays no role.\<close>

definition takes :: "http_request \<Rightarrow> 'w route \<Rightarrow> bool" where
  "takes r rt =
     (case rt of (m, p, h) \<Rightarrow>
        (rqMethod r = m \<or> (rqMethod r = ''HEAD'' \<and> m = ''GET'')) \<and> match_path p (rqPath r) \<noteq> None)"

definition knows_path :: "string list \<Rightarrow> 'w route \<Rightarrow> bool" where
  "knows_path path rt = (case rt of (m, p, h) \<Rightarrow> match_path p path \<noteq> None)"

definition serve_mux :: "'w env \<Rightarrow> http_request \<Rightarrow> 'w server \<Rightarrow> resp \<times> 'w server" where
  "serve_mux e r s =
     (case List.find (takes r) routes of
        Some (m, p, h) \<Rightarrow>
          (case match_path p (rqPath r) of Some vs \<Rightarrow> h e r vs s | None \<Rightarrow> (Aborted, s))
      | None \<Rightarrow>
          (Resp (if list_ex (knows_path (rqPath r)) (routes :: 'w route list) then 405 else 404) NoBody, s))"

subsection \<open>Authentication\<close>

definition AuthMiddleware ::
  "string \<Rightarrow> (http_request \<Rightarrow> 's \<Rightarrow> resp \<times> 's) \<Rightarrow> http_request \<Rightarrow> 's \<Rightarrow> resp \<times> 's" where
  "AuthMiddleware token nxt r =
     (if token = [] then nxt r
      else if rqMethod r = ''GET'' \<and> join_str ''/'' (rqPath r) = ''v1/health'' then nxt r
      else if rqAuth r = [] then reply (error_resp 401 ''missing authorization header'')
      else if \<not> has_prefix (rqAuth r) ''Bearer '' then
        reply (error_resp 401 ''invalid authorization scheme'')
      else if trim_prefix (rqAuth r) ''Bearer '' \<noteq> token then reply (error_resp 401 ''invalid token'')
      else nxt r)"

definition NewHTTPHandler ::
  "string \<Rightarrow> 'w env \<Rightarrow> http_request \<Rightarrow> 'w server \<Rightarrow> resp \<times> 'w server" where
  "NewHTTPHandler token e = AuthMiddleware token (serve_mux e)"

subsection \<open>gRPC\<close>

datatype rpc_call =
    RpcCreateBead pb_create
  | RpcGetBead string
  | RpcListBeads pb_list
  | RpcUpdateBead string pb_update
  | RpcCloseBead string string
  | RpcDeleteBead string
  | RpcAddDependency string string string string
  | RpcRemoveDependency string string string
  | RpcGetDependencies string
  | RpcAddLabel string string
  | RpcRemoveLabel string string
  | RpcGetLabels string
  | RpcAddComment string string string
  | RpcGetComments string
  | RpcGetEvents string
  | RpcSetConfig string raw
  | RpcGetConfig string
  | RpcListConfigs string
  | RpcDeleteConfig string
  | RpcHealth

datatype rpc_reply =
    PbNothing
  | PbBead pb_bead
  | PbBeads "pb_bead list" int
  | PbDep pb_dependency
  | PbDeps "pb_dependency list"
  | PbLabels "string list"
  | PbComment pb_comment
  | PbComments "pb_comment list"
  | PbEvents "pb_event list"
  | PbConfig pb_config
  | PbConfigs "pb_config list"
  | PbHealth string

definition answer :: "('a \<Rightarrow> rpc_reply) \<Rightarrow> ('s \<Rightarrow> 'a rpc \<times> 's) \<Rightarrow> 's \<Rightarrow> rpc_reply rpc \<times> 's" where
  "answer f h s = (case h s of (r, s') \<Rightarrow> (map_sum (\<lambda>e. e) f r, s'))"

fun grpc_handler :: "string res \<Rightarrow> rpc_call \<Rightarrow> 'w server \<Rightarrow> rpc_reply rpc \<times> 'w server" where
  "grpc_handler gen (RpcCreateBead q) = answer PbBead (CreateBead gen q)"
| "grpc_handler gen (RpcGetBead i) = answer PbBead (GetBead i)"
| "grpc_handler gen (RpcListBeads l) = answer (case_prod PbBeads) (ListBeads l)"
| "grpc_handler gen (RpcUpdateBead i v) = answer PbBead (UpdateBead i v)"
| "grpc_handler gen (RpcCloseBead i who) = answer PbBead (CloseBead i who)"
| "grpc_handler gen (RpcDeleteBead i) = answer (\<lambda>_. PbNothing) (DeleteBead i)"
| "grpc_handler gen (RpcAddDependency b on ty who) = answer PbDep (AddDependency b on ty who)"
| "grpc_handler gen (RpcRemoveDependency b on ty) =
     answer (\<lambda>_. PbNothing) (RemoveDependency b on ty)"
| "grpc_handler gen (RpcGetDependencies b) = answer PbDeps (GetDependencies b)"
| "grpc_handler gen (RpcAddLabel b l) = answer PbBead (AddLabel b l)"
| "grpc_handler gen (RpcRemoveLabel b l) = answer (\<lambda>_. PbNothing) (RemoveLabel b l)"
| "grpc_handler gen (RpcGetLabels b) = answer PbLabels (GetLabels b)"
| "grpc_handler gen (RpcAddComment b author txt) = answer PbComment (AddComment b author txt)"
| "grpc_handler gen (RpcGetComments b) = answer PbComments (GetComments b)"
| "grpc_handler gen (RpcGetEvents b) = answer PbEvents (GetEvents b)"
| "grpc_handler gen (RpcSetConfig k v) = answer (PbConfig \<circ> configToProto) (SetConfig k v)"
| "grpc_handler gen (RpcGetConfig k) = answer (PbConfig \<circ> configToProto) (GetConfig k)"
| "grpc_handler gen (RpcListConfigs ns) = answer (PbConfigs \<circ> map configToProto) (ListConfigs ns)"
| "grpc_handler gen (RpcDeleteConfig k) = answer (\<lambda>_. PbNothing) (DeleteConfig k)"
| "grpc_handler gen RpcHealth = answer PbHealth Health"

type_synonym ('w) rpc_handler = "rpc_call \<Rightarrow> 'w server \<Rightarrow> rpc_reply rpc \<times> 'w server"

text \<open>The values of the \<open>authorization\<close> metadata, \<open>None\<close> without metadata.\<close>

definition AuthInterceptor ::
  "string \<Rightarrow> string list option \<Rightarrow> 'w rpc_handler \<Rightarrow> 'w rpc_handler" where
  "AuthInterceptor token md nxt c =
     (if token = [] then nxt c
      else if c = RpcHealth then nxt c
      else case md of
        None \<Rightarrow> reply (Inl (Unauthenticated, ''missing metadata''))
      | Some [] \<Rightarrow> reply (Inl (Unauthenticated, ''missing authorization header''))
      | Some (provided # _) \<Rightarrow>
          if \<not> has_prefix provided ''Bearer '' then
            reply (Inl (Unauthenticated, ''invalid authorization scheme''))
          else if trim_prefix provided ''Bearer '' \<noteq> token then
            reply (Inl (Unauthenticated, ''invalid token''))
          else nxt c)"

definition RecoveryInterceptor :: "'w rpc_handler \<Rightarrow> 'w rpc_handler" where
  "RecoveryInterceptor nxt c s =
     (case nxt c s of
        (Inl (Crashed, _), s') \<Rightarrow> (Inl (Internal, ''internal server error''), s')
      | (r, s') \<Rightarrow> (r, s'))"

text \<open>The interceptor that logs passes everything on.\<close>

definition NewGRPCServer ::
  "string \<Rightarrow> string list option \<Rightarrow> string res \<Rightarrow> 'w rpc_handler" where
  "NewGRPCServer token md gen =
     RecoveryInterceptor
       (if token \<noteq> [] then AuthInterceptor token md (grpc_handler gen) else grpc_handler gen)"

subsection \<open>A running server\<close>

text \<open>
  The steps: a request over HTTP or gRPC, a message to the subscriber of the hooks, an event
  stream that is read or ends, a sweep of the reaper, and what happens outside (time passes,
  statements of the database fail, the world of the handlers changes).
\<close>

inductive server_step :: "string \<Rightarrow> 'w server \<Rightarrow> 'w server \<Rightarrow> bool" for token where
  http: "NewHTTPHandler token e r s = (x, s') \<Longrightarrow> server_step token s s'"
| grpc: "NewGRPCServer token md gen c s = (y, s') \<Longrightarrow> server_step token s s'"
| hook: "server_step token s (subscriber_loop ho [m] s)"
| read: "receive i (svHub s) = (ev, h) \<Longrightarrow> server_step token s (s\<lparr>svHub := h\<rparr>)"
| gone: "server_step token s (s\<lparr>svHub := unsubscribe i (svHub s)\<rparr>)"
| reap: "svPresence s = Some t \<Longrightarrow> sweep cfg (now s) t = (t', dead) \<Longrightarrow>
    server_step token s (s\<lparr>svPresence := Some t'\<rparr>)"
| outside: "server_step token s
    (s\<lparr>now := tm, db_now := tm', faults := fs, svWorld := w\<rparr>)"

text \<open>A new server has a bus, an empty hub and an empty tracker, on a sound database.\<close>

inductive server_run :: "string \<Rightarrow> 'w server \<Rightarrow> bool" for token where
  boot: "sound s \<Longrightarrow> svHub s = newSSEHub \<Longrightarrow> svPresence s = Some (NewTracker (now s)) \<Longrightarrow>
    server_run token s"
| step: "server_run token s \<Longrightarrow> server_step token s s' \<Longrightarrow> server_run token s'"

subsection \<open>What the server keeps\<close>

lemma safe_answer: "safe I h \<Longrightarrow> safe I (answer f h)"
  by (auto simp: safe_def answer_def split: prod.split)

lemma safe_grpc_handler [safe_handlers]: "safe sound (grpc_handler gen c)"
  by (cases c) (auto intro!: safe_answer safe_handlers)

lemma safe_AuthInterceptor:
  "(\<And>c. safe I (nxt c)) \<Longrightarrow> safe I (AuthInterceptor token md nxt c)"
  by (auto simp: AuthInterceptor_def intro: safe_reply split: option.split list.split)

lemma safe_RecoveryInterceptor: "safe I (nxt c) \<Longrightarrow> safe I (RecoveryInterceptor nxt c)"
  by (auto simp: safe_def RecoveryInterceptor_def split: prod.split sum.split code.split)

lemma safe_grpc: "safe sound (NewGRPCServer token md gen c)"
  unfolding NewGRPCServer_def
  by (rule safe_RecoveryInterceptor) (auto intro: safe_AuthInterceptor safe_grpc_handler)

lemma safe_routes:
  "list_all (\<lambda>(m, p, h). \<forall>e r vs. safe sound (h e r vs)) routes"
  by (simp add: routes_def bead_routes_def view_routes_def event_routes_def handleHealth_def
      safe_handlers safe_reply)

lemma safe_mux: "safe (sound :: 'w server \<Rightarrow> bool) (serve_mux e r)"
  unfolding safe_def
proof (intro allI impI)
  fix s :: "'w server" assume s: "sound s"
  show "sound (snd (serve_mux e r s))"
  proof (cases "List.find (takes r) (routes :: 'w route list)")
    case (Some rt)
    then obtain m p h where rt: "rt = (m, p, h)" "(m, p, h) \<in> set routes"
      by (cases rt) (auto simp: find_Some_iff)
    then have "safe sound (h e r vs)" for vs
      using safe_routes unfolding list_all_iff by blast
    then show ?thesis
      using Some rt s by (auto simp: serve_mux_def safe_def split: option.split)
  qed (simp add: serve_mux_def s)
qed

lemma safe_http: "safe sound (NewHTTPHandler token e r)"
  by (auto simp: NewHTTPHandler_def AuthMiddleware_def intro: safe_mux safe_reply)

lemma sound_subscriber_loop: "sound s \<Longrightarrow> sound (subscriber_loop ho ms s)"
  by (induction ho ms s rule: subscriber_loop.induct)
    (auto split: option.split intro: safeD [OF safe_HandleSessionEvent])

lemma sound_step: "server_step token s s' \<Longrightarrow> sound s \<Longrightarrow> sound s'"
proof (induction rule: server_step.induct)
  case (http e r s x s')
  then show ?case using safeD [OF safe_http [of token e r]] by (metis snd_conv)
next
  case (grpc md gen c s y s')
  then show ?case using safeD [OF safe_grpc [of token md gen c]] by (metis snd_conv)
next
  case (hook s ho m)
  then show ?case by (rule sound_subscriber_loop)
qed (simp_all add: sound_def)

text \<open>
  C29: in every state a running server reaches, by whatever requests over either transport and
  whatever failures of the database, the keys of the tables are unique and every row refers to
  an existing bead, and every stored bead satisfies the validation of the model.
\<close>

theorem server_invariant:
  assumes "server_run token s"
  shows "db_wf (db s) \<and> beads_valid (db s)"
proof -
  have "sound s" using assms by induction (auto dest: sound_step)
  then show ?thesis by (simp add: sound_def)
qed

definition first_server :: "unit server" where
  "first_server = (idle_server sample_tables)\<lparr>svPresence := Some (NewTracker 1000)\<rparr>"

definition get_request :: "string list \<Rightarrow> string \<Rightarrow> http_request" where
  "get_request path auth = \<lparr>rqMethod = ''GET'', rqPath = path, rqQuery = [], rqBody = RawNil,
     rqAuth = auth, rqLastEventID = []\<rparr>"

definition no_env :: "unit env" where
  "no_env = \<lparr>evGen = Inr ''kd-9'',
     evHost = \<lparr>hoRun = (\<lambda>c t d v w. (([], [], None), w)), hoIsDir = (\<lambda>d w. False),
       hoGitStatus = (\<lambda>d w. None), hoCancelled = (\<lambda>w. None)\<rparr>,
     evSub = (\<lambda>x. True)\<rparr>"

definition unlabelled :: "unit server" where
  "unlabelled = snd (NewGRPCServer ''t0'' (Some [''Bearer t0'']) (Inr [])
     (RpcRemoveLabel ''kd-1'' ''wip'') first_server)"

lemma unlabelled_labels: "tLabels (db unlabelled) = []"
  by code_simp

lemma sample_valid: "bead_valid sample_bead"
  by (simp add: sample_bead_def bead_valid_def trim_space_def is_space_rune_def rune_count_def
      Status_IsValid_def Kind_IsValid_def)

lemma server_invariant_witness:
  "server_run ''t0'' unlabelled \<and> db_wf (db unlabelled) \<and> beads_valid (db unlabelled)
     \<and> tLabels (db unlabelled) = []"
proof -
  have "sound first_server"
    using db_wf_sample sample_valid
    by (simp add: sound_def first_server_def beads_valid_def) (simp add: sample_tables_def)
  then have "server_run ''t0'' first_server"
    by (rule server_run.boot) (simp_all add: first_server_def idle_server_def)
  then have run: "server_run ''t0'' unlabelled"
    unfolding unlabelled_def by (rule server_run.step) (rule server_step.grpc [OF surjective_pairing])
  show ?thesis using run server_invariant [OF run] unlabelled_labels by simp
qed

subsection \<open>One route at most\<close>

fun overlap :: "seg list \<Rightarrow> seg list \<Rightarrow> bool" where
  "overlap [] qs = (qs = [])"
| "overlap (p # ps) [] = False"
| "overlap (Rest # ps) (q # qs) = True"
| "overlap (p # ps) (Rest # qs) = True"
| "overlap (Lit x # ps) (Lit y # qs) = (x = y \<and> overlap ps qs)"
| "overlap (p # ps) (q # qs) = overlap ps qs"

lemma overlap_matched:
  "match_path p segs \<noteq> None \<Longrightarrow> match_path q segs \<noteq> None \<Longrightarrow> overlap p q"
proof (induction p q arbitrary: segs rule: overlap.induct)
  case (1 qs)
  then show ?case by (cases qs rule: list.exhaust; cases "hd qs") (auto split: if_splits)
next
  case (2 p ps)
  then show ?case by (cases p) (auto split: if_splits)
qed (auto split: list.splits if_splits)

definition route_keys :: "'w route list \<Rightarrow> (string \<times> seg list) list" where
  "route_keys = map (\<lambda>(m, p, h). (m, p))"

lemma route_keys_same: "route_keys (routes :: 'w route list) = route_keys (routes :: unit route list)"
  by (simp add: route_keys_def routes_def bead_routes_def view_routes_def event_routes_def)

lemma unit_routes_disjoint:
  "sorted_wrt (\<lambda>(m, p) (m', p'). \<not> (m = m' \<and> overlap p p')) (route_keys (routes :: unit route list))"
  by code_simp

lemma no_head_route: "list_all (\<lambda>(m, p). m \<noteq> ''HEAD'') (route_keys (routes :: unit route list))"
  by code_simp

lemma takes_keys:
  "takes r (m, p, h) \<Longrightarrow> takes r (m', p', h') \<Longrightarrow> m \<noteq> ''HEAD'' \<Longrightarrow> m' \<noteq> ''HEAD'' \<Longrightarrow>
   m = m' \<and> overlap p p'"
  by (auto simp: takes_def intro: overlap_matched)

text \<open>
  No request has two routes: the handler that serves it does not depend on the order of
  registration or on the precedence rules of the multiplexer.
\<close>

theorem one_route:
  fixes rt rt' :: "'w route"
  assumes "rt \<in> set routes" and "rt' \<in> set routes" and "takes r rt" and "takes r rt'"
  shows "rt = rt'"
proof (rule ccontr)
  assume ne: "rt \<noteq> rt'"
  let ?rs = "routes :: 'w route list"
  have ord: "sorted_wrt (\<lambda>(m, p, h) (m', p', h'). \<not> (m = m' \<and> overlap p p')) ?rs"
    using unit_routes_disjoint unfolding route_keys_same [symmetric, where 'w = 'w]
    by (simp add: route_keys_def sorted_wrt_map case_prod_unfold)
  have head: "fst x \<noteq> ''HEAD''" if "x \<in> set ?rs" for x
    using no_head_route that unfolding route_keys_same [symmetric, where 'w = 'w]
    by (auto simp: route_keys_def list_all_iff case_prod_unfold)
  obtain i j where ij: "i < length ?rs" "j < length ?rs" "?rs ! i = rt" "?rs ! j = rt'"
    using assms(1,2) by (auto simp: in_set_conv_nth)
  have clash: False
    if "k < l" "l < length ?rs" "takes r (?rs ! k)" "takes r (?rs ! l)" for k l
  proof -
    obtain m p h m' p' h' where rts: "?rs ! k = (m, p, h)" "?rs ! l = (m', p', h')"
      by (cases "?rs ! k", cases "?rs ! l")
    have "m \<noteq> ''HEAD''" "m' \<noteq> ''HEAD''"
      using head [of "?rs ! k"] head [of "?rs ! l"] that(1,2) rts nth_mem [of k ?rs]
        nth_mem [of l ?rs] by auto
    then have "m = m' \<and> overlap p p'" using takes_keys that(3,4) rts by metis
    then show False using sorted_wrt_nth_less [OF ord that(1,2)] rts by simp
  qed
  show False
    using ij ne clash [of i j] clash [of j i] assms(3,4) by (metis nat_neq_iff)
qed

lemma one_route_witness:
  "\<exists>rt \<in> set (routes :: unit route list). takes (get_request [''v1'', ''stats''] []) rt
     \<and> (\<forall>rt' \<in> set routes. takes (get_request [''v1'', ''stats''] []) rt' \<longrightarrow> rt' = rt)"
proof -
  let ?r = "get_request [''v1'', ''stats''] []"
  have "list_ex (takes ?r) (routes :: unit route list)"
    by (simp add: routes_def view_routes_def takes_def get_request_def v1_def)
  then obtain rt where "rt \<in> set (routes :: unit route list)" "takes ?r rt"
    by (auto simp: list_ex_iff)
  then show ?thesis using one_route by metis
qed

subsection \<open>Authentication\<close>

lemma bearer:
  "has_prefix h ''Bearer '' \<Longrightarrow> trim_prefix h ''Bearer '' = t \<longleftrightarrow> h = ''Bearer '' @ t"
  by (erule has_prefixE) (simp only: trim_prefix_append append_eq_append_conv, simp)

lemma bearer_prefix: "has_prefix (''Bearer '' @ t) ''Bearer ''"
  by (rule has_prefix_append)



end
