(* ===== verification/Clients.thy ===== *)
theory Clients
  imports Http
begin

text \<open>
  The two clients of the service (\<open>internal/client\<close>): over gRPC (\<open>grpc.go\<close>) and over HTTP
  (\<open>http.go\<close>). Each operation sends one call over a network, which is a parameter, and reads the
  answer. What a listing asks for arrives, and both clients create alike.
\<close>

subsection \<open>Requests\<close>

text \<open>The fields of \<open>CreateBeadRequest\<close> are those of the server's \<open>createBeadInput\<close>.\<close>

type_synonym create_request = create_input

record list_request =
  lqStatus :: "string list"
  lqType :: "string list"
  lqKind :: "string list"
  lqLabels :: "string list"
  lqAssignee :: string
  lqSearch :: string
  lqSort :: string
  lqPriority :: "int option"
  lqNoOpenDeps :: bool
  lqLimit :: int
  lqOffset :: int
  lqFields :: "(string \<times> string) list"

record update_request =
  uqTitle :: "string option"
  uqDescription :: "string option"
  uqNotes :: "string option"
  uqStatus :: "string option"
  uqPriority :: "int option"
  uqAssignee :: "string option"
  uqOwner :: "string option"
  uqDueAt :: "time option"
  uqDeferUntil :: "time option"
  uqFields :: raw
  uqLabels :: "string list"

datatype client_err = ApiError nat string | RpcError code string | Unsupported | ClientError string

type_synonym 'a cres = "client_err + 'a"

subsection \<open>gRPC\<close>

type_synonym 's rpc_net = "rpc_call \<Rightarrow> 's \<Rightarrow> rpc_reply rpc \<times> 's"

definition rpc_op :: "(rpc_reply \<Rightarrow> 'a option) \<Rightarrow> rpc_call \<Rightarrow> 's rpc_net \<Rightarrow> 's \<Rightarrow> 'a cres \<times> 's" where
  "rpc_op get c net s =
     (case net c s of
        (Inl (cd, m), s') \<Rightarrow> (Inl (RpcError cd m), s')
      | (Inr r, s') \<Rightarrow>
          ((case get r of Some x \<Rightarrow> Inr x | None \<Rightarrow> Inl (ClientError ''unexpected message'')), s'))"

fun pb_bead_in :: "rpc_reply \<Rightarrow> bead option" where
  "pb_bead_in (PbBead p) = Some (protoBeadToModel p)"
| "pb_bead_in _ = None"

fun pb_beads_in :: "rpc_reply \<Rightarrow> (bead list \<times> int) option" where
  "pb_beads_in (PbBeads ps n) = Some (map protoBeadToModel ps, n)"
| "pb_beads_in _ = None"

fun pb_nothing_in :: "rpc_reply \<Rightarrow> unit option" where
  "pb_nothing_in PbNothing = Some ()"
| "pb_nothing_in _ = None"

fun pb_dep_in :: "rpc_reply \<Rightarrow> dependency option" where
  "pb_dep_in (PbDep p) = Some (protoDependencyToModel p)"
| "pb_dep_in _ = None"

fun pb_deps_in :: "rpc_reply \<Rightarrow> dependency list option" where
  "pb_deps_in (PbDeps ps) = Some (map protoDependencyToModel ps)"
| "pb_deps_in _ = None"

fun pb_labels_in :: "rpc_reply \<Rightarrow> string list option" where
  "pb_labels_in (PbLabels ls) = Some ls"
| "pb_labels_in _ = None"

fun pb_comment_in :: "rpc_reply \<Rightarrow> comment option" where
  "pb_comment_in (PbComment p) = Some (protoCommentToModel p)"
| "pb_comment_in _ = None"

fun pb_comments_in :: "rpc_reply \<Rightarrow> comment list option" where
  "pb_comments_in (PbComments ps) = Some (map protoCommentToModel ps)"
| "pb_comments_in _ = None"

fun pb_events_in :: "rpc_reply \<Rightarrow> event list option" where
  "pb_events_in (PbEvents ps) = Some (map protoEventToModel ps)"
| "pb_events_in _ = None"

fun pb_config_in :: "rpc_reply \<Rightarrow> config option" where
  "pb_config_in (PbConfig p) = Some (protoConfigToModel p)"
| "pb_config_in _ = None"

fun pb_configs_in :: "rpc_reply \<Rightarrow> config list option" where
  "pb_configs_in (PbConfigs ps) = Some (map protoConfigToModel ps)"
| "pb_configs_in _ = None"

fun pb_health_in :: "rpc_reply \<Rightarrow> string option" where
  "pb_health_in (PbHealth x) = Some x"
| "pb_health_in _ = None"

text \<open>The messages; \<open>bytes\<close> that are empty arrive as \<open>nil\<close>.\<close>

definition pb_create_of :: "create_request \<Rightarrow> pb_create" where
  "pb_create_of q =
     \<lparr>qTitle = iTitle q, qKind = iKind q, qType = iType q, qDescription = iDescription q,
      qNotes = iNotes q, qPriority = int32 (iPriority q), qAssignee = iAssignee q,
      qOwner = iOwner q, qDueAt = map_option ts_New (iDueAt q),
      qDeferUntil = map_option ts_New (iDeferUntil q), qFields = wire_bytes (iFields q),
      qLabels = iLabels q, qCreatedBy = iCreatedBy q\<rparr>"

definition pb_list_of :: "list_request \<Rightarrow> pb_list" where
  "pb_list_of q =
     \<lparr>lStatus = lqStatus q, lType = lqType q, lKind = lqKind q,
      lPriority = map_option int32 (lqPriority q), lAssignee = lqAssignee q,
      lLabels = lqLabels q, lSearch = lqSearch q, lLimit = int32 (lqLimit q),
      lOffset = int32 (lqOffset q), lSort = lqSort q, lFieldFilters = []\<rparr>"

definition pb_update_of :: "update_request \<Rightarrow> pb_update" where
  "pb_update_of u =
     \<lparr>vTitle = uqTitle u, vDescription = uqDescription u, vNotes = uqNotes u,
      vStatus = uqStatus u, vPriority = map_option int32 (uqPriority u),
      vAssignee = uqAssignee u, vOwner = uqOwner u, vDueAt = map_option ts_New (uqDueAt u),
      vDeferUntil = map_option ts_New (uqDeferUntil u), vFields = wire_bytes (uqFields u),
      vLabels = uqLabels u\<rparr>"

definition grpc_CreateBead where
  "grpc_CreateBead q = rpc_op pb_bead_in (RpcCreateBead (pb_create_of q))"

definition grpc_GetBead where "grpc_GetBead i = rpc_op pb_bead_in (RpcGetBead i)"

definition grpc_ListBeads where "grpc_ListBeads q = rpc_op pb_beads_in (RpcListBeads (pb_list_of q))"

definition grpc_UpdateBead where
  "grpc_UpdateBead i u = rpc_op pb_bead_in (RpcUpdateBead i (pb_update_of u))"

definition grpc_CloseBead where "grpc_CloseBead i who = rpc_op pb_bead_in (RpcCloseBead i who)"

definition grpc_DeleteBead where "grpc_DeleteBead i = rpc_op pb_nothing_in (RpcDeleteBead i)"

definition grpc_AddDependency where
  "grpc_AddDependency b on ty who = rpc_op pb_dep_in (RpcAddDependency b on ty who)"

definition grpc_RemoveDependency where
  "grpc_RemoveDependency b on ty = rpc_op pb_nothing_in (RpcRemoveDependency b on ty)"

definition grpc_GetDependencies where
  "grpc_GetDependencies b = rpc_op pb_deps_in (RpcGetDependencies b)"

definition grpc_AddLabel where "grpc_AddLabel b l = rpc_op pb_bead_in (RpcAddLabel b l)"

definition grpc_RemoveLabel where "grpc_RemoveLabel b l = rpc_op pb_nothing_in (RpcRemoveLabel b l)"

definition grpc_GetLabels where "grpc_GetLabels b = rpc_op pb_labels_in (RpcGetLabels b)"

definition grpc_AddComment where
  "grpc_AddComment b author txt = rpc_op pb_comment_in (RpcAddComment b author txt)"

definition grpc_GetComments where "grpc_GetComments b = rpc_op pb_comments_in (RpcGetComments b)"

definition grpc_GetEvents where "grpc_GetEvents b = rpc_op pb_events_in (RpcGetEvents b)"

definition grpc_SetConfig where
  "grpc_SetConfig k v = rpc_op pb_config_in (RpcSetConfig k (wire_bytes v))"

definition grpc_GetConfig where "grpc_GetConfig k = rpc_op pb_config_in (RpcGetConfig k)"

definition grpc_ListConfigs where "grpc_ListConfigs ns = rpc_op pb_configs_in (RpcListConfigs ns)"

definition grpc_DeleteConfig where "grpc_DeleteConfig k = rpc_op pb_nothing_in (RpcDeleteConfig k)"

definition grpc_Health where "grpc_Health = rpc_op pb_health_in RpcHealth"

text \<open>Reverse dependencies, hooks, the roster and gates have no message.\<close>

definition grpc_unsupported :: "'s \<Rightarrow> 'a cres \<times> 's" where
  "grpc_unsupported = reply (Inl Unsupported)"

subsection \<open>HTTP\<close>

type_synonym 's http_net = "http_request \<Rightarrow> 's \<Rightarrow> resp \<times> 's"

text \<open>What \<open>json.Unmarshal\<close> makes of a body: raw values that were empty are absent, ones that
  could not be encoded leave the body empty.\<close>

definition raw_ok :: "raw \<Rightarrow> bool" where
  "raw_ok r \<longleftrightarrow> r \<noteq> RawBad"

definition json_bead :: "bead \<Rightarrow> bead option" where
  "json_bead b = (if raw_ok (bFields b) then Some (b\<lparr>bFields := wire_bytes (bFields b)\<rparr>) else None)"

definition json_value :: "raw \<Rightarrow> raw option" where
  "json_value r = (case r of Raw j \<Rightarrow> Some (Raw j) | RawNil \<Rightarrow> Some (Raw JNull) | _ \<Rightarrow> None)"

definition json_config :: "config \<Rightarrow> config option" where
  "json_config c = map_option (\<lambda>v. c\<lparr>kValue := v\<rparr>) (json_value (kValue c))"

definition json_event :: "event \<Rightarrow> event option" where
  "json_event e = map_option (\<lambda>v. e\<lparr>ePayload := v\<rparr>) (json_value (ePayload e))"

fun bead_in :: "body \<Rightarrow> bead option" where
  "bead_in (BeadBody b) = json_bead b"
| "bead_in _ = None"

fun beads_in :: "body \<Rightarrow> (bead list \<times> int) option" where
  "beads_in (BeadsBody bs n) = map_option (\<lambda>bs. (bs, int n)) (those (map json_bead bs))"
| "beads_in _ = None"

fun dep_in :: "body \<Rightarrow> dependency option" where
  "dep_in (DepBody d) = Some d"
| "dep_in _ = None"

fun deps_in :: "body \<Rightarrow> dependency list option" where
  "deps_in (DepsBody ds) = Some ds"
| "deps_in _ = None"

fun labels_in :: "body \<Rightarrow> string list option" where
  "labels_in (LabelsBody ls) = Some ls"
| "labels_in _ = None"

fun comment_in :: "body \<Rightarrow> comment option" where
  "comment_in (CommentBody c) = Some c"
| "comment_in _ = None"

fun comments_in :: "body \<Rightarrow> comment list option" where
  "comments_in (CommentsBody cs) = Some cs"
| "comments_in _ = None"

fun events_in :: "body \<Rightarrow> event list option" where
  "events_in (EventsBody es) = those (map json_event es)"
| "events_in _ = None"

fun config_in :: "body \<Rightarrow> config option" where
  "config_in (ConfigBody c) = json_config c"
| "config_in _ = None"

fun configs_in :: "body \<Rightarrow> config list option" where
  "configs_in (ConfigsBody cs) = those (map json_config cs)"
| "configs_in _ = None"

fun gates_in :: "body \<Rightarrow> gate_row list option" where
  "gates_in (GatesBody gs) = Some gs"
| "gates_in _ = None"

fun hook_in :: "body \<Rightarrow> (bool \<times> string \<times> string list) option" where
  "hook_in (HookBody blocked reason warnings) = Some (blocked, reason, warnings)"
| "hook_in _ = None"

fun roster_in :: "body \<Rightarrow> (roster_row list \<times> unclaimed_task list) option" where
  "roster_in (RosterBody rows un) = Some (rows, un)"
| "roster_in _ = None"

fun status_in :: "body \<Rightarrow> string option" where
  "status_in (JsonBody (JObj kvs)) =
     (case map_of kvs ''status'' of Some (JStr x) \<Rightarrow> Some x | _ \<Rightarrow> Some [])"
| "status_in _ = None"

text \<open>A call without result: whatever the body.\<close>

definition discard :: "body \<Rightarrow> unit option" where
  "discard b = Some ()"

definition api_error :: "nat \<Rightarrow> body \<Rightarrow> client_err" where
  "api_error st b = (case b of ErrorBody m \<Rightarrow> ApiError st m | _ \<Rightarrow> ApiError st [])"

definition request_of :: "string \<Rightarrow> string \<Rightarrow> string list \<Rightarrow> query \<Rightarrow> raw \<Rightarrow> http_request" where
  "request_of token meth path q body =
     \<lparr>rqMethod = meth, rqPath = path, rqQuery = q, rqBody = body,
      rqAuth = (if token \<noteq> [] then ''Bearer '' @ token else []), rqLastEventID = []\<rparr>"

text \<open>
  \<open>doJSON\<close>: \<open>body\<close> is \<open>None\<close> when it cannot be encoded. A status of 204 needs no body; the
  result is left as it was, which only callers without a result meet.
\<close>

definition doJSON ::
  "string \<Rightarrow> (body \<Rightarrow> 'a option) \<Rightarrow> string \<Rightarrow> string list \<Rightarrow> query \<Rightarrow> raw option \<Rightarrow> 's http_net
   \<Rightarrow> 's \<Rightarrow> 'a cres \<times> 's" where
  "doJSON token get meth path q body net s =
     (case body of
        None \<Rightarrow> (Inl (ClientError ''marshaling request body''), s)
      | Some b \<Rightarrow>
          (case net (request_of token meth path q b) s of
             (Aborted, s') \<Rightarrow> (Inl (ClientError ''performing request''), s')
           | (Resp st x, s') \<Rightarrow>
               ((if st \<noteq> 204 \<and> st \<ge> 400 then Inl (api_error st x)
                 else case get x of
                   Some y \<Rightarrow> Inr y | None \<Rightarrow> Inl (ClientError ''decoding response'')), s')))"

definition v1_path :: "string list \<Rightarrow> string list" where
  "v1_path p = ''v1'' # p"

definition bead_path :: "string \<Rightarrow> string list \<Rightarrow> string list" where
  "bead_path i p = ''v1'' # ''beads'' # i # p"

definition plain :: "(string \<times> string) list \<Rightarrow> raw option" where
  "plain kvs = Some (Raw (JObj (map (\<lambda>(k, v). (k, JStr v)) kvs)))"

text \<open>Optional members of a struct.\<close>

definition opt_raw :: "string \<Rightarrow> raw \<Rightarrow> (string \<times> json) list" where
  "opt_raw k r = (case r of Raw j \<Rightarrow> [(k, j)] | _ \<Rightarrow> [])"

definition opt_strs :: "string \<Rightarrow> string list \<Rightarrow> (string \<times> json) list" where
  "opt_strs k xs = (if xs = [] then [] else [(k, JArr (map JStr xs))])"

definition opt_ptr :: "('a \<Rightarrow> json) \<Rightarrow> string \<Rightarrow> 'a option \<Rightarrow> (string \<times> json) list" where
  "opt_ptr f k x = (case x of None \<Rightarrow> [] | Some v \<Rightarrow> [(k, f v)])"

definition encode_create :: "(time \<Rightarrow> string) \<Rightarrow> create_request \<Rightarrow> raw option" where
  "encode_create fmt q =
     (if \<not> raw_ok (iFields q) then None
      else Some (Raw (JObj (
        [(''title'', JStr (iTitle q))] @ opt_str ''kind'' (iKind q) @ [(''type'', JStr (iType q))]
        @ opt_str ''description'' (iDescription q) @ opt_str ''notes'' (iNotes q)
        @ [(''priority'', JInt (iPriority q))] @ opt_str ''assignee'' (iAssignee q)
        @ opt_str ''owner'' (iOwner q) @ opt_strs ''labels'' (iLabels q)
        @ opt_str ''created_by'' (iCreatedBy q) @ opt_raw ''fields'' (iFields q)
        @ opt_ptr (JStr \<circ> fmt) ''due_at'' (iDueAt q)
        @ opt_ptr (JStr \<circ> fmt) ''defer_until'' (iDeferUntil q)))))"

definition encode_update :: "(time \<Rightarrow> string) \<Rightarrow> update_request \<Rightarrow> raw option" where
  "encode_update fmt u =
     (if \<not> raw_ok (uqFields u) then None
      else Some (Raw (JObj (
        opt_ptr JStr ''title'' (uqTitle u) @ opt_ptr JStr ''description'' (uqDescription u)
        @ opt_ptr JStr ''notes'' (uqNotes u) @ opt_ptr JStr ''status'' (uqStatus u)
        @ opt_ptr JInt ''priority'' (uqPriority u) @ opt_ptr JStr ''assignee'' (uqAssignee u)
        @ opt_ptr JStr ''owner'' (uqOwner u) @ opt_ptr (JStr \<circ> fmt) ''due_at'' (uqDueAt u)
        @ opt_ptr (JStr \<circ> fmt) ''defer_until'' (uqDeferUntil u) @ opt_raw ''fields'' (uqFields u)
        @ opt_strs ''labels'' (uqLabels u)))))"

definition list_query :: "list_request \<Rightarrow> query" where
  "list_query r =
     q_if (lqStatus r \<noteq> []) ''status'' (join_str '','' (lqStatus r))
     @ q_if (lqType r \<noteq> []) ''type'' (join_str '','' (lqType r))
     @ q_if (lqKind r \<noteq> []) ''kind'' (join_str '','' (lqKind r))
     @ q_if (lqLabels r \<noteq> []) ''labels'' (join_str '','' (lqLabels r))
     @ q_if (lqAssignee r \<noteq> []) ''assignee'' (lqAssignee r)
     @ q_if (lqSearch r \<noteq> []) ''search'' (lqSearch r)
     @ q_if (lqSort r \<noteq> []) ''sort'' (lqSort r)
     @ (case lqPriority r of None \<Rightarrow> [] | Some p \<Rightarrow> [(''priority'', show_int p)])
     @ q_if (lqNoOpenDeps r) ''no_open_deps'' ''true''
     @ q_if (lqLimit r > 0) ''limit'' (show_int (lqLimit r))
     @ q_if (lqOffset r > 0) ''offset'' (show_int (lqOffset r))
     @ map (\<lambda>(k, v). (''field'', k @ ''='' @ v)) (lqFields r)"

text \<open>
  A configuration key goes into the URL as it is: a \<open>#\<close> ends it, a \<open>?\<close> starts the query, a
  \<open>%\<close> escapes, and control characters are refused.
\<close>

definition hex_val :: "char \<Rightarrow> nat option" where
  "hex_val c =
     (let n = byte c in
      if 48 \<le> n \<and> n \<le> 57 then Some (n - 48)
      else if 97 \<le> n \<and> n \<le> 102 then Some (n - 87)
      else if 65 \<le> n \<and> n \<le> 70 then Some (n - 55)
      else None)"

fun path_unescape :: "string \<Rightarrow> string option" where
  "path_unescape [] = Some []"
| "path_unescape (c # cs) =
     (if c = CHR ''%'' then
        (case cs of
           a # b # r \<Rightarrow>
             (case (hex_val a, hex_val b) of
                (Some x, Some y) \<Rightarrow> map_option ((#) (char_of (16 * x + y))) (path_unescape r)
              | _ \<Rightarrow> None)
         | _ \<Rightarrow> None)
      else map_option ((#) c) (path_unescape cs))"

definition config_path :: "string \<Rightarrow> string list option" where
  "config_path key =
     (if list_ex (\<lambda>c. byte c < 32 \<or> byte c = 127) key then None
      else map_option (\<lambda>p. ''v1'' # ''configs'' # p)
        (those (map path_unescape
          (split_byte (CHR ''/'') (takeWhile (\<lambda>c. c \<noteq> CHR ''?'') (takeWhile (\<lambda>c. c \<noteq> CHR ''#'') key))))))"

definition config_call ::
  "string \<Rightarrow> (body \<Rightarrow> 'a option) \<Rightarrow> string \<Rightarrow> string \<Rightarrow> raw option \<Rightarrow> 's http_net \<Rightarrow> 's \<Rightarrow> 'a cres \<times> 's" where
  "config_call tk get meth key body net s =
     (case config_path key of
        None \<Rightarrow> (Inl (ClientError ''creating request''), s)
      | Some p \<Rightarrow> doJSON tk get meth p [] body net s)"

definition http_CreateBead where
  "http_CreateBead tk fmt q = doJSON tk bead_in ''POST'' (v1_path [''beads'']) [] (encode_create fmt q)"

definition http_GetBead where
  "http_GetBead tk i = doJSON tk bead_in ''GET'' (bead_path i []) [] (Some RawNil)"

definition http_ListBeads where
  "http_ListBeads tk r =
     doJSON tk beads_in ''GET'' (v1_path [''beads'']) (list_query r) (Some RawNil)"

definition http_UpdateBead where
  "http_UpdateBead tk fmt i u =
     doJSON tk bead_in ''PATCH'' (bead_path i []) [] (encode_update fmt u)"

definition http_CloseBead where
  "http_CloseBead tk i who =
     doJSON tk bead_in ''POST'' (bead_path i [''close'']) []
       (plain (if who \<noteq> [] then [(''closed_by'', who)] else []))"

definition http_DeleteBead where
  "http_DeleteBead tk i = doJSON tk discard ''DELETE'' (bead_path i []) [] (Some RawNil)"

definition http_AddDependency where
  "http_AddDependency tk b on ty who =
     doJSON tk dep_in ''POST'' (bead_path b [''dependencies'']) []
       (plain [(''created_by'', who), (''depends_on_id'', on), (''type'', ty)])"

definition http_RemoveDependency where
  "http_RemoveDependency tk b on ty =
     doJSON tk discard ''DELETE'' (bead_path b [''dependencies''])
       ((''depends_on_id'', on) # q_if (ty \<noteq> []) ''type'' ty) (Some RawNil)"

definition http_GetDependencies where
  "http_GetDependencies tk b =
     doJSON tk deps_in ''GET'' (bead_path b [''dependencies'']) [] (Some RawNil)"

definition http_GetReverseDependencies where
  "http_GetReverseDependencies tk b =
     doJSON tk deps_in ''GET'' (bead_path b [''dependents'']) [] (Some RawNil)"

definition http_AddLabel where
  "http_AddLabel tk b l =
     doJSON tk bead_in ''POST'' (bead_path b [''labels'']) [] (plain [(''label'', l)])"

definition http_RemoveLabel where
  "http_RemoveLabel tk b l =
     doJSON tk discard ''DELETE'' (bead_path b [''labels'', l]) [] (Some RawNil)"

definition http_GetLabels where
  "http_GetLabels tk b = doJSON tk labels_in ''GET'' (bead_path b [''labels'']) [] (Some RawNil)"

definition http_AddComment where
  "http_AddComment tk b author txt =
     doJSON tk comment_in ''POST'' (bead_path b [''comments'']) []
       (plain [(''author'', author), (''text'', txt)])"

definition http_GetComments where
  "http_GetComments tk b = doJSON tk comments_in ''GET'' (bead_path b [''comments'']) [] (Some RawNil)"

definition http_GetEvents where
  "http_GetEvents tk b = doJSON tk events_in ''GET'' (bead_path b [''events'']) [] (Some RawNil)"

definition http_SetConfig where
  "http_SetConfig tk k v =
     config_call tk config_in ''PUT'' k
       (map_option (\<lambda>r. case r of Raw j \<Rightarrow> Raw (JObj [(''value'', j)]) | _ \<Rightarrow> r) (json_value v))"

definition http_GetConfig where "http_GetConfig tk k = config_call tk config_in ''GET'' k (Some RawNil)"

definition http_ListConfigs where
  "http_ListConfigs tk ns =
     doJSON tk configs_in ''GET'' (v1_path [''configs'']) [(''namespace'', ns)] (Some RawNil)"

definition http_DeleteConfig where
  "http_DeleteConfig tk k = config_call tk discard ''DELETE'' k (Some RawNil)"

definition http_EmitHook where
  "http_EmitHook tk e =
     doJSON tk hook_in ''POST'' (v1_path [''hooks'', ''emit'']) []
       (Some (Raw (JObj (
         [(''agent_bead_id'', JStr (emAgentBeadID e)), (''hook_type'', JStr (emHookType e))]
         @ opt_str ''claude_session_id'' (emSessionID e) @ opt_str ''cwd'' (emCWD e)
         @ opt_str ''actor'' (emActor e) @ opt_str ''tool_name'' (emToolName e)))))"

definition gate_path :: "string \<Rightarrow> string list \<Rightarrow> string list" where
  "gate_path a p = ''v1'' # ''agents'' # a # ''gates'' # p"

definition http_ListGates where
  "http_ListGates tk a = doJSON tk gates_in ''GET'' (gate_path a []) [] (Some RawNil)"

definition http_SatisfyGate where
  "http_SatisfyGate tk a g =
     doJSON tk discard ''POST'' (gate_path a [g, ''satisfy'']) [] (Some RawNil)"

definition http_ClearGate where
  "http_ClearGate tk a g = doJSON tk discard ''DELETE'' (gate_path a [g]) [] (Some RawNil)"

definition http_GetAgentRoster where
  "http_GetAgentRoster tk secs =
     doJSON tk roster_in ''GET'' (v1_path [''agents'', ''roster''])
       [(''stale_threshold_secs'', show_int secs)] (Some RawNil)"

definition http_Health where
  "http_Health tk = doJSON tk status_in ''GET'' (v1_path [''health'']) [] (Some RawNil)"

subsection \<open>Numbers and lists in a query\<close>

lemma byte_digit_char: "n < 10 \<Longrightarrow> byte (digit_char n) = 48 + n"
  by (simp add: byte_def digit_char_def)

lemma digit_char_digit: "n < 10 \<Longrightarrow> is_digit (digit_char n)"
  by (simp add: is_digit_def byte_digit_char)

lemma digits_val_snoc: "digits_val (ds @ [c]) = 10 * digits_val ds + (int (byte c) - 48)"
  by (simp add: digits_val_def)

lemma show_nat_digits:
  "show_nat n \<noteq> [] \<and> list_all is_digit (show_nat n) \<and> digits_val (show_nat n) = int n"
proof (induction n rule: show_nat.induct)
  case (1 n)
  show ?case
  proof (cases "n < 10")
    case True
    then show ?thesis
      by (simp add: show_nat.simps [of n] digit_char_digit digits_val_def byte_digit_char)
  next
    case False
    have "10 * int (n div 10) + int (n mod 10) = int n"
      by (simp add: zdiv_int zmod_int)
    then show ?thesis
      using 1 False
      by (simp add: show_nat.simps [of n] digit_char_digit digits_val_snoc byte_digit_char)
  qed
qed

lemma digits_unsigned:
  "ds \<noteq> [] \<Longrightarrow> list_all is_digit ds \<Longrightarrow> \<not> has_prefix ds ''-'' \<and> \<not> has_prefix ds ''+''"
  by (cases ds) (auto simp: has_prefix_def is_digit_def byte_def)

lemma has_prefix_byte: "has_prefix (c # s) [d] \<longleftrightarrow> c = d"
  by (simp add: has_prefix_def)

lemma atoi_show_int: "int64_ok n \<Longrightarrow> atoi (show_int n) = Some n"
  using show_nat_digits [of "nat n"] show_nat_digits [of "nat (- n)"]
    digits_unsigned [of "show_nat (nat n)"] digits_unsigned [of "show_nat (nat (- n))"]
  by (auto simp: atoi_def show_int_def Let_def has_prefix_byte)

lemma show_int_not_Nil [simp]: "show_int n \<noteq> []"
  using show_nat_digits by (simp add: show_int_def)

lemma split_join:
  "xs \<noteq> [] \<Longrightarrow> \<forall>x \<in> set xs. c \<notin> set x \<Longrightarrow> split_byte c (join_str [c] xs) = xs"
proof (induction xs)
  case (Cons x xs)
  then show ?case by (cases xs) (auto simp: split_byte_no_sep split_byte_append_sep)
qed simp

lemma join_Nil: "join_str sep xs = [] \<Longrightarrow> \<forall>x \<in> set xs. x \<noteq> [] \<Longrightarrow> xs = []"
  by (cases "(sep, xs)" rule: join_str.cases) auto

lemma cut_field: "CHR ''='' \<notin> set k \<Longrightarrow> cut_byte (CHR ''='') (k @ CHR ''='' # v) = Some (k, v)"
proof -
  have "CHR ''='' \<notin> set k \<Longrightarrow> index_byte (CHR ''='') (k @ CHR ''='' # v) = Some (length k)"
    by (induction k) auto
  then show "CHR ''='' \<notin> set k \<Longrightarrow> cut_byte (CHR ''='') (k @ CHR ''='' # v) = Some (k, v)"
    by (simp add: cut_byte_def)
qed

lemma q_get_if [simp]:
  "q_get (q_if c k v @ q) k' = (if c \<and> k = k' then v else q_get q k')"
  "q_all (q_if c k v @ q) k' = (if c \<and> k = k' then v # q_all q k' else q_all q k')"
  by (simp_all add: q_get_def q_all_def q_if_def)

lemma q_get_fields [simp]:
  "k \<noteq> ''field'' \<Longrightarrow> q_get (map (\<lambda>(x, v). (''field'', f x v)) xs) k = []"
  "q_all (map (\<lambda>(x, v). (''field'', f x v)) xs) ''field'' = map (\<lambda>(x, v). f x v) xs"
  by (induction xs) (auto simp: q_get_def q_all_def)

lemma q_if_Some:
  "(case x of None \<Rightarrow> [] | Some p \<Rightarrow> [(k, f p)]) = q_if (x \<noteq> None) k (f (the x))"
  by (cases x) (simp_all add: q_if_def)

definition names_ok :: "string list \<Rightarrow> bool" where
  "names_ok xs \<longleftrightarrow> (\<forall>x \<in> set xs. x \<noteq> [] \<and> CHR '','' \<notin> set x)"

definition list_sendable :: "list_request \<Rightarrow> bool" where
  "list_sendable r \<longleftrightarrow>
     names_ok (lqStatus r) \<and> names_ok (lqType r) \<and> names_ok (lqKind r) \<and> names_ok (lqLabels r)
     \<and> (case lqPriority r of None \<Rightarrow> True | Some p \<Rightarrow> int64_ok p)
     \<and> int64_ok (lqLimit r) \<and> int64_ok (lqOffset r)
     \<and> distinct (map fst (lqFields r)) \<and> (\<forall>k \<in> set (map fst (lqFields r)). CHR ''='' \<notin> set k)"

definition filter_of_list :: "list_request \<Rightarrow> bead_filter" where
  "filter_of_list r =
     no_filter\<lparr>fStatus := lqStatus r, fType := lqType r, fKind := lqKind r, fLabels := lqLabels r,
       fAssignee := lqAssignee r, fSearch := lqSearch r, fSort := lqSort r,
       fPriority := lqPriority r, fNoOpenDeps := lqNoOpenDeps r, fLimit := max 0 (lqLimit r),
       fOffset := max 0 (lqOffset r), fFields := lqFields r\<rparr>"

lemma field_filters_back:
  "distinct (map fst kvs) \<Longrightarrow> \<forall>k \<in> set (map fst kvs). CHR ''='' \<notin> set k \<Longrightarrow>
   field_filters (map (\<lambda>(k, v). k @ ''='' @ v) kvs) = kvs"
proof -
  have "\<forall>k \<in> set (map fst kvs). CHR ''='' \<notin> set k \<Longrightarrow>
      concat (map (\<lambda>f. case cut_byte (CHR ''='') f of Some kv \<Rightarrow> [kv] | None \<Rightarrow> [])
        (map (\<lambda>(k, v). k @ ''='' @ v) kvs)) = kvs" for kvs :: "(string \<times> string) list"
    by (induction kvs) (auto simp: cut_field)
  then show "distinct (map fst kvs) \<Longrightarrow> \<forall>k \<in> set (map fst kvs). CHR ''='' \<notin> set k \<Longrightarrow>
   field_filters (map (\<lambda>(k, v). k @ ''='' @ v) kvs) = kvs"
    by (simp add: field_filters_def put_all_distinct_Nil)
qed

lemma list_back:
  "names_ok xs \<Longrightarrow>
   (if (if xs \<noteq> [] then join_str '','' xs else []) \<noteq> []
    then split_byte (CHR '','') (if xs \<noteq> [] then join_str '','' xs else []) else []) = xs"
  using split_join [of xs "CHR '',''"] join_Nil [of "'',''" xs] by (auto simp: names_ok_def)

lemma list_query_gets:
  "q_get (list_query r) ''status'' = (if lqStatus r \<noteq> [] then join_str '','' (lqStatus r) else [])"
  "q_get (list_query r) ''type'' = (if lqType r \<noteq> [] then join_str '','' (lqType r) else [])"
  "q_get (list_query r) ''kind'' = (if lqKind r \<noteq> [] then join_str '','' (lqKind r) else [])"
  "q_get (list_query r) ''labels'' = (if lqLabels r \<noteq> [] then join_str '','' (lqLabels r) else [])"
  "q_get (list_query r) ''assignee'' = lqAssignee r"
  "q_get (list_query r) ''search'' = lqSearch r"
  "q_get (list_query r) ''sort'' = lqSort r"
  "q_get (list_query r) ''priority'' = (case lqPriority r of None \<Rightarrow> [] | Some p \<Rightarrow> show_int p)"
  "q_get (list_query r) ''no_open_deps'' = (if lqNoOpenDeps r then ''true'' else [])"
  "q_get (list_query r) ''limit'' = (if lqLimit r > 0 then show_int (lqLimit r) else [])"
  "q_get (list_query r) ''offset'' = (if lqOffset r > 0 then show_int (lqOffset r) else [])"
  "q_all (list_query r) ''field'' = map (\<lambda>(k, v). k @ ''='' @ v) (lqFields r)"
  by (simp_all add: list_query_def q_if_Some split: option.split)

lemma list_query_lists:
  "names_ok (lqStatus r) \<Longrightarrow> q_list (list_query r) ''status'' = lqStatus r"
  "names_ok (lqType r) \<Longrightarrow> q_list (list_query r) ''type'' = lqType r"
  "names_ok (lqKind r) \<Longrightarrow> q_list (list_query r) ''kind'' = lqKind r"
  "names_ok (lqLabels r) \<Longrightarrow> q_list (list_query r) ''labels'' = lqLabels r"
  by (simp_all only: q_list_def list_query_gets list_back)

lemma list_query_ints:
  "(\<And>p. lqPriority r = Some p \<Longrightarrow> int64_ok p) \<Longrightarrow> q_int (list_query r) ''priority'' = lqPriority r"
  "int64_ok (lqLimit r) \<Longrightarrow> q_int (list_query r) ''limit'' =
     (if lqLimit r > 0 then Some (lqLimit r) else None)"
  "int64_ok (lqOffset r) \<Longrightarrow> q_int (list_query r) ''offset'' =
     (if lqOffset r > 0 then Some (lqOffset r) else None)"
  by (simp_all add: q_int_def list_query_gets atoi_show_int split: option.split)

lemma filter_over_query:
  assumes "list_sendable r"
  shows "filter_of_query (list_query r) = filter_of_list r"
proof -
  have p: "q_int (list_query r) ''priority'' = lqPriority r"
    using assms by (intro list_query_ints(1)) (auto simp: list_sendable_def)
  have ok: "names_ok (lqStatus r)" "names_ok (lqType r)" "names_ok (lqKind r)" "names_ok (lqLabels r)"
    "int64_ok (lqLimit r)" "int64_ok (lqOffset r)"
    using assms by (auto simp: list_sendable_def)
  have ff: "field_filters (map (\<lambda>(k, v). k @ ''='' @ v) (lqFields r)) = lqFields r"
    by (rule field_filters_back) (use assms in \<open>simp_all add: list_sendable_def\<close>)
  have l: "(case q_int (list_query r) ''limit'' of None \<Rightarrow> 0 | Some n \<Rightarrow> n) = max 0 (lqLimit r)"
    and f: "(case q_int (list_query r) ''offset'' of None \<Rightarrow> 0 | Some n \<Rightarrow> n) = max 0 (lqOffset r)"
    using ok by (simp_all add: list_query_ints)
  have n: "(q_get (list_query r) ''no_open_deps'' = ''true'') = lqNoOpenDeps r"
    by (simp add: list_query_gets)
  show ?thesis
    unfolding filter_of_query_def filter_of_list_def l f n p
    by (simp only: list_query_gets ff list_query_lists(1) [OF ok(1)] list_query_lists(2) [OF ok(2)]
        list_query_lists(3) [OF ok(3)] list_query_lists(4) [OF ok(4)] no_filter_def bead_filter.simps)
qed

subsection \<open>A listing over HTTP\<close>

lemma accepted: "NewHTTPHandler tk e (request_of tk meth path q body) s = serve_mux e (request_of tk meth path q body) s"
  by (simp add: NewHTTPHandler_def AuthMiddleware_def request_of_def trim_prefix_def has_prefix_def)

lemma mux_list:
  "serve_mux e (request_of tk ''GET'' [''v1'', ''beads''] q body) s = handleListBeads q s"
  by (simp add: serve_mux_def routes_def bead_routes_def takes_def request_of_def v1_def)

text \<open>
  C32: a listing asked for over HTTP is the listing of the store for the filter the caller
  gave, provided that no name in a list is empty or has a comma, no field has an equals sign
  in its name, and the numbers fit 64 bits; an error of the store arrives as one.
\<close>

theorem listing_over_http:
  assumes "list_sendable r"
  shows "http_ListBeads tk r (NewHTTPHandler tk e) s =
    (case queryListBeads (filter_of_list r) s of
       (Inl er, s') \<Rightarrow>
         (Inl (if is_panic er then ClientError ''performing request''
               else ApiError 500 ''failed to list beads''), s')
     | (Inr (beads, n), s') \<Rightarrow>
         (case those (map json_bead beads) of
            None \<Rightarrow> Inl (ClientError ''decoding response'') | Some bs \<Rightarrow> Inr (bs, int n), s'))"
  by (auto simp: http_ListBeads_def doJSON_def v1_path_def accepted mux_list handleListBeads_def
      filter_over_query [OF assms] respond_def http_fail_def error_resp_def api_error_def
      split: prod.split sum.split option.split)

subsection \<open>A creation over either transport\<close>

lemma fold_opt_append:
  "fold_opt f (xs @ ys) s = (case fold_opt f xs s of None \<Rightarrow> None | Some s' \<Rightarrow> fold_opt f ys s')"
  by (induction xs arbitrary: s) (auto split: option.split)

abbreviation put_create :: "(string \<times> json) list \<Rightarrow> create_input \<Rightarrow> create_input option" where
  "put_create \<equiv> fold_opt (\<lambda>(k, j). create_field k j)"

lemmas key_simps = fold_eq_def ascii_upper_def byte_def

lemma put_create_strings:
  "put_create [(''title'', JStr x)] s = Some (s\<lparr>iTitle := x\<rparr>)"
  "put_create [(''type'', JStr x)] s = Some (s\<lparr>iType := x\<rparr>)"
  "put_create (opt_str ''kind'' x) s = Some (s\<lparr>iKind := if x = [] then iKind s else x\<rparr>)"
  "put_create (opt_str ''description'' x) s =
     Some (s\<lparr>iDescription := if x = [] then iDescription s else x\<rparr>)"
  "put_create (opt_str ''notes'' x) s = Some (s\<lparr>iNotes := if x = [] then iNotes s else x\<rparr>)"
  "put_create (opt_str ''assignee'' x) s = Some (s\<lparr>iAssignee := if x = [] then iAssignee s else x\<rparr>)"
  "put_create (opt_str ''owner'' x) s = Some (s\<lparr>iOwner := if x = [] then iOwner s else x\<rparr>)"
  "put_create (opt_str ''created_by'' x) s =
     Some (s\<lparr>iCreatedBy := if x = [] then iCreatedBy s else x\<rparr>)"
  by (simp_all add: create_field_def key_simps opt_str_def decode_string_def)

lemma those_strings: "those (map ((\<lambda>x. decode_string x []) \<circ> JStr) xs) = Some xs"
  by (induction xs) (simp_all add: decode_string_def)

lemma put_create_others:
  "int64_ok n \<Longrightarrow> put_create [(''priority'', JInt n)] s = Some (s\<lparr>iPriority := n\<rparr>)"
  "put_create (opt_strs ''labels'' xs) s = Some (s\<lparr>iLabels := if xs = [] then iLabels s else xs\<rparr>)"
  "put_create (opt_raw ''fields'' r) s =
     Some (s\<lparr>iFields := case r of Raw j \<Rightarrow> Raw j | _ \<Rightarrow> iFields s\<rparr>)"
  by (simp_all add: create_field_def key_simps decode_int_def decode_strings_def opt_strs_def
      opt_raw_def those_strings split: raw.split)

lemma put_create_times:
  "(\<And>t. x = Some t \<Longrightarrow> parse_time (fmt t) = Some t) \<Longrightarrow>
   put_create (opt_ptr (JStr \<circ> fmt) ''due_at'' x) s =
     Some (s\<lparr>iDueAt := if x = None then iDueAt s else x\<rparr>)"
  "(\<And>t. x = Some t \<Longrightarrow> parse_time (fmt t) = Some t) \<Longrightarrow>
   put_create (opt_ptr (JStr \<circ> fmt) ''defer_until'' x) s =
     Some (s\<lparr>iDeferUntil := if x = None then iDeferUntil s else x\<rparr>)"
  by (cases x; simp add: create_field_def key_simps decode_time_def opt_ptr_def)+

text \<open>What the request may hold: a priority of 32 bits, fields that are absent or a value, and
  times that their text gives back, as it does for \<open>time.RFC3339Nano\<close>.\<close>

definition create_sendable :: "(time \<Rightarrow> string) \<Rightarrow> create_request \<Rightarrow> bool" where
  "create_sendable fmt q \<longleftrightarrow>
     - (2 ^ 31) \<le> iPriority q \<and> iPriority q < 2 ^ 31
     \<and> (case iFields q of RawNil \<Rightarrow> True | Raw j \<Rightarrow> True | _ \<Rightarrow> False)
     \<and> (case iDueAt q of None \<Rightarrow> True | Some t \<Rightarrow> parse_time (fmt t) = Some t)
     \<and> (case iDeferUntil q of None \<Rightarrow> True | Some t \<Rightarrow> parse_time (fmt t) = Some t)"

lemma create_over_json:
  assumes "create_sendable fmt q"
  shows "\<exists>body. encode_create fmt q = Some body \<and> decode_create body = Some q"
proof -
  have p: "int64_ok (iPriority q)" using assms by (simp add: create_sendable_def int64_ok_def)
  have t: "\<And>t. iDueAt q = Some t \<Longrightarrow> parse_time (fmt t) = Some t"
    "\<And>t. iDeferUntil q = Some t \<Longrightarrow> parse_time (fmt t) = Some t"
    using assms by (simp_all add: create_sendable_def)
  have r: "raw_ok (iFields q)" "(case iFields q of Raw j \<Rightarrow> Raw j | _ \<Rightarrow> RawNil) = iFields q"
    using assms by (auto simp: create_sendable_def raw_ok_def split: raw.splits)
  have keep: "(if xs = [] then [] else xs) = xs" "(if x = None then None else x) = x"
    for xs :: "'a list" and x :: "'b option"
    by auto
  let ?kvs = "[(''title'', JStr (iTitle q))] @ opt_str ''kind'' (iKind q) @ [(''type'', JStr (iType q))]
        @ opt_str ''description'' (iDescription q) @ opt_str ''notes'' (iNotes q)
        @ [(''priority'', JInt (iPriority q))] @ opt_str ''assignee'' (iAssignee q)
        @ opt_str ''owner'' (iOwner q) @ opt_strs ''labels'' (iLabels q)
        @ opt_str ''created_by'' (iCreatedBy q) @ opt_raw ''fields'' (iFields q)
        @ opt_ptr (JStr \<circ> fmt) ''due_at'' (iDueAt q)
        @ opt_ptr (JStr \<circ> fmt) ''defer_until'' (iDeferUntil q)"
  have "\<exists>x. put_create ?kvs no_create = Some x \<and> x = q"
  proof (intro exI conjI)
    show "put_create ?kvs no_create = Some (no_create\<lparr>iTitle := iTitle q, iKind := iKind q,
        iType := iType q, iDescription := iDescription q, iNotes := iNotes q,
        iPriority := iPriority q, iAssignee := iAssignee q, iOwner := iOwner q,
        iLabels := iLabels q, iCreatedBy := iCreatedBy q, iFields := iFields q,
        iDueAt := iDueAt q, iDeferUntil := iDeferUntil q\<rparr>)"
      by (simp only: fold_opt_append option.case put_create_strings put_create_others(1) [OF p]
          put_create_others put_create_times(1) [OF t(1)] put_create_times(2) [OF t(2)]
          no_create_def create_input.simps keep r)
  qed (cases q, simp)
  then show ?thesis
    using r(1) by (simp only: encode_create_def decode_create_def decode_struct_def) simp
qed

lemma create_over_proto:
  "create_sendable fmt q \<Longrightarrow> create_of_request (pb_create_of q) = q"
  by (cases q)
    (auto simp: create_of_request_def pb_create_of_def create_sendable_def int32_id wire_bytes_def
      protoTimestamp_def option.map_comp option.map_ident split: raw.splits)

lemma mux_create:
  "serve_mux e (request_of tk ''POST'' [''v1'', ''beads''] q body) s = handleCreateBead (evGen e) body s"
  by (simp add: serve_mux_def routes_def bead_routes_def takes_def request_of_def v1_def)

lemma grpc_accepted:
  "NewGRPCServer tk (Some [''Bearer '' @ tk]) gen c s = RecoveryInterceptor (grpc_handler gen) c s"
proof -
  have "has_prefix (''Bearer '' @ tk) ''Bearer ''" "trim_prefix (''Bearer '' @ tk) ''Bearer '' = tk"
    by (rule has_prefix_append, rule trim_prefix_append)
  then show ?thesis
    by (simp add: NewGRPCServer_def RecoveryInterceptor_def AuthInterceptor_def)
qed

text \<open>
  C33: a creation asked for with either client is the same creation on the server: the same
  bead, less what the gRPC messages drop, and the same state afterwards; a request the server
  refuses is refused with the same message; any other failure is one for both.
\<close>

theorem creation_over_either:
  assumes "create_sendable fmt q"
  shows "case createBead (evGen e) q s of
      (Inr b, s') \<Rightarrow>
        grpc_CreateBead q (NewGRPCServer tk (Some [''Bearer '' @ tk]) (evGen e)) s = (Inr (over_wire b), s')
        \<and> http_CreateBead tk fmt q (NewHTTPHandler tk e) s =
            ((case json_bead b of Some b' \<Rightarrow> Inr b' | None \<Rightarrow> Inl (ClientError ''decoding response'')), s')
    | (Inl er, s') \<Rightarrow>
        (\<exists>x y. grpc_CreateBead q (NewGRPCServer tk (Some [''Bearer '' @ tk]) (evGen e)) s = (Inl x, s')
           \<and> http_CreateBead tk fmt q (NewHTTPHandler tk e) s = (Inl y, s')
           \<and> (\<forall>m. as_input_error er = Some m \<longrightarrow> x = RpcError InvalidArgument m \<and> y = ApiError 400 m))"
proof -
  obtain body where body: "encode_create fmt q = Some body" "decode_create body = Some q"
    using create_over_json [OF assms] by blast
  have g: "grpc_CreateBead q (NewGRPCServer tk (Some [''Bearer '' @ tk]) (evGen e)) s =
      rpc_op pb_bead_in (RpcCreateBead (pb_create_of q)) (\<lambda>c. RecoveryInterceptor (grpc_handler (evGen e)) c) s"
    unfolding grpc_CreateBead_def rpc_op_def grpc_accepted ..
  have h: "http_CreateBead tk fmt q (NewHTTPHandler tk e) s =
      (case handleCreateBead (evGen e) body s of
         (Aborted, s') \<Rightarrow> (Inl (ClientError ''performing request''), s')
       | (Resp st x, s') \<Rightarrow>
           ((if st \<noteq> 204 \<and> st \<ge> 400 then Inl (api_error st x)
             else case bead_in x of
               Some y \<Rightarrow> Inr y | None \<Rightarrow> Inl (ClientError ''decoding response'')), s'))"
    by (simp only: http_CreateBead_def doJSON_def body option.case v1_path_def accepted mux_create)
  show ?thesis
    unfolding g h
    by (auto simp: rpc_op_def RecoveryInterceptor_def answer_def CreateBead_def handleCreateBead_def
        body create_over_proto [OF assms] respond_def create_status_def internal_def create_failed_def
        http_500_def http_fail_def error_resp_def api_error_def bead_over_wire
        split: prod.split sum.split option.split)
qed

lemma creation_over_either_witness:
  "\<exists>s'. grpc_CreateBead sample_input
        (NewGRPCServer ''t0'' (Some [''Bearer t0'']) (Inr ''kd-1'')) (idle_server no_tables)
        = (Inr (over_wire sample_created), s')
     \<and> http_CreateBead ''t0'' (\<lambda>_. ''T'') sample_input
         (NewHTTPHandler ''t0'' (no_env\<lparr>evGen := Inr ''kd-1''\<rparr>)) (idle_server no_tables)
        = (Inr sample_created, s')"
proof -
  have ok: "create_sendable (\<lambda>_. ''T'') sample_input"
    by (simp add: create_sendable_def sample_input_def)
  obtain s' where run: "createBead (Inr ''kd-1'') sample_input (idle_server no_tables) =
      (Inr sample_created, s')" using sample_create_Inr by blast
  have "json_bead sample_created = Some sample_created"
    by (simp add: json_bead_def sample_created_def new_bead_def sample_input_def raw_ok_def)
  then show ?thesis
    using creation_over_either [OF ok, where e = "no_env\<lparr>evGen := Inr ''kd-1''\<rparr>"
        and s = "idle_server no_tables" and tk = "''t0''"] run
    by simp
qed

definition sample_listing :: list_request where
  "sample_listing = \<lparr>lqStatus = [''open'', ''blocked''], lqType = [], lqKind = [], lqLabels = [''wip''],
     lqAssignee = [], lqSearch = [], lqSort = ''-priority'', lqPriority = Some 2,
     lqNoOpenDeps = True, lqLimit = 10, lqOffset = 0, lqFields = []\<rparr>"

lemma sample_listing_run:
  "\<exists>s'. queryListBeads (filter_of_list sample_listing) (idle_server sample_tables)
     = (Inr ([sample_bead\<lparr>bLabels := [''wip'']\<rparr>], 1), s')"
proof -
  have "fst (queryListBeads (filter_of_list sample_listing) (idle_server sample_tables))
      = Inr ([sample_bead\<lparr>bLabels := [''wip'']\<rparr>], 1)"
    by code_simp
  then show ?thesis by (metis prod.collapse)
qed

lemma listing_over_http_witness:
  "fst (http_ListBeads ''t0'' sample_listing (NewHTTPHandler ''t0'' no_env) (idle_server sample_tables))
     = Inr ([sample_bead\<lparr>bLabels := [''wip'']\<rparr>], 1)"
proof -
  have ok: "list_sendable sample_listing"
    by (simp add: list_sendable_def sample_listing_def names_ok_def int64_ok_def)
  have "json_bead (sample_bead\<lparr>bLabels := [''wip'']\<rparr>) = Some (sample_bead\<lparr>bLabels := [''wip'']\<rparr>)"
    by (simp add: json_bead_def sample_bead_def raw_ok_def)
  then show ?thesis
    using sample_listing_run by (auto simp: listing_over_http [OF ok])
qed

text \<open>Over gRPC the listing loses two conditions, and a key with a question mark is cut short.\<close>

lemma grpc_listing_loses:
  "fNoOpenDeps (filter_of_request (pb_list_of r)) = False"
  "fFields (filter_of_request (pb_list_of r)) = []"
  by (simp_all add: filter_of_request_def pb_list_of_def no_filter_def)

lemma config_key_cut: "config_path ''view:a?b'' = config_path ''view:a''"
  by code_simp

end
