(* ===== verification/Kd.thy ===== *)
theory Kd
  imports Clients
begin

text \<open>
  The command line client \<open>kd\<close> (\<open>cmd/kd\<close>), what its commands share: the client they talk to
  (\<open>main.go\<close>, \<open>internal/client/client.go\<close>), what they print (\<open>output.go\<close>), the environment
  they read (\<open>project.go\<close>) and the fields given on the command line (\<open>fields.go\<close>).

  A command is an operation on the server's side as the client sees it, and on what has been
  printed so far.
\<close>

subsection \<open>The client interface\<close>

record 's client =
  clCreateBead :: "create_request \<Rightarrow> 's \<Rightarrow> bead cres \<times> 's"
  clGetBead :: "string \<Rightarrow> 's \<Rightarrow> bead cres \<times> 's"
  clListBeads :: "list_request \<Rightarrow> 's \<Rightarrow> (bead list \<times> int) cres \<times> 's"
  clUpdateBead :: "string \<Rightarrow> update_request \<Rightarrow> 's \<Rightarrow> bead cres \<times> 's"
  clCloseBead :: "string \<Rightarrow> string \<Rightarrow> 's \<Rightarrow> bead cres \<times> 's"
  clDeleteBead :: "string \<Rightarrow> 's \<Rightarrow> unit cres \<times> 's"
  clAddDependency :: "string \<Rightarrow> string \<Rightarrow> string \<Rightarrow> string \<Rightarrow> 's \<Rightarrow> dependency cres \<times> 's"
  clRemoveDependency :: "string \<Rightarrow> string \<Rightarrow> string \<Rightarrow> 's \<Rightarrow> unit cres \<times> 's"
  clGetDependencies :: "string \<Rightarrow> 's \<Rightarrow> dependency list cres \<times> 's"
  clGetReverseDependencies :: "string \<Rightarrow> 's \<Rightarrow> dependency list cres \<times> 's"
  clAddLabel :: "string \<Rightarrow> string \<Rightarrow> 's \<Rightarrow> bead cres \<times> 's"
  clRemoveLabel :: "string \<Rightarrow> string \<Rightarrow> 's \<Rightarrow> unit cres \<times> 's"
  clGetLabels :: "string \<Rightarrow> 's \<Rightarrow> string list cres \<times> 's"
  clAddComment :: "string \<Rightarrow> string \<Rightarrow> string \<Rightarrow> 's \<Rightarrow> comment cres \<times> 's"
  clGetComments :: "string \<Rightarrow> 's \<Rightarrow> comment list cres \<times> 's"
  clGetEvents :: "string \<Rightarrow> 's \<Rightarrow> event list cres \<times> 's"
  clSetConfig :: "string \<Rightarrow> raw \<Rightarrow> 's \<Rightarrow> config cres \<times> 's"
  clGetConfig :: "string \<Rightarrow> 's \<Rightarrow> config cres \<times> 's"
  clListConfigs :: "string \<Rightarrow> 's \<Rightarrow> config list cres \<times> 's"
  clDeleteConfig :: "string \<Rightarrow> 's \<Rightarrow> unit cres \<times> 's"
  clEmitHook :: "emit_request \<Rightarrow> 's \<Rightarrow> (bool \<times> string \<times> string list) cres \<times> 's"
  clListGates :: "string \<Rightarrow> 's \<Rightarrow> gate_row list cres \<times> 's"
  clSatisfyGate :: "string \<Rightarrow> string \<Rightarrow> 's \<Rightarrow> unit cres \<times> 's"
  clClearGate :: "string \<Rightarrow> string \<Rightarrow> 's \<Rightarrow> unit cres \<times> 's"
  clGetAgentRoster :: "int \<Rightarrow> 's \<Rightarrow> (roster_row list \<times> unclaimed_task list) cres \<times> 's"
  clHealth :: "'s \<Rightarrow> string cres \<times> 's"

definition NewHTTPClient :: "string \<Rightarrow> (time \<Rightarrow> string) \<Rightarrow> 's http_net \<Rightarrow> 's client" where
  "NewHTTPClient tk fmt net =
     \<lparr>clCreateBead = \<lambda>q. http_CreateBead tk fmt q net, clGetBead = \<lambda>i. http_GetBead tk i net,
      clListBeads = \<lambda>r. http_ListBeads tk r net, clUpdateBead = \<lambda>i u. http_UpdateBead tk fmt i u net,
      clCloseBead = \<lambda>i who. http_CloseBead tk i who net, clDeleteBead = \<lambda>i. http_DeleteBead tk i net,
      clAddDependency = \<lambda>b on ty who. http_AddDependency tk b on ty who net,
      clRemoveDependency = \<lambda>b on ty. http_RemoveDependency tk b on ty net,
      clGetDependencies = \<lambda>b. http_GetDependencies tk b net,
      clGetReverseDependencies = \<lambda>b. http_GetReverseDependencies tk b net,
      clAddLabel = \<lambda>b l. http_AddLabel tk b l net, clRemoveLabel = \<lambda>b l. http_RemoveLabel tk b l net,
      clGetLabels = \<lambda>b. http_GetLabels tk b net,
      clAddComment = \<lambda>b author txt. http_AddComment tk b author txt net,
      clGetComments = \<lambda>b. http_GetComments tk b net, clGetEvents = \<lambda>b. http_GetEvents tk b net,
      clSetConfig = \<lambda>k v. http_SetConfig tk k v net, clGetConfig = \<lambda>k. http_GetConfig tk k net,
      clListConfigs = \<lambda>ns. http_ListConfigs tk ns net, clDeleteConfig = \<lambda>k. http_DeleteConfig tk k net,
      clEmitHook = \<lambda>e. http_EmitHook tk e net, clListGates = \<lambda>a. http_ListGates tk a net,
      clSatisfyGate = \<lambda>a g. http_SatisfyGate tk a g net, clClearGate = \<lambda>a g. http_ClearGate tk a g net,
      clGetAgentRoster = \<lambda>secs. http_GetAgentRoster tk secs net, clHealth = http_Health tk net\<rparr>"

definition NewGRPCClient :: "'s rpc_net \<Rightarrow> 's client" where
  "NewGRPCClient net =
     \<lparr>clCreateBead = \<lambda>q. grpc_CreateBead q net, clGetBead = \<lambda>i. grpc_GetBead i net,
      clListBeads = \<lambda>r. grpc_ListBeads r net, clUpdateBead = \<lambda>i u. grpc_UpdateBead i u net,
      clCloseBead = \<lambda>i who. grpc_CloseBead i who net, clDeleteBead = \<lambda>i. grpc_DeleteBead i net,
      clAddDependency = \<lambda>b on ty who. grpc_AddDependency b on ty who net,
      clRemoveDependency = \<lambda>b on ty. grpc_RemoveDependency b on ty net,
      clGetDependencies = \<lambda>b. grpc_GetDependencies b net,
      clGetReverseDependencies = \<lambda>b. grpc_unsupported,
      clAddLabel = \<lambda>b l. grpc_AddLabel b l net, clRemoveLabel = \<lambda>b l. grpc_RemoveLabel b l net,
      clGetLabels = \<lambda>b. grpc_GetLabels b net,
      clAddComment = \<lambda>b author txt. grpc_AddComment b author txt net,
      clGetComments = \<lambda>b. grpc_GetComments b net, clGetEvents = \<lambda>b. grpc_GetEvents b net,
      clSetConfig = \<lambda>k v. grpc_SetConfig k v net, clGetConfig = \<lambda>k. grpc_GetConfig k net,
      clListConfigs = \<lambda>ns. grpc_ListConfigs ns net, clDeleteConfig = \<lambda>k. grpc_DeleteConfig k net,
      clEmitHook = \<lambda>e. grpc_unsupported, clListGates = \<lambda>a. grpc_unsupported,
      clSatisfyGate = \<lambda>a g. grpc_unsupported, clClearGate = \<lambda>a g. grpc_unsupported,
      clGetAgentRoster = \<lambda>secs. grpc_unsupported, clHealth = grpc_Health net\<rparr>"

text \<open>
  \<open>PersistentPreRunE\<close>: the token and the transport. \<open>http\<close> and \<open>grpc\<close> stand for the network
  to the address each client was given, \<open>remote\<close> for the active remote's token.
\<close>

definition auth_token :: "(string \<Rightarrow> string) \<Rightarrow> string \<Rightarrow> string" where
  "auth_token env remote =
     (if env ''BEADS_AUTH_TOKEN'' \<noteq> [] then env ''BEADS_AUTH_TOKEN''
      else if env ''BEADS_DAEMON_TOKEN'' \<noteq> [] then env ''BEADS_DAEMON_TOKEN'' else remote)"

definition rpc_md :: "string \<Rightarrow> string list option" where
  "rpc_md tk = (if tk = [] then None else Some [''Bearer '' @ tk])"

definition PersistentPreRunE ::
  "(time \<Rightarrow> string) \<Rightarrow> 's http_net \<Rightarrow> (string list option \<Rightarrow> 's rpc_net) \<Rightarrow> (string \<Rightarrow> string) \<Rightarrow> string
   \<Rightarrow> string \<Rightarrow> 's client res" where
  "PersistentPreRunE fmt http grpc env remote transport =
     (let tk = auth_token env remote in
      if transport = ''http'' then Inr (NewHTTPClient tk fmt http)
      else if transport = ''grpc'' then Inr (NewGRPCClient (grpc (rpc_md tk)))
      else Inl (OtherError (''unknown transport '' @ go_quote transport @ '' (must be http or grpc)'')))"

definition defaultHTTPURL :: "(string \<Rightarrow> string) \<Rightarrow> string" where
  "defaultHTTPURL env =
     (let a = env ''BEADS_HTTP_ADDR'' in
      if env ''BEADS_HTTP_URL'' \<noteq> [] then env ''BEADS_HTTP_URL''
      else if a \<noteq> [] then
        (if \<not> has_prefix a ''http://'' \<and> \<not> has_prefix a ''https://'' then ''http://'' @ a else a)
      else ''http://localhost:8080'')"

definition defaultServer :: "(string \<Rightarrow> string) \<Rightarrow> string \<Rightarrow> string" where
  "defaultServer env remote_url =
     (if env ''BEADS_SERVER'' \<noteq> [] then env ''BEADS_SERVER''
      else if remote_url \<noteq> [] then remote_url else ''localhost:9090'')"

text \<open>\<open>git config user.name\<close> is \<open>None\<close> when git fails.\<close>

definition defaultActor :: "string option \<Rightarrow> string" where
  "defaultActor git =
     (case git of
        None \<Rightarrow> ''unknown''
      | Some out \<Rightarrow> (let name = trim_space out in if name \<noteq> [] then name else ''unknown''))"

subsection \<open>The environment (\<open>project.go\<close>)\<close>

definition defaultProject :: "(string \<Rightarrow> string) \<Rightarrow> string" where
  "defaultProject env = (if env ''KD_PROJECT'' \<noteq> [] then env ''KD_PROJECT'' else env ''BOAT_PROJECT'')"

definition agentProject :: "(string \<Rightarrow> string) \<Rightarrow> string" where
  "agentProject env =
     (if defaultProject env \<noteq> [] then defaultProject env
      else case cut_byte (CHR ''/'') (env ''BEADS_AGENT_NAME'') of
        Some (p, _) \<Rightarrow> p | None \<Rightarrow> [])"

subsection \<open>Commands\<close>

text \<open>
  What is printed: text, a table (the text given to a \<open>tabwriter\<close>, which aligns it), a JSON
  value. \<open>kdErr\<close> is the text on the error output, \<open>kdFiles\<close> the files written. \<open>kdNet\<close> is all
  that answers the client.
\<close>

datatype chunk = Text string | Table string | PrettyJson json

record 's kd =
  kdNet :: 's
  kdOut :: "chunk list"
  kdErr :: string
  kdFiles :: "(string \<times> chunk) list"

text \<open>
  What the flags common to all commands and the process give: \<open>--actor\<close>, \<open>--json\<close>, the
  environment, how a time is written in JSON and by \<open>Format("2006-01-02 15:04:05")\<close> (in the
  zone the time carries, which the model's times do not), and the time of the call.
\<close>

record kd_ctx =
  cxActor :: string
  cxJson :: bool
  cxEnv :: "string \<Rightarrow> string"
  cxFmt :: "time \<Rightarrow> string"
  cxStamp :: "time \<Rightarrow> string"
  cxNow :: time

definition code_name :: "code \<Rightarrow> string" where
  "code_name c =
     (case c of InvalidArgument \<Rightarrow> ''InvalidArgument'' | NotFound \<Rightarrow> ''NotFound''
      | Internal \<Rightarrow> ''Internal'' | Unauthenticated \<Rightarrow> ''Unauthenticated'' | Crashed \<Rightarrow> ''Unavailable'')"

definition client_fault :: "client_err \<Rightarrow> err" where
  "client_fault e =
     (case e of
        ApiError st m \<Rightarrow> OtherError (''HTTP '' @ show_nat st @ '': '' @ m)
      | RpcError c m \<Rightarrow> OtherError (''rpc error: code = '' @ code_name c @ '' desc = '' @ m)
      | Unsupported \<Rightarrow> OtherError ''not supported over gRPC''
      | ClientError m \<Rightarrow> OtherError m)"

definition call :: "('s \<Rightarrow> 'a cres \<times> 's) \<Rightarrow> ('s kd, 'a) op" where
  "call f w = (case f (kdNet w) of (r, s) \<Rightarrow> (map_sum client_fault (\<lambda>x. x) r, w\<lparr>kdNet := s\<rparr>))"

definition emit :: "chunk \<Rightarrow> ('s kd, unit) op" where
  "emit c w = (Inr (), w\<lparr>kdOut := kdOut w @ [c]\<rparr>)"

definition nl :: string where "nl = [CHR 0x0A]"
definition tab :: string where "tab = [CHR 0x09]"

abbreviation say :: "string \<Rightarrow> ('s kd, unit) op" where "say t \<equiv> emit (Text t)"

definition println :: "string \<Rightarrow> ('s kd, unit) op" where
  "println t = say (t @ nl)"

definition eprint :: "string \<Rightarrow> ('s kd, unit) op" where
  "eprint t w = (Inr (), w\<lparr>kdErr := kdErr w @ t\<rparr>)"

definition write_file :: "(string \<Rightarrow> err option) \<Rightarrow> string \<Rightarrow> chunk \<Rightarrow> ('s kd, unit) op" where
  "write_file fails path c w =
     (case fails path of
        Some e \<Rightarrow> (Inl e, w)
      | None \<Rightarrow> (Inr (), w\<lparr>kdFiles := AList.update path c (kdFiles w)\<rparr>))"

text \<open>\<open>os.Exit(1)\<close>: nothing of the program runs after it.\<close>

definition os_exit :: "('s kd, 'a) op" where
  "os_exit = fail (Panic ''exit status 1'')"

definition errorf :: "string \<Rightarrow> ('s kd, 'a) op" where
  "errorf m = fail (OtherError m)"

text \<open>A loop that collects a value per element.\<close>

fun collect :: "('a \<Rightarrow> ('s, 'b) op) \<Rightarrow> 'a list \<Rightarrow> ('s, 'b list) op" where
  "collect f [] = ret []"
| "collect f (x # xs) = and_then (f x) (\<lambda>y. and_then (collect f xs) (\<lambda>ys. ret (y # ys)))"

definition only_if :: "bool \<Rightarrow> ('s, unit) op \<Rightarrow> ('s, unit) op" where
  "only_if c m = (if c then m else ret ())"

definition andthen :: "('s, 'a) op \<Rightarrow> ('s, 'b) op \<Rightarrow> ('s, 'b) op" where
  "andthen m n = and_then m (\<lambda>_. n)"

text \<open>\<open>fmt.Printf("%-24s", s)\<close> pads with spaces up to the width, in runes.\<close>

definition pad_right :: "nat \<Rightarrow> string \<Rightarrow> string" where
  "pad_right n s = s @ replicate (n - rune_count s) (CHR '' '')"

subsection \<open>Printing beads (\<open>output.go\<close>)\<close>

definition print_json :: "json option \<Rightarrow> ('s kd, unit) op" where
  "print_json j =
     (case j of None \<Rightarrow> eprint (''Error marshaling JSON: json: error calling MarshalJSON'' @ nl)
      | Some v \<Rightarrow> emit (PrettyJson v))"

definition printBeadJSON :: "kd_ctx \<Rightarrow> bead \<Rightarrow> ('s kd, unit) op" where
  "printBeadJSON cx b = print_json (bead_json (cxFmt cx) b)"

definition beads_json :: "(time \<Rightarrow> string) \<Rightarrow> bead list \<Rightarrow> json option" where
  "beads_json fmt bs = map_option JArr (those (map (bead_json fmt) bs))"

definition printBeadListJSON :: "kd_ctx \<Rightarrow> bead list \<Rightarrow> ('s kd, unit) op" where
  "printBeadListJSON cx bs = print_json (beads_json (cxFmt cx) bs)"

text \<open>\<open>json.Unmarshal\<close> into a \<open>map[string]string\<close>.\<close>

definition string_map :: "raw \<Rightarrow> (string \<times> string) list option" where
  "string_map r =
     (case r of
        Raw JNull \<Rightarrow> Some []
      | Raw (JObj kvs) \<Rightarrow>
          map_option (\<lambda>vs. put_all vs [])
            (those (map (\<lambda>(k, v). map_option (Pair k) (decode_string v [])) kvs))
      | _ \<Rightarrow> None)"

definition field_lines :: "raw \<Rightarrow> string" where
  "field_lines r =
     (case string_map r of
        Some (kv # kvs) \<Rightarrow>
          ''Fields:'' @ nl
          @ concat (map (\<lambda>(k, v). ''  '' @ pad_right 24 (k @ '':'') @ '' '' @ v @ nl) (sort_key fst (kv # kvs)))
      | _ \<Rightarrow> [])"

definition opt_line :: "bool \<Rightarrow> string \<Rightarrow> string" where
  "opt_line c l = (if c then l @ nl else [])"

text \<open>\<open>Format\<close> unless \<open>IsZero\<close>.\<close>

definition time_line :: "kd_ctx \<Rightarrow> string \<Rightarrow> time \<Rightarrow> string" where
  "time_line cx label t = opt_line (t \<noteq> 0) (label @ cxStamp cx t)"

definition bead_table :: "kd_ctx \<Rightarrow> bead \<Rightarrow> string" where
  "bead_table cx b =
     ''ID:          '' @ bID b @ nl @ ''Slug:        '' @ bSlug b @ nl
     @ ''Title:       '' @ bTitle b @ nl @ ''Type:        '' @ bType b @ nl
     @ ''Kind:        '' @ bKind b @ nl @ ''Status:      '' @ bStatus b @ nl
     @ ''Priority:    '' @ show_int (bPriority b) @ nl
     @ ''Assignee:    '' @ bAssignee b @ nl @ ''Owner:       '' @ bOwner b @ nl
     @ opt_line (bDescription b \<noteq> []) (''Description: '' @ bDescription b)
     @ opt_line (bLabels b \<noteq> []) (''Labels:      '' @ join_str '', '' (bLabels b))
     @ (if raw_empty (bFields b) then [] else field_lines (bFields b))
     @ ''Created By:  '' @ bCreatedBy b @ nl
     @ time_line cx ''Created At:  '' (bCreatedAt b) @ time_line cx ''Updated At:  '' (bUpdatedAt b)"

definition printBeadTable :: "kd_ctx \<Rightarrow> bead \<Rightarrow> ('s kd, unit) op" where
  "printBeadTable cx b = say (bead_table cx b)"

definition print_bead :: "kd_ctx \<Rightarrow> bead \<Rightarrow> ('s kd, unit) op" where
  "print_bead cx b = (if cxJson cx then printBeadJSON cx b else printBeadTable cx b)"

text \<open>\<open>title[:n-3] + "..."\<close> when the title has more than \<open>n\<close> bytes.\<close>

definition clip :: "nat \<Rightarrow> string \<Rightarrow> string" where
  "clip n t = (if length t > n then take (n - 3) t @ ''...'' else t)"

definition line_of :: "string list \<Rightarrow> string" where
  "line_of cells = join_str tab cells @ nl"

definition bead_cells :: "bead \<Rightarrow> string" where
  "bead_cells b =
     line_of [bID b, bStatus b, bType b, show_int (bPriority b), clip 50 (bTitle b), bAssignee b]"

definition bead_header :: string where
  "bead_header = line_of [''ID'', ''STATUS'', ''TYPE'', ''PRIORITY'', ''TITLE'', ''ASSIGNEE'']"

definition beads_footer :: "nat \<Rightarrow> string \<Rightarrow> int \<Rightarrow> string" where
  "beads_footer n what tot = nl @ show_nat n @ '' '' @ what @ '' ('' @ show_int tot @ '' total)'' @ nl"

definition printBeadListTable :: "bead list \<Rightarrow> int \<Rightarrow> ('s kd, unit) op" where
  "printBeadListTable bs tot =
     andthen (emit (Table (bead_header @ concat (map bead_cells bs))))
       (say (beads_footer (length bs) ''beads'' tot))"

definition print_beads :: "kd_ctx \<Rightarrow> bead list \<Rightarrow> int \<Rightarrow> ('s kd, unit) op" where
  "print_beads cx bs tot = (if cxJson cx then printBeadListJSON cx bs else printBeadListTable bs tot)"

subsection \<open>Dependencies of a bead (\<open>output.go\<close>)\<close>

type_synonym resolved_dep = "dependency \<times> bead option"

definition try_call :: "('s \<Rightarrow> 'a cres \<times> 's) \<Rightarrow> ('s kd, 'a option) op" where
  "try_call f = attempt (call f) (\<lambda>r. ret (case r of Inl _ \<Rightarrow> None | Inr x \<Rightarrow> Some x))"

definition resolveBeadDeps ::
  "'s client \<Rightarrow> dependency list \<Rightarrow> string list \<Rightarrow> ('s kd, resolved_dep list) op" where
  "resolveBeadDeps cl deps types =
     collect (\<lambda>d. and_then (try_call (clGetBead cl (dDependsOnID d))) (\<lambda>b. ret (d, b)))
       (filter (\<lambda>d. types = [] \<or> dType d \<in> set types) deps)"

definition fetchAndResolveDeps ::
  "'s client \<Rightarrow> string \<Rightarrow> string list \<Rightarrow> ('s kd, resolved_dep list) op" where
  "fetchAndResolveDeps cl i types =
     and_then (call (clGetDependencies cl i)) (\<lambda>deps. resolveBeadDeps cl deps types)"

text \<open>\<open>strings.ToLower\<close> on column names, which are ASCII.\<close>

definition ascii_lower :: "char \<Rightarrow> char" where
  "ascii_lower c = (if 65 \<le> byte c \<and> byte c \<le> 90 then char_of (byte c + 32) else c)"

definition to_lower :: "string \<Rightarrow> string" where "to_lower s = map ascii_lower s"
definition to_upper :: "string \<Rightarrow> string" where "to_upper s = map ascii_upper s"

definition beadField :: "bead \<Rightarrow> string \<Rightarrow> string" where
  "beadField b col =
     (let c = to_lower col in
      if c = ''id'' then bID b
      else if c = ''title'' then clip 50 (bTitle b)
      else if c = ''status'' then bStatus b
      else if c = ''type'' then bType b
      else if c = ''kind'' then bKind b
      else if c = ''priority'' then show_int (bPriority b)
      else if c = ''assignee'' then bAssignee b
      else if c = ''owner'' then bOwner b
      else if c = ''created_by'' then bCreatedBy b
      else if c = ''labels'' then join_str '','' (bLabels b)
      else if raw_empty (bFields b) then []
      else case string_map (bFields b) of
        None \<Rightarrow> [] | Some kvs \<Rightarrow> (case map_of kvs col of Some v \<Rightarrow> v | None \<Rightarrow> []))"

definition or_default :: "'a list \<Rightarrow> 'a list \<Rightarrow> 'a list" where
  "or_default xs d = (if xs = [] then d else xs)"

definition dep_line :: "string list \<Rightarrow> resolved_dep \<Rightarrow> string" where
  "dep_line flds x =
     (case x of
        (d, Some b) \<Rightarrow> ''    '' @ dType d @ '': '' @ join_str '' | '' (map (beadField b) flds) @ nl
      | (d, None) \<Rightarrow> ''    '' @ dType d @ '': '' @ dDependsOnID d @ '' (unresolved)'' @ nl)"

definition printDepSubSection :: "resolved_dep list \<Rightarrow> string list \<Rightarrow> ('s kd, unit) op" where
  "printDepSubSection deps flds =
     only_if (deps \<noteq> [])
       (say (concat (map (dep_line (or_default flds [''id'', ''title'', ''status''])) deps)))"

definition bead_table_filtered :: "kd_ctx \<Rightarrow> bead \<Rightarrow> string list \<Rightarrow> string" where
  "bead_table_filtered cx b flds =
     (let f = set (map to_lower flds);
          line = \<lambda>c label v. opt_line c (pad_right 13 label @ v)
      in concat (map (\<lambda>(label, k, v). line (k \<in> f) (label @ '':'') v)
           [(''ID'', ''id'', bID b), (''Slug'', ''slug'', bSlug b), (''Title'', ''title'', bTitle b),
            (''Type'', ''type'', bType b), (''Kind'', ''kind'', bKind b),
            (''Status'', ''status'', bStatus b), (''Priority'', ''priority'', show_int (bPriority b)),
            (''Assignee'', ''assignee'', bAssignee b), (''Owner'', ''owner'', bOwner b)])
         @ line (''description'' \<in> f \<and> bDescription b \<noteq> []) ''Description:'' (bDescription b)
         @ line (''labels'' \<in> f \<and> bLabels b \<noteq> []) ''Labels:'' (join_str '', '' (bLabels b))
         @ line (''created_by'' \<in> f) ''Created By:'' (bCreatedBy b)
         @ line (''created_at'' \<in> f \<and> bCreatedAt b \<noteq> 0) ''Created At:'' (cxStamp cx (bCreatedAt b))
         @ line (''updated_at'' \<in> f \<and> bUpdatedAt b \<noteq> 0) ''Updated At:'' (cxStamp cx (bUpdatedAt b)))"

definition printBeadTableFiltered :: "kd_ctx \<Rightarrow> bead \<Rightarrow> string list \<Rightarrow> ('s kd, unit) op" where
  "printBeadTableFiltered cx b flds =
     (if flds = [] then printBeadTable cx b else say (bead_table_filtered cx b flds))"

definition comment_line :: "kd_ctx \<Rightarrow> comment \<Rightarrow> string" where
  "comment_line cx c =
     ''  ['' @ (if cCreatedAt c = 0 then [] else cxStamp cx (cCreatedAt c)) @ ''] ''
     @ cAuthor c @ '': '' @ cText c @ nl"

definition printComments :: "kd_ctx \<Rightarrow> comment list \<Rightarrow> ('s kd, unit) op" where
  "printComments cx cs =
     only_if (cs \<noteq> []) (say (nl @ ''Comments:'' @ nl @ concat (map (comment_line cx) cs)))"

subsection \<open>Fields on the command line (\<open>fields.go\<close>)\<close>

definition splitField :: "string \<Rightarrow> (string \<times> string) option" where
  "splitField s =
     (case index_byte (CHR ''='') s of
        None \<Rightarrow> None
      | Some i \<Rightarrow> (if i = 0 then None else Some (take i s, drop (i + 1) s)))"

text \<open>
  \<open>rawOrString\<close>. \<open>parse\<close> is the JSON reader of the standard library: the value of a text, if
  it is one.
\<close>

definition rawOrString :: "(string \<Rightarrow> json option) \<Rightarrow> string \<Rightarrow> json" where
  "rawOrString parse v =
     (case v of
        [] \<Rightarrow> JStr []
      | c # _ \<Rightarrow>
          if c \<in> {CHR ''{'', CHR ''['', CHR ''\"''} then (case parse v of Some j \<Rightarrow> j | None \<Rightarrow> JStr v)
          else if v = ''true'' then JBool True
          else if v = ''false'' then JBool False
          else if v = ''null'' then JNull
          else if c = CHR ''-'' \<or> is_digit c then (case parse v of Some j \<Rightarrow> j | None \<Rightarrow> JStr v)
          else JStr v)"

fun parse_pairs :: "(string \<Rightarrow> json option) \<Rightarrow> string list \<Rightarrow> (string \<times> json) list \<Rightarrow> (string \<times> json) list res" where
  "parse_pairs parse [] m = Inr m"
| "parse_pairs parse (p # ps) m =
     (case splitField p of
        None \<Rightarrow> Inl (OtherError (''invalid field '' @ go_quote p @ '': expected key=value''))
      | Some (k, v) \<Rightarrow> parse_pairs parse ps (AList.update k (rawOrString parse v) m))"

definition parseFields :: "(string \<Rightarrow> json option) \<Rightarrow> string list \<Rightarrow> raw res" where
  "parseFields parse pairs =
     (if pairs = [] then Inr RawNil
      else map_sum (\<lambda>e. e) (\<lambda>m. marshal_map (Some m)) (parse_pairs parse pairs []))"

definition lift_res :: "'a res \<Rightarrow> ('s, 'a) op" where
  "lift_res r s = (r, s)"

text \<open>A process that has printed nothing, and a server that refuses everybody, for the examples.\<close>

definition fresh_kd :: "'s \<Rightarrow> 's kd" where
  "fresh_kd n = \<lparr>kdNet = n, kdOut = [], kdErr = [], kdFiles = []\<rparr>"

definition sample_ctx :: kd_ctx where
  "sample_ctx = \<lparr>cxActor = ''ada'', cxJson = False, cxEnv = (\<lambda>_. []), cxFmt = (\<lambda>_. ''T''),
     cxStamp = (\<lambda>_. ''T''), cxNow = 0\<rparr>"

definition refusing :: "unit client" where
  "refusing = NewGRPCClient (\<lambda>_. reply (Inl (Unauthenticated, ''no token'')))"

end
