(* ===== verification/Formula.thy ===== *)
theory Formula
  imports Kd
begin

text \<open>
  Formulas (\<open>cmd/kd/formula_*.go\<close>): templates of work with variables and steps. What a
  condition is worth, what is left of the steps once conditions and variables are applied, and
  the molecule of beads and dependencies that applying a formula creates.
\<close>

subsection \<open>A formula and its JSON (\<open>formula_create.go\<close>)\<close>

record formula_var =
  fvName :: string
  fvDescription :: string
  fvRequired :: bool
  fvDefault :: string
  fvType :: string
  fvEnum :: "string list"

record formula_step =
  fsID :: string
  fsTitle :: string
  fsDescription :: string
  fsType :: string
  fsPriority :: "int option"
  fsLabels :: "string list"
  fsDependsOn :: "string list"
  fsAssignee :: string
  fsCondition :: string
  fsRoles :: "string list"

text \<open>\<open>Vars\<close> is \<open>None\<close> when the slice is \<open>nil\<close>, which is written \<open>null\<close>.\<close>

record formula =
  foVars :: "formula_var list option"
  foSteps :: "formula_step list"
  foDefaultRoles :: "string list"
  foAssignedAgent :: string

definition no_var :: formula_var where
  "no_var = \<lparr>fvName = [], fvDescription = [], fvRequired = False, fvDefault = [], fvType = [],
     fvEnum = []\<rparr>"

definition no_step :: formula_step where
  "no_step = \<lparr>fsID = [], fsTitle = [], fsDescription = [], fsType = [], fsPriority = None,
     fsLabels = [], fsDependsOn = [], fsAssignee = [], fsCondition = [], fsRoles = []\<rparr>"

definition no_formula :: formula where
  "no_formula = \<lparr>foVars = None, foSteps = [], foDefaultRoles = [], foAssignedAgent = []\<rparr>"

definition var_field :: "string \<Rightarrow> json \<Rightarrow> formula_var \<Rightarrow> formula_var option" where
  "var_field k j v =
     (if fold_eq k ''name'' then map_option (\<lambda>x. v\<lparr>fvName := x\<rparr>) (decode_string j (fvName v))
      else if fold_eq k ''description'' then
        map_option (\<lambda>x. v\<lparr>fvDescription := x\<rparr>) (decode_string j (fvDescription v))
      else if fold_eq k ''required'' then
        map_option (\<lambda>x. v\<lparr>fvRequired := x\<rparr>) (decode_bool j (fvRequired v))
      else if fold_eq k ''default'' then
        map_option (\<lambda>x. v\<lparr>fvDefault := x\<rparr>) (decode_string j (fvDefault v))
      else if fold_eq k ''type'' then map_option (\<lambda>x. v\<lparr>fvType := x\<rparr>) (decode_string j (fvType v))
      else if fold_eq k ''enum'' then map_option (\<lambda>x. v\<lparr>fvEnum := x\<rparr>) (decode_strings j)
      else Some v)"

definition step_field :: "string \<Rightarrow> json \<Rightarrow> formula_step \<Rightarrow> formula_step option" where
  "step_field k j s =
     (if fold_eq k ''id'' then map_option (\<lambda>x. s\<lparr>fsID := x\<rparr>) (decode_string j (fsID s))
      else if fold_eq k ''title'' then map_option (\<lambda>x. s\<lparr>fsTitle := x\<rparr>) (decode_string j (fsTitle s))
      else if fold_eq k ''description'' then
        map_option (\<lambda>x. s\<lparr>fsDescription := x\<rparr>) (decode_string j (fsDescription s))
      else if fold_eq k ''type'' then map_option (\<lambda>x. s\<lparr>fsType := x\<rparr>) (decode_string j (fsType s))
      else if fold_eq k ''priority'' then map_option (\<lambda>x. s\<lparr>fsPriority := x\<rparr>) (decode_int_ptr j)
      else if fold_eq k ''labels'' then map_option (\<lambda>x. s\<lparr>fsLabels := x\<rparr>) (decode_strings j)
      else if fold_eq k ''depends_on'' then map_option (\<lambda>x. s\<lparr>fsDependsOn := x\<rparr>) (decode_strings j)
      else if fold_eq k ''assignee'' then
        map_option (\<lambda>x. s\<lparr>fsAssignee := x\<rparr>) (decode_string j (fsAssignee s))
      else if fold_eq k ''condition'' then
        map_option (\<lambda>x. s\<lparr>fsCondition := x\<rparr>) (decode_string j (fsCondition s))
      else if fold_eq k ''roles'' then map_option (\<lambda>x. s\<lparr>fsRoles := x\<rparr>) (decode_strings j)
      else Some s)"

definition decode_list :: "(string \<Rightarrow> json \<Rightarrow> 'a \<Rightarrow> 'a option) \<Rightarrow> 'a \<Rightarrow> json \<Rightarrow> 'a list option option" where
  "decode_list f z j =
     (case j of
        JNull \<Rightarrow> Some None
      | JArr xs \<Rightarrow> map_option Some (those (map (\<lambda>x. decode_struct f (Raw x) z) xs))
      | _ \<Rightarrow> None)"

definition list_of_slice :: "'a list option \<Rightarrow> 'a list" where
  "list_of_slice x = (case x of None \<Rightarrow> [] | Some xs \<Rightarrow> xs)"

text \<open>What each command reads of a definition: its vars and steps, the default roles, the agent.\<close>

definition vars_steps_field :: "string \<Rightarrow> json \<Rightarrow> formula \<Rightarrow> formula option" where
  "vars_steps_field k j f =
     (if fold_eq k ''vars'' then map_option (\<lambda>x. f\<lparr>foVars := x\<rparr>) (decode_list var_field no_var j)
      else if fold_eq k ''steps'' then
        map_option (\<lambda>x. f\<lparr>foSteps := list_of_slice x\<rparr>) (decode_list step_field no_step j)
      else Some f)"

definition content_field :: "string \<Rightarrow> json \<Rightarrow> formula \<Rightarrow> formula option" where
  "content_field k j f =
     (if fold_eq k ''default_roles'' then map_option (\<lambda>x. f\<lparr>foDefaultRoles := x\<rparr>) (decode_strings j)
      else vars_steps_field k j f)"

definition agent_field ::
  "(string \<Rightarrow> json \<Rightarrow> formula \<Rightarrow> formula option) \<Rightarrow> string \<Rightarrow> json \<Rightarrow> formula \<Rightarrow> formula option" where
  "agent_field others k j f =
     (if fold_eq k ''assigned_agent'' then
        map_option (\<lambda>x. f\<lparr>foAssignedAgent := x\<rparr>) (decode_string j (foAssignedAgent f))
      else others k j f)"

definition decode_formula :: "raw \<Rightarrow> formula option" where
  "decode_formula r = decode_struct (agent_field content_field) r no_formula"

definition var_json :: "formula_var \<Rightarrow> json" where
  "var_json v = JObj (
     [(''name'', JStr (fvName v))] @ opt_str ''description'' (fvDescription v)
     @ (if fvRequired v then [(''required'', JBool True)] else [])
     @ opt_str ''default'' (fvDefault v) @ opt_str ''type'' (fvType v) @ opt_strs ''enum'' (fvEnum v))"

definition step_json :: "formula_step \<Rightarrow> json" where
  "step_json s = JObj (
     [(''id'', JStr (fsID s)), (''title'', JStr (fsTitle s))]
     @ opt_str ''description'' (fsDescription s) @ opt_str ''type'' (fsType s)
     @ opt_ptr JInt ''priority'' (fsPriority s) @ opt_strs ''labels'' (fsLabels s)
     @ opt_strs ''depends_on'' (fsDependsOn s) @ opt_str ''assignee'' (fsAssignee s)
     @ opt_str ''condition'' (fsCondition s) @ opt_strs ''roles'' (fsRoles s))"

definition vars_json :: "formula_var list option \<Rightarrow> json" where
  "vars_json vs = (case vs of None \<Rightarrow> JNull | Some xs \<Rightarrow> JArr (map var_json xs))"

text \<open>The fields of a formula bead, keys in ascending order as \<open>json.Marshal\<close> writes a map.\<close>

definition formula_fields :: "formula \<Rightarrow> raw" where
  "formula_fields f = Raw (JObj (
     opt_str ''assigned_agent'' (foAssignedAgent f) @ opt_strs ''default_roles'' (foDefaultRoles f)
     @ [(''steps'', JArr (map step_json (foSteps f))), (''vars'', vars_json (foVars f))]))"

subsection \<open>Checking the steps\<close>

fun step_ids :: "formula_step list \<Rightarrow> string list \<Rightarrow> string list res" where
  "step_ids [] seen = Inr seen"
| "step_ids (s # ss) seen =
     (if fsID s = [] then Inl (OtherError ''every step must have an id'')
      else if fsTitle s = [] then Inl (OtherError (''step '' @ go_quote (fsID s) @ '' must have a title''))
      else if fsID s \<in> set seen then Inl (OtherError (''duplicate step id '' @ go_quote (fsID s)))
      else step_ids ss (fsID s # seen))"

fun unknown_dep :: "string list \<Rightarrow> formula_step list \<Rightarrow> (string \<times> string) option" where
  "unknown_dep seen [] = None"
| "unknown_dep seen (s # ss) =
     (case List.find (\<lambda>d. d \<notin> set seen) (fsDependsOn s) of
        Some d \<Rightarrow> Some (fsID s, d) | None \<Rightarrow> unknown_dep seen ss)"

definition check_steps :: "formula_step list \<Rightarrow> unit res" where
  "check_steps steps =
     (if steps = [] then Inl (OtherError ''formula must have at least one step'')
      else case step_ids steps [] of
        Inl e \<Rightarrow> Inl e
      | Inr seen \<Rightarrow>
          (case unknown_dep seen steps of
             None \<Rightarrow> Inr ()
           | Some (s, d) \<Rightarrow>
               Inl (OtherError (''step '' @ go_quote s @ '' depends_on unknown step '' @ go_quote d))))"

text \<open>What a step list has to be: named and titled steps, each name once, known dependencies.\<close>

definition steps_ok :: "formula_step list \<Rightarrow> bool" where
  "steps_ok steps \<longleftrightarrow> steps \<noteq> [] \<and> distinct (map fsID steps)
     \<and> (\<forall>s \<in> set steps. fsID s \<noteq> [] \<and> fsTitle s \<noteq> [] \<and> set (fsDependsOn s) \<subseteq> fsID ` set steps)"

text \<open>\<open>readf\<close> reads a file (\<open>-\<close> is the standard input).\<close>

definition formulaCreate ::
  "(string \<Rightarrow> raw res) \<Rightarrow> 's client \<Rightarrow> kd_ctx \<Rightarrow> string \<Rightarrow> string \<Rightarrow> string \<Rightarrow> int \<Rightarrow> string list \<Rightarrow> string
   \<Rightarrow> ('s kd, unit) op" where
  "formulaCreate readf cl cx name path descr prio labels who =
     (if path = [] then errorf ''--file is required: provide a JSON file path or - for stdin''
      else and_then (wrap ''reading formula file'' (lift_res (readf path))) (\<lambda>body.
        case decode_struct content_field body no_formula of
          None \<Rightarrow> fail (WrapErr ''parsing formula JSON'' (OtherError ''json''))
        | Some content \<Rightarrow>
            andthen (lift_res (check_steps (foSteps content)))
            (and_then (wrap ''creating formula'' (call (clCreateBead cl
                (no_create\<lparr>iTitle := name, iDescription := descr, iType := ''formula'', iPriority := prio,
                   iLabels := labels, iCreatedBy := cxActor cx,
                   iFields := formula_fields (content\<lparr>foAssignedAgent := who\<rparr>)\<rparr>)))) (\<lambda>b.
              if cxJson cx then printBeadJSON cx b
              else say (''Created formula '' @ bID b @ '': '' @ bTitle b @ nl
                     @ ''  Steps: '' @ show_nat (length (foSteps content)) @ nl
                     @ ''  Vars:  '' @ show_nat (length (list_of_slice (foVars content))) @ nl)))))"

subsection \<open>Variables\<close>

type_synonym vars = "(string \<times> string) list"

definition word_char :: "char \<Rightarrow> bool" where
  "word_char c \<longleftrightarrow> is_digit c \<or> (65 \<le> byte c \<and> byte c \<le> 90) \<or> (97 \<le> byte c \<and> byte c \<le> 122)
     \<or> c = CHR ''_''"

text \<open>A match of the pattern \<open>{{(\w+)}}\<close> at the start of a string: the name and what follows.\<close>

definition placeholder :: "string \<Rightarrow> (string \<times> string) option" where
  "placeholder s =
     (let name = takeWhile word_char (drop 2 s); rest = dropWhile word_char (drop 2 s) in
      if has_prefix s ''{{'' \<and> name \<noteq> [] \<and> has_prefix rest ''}}'' then Some (name, drop 2 rest)
      else None)"

lemma placeholder_shorter: "placeholder s = Some (n, t) \<Longrightarrow> length t < length s"
proof -
  assume p: "placeholder s = Some (n, t)"
  then have t: "t = drop 2 (dropWhile word_char (drop 2 s))" and s: "has_prefix s ''{{''"
    by (auto simp: placeholder_def Let_def split: if_splits)
  have "length t \<le> length (drop 2 s)"
    unfolding t using length_dropWhile_le [of word_char "drop 2 s"] by simp
  moreover have "s \<noteq> []" using s by (auto simp: has_prefix_def)
  ultimately show ?thesis by (cases s) auto
qed

function substituteVars :: "string \<Rightarrow> vars \<Rightarrow> string" where
  "substituteVars s vars =
     (case s of
        [] \<Rightarrow> []
      | c # cs \<Rightarrow>
          (case placeholder s of
             Some (n, t) \<Rightarrow>
               (case map_of vars n of Some v \<Rightarrow> v | None \<Rightarrow> ''{{'' @ n @ ''}}'') @ substituteVars t vars
           | None \<Rightarrow> c # substituteVars cs vars))"
  by pat_completeness auto
termination
  by (relation "measure (length \<circ> fst)") (auto dest: placeholder_shorter)

declare substituteVars.simps [simp del]

fun has_placeholder :: "string \<Rightarrow> bool" where
  "has_placeholder [] = False"
| "has_placeholder (c # cs) = (placeholder (c # cs) \<noteq> None \<or> has_placeholder cs)"

text \<open>\<open>strings.SplitN(s, sep, 2)\<close>.\<close>

fun cut_str :: "string \<Rightarrow> string \<Rightarrow> (string \<times> string) option" where
  "cut_str sep [] = (if sep = [] then Some ([], []) else None)"
| "cut_str sep (c # cs) =
     (if has_prefix (c # cs) sep then Some ([], drop (length sep) (c # cs))
      else map_option (\<lambda>(a, b). (c # a, b)) (cut_str sep cs))"

text \<open>
  \<open>evaluateCondition\<close>: it calls itself on what follows an exclamation mark, so not returning
  is a possible value, \<open>None\<close>.
\<close>

definition condition_leaf :: "string \<Rightarrow> vars \<Rightarrow> bool" where
  "condition_leaf c vars =
     (case cut_str ''!='' c of
        Some (l, r) \<Rightarrow> substituteVars (trim_space l) vars \<noteq> trim_space r
      | None \<Rightarrow>
          (case cut_str ''=='' c of
             Some (l, r) \<Rightarrow> substituteVars (trim_space l) vars = trim_space r
           | None \<Rightarrow>
               (let v = substituteVars c vars in
                if v \<noteq> c then v \<noteq> [] \<and> v \<noteq> ''false'' \<and> v \<noteq> ''0''
                else if has_placeholder c then False else v \<noteq> [])))"

partial_function (option) evaluateCondition :: "vars \<Rightarrow> string \<Rightarrow> bool option" where
  "evaluateCondition vars cond =
     (let c = trim_space cond in
      if has_prefix c ''!'' then
        Option.bind (evaluateCondition vars (trim_prefix c ''!'')) (\<lambda>b. Some (\<not> b))
      else Some (condition_leaf c vars))"

declare evaluateCondition.simps [code]

fun parse_vars :: "string list \<Rightarrow> vars \<Rightarrow> vars res" where
  "parse_vars [] m = Inr m"
| "parse_vars (p # ps) m =
     (case splitField p of
        None \<Rightarrow> Inl (OtherError (''invalid --var '' @ go_quote p @ '': expected key=value''))
      | Some (k, v) \<Rightarrow> parse_vars ps (AList.update k v m))"

definition with_default :: "formula_var \<Rightarrow> vars \<Rightarrow> vars res" where
  "with_default d m =
     (if map_of m (fvName d) \<noteq> None then Inr m
      else if fvDefault d \<noteq> [] then Inr (AList.update (fvName d) (fvDefault d) m)
      else if fvRequired d then
        Inl (OtherError (''required variable {{'' @ fvName d @ ''}} not provided (use --var ''
          @ fvName d @ ''=<value>)''))
      else Inr m)"

definition enum_ok :: "formula_var \<Rightarrow> vars \<Rightarrow> bool" where
  "enum_ok d m \<longleftrightarrow> fvEnum d = [] \<or> (case map_of m (fvName d) of None \<Rightarrow> True | Some v \<Rightarrow> v \<in> set (fvEnum d))"

fun apply_defaults :: "formula_var list \<Rightarrow> vars \<Rightarrow> vars res" where
  "apply_defaults [] m = Inr m"
| "apply_defaults (d # ds) m =
     (case with_default d m of
        Inl e \<Rightarrow> Inl e
      | Inr m' \<Rightarrow>
          if enum_ok d m' then apply_defaults ds m'
          else Inl (OtherError (''variable {{'' @ fvName d @ ''}} value ''
            @ go_quote (the (map_of m' (fvName d))) @ '' not in allowed values: ''
            @ show_strings (fvEnum d))))"

subsection \<open>Expansion (\<open>formula_apply.go\<close>)\<close>

definition step_skipped :: "vars \<Rightarrow> formula_step \<Rightarrow> bool" where
  "step_skipped vars s \<longleftrightarrow> fsCondition s \<noteq> [] \<and> evaluateCondition vars (fsCondition s) = Some False"

definition expand_step :: "vars \<Rightarrow> formula_step \<Rightarrow> formula_step" where
  "expand_step vars s =
     s\<lparr>fsTitle := substituteVars (fsTitle s) vars,
       fsDescription := substituteVars (fsDescription s) vars,
       fsAssignee := substituteVars (fsAssignee s) vars\<rparr>"

definition skipped_ids :: "vars \<Rightarrow> formula_step list \<Rightarrow> string list" where
  "skipped_ids vars steps = map fsID (filter (step_skipped vars) steps)"

definition active_steps :: "vars \<Rightarrow> formula_step list \<Rightarrow> formula_step list" where
  "active_steps vars steps =
     map (\<lambda>s. (expand_step vars s)
            \<lparr>fsDependsOn := filter (\<lambda>d. d \<notin> set (skipped_ids vars steps)) (fsDependsOn s)\<rparr>)
       (filter (\<lambda>s. \<not> step_skipped vars s) steps)"

fun add_new :: "string list \<Rightarrow> string list \<Rightarrow> string list" where
  "add_new acc [] = acc"
| "add_new acc (l # ls) = add_new (if l \<in> set acc then acc else acc @ [l]) ls"

definition mergeLabels :: "string list \<Rightarrow> string list \<Rightarrow> string list" where
  "mergeLabels base extra = (if extra = [] then base else add_new (add_new [] base) extra)"

definition priorityOrDefault :: "int option \<Rightarrow> int \<Rightarrow> int" where
  "priorityOrDefault p d = (case p of None \<Rightarrow> d | Some n \<Rightarrow> n)"

definition capitalize :: "string \<Rightarrow> string" where
  "capitalize s = (case s of [] \<Rightarrow> [] | c # cs \<Rightarrow> ascii_upper c # cs)"

definition step_type :: "formula_step \<Rightarrow> string" where
  "step_type s = or_default (fsType s) ''task''"

definition after_deps :: "string list \<Rightarrow> string" where
  "after_deps deps = (if deps = [] then [] else '' (after: '' @ join_str '', '' deps @ '')'')"

definition show_map :: "vars \<Rightarrow> string" where
  "show_map m = ''map['' @ join_str '' '' (map (\<lambda>(k, v). k @ '':'' @ v) (sort_key fst m)) @ '']''"

record apply_opts =
  aoFormulaID :: string
  aoVarPairs :: "string list"
  aoLabels :: "string list"
  aoAssignee :: string
  aoDryRun :: bool
  aoEphemeral :: bool

definition phase :: "apply_opts \<Rightarrow> string" where
  "phase opts = (if aoEphemeral opts then ''wisp'' else ''molecule'')"

text \<open>
  What applying a formula has settled before it creates anything: the formula bead, the formula,
  the variables, the steps that remain, and the assignee for those who name none.
\<close>

record plan =
  plBead :: bead
  plFormula :: formula
  plVars :: vars
  plSteps :: "formula_step list"
  plAssignee :: string

definition plan_of :: "apply_opts \<Rightarrow> bead \<Rightarrow> plan res" where
  "plan_of opts b =
     (if bType b \<noteq> ''formula'' then
        Inl (OtherError (''bead '' @ aoFormulaID opts @ '' is type '' @ go_quote (bType b) @ '', not formula''))
      else if raw_empty (bFields b) then
        Inl (OtherError (''formula '' @ aoFormulaID opts @ '' has no fields (empty formula)''))
      else case decode_formula (bFields b) of
        None \<Rightarrow> Inl (WrapErr ''parsing formula fields'' (OtherError ''json''))
      | Some f \<Rightarrow>
          if foSteps f = [] then Inl (OtherError (''formula '' @ aoFormulaID opts @ '' has no steps''))
          else case parse_vars (aoVarPairs opts) [] of
            Inl e \<Rightarrow> Inl e
          | Inr m0 \<Rightarrow>
              (case apply_defaults (list_of_slice (foVars f)) m0 of
                 Inl e \<Rightarrow> Inl e
               | Inr m \<Rightarrow>
                   (let act = active_steps m (foSteps f) in
                    if act = [] then
                      Inl (OtherError ''all steps were filtered by conditions; nothing to create'')
                    else Inr \<lparr>plBead = b, plFormula = f, plVars = m, plSteps = act,
                           plAssignee = or_default (aoAssignee opts) (foAssignedAgent f)\<rparr>)))"

definition step_roles :: "plan \<Rightarrow> formula_step \<Rightarrow> string list" where
  "step_roles p s = or_default (fsRoles s) (foDefaultRoles (plFormula p))"

definition dry_run_text :: "apply_opts \<Rightarrow> plan \<Rightarrow> string" where
  "dry_run_text opts p =
     ''Formula: '' @ bTitle (plBead p) @ '' ('' @ aoFormulaID opts @ '')'' @ nl
     @ ''Variables: '' @ show_map (plVars p) @ nl @ ''Phase: '' @ phase opts @ nl @ nl
     @ ''Would create:'' @ nl
     @ ''  '' @ capitalize (phase opts) @ '': '' @ substituteVars (bTitle (plBead p)) (plVars p) @ nl
     @ concat (map (\<lambda>s. ''  Step '' @ fsID s @ '': '' @ fsTitle s @ '' ['' @ step_type s @ '']''
         @ after_deps (fsDependsOn s)
         @ (if step_roles p s = [] then [] else '' roles:'' @ show_strings (step_roles p s)) @ nl) (plSteps p))
     @ nl @ ''Total: 1 '' @ phase opts @ '' + '' @ show_nat (length (plSteps p)) @ '' steps'' @ nl"

subsection \<open>Creation\<close>

definition mol_labels :: "apply_opts \<Rightarrow> plan \<Rightarrow> string list" where
  "mol_labels opts p = mergeLabels (bLabels (plBead p)) (aoLabels opts)"

definition mol_fields :: "apply_opts \<Rightarrow> plan \<Rightarrow> raw" where
  "mol_fields opts p = Raw (JObj (
     [(''applied_vars'', JObj (sort_key fst (map (\<lambda>(k, v). (k, JStr v)) (plVars p))))]
     @ (if aoEphemeral opts then [(''ephemeral'', JBool True)] else [])
     @ [(''formula_id'', JStr (aoFormulaID opts))]))"

definition mol_request :: "kd_ctx \<Rightarrow> apply_opts \<Rightarrow> plan \<Rightarrow> create_request" where
  "mol_request cx opts p =
     no_create\<lparr>iTitle := substituteVars (bTitle (plBead p)) (plVars p),
       iDescription := substituteVars (bDescription (plBead p)) (plVars p), iType := ''molecule'',
       iPriority := bPriority (plBead p), iLabels := mol_labels opts p, iAssignee := plAssignee p,
       iCreatedBy := cxActor cx, iFields := mol_fields opts p\<rparr>"

definition step_request :: "kd_ctx \<Rightarrow> apply_opts \<Rightarrow> plan \<Rightarrow> formula_step \<Rightarrow> create_request" where
  "step_request cx opts p s =
     no_create\<lparr>iTitle := fsTitle s, iDescription := fsDescription s, iType := step_type s,
       iPriority := priorityOrDefault (fsPriority s) (bPriority (plBead p)),
       iLabels := mergeLabels (mergeLabels (mol_labels opts p) (fsLabels s))
                    (map (\<lambda>r. ''role:'' @ r) (step_roles p s)),
       iAssignee := or_default (fsAssignee s) (plAssignee p), iCreatedBy := cxActor cx\<rparr>"

text \<open>The loop over the steps; \<open>ids\<close> is \<open>stepBeadIDs\<close>.\<close>

fun create_steps ::
  "'s client \<Rightarrow> kd_ctx \<Rightarrow> apply_opts \<Rightarrow> plan \<Rightarrow> string \<Rightarrow> formula_step list \<Rightarrow> (string \<times> string) list
   \<Rightarrow> ('s kd, (string \<times> string) list) op" where
  "create_steps cl cx opts p mol [] ids = ret ids"
| "create_steps cl cx opts p mol (s # ss) ids =
     and_then (wrap (''creating step '' @ go_quote (fsID s)) (call (clCreateBead cl (step_request cx opts p s))))
       (\<lambda>b. and_then (wrap (''linking step '' @ go_quote (fsID s) @ '' to '' @ phase opts)
               (call (clAddDependency cl (bID b) mol ''parent-child'' (cxActor cx))))
         (\<lambda>_. create_steps cl cx opts p mol ss (AList.update (fsID s) (bID b) ids)))"

definition arrow :: string where "arrow = [CHR 0xE2, CHR 0x86, CHR 0x92]"

text \<open>A key that is not in the map reads as the empty string.\<close>

definition id_of :: "(string \<times> string) list \<Rightarrow> string \<Rightarrow> string" where
  "id_of ids k = (case map_of ids k of Some i \<Rightarrow> i | None \<Rightarrow> [])"

definition link_step :: "'s client \<Rightarrow> kd_ctx \<Rightarrow> (string \<times> string) list \<Rightarrow> formula_step \<Rightarrow> ('s kd, unit) op" where
  "link_step cl cx ids s =
     for_each (\<lambda>d. case map_of ids d of
         None \<Rightarrow> ret ()
       | Some on \<Rightarrow>
           and_then (wrap (''adding dependency '' @ fsID s @ arrow @ d)
             (call (clAddDependency cl (id_of ids (fsID s)) on ''blocks'' (cxActor cx)))) (\<lambda>_. ret ()))
       (fsDependsOn s)"

definition created_text :: "apply_opts \<Rightarrow> plan \<Rightarrow> bead \<Rightarrow> (string \<times> string) list \<Rightarrow> string" where
  "created_text opts p mol ids =
     ''Created '' @ phase opts @ '' '' @ bID mol @ '': '' @ bTitle mol @ nl
     @ ''  Formula: '' @ aoFormulaID opts @ nl @ ''  Steps:   '' @ show_nat (length (plSteps p)) @ nl
     @ concat (map (\<lambda>s. ''    '' @ fsID s @ '' '' @ arrow @ '' '' @ id_of ids (fsID s) @ '': '' @ fsTitle s @ nl)
         (plSteps p))"

definition print_created ::
  "kd_ctx \<Rightarrow> apply_opts \<Rightarrow> plan \<Rightarrow> bead \<Rightarrow> (string \<times> string) list \<Rightarrow> ('s kd, unit) op" where
  "print_created cx opts p mol ids =
     (if cxJson cx then
        (case bead_json (cxFmt cx) mol of
           None \<Rightarrow> println []
         | Some j \<Rightarrow> emit (PrettyJson (JObj (sort_key fst
             [(phase opts, j), (''steps'', JObj (sort_key fst (map (\<lambda>(k, i). (k, JStr i)) ids)))]))))
      else say (created_text opts p mol ids))"

definition create_molecule ::
  "'s client \<Rightarrow> kd_ctx \<Rightarrow> apply_opts \<Rightarrow> plan \<Rightarrow> ('s kd, bead \<times> (string \<times> string) list) op" where
  "create_molecule cl cx opts p =
     and_then (wrap (''creating '' @ phase opts) (call (clCreateBead cl (mol_request cx opts p)))) (\<lambda>mol.
     and_then (create_steps cl cx opts p (bID mol) (plSteps p) []) (\<lambda>ids.
     andthen (for_each (link_step cl cx ids) (plSteps p)) (ret (mol, ids))))"

definition runFormulaApply :: "'s client \<Rightarrow> kd_ctx \<Rightarrow> apply_opts \<Rightarrow> ('s kd, unit) op" where
  "runFormulaApply cl cx opts =
     and_then (wrap ''resolving formula'' (call (clGetBead cl (aoFormulaID opts)))) (\<lambda>b.
     and_then (lift_res (plan_of opts b)) (\<lambda>p.
     if aoDryRun opts then say (dry_run_text opts p)
     else and_then (create_molecule cl cx opts p) (\<lambda>(mol, ids). print_created cx opts p mol ids)))"

text \<open>The three commands: \<open>pour\<close> and \<open>wisp\<close> fix the phase, \<open>apply\<close> takes it as a flag.\<close>

definition instantiateRunE :: "'s client \<Rightarrow> kd_ctx \<Rightarrow> bool \<Rightarrow> apply_opts \<Rightarrow> ('s kd, unit) op" where
  "instantiateRunE cl cx ephemeral opts = runFormulaApply cl cx (opts\<lparr>aoEphemeral := ephemeral\<rparr>)"

subsection \<open>Updating, showing and listing formulas\<close>

definition no_update_request :: update_request where
  "no_update_request = \<lparr>uqTitle = None, uqDescription = None, uqNotes = None, uqStatus = None,
     uqPriority = None, uqAssignee = None, uqOwner = None, uqDueAt = None, uqDeferUntil = None,
     uqFields = RawNil, uqLabels = []\<rparr>"

text \<open>The fields an update starts from: the file's vars and steps, or the bead's own.\<close>

definition replaced_fields :: "raw \<Rightarrow> gomap res" where
  "replaced_fields body =
     (case decode_struct vars_steps_field body no_formula of
        None \<Rightarrow> Inl (WrapErr ''parsing formula JSON'' (OtherError ''json''))
      | Some f \<Rightarrow>
          (case check_steps (foSteps f) of
             Inl e \<Rightarrow> Inl e
           | Inr _ \<Rightarrow> Inr (Some [(''vars'', vars_json (foVars f)),
                               (''steps'', JArr (map step_json (foSteps f)))])))"

definition fields_to_patch :: "bead \<Rightarrow> gomap res" where
  "fields_to_patch b =
     (if raw_empty (bFields b) then Inr (Some [])
      else case unmarshal_map (bFields b) (Some []) of
        (m, True) \<Rightarrow> Inr m
      | (_, False) \<Rightarrow> Inl (WrapErr ''parsing existing fields'' (OtherError ''json'')))"

definition set_agent :: "string \<Rightarrow> bool \<Rightarrow> gomap \<Rightarrow> gomap res" where
  "set_agent who clear m =
     (if clear then Inr (map_option (AList.delete ''assigned_agent'') m)
      else if who \<noteq> [] then assign_all [(''assigned_agent'', JStr who)] m
      else Inr m)"

definition get_formula :: "string \<Rightarrow> 's client \<Rightarrow> string \<Rightarrow> ('s kd, bead) op" where
  "get_formula what cl i =
     and_then (wrap what (call (clGetBead cl i))) (\<lambda>b.
     if bType b \<noteq> ''formula'' then
       errorf (''bead '' @ i @ '' is type '' @ go_quote (bType b) @ '', not formula'')
     else ret b)"

definition runFormulaUpdate ::
  "(string \<Rightarrow> raw res) \<Rightarrow> 's client \<Rightarrow> kd_ctx \<Rightarrow> string \<Rightarrow> string \<Rightarrow> string \<Rightarrow> bool \<Rightarrow> ('s kd, unit) op" where
  "runFormulaUpdate readf cl cx i path who clear =
     (if path = [] \<and> who = [] \<and> \<not> clear then errorf ''--file or --assignee is required''
      else and_then (get_formula ''getting formula'' cl i) (\<lambda>b.
        and_then
          (if path \<noteq> [] then
             and_then (wrap ''reading file'' (lift_res (readf path))) (\<lambda>body. lift_res (replaced_fields body))
           else lift_res (fields_to_patch b)) (\<lambda>m.
        and_then (lift_res (set_agent who clear m)) (\<lambda>m'.
        andthen (wrap ''updating formula'' (call (clUpdateBead cl i
                   (no_update_request\<lparr>uqFields := marshal_map m'\<rparr>))))
          (if cxJson cx then println (''{\"id\":'' @ go_quote i @ ''}'')
           else println (''Updated formula '' @ i))))))"

definition var_line :: "formula_var \<Rightarrow> string" where
  "var_line v =
     ''  {{'' @ fvName v @ ''}}'' @ (if fvRequired v then '' (required)'' else [])
     @ (if fvDefault v \<noteq> [] then '' [default: '' @ fvDefault v @ '']'' else [])
     @ (if fvDescription v \<noteq> [] then '' '' @ [CHR 0xE2, CHR 0x80, CHR 0x94] @ '' '' @ fvDescription v else [])
     @ nl"

definition step_line :: "formula_step \<Rightarrow> string" where
  "step_line s =
     ''  '' @ fsID s @ '': '' @ fsTitle s @ '' ['' @ step_type s @ '']'' @ after_deps (fsDependsOn s)
     @ (if fsCondition s \<noteq> [] then '' [if '' @ fsCondition s @ '']'' else []) @ nl"

definition formula_text :: "formula \<Rightarrow> string" where
  "formula_text f =
     (if foAssignedAgent f \<noteq> [] then nl @ ''Assigned Agent: '' @ foAssignedAgent f @ nl else [])
     @ (if list_of_slice (foVars f) \<noteq> [] then
          nl @ ''Variables:'' @ nl @ concat (map var_line (list_of_slice (foVars f))) else [])
     @ (if foSteps f \<noteq> [] then nl @ ''Steps:'' @ nl @ concat (map step_line (foSteps f)) else [])"

definition formulaShow :: "'s client \<Rightarrow> kd_ctx \<Rightarrow> string \<Rightarrow> ('s kd, unit) op" where
  "formulaShow cl cx i =
     and_then (get_formula ''getting formula'' cl i) (\<lambda>b.
     if cxJson cx then printBeadJSON cx b
     else andthen (printBeadTable cx b)
       (if raw_empty (bFields b) then ret ()
        else case decode_struct (agent_field vars_steps_field) (bFields b) no_formula of
          None \<Rightarrow> ret () | Some f \<Rightarrow> say (formula_text f)))"

definition formulaDump ::
  "(string \<Rightarrow> err option) \<Rightarrow> 's client \<Rightarrow> string \<Rightarrow> string \<Rightarrow> ('s kd, unit) op" where
  "formulaDump fails cl i path =
     and_then (get_formula ''getting formula'' cl i) (\<lambda>b.
     if raw_empty (bFields b) then errorf (''formula '' @ i @ '' has no fields'')
     else case bFields b of
       Raw j \<Rightarrow>
         if path \<noteq> [] then
           andthen (wrap ''writing file'' (write_file fails path (PrettyJson j)))
             (eprint (''Wrote '' @ i @ '' fields to '' @ path @ nl))
         else emit (PrettyJson j)
     | _ \<Rightarrow> fail (WrapErr ''parsing fields'' (OtherError ''json'')))"

text \<open>\<open>formulaFieldSummary\<close>: how many steps and vars there are, whatever they hold.\<close>

definition count_field :: "json \<Rightarrow> nat option" where
  "count_field j = (case j of JNull \<Rightarrow> Some 0 | JArr xs \<Rightarrow> Some (length xs) | _ \<Rightarrow> None)"

definition summary_field :: "string \<Rightarrow> json \<Rightarrow> nat \<times> nat \<times> string \<Rightarrow> (nat \<times> nat \<times> string) option" where
  "summary_field k j x =
     (case x of (st, va, ag) \<Rightarrow>
        if fold_eq k ''steps'' then map_option (\<lambda>n. (n, va, ag)) (count_field j)
        else if fold_eq k ''vars'' then map_option (\<lambda>n. (st, n, ag)) (count_field j)
        else if fold_eq k ''assigned_agent'' then map_option (\<lambda>y. (st, va, y)) (decode_string j ag)
        else Some x)"

definition formulaFieldSummary :: "bead \<Rightarrow> nat \<times> nat \<times> string" where
  "formulaFieldSummary b =
     (if raw_empty (bFields b) then (0, 0, [])
      else case decode_struct summary_field (bFields b) (0, 0, []) of Some x \<Rightarrow> x | None \<Rightarrow> (0, 0, []))"

definition formula_cells :: "bead \<Rightarrow> string" where
  "formula_cells b =
     (case formulaFieldSummary b of (st, va, ag) \<Rightarrow>
        line_of [bID b, clip 50 (bTitle b), show_nat st, show_nat va, ag, join_str '', '' (bLabels b)])"

definition printFormulaList :: "bead list \<Rightarrow> int \<Rightarrow> ('s kd, unit) op" where
  "printFormulaList bs tot =
     (if bs = [] then println ''No formulas found.''
      else andthen (emit (Table (line_of [''ID'', ''TITLE'', ''STEPS'', ''VARS'', ''AGENT'', ''LABELS'']
               @ concat (map formula_cells bs))))
             (say (beads_footer (length bs) ''formulas'' tot)))"

definition no_list :: list_request where
  "no_list = \<lparr>lqStatus = [], lqType = [], lqKind = [], lqLabels = [], lqAssignee = [], lqSearch = [],
     lqSort = [], lqPriority = None, lqNoOpenDeps = False, lqLimit = 0, lqOffset = 0, lqFields = []\<rparr>"

definition formulaList ::
  "'s client \<Rightarrow> kd_ctx \<Rightarrow> string list \<Rightarrow> string \<Rightarrow> bool \<Rightarrow> ('s kd, unit) op" where
  "formulaList cl cx labels project all_projects =
     and_then (wrap ''listing formulas'' (call (clListBeads cl
       (no_list\<lparr>lqType := [''formula''], lqStatus := [''open'', ''in_progress''],
          lqLabels := labels @ (if \<not> all_projects \<and> project \<noteq> [] then [''project:'' @ project] else []),
          lqLimit := 100\<rparr>)))) (\<lambda>(bs, tot).
     if cxJson cx then printBeadListJSON cx bs else printFormulaList bs tot)"

subsection \<open>Conditions end\<close>

lemma length_dropWhile_snd:
  "length (concat (map snd (dropWhile P xs))) \<le> length (concat (map snd xs))"
  by (induction xs) auto

lemma length_trim_space: "length (trim_space s) \<le> length s"
proof -
  let ?d = "dropWhile (is_space_rune \<circ> fst)"
  have rev: "length (concat (map snd (rev xs))) = length (concat (map snd xs))"
    for xs :: "(nat \<times> string) list"
    by (induction xs) auto
  have "length (trim_space s) \<le> length (concat (map snd (rev (?d (runes s)))))"
    by (simp only: trim_space_def rev) (rule order_trans [OF length_dropWhile_snd], simp only: rev)
  also have "\<dots> \<le> length (concat (map snd (runes s)))"
    unfolding rev by (rule length_dropWhile_snd)
  finally show ?thesis by (simp add: concat_runes)
qed

text \<open>
  C34: evaluating a condition ends, whatever the condition and the variables.
\<close>

theorem evaluateCondition_ends: "\<exists>b. evaluateCondition vars cond = Some b"
proof (induction "length cond" arbitrary: cond rule: less_induct)
  case less
  let ?c = "trim_space cond"
  show ?case
  proof (cases "has_prefix ?c ''!''")
    case True
    then have "length (trim_prefix ?c ''!'') < length ?c"
      by (cases ?c) (auto simp: trim_prefix_def has_prefix_def)
    then have "length (trim_prefix ?c ''!'') < length cond"
      using length_trim_space [of cond] by simp
    then obtain b where "evaluateCondition vars (trim_prefix ?c ''!'') = Some b"
      using less by blast
    then show ?thesis using True by (subst evaluateCondition.simps) (simp add: Let_def)
  next
    case False
    then show ?thesis by (subst evaluateCondition.simps) (simp add: Let_def)
  qed
qed

subsection \<open>Checked steps\<close>

lemma step_ids_Inr:
  "(\<exists>r. step_ids ss seen = Inr r) \<longleftrightarrow>
     distinct (map fsID ss) \<and> (\<forall>s \<in> set ss. fsID s \<noteq> [] \<and> fsTitle s \<noteq> [])
     \<and> fsID ` set ss \<inter> set seen = {}"
  by (induction ss seen rule: step_ids.induct) auto

lemma step_ids_set: "step_ids ss seen = Inr r \<Longrightarrow> set r = fsID ` set ss \<union> set seen"
  by (induction ss seen arbitrary: r rule: step_ids.induct) (auto split: if_splits)

lemma unknown_dep_None: "unknown_dep seen ss = None \<longleftrightarrow> (\<forall>s \<in> set ss. set (fsDependsOn s) \<subseteq> set seen)"
  by (induction ss) (auto simp: find_None_iff split: option.split dest: find_Some_mem)

text \<open>
  C34: the check that \<open>formula create\<close> and \<open>formula update\<close> make accepts a list of steps exactly
  when it is not empty, every step has an id and a title, no id is used twice, and every
  dependency is the id of a step.
\<close>

theorem check_steps_iff: "check_steps steps = Inr () \<longleftrightarrow> steps_ok steps"
proof (cases "step_ids steps []")
  case (Inl e)
  have "\<not> (distinct (map fsID steps) \<and> (\<forall>s \<in> set steps. fsID s \<noteq> [] \<and> fsTitle s \<noteq> []))"
    using Inl step_ids_Inr [of steps "[]"] by simp
  then have "\<not> steps_ok steps" by (auto simp: steps_ok_def)
  then show ?thesis using Inl by (simp add: check_steps_def)
next
  case (Inr r)
  have ok: "distinct (map fsID steps)" "\<forall>s \<in> set steps. fsID s \<noteq> [] \<and> fsTitle s \<noteq> []"
    using Inr step_ids_Inr [of steps "[]"] by simp_all
  have "check_steps steps = Inr () \<longleftrightarrow> steps \<noteq> [] \<and> unknown_dep r steps = None"
    using Inr by (simp add: check_steps_def split: option.split)
  then show ?thesis
    using ok step_ids_set [OF Inr] by (auto simp: steps_ok_def unknown_dep_None)
qed

subsection \<open>Expansion leaves a closed graph\<close>

lemma active_step_simps:
  "map fsID (active_steps vars steps) = map fsID (filter (\<lambda>s. \<not> step_skipped vars s) steps)"
  by (simp add: active_steps_def expand_step_def comp_def)

lemma kept_iff: "distinct (map fsID steps) \<Longrightarrow> d \<in> fsID ` set steps \<Longrightarrow>
   d \<notin> set (skipped_ids vars steps) \<longleftrightarrow> d \<in> fsID ` set (active_steps vars steps)"
proof -
  assume d: "distinct (map fsID steps)" "d \<in> fsID ` set steps"
  then obtain s where s: "s \<in> set steps" "d = fsID s" by blast
  have one: "d \<in> fsID ` {t \<in> set steps. P t} \<longleftrightarrow> P s" for P
  proof
    assume "d \<in> fsID ` {t \<in> set steps. P t}"
    then obtain t where t: "t \<in> set steps" "P t" "fsID t = fsID s" using s(2) by auto
    then have "t = s" using d(1) s(1) by (auto simp: distinct_map dest: inj_onD)
    then show "P s" using t(2) by simp
  qed (use s in blast)
  have act: "fsID ` set (active_steps vars steps) = fsID ` {t \<in> set steps. \<not> step_skipped vars t}"
    using arg_cong [OF active_step_simps, of set] by simp
  have "set (skipped_ids vars steps) = fsID ` {t \<in> set steps. step_skipped vars t}"
    by (simp add: skipped_ids_def)
  then show ?thesis by (simp only: act one not_not)
qed

lemma active_distinct: "steps_ok steps \<Longrightarrow> distinct (map fsID (active_steps vars steps))"
  by (simp add: active_step_simps steps_ok_def distinct_map_filter)

lemma active_deps:
  assumes "steps_ok steps" "s' \<in> set (active_steps vars steps)"
  shows "\<exists>s \<in> set steps. \<not> step_skipped vars s \<and> fsID s' = fsID s
           \<and> fsDependsOn s' = filter (\<lambda>d. d \<in> fsID ` set (active_steps vars steps)) (fsDependsOn s)"
proof -
  have d: "distinct (map fsID steps)" using assms(1) by (simp add: steps_ok_def)
  obtain s where s: "s \<in> set steps" "\<not> step_skipped vars s" "s' = (expand_step vars s)
      \<lparr>fsDependsOn := filter (\<lambda>d. d \<notin> set (skipped_ids vars steps)) (fsDependsOn s)\<rparr>"
    using assms(2) by (auto simp: active_steps_def)
  have "set (fsDependsOn s) \<subseteq> fsID ` set steps"
    using assms(1) s(1) by (auto simp: steps_ok_def)
  then have "filter (\<lambda>d. d \<notin> set (skipped_ids vars steps)) (fsDependsOn s)
      = filter (\<lambda>d. d \<in> fsID ` set (active_steps vars steps)) (fsDependsOn s)"
    by (intro filter_cong) (use kept_iff [OF d] in blast)+
  then show ?thesis
    using s by (auto simp: expand_step_def intro!: bexI [of _ s])
qed

lemma active_deps_known:
  "steps_ok steps \<Longrightarrow> s' \<in> set (active_steps vars steps) \<Longrightarrow>
   set (fsDependsOn s') \<subseteq> fsID ` set (active_steps vars steps)"
  using active_deps [of steps s' vars] by auto


definition sample_steps :: "formula_step list" where
  "sample_steps =
     [no_step\<lparr>fsID := ''a'', fsTitle := ''Design {{x}}''\<rparr>,
      no_step\<lparr>fsID := ''b'', fsTitle := ''Build'', fsDependsOn := [''a''], fsCondition := ''{{x}} == ui''\<rparr>,
      no_step\<lparr>fsID := ''c'', fsTitle := ''Ship'', fsDependsOn := [''a'', ''b'']\<rparr>]"

lemma sample_steps_ok: "steps_ok sample_steps"
  by (simp add: steps_ok_def sample_steps_def no_step_def)


subsection \<open>What is stored is what is read\<close>

abbreviation put_var :: "(string \<times> json) list \<Rightarrow> formula_var \<Rightarrow> formula_var option" where
  "put_var \<equiv> fold_opt (\<lambda>(k, j). var_field k j)"

abbreviation put_step :: "(string \<times> json) list \<Rightarrow> formula_step \<Rightarrow> formula_step option" where
  "put_step \<equiv> fold_opt (\<lambda>(k, j). step_field k j)"

lemma put_vars:
  "put_var [(''name'', JStr x)] v = Some (v\<lparr>fvName := x\<rparr>)"
  "put_var (opt_str ''description'' x) v = Some (v\<lparr>fvDescription := if x = [] then fvDescription v else x\<rparr>)"
  "put_var (if r then [(''required'', JBool True)] else []) v = Some (v\<lparr>fvRequired := r \<or> fvRequired v\<rparr>)"
  "put_var (opt_str ''default'' x) v = Some (v\<lparr>fvDefault := if x = [] then fvDefault v else x\<rparr>)"
  "put_var (opt_str ''type'' x) v = Some (v\<lparr>fvType := if x = [] then fvType v else x\<rparr>)"
  "put_var (opt_strs ''enum'' xs) v = Some (v\<lparr>fvEnum := if xs = [] then fvEnum v else xs\<rparr>)"
  by (simp_all add: var_field_def key_simps opt_str_def opt_strs_def decode_string_def decode_bool_def
      decode_strings_def those_strings [unfolded decode_string_def])

lemma put_steps:
  "put_step [(''id'', JStr x), (''title'', JStr y)] s = Some (s\<lparr>fsID := x, fsTitle := y\<rparr>)"
  "put_step (opt_str ''description'' x) s = Some (s\<lparr>fsDescription := if x = [] then fsDescription s else x\<rparr>)"
  "put_step (opt_str ''type'' x) s = Some (s\<lparr>fsType := if x = [] then fsType s else x\<rparr>)"
  "put_step (opt_strs ''labels'' xs) s = Some (s\<lparr>fsLabels := if xs = [] then fsLabels s else xs\<rparr>)"
  "put_step (opt_strs ''depends_on'' xs) s = Some (s\<lparr>fsDependsOn := if xs = [] then fsDependsOn s else xs\<rparr>)"
  "put_step (opt_str ''assignee'' x) s = Some (s\<lparr>fsAssignee := if x = [] then fsAssignee s else x\<rparr>)"
  "put_step (opt_str ''condition'' x) s = Some (s\<lparr>fsCondition := if x = [] then fsCondition s else x\<rparr>)"
  "put_step (opt_strs ''roles'' xs) s = Some (s\<lparr>fsRoles := if xs = [] then fsRoles s else xs\<rparr>)"
  by (simp_all add: step_field_def key_simps opt_str_def opt_strs_def decode_string_def
      decode_strings_def those_strings [unfolded decode_string_def])

lemma put_priority:
  "(\<And>n. p = Some n \<Longrightarrow> int64_ok n) \<Longrightarrow>
   put_step (opt_ptr JInt ''priority'' p) s = Some (s\<lparr>fsPriority := if p = None then fsPriority s else p\<rparr>)"
  by (cases p) (simp_all add: step_field_def key_simps opt_ptr_def decode_int_ptr_def decode_int_def)

lemma keep_if: "(if xs = [] then [] else xs) = xs" "(if p = None then None else p) = p"
  by auto

lemma var_back: "decode_struct var_field (Raw (var_json v)) no_var = Some v"
proof -
  have "decode_struct var_field (Raw (var_json v)) no_var = Some (no_var\<lparr>fvName := fvName v,
      fvDescription := fvDescription v, fvRequired := fvRequired v, fvDefault := fvDefault v,
      fvType := fvType v, fvEnum := fvEnum v\<rparr>)"
    by (simp only: decode_struct_def raw.case json.case var_json_def fold_opt_append option.case put_vars
        no_var_def formula_var.simps keep_if simp_thms)
  then show ?thesis by (cases v) (simp add: no_var_def)
qed

definition step_int64 :: "formula_step \<Rightarrow> bool" where
  "step_int64 s \<longleftrightarrow> (\<forall>n. fsPriority s = Some n \<longrightarrow> int64_ok n)"

lemma step_back: "step_int64 s \<Longrightarrow> decode_struct step_field (Raw (step_json s)) no_step = Some s"
proof -
  assume p: "step_int64 s"
  have "decode_struct step_field (Raw (step_json s)) no_step = Some (no_step\<lparr>fsID := fsID s,
      fsTitle := fsTitle s, fsDescription := fsDescription s, fsType := fsType s, fsPriority := fsPriority s,
      fsLabels := fsLabels s, fsDependsOn := fsDependsOn s, fsAssignee := fsAssignee s,
      fsCondition := fsCondition s, fsRoles := fsRoles s\<rparr>)"
    by (simp only: decode_struct_def raw.case json.case step_json_def fold_opt_append option.case put_steps
        put_priority [OF p [unfolded step_int64_def, rule_format]] no_step_def formula_step.simps keep_if)
  then show ?thesis by (cases s) (simp add: no_step_def)
qed

lemma those_map_Some: "(\<And>x. x \<in> set xs \<Longrightarrow> g x = Some x) \<Longrightarrow> those (map g xs) = Some xs"
  by (induction xs) auto

lemma vars_back: "decode_list var_field no_var (vars_json vs) = Some vs"
  by (cases vs) (simp_all add: decode_list_def vars_json_def comp_def var_back those_map_Some)

lemma steps_back:
  "\<forall>s \<in> set ss. step_int64 s \<Longrightarrow>
   decode_list step_field no_step (JArr (map step_json ss)) = Some (Some ss)"
  by (simp add: decode_list_def comp_def step_back those_map_Some)

abbreviation put_formula :: "(string \<times> json) list \<Rightarrow> formula \<Rightarrow> formula option" where
  "put_formula \<equiv> fold_opt (\<lambda>(k, j). agent_field content_field k j)"

lemma put_formulas:
  "put_formula (opt_str ''assigned_agent'' x) f = Some (f\<lparr>foAssignedAgent := if x = [] then foAssignedAgent f else x\<rparr>)"
  "put_formula (opt_strs ''default_roles'' xs) f = Some (f\<lparr>foDefaultRoles := if xs = [] then foDefaultRoles f else xs\<rparr>)"
  by (simp_all add: agent_field_def content_field_def key_simps opt_str_def opt_strs_def decode_string_def
      decode_strings_def those_strings [unfolded decode_string_def])

lemma put_formula_lists:
  "\<forall>s \<in> set ss. step_int64 s \<Longrightarrow>
   put_formula [(''steps'', JArr (map step_json ss)), (''vars'', vars_json vs)] f
     = Some (f\<lparr>foSteps := ss, foVars := vs\<rparr>)"
  by (simp add: agent_field_def content_field_def vars_steps_field_def key_simps steps_back vars_back
      list_of_slice_def)

lemma decode_formula_fields:
  assumes "\<forall>s \<in> set (foSteps f). step_int64 s"
  shows "decode_formula (formula_fields f) = Some f"
proof -
  have "decode_formula (formula_fields f) = Some (no_formula\<lparr>foVars := foVars f, foSteps := foSteps f,
      foDefaultRoles := foDefaultRoles f, foAssignedAgent := foAssignedAgent f\<rparr>)"
    by (simp only: decode_formula_def decode_struct_def formula_fields_def raw.case json.case fold_opt_append
        option.case put_formulas put_formula_lists [OF assms] no_formula_def formula.simps keep_if)
  then show ?thesis by (cases f) (simp add: no_formula_def)
qed

text \<open>
  C36: \<open>formula create\<close> stores a definition that applying reads back as it was given: checked
  steps, the variables, the default roles, and the agent of the command line, provided that
  the priorities are 64-bit integers.
\<close>

theorem formula_stored_is_read:
  assumes "decode_struct content_field body no_formula = Some content" "check_steps (foSteps content) = Inr ()"
    and "\<forall>s \<in> set (foSteps content). step_int64 s" "path \<noteq> []"
  shows "\<exists>q out. formulaCreate (\<lambda>_. Inr body) cl cx name path descr prio labels who w =
      and_then (wrap ''creating formula'' (call (clCreateBead cl q))) out w
    \<and> iTitle q = name \<and> iType q = ''formula''
    \<and> decode_formula (iFields q) = Some (content\<lparr>foAssignedAgent := who\<rparr>)"
proof -
  let ?q = "no_create\<lparr>iTitle := name, iDescription := descr, iType := ''formula'', iPriority := prio,
       iLabels := labels, iCreatedBy := cxActor cx,
       iFields := formula_fields (content\<lparr>foAssignedAgent := who\<rparr>)\<rparr>"
  have "decode_formula (iFields ?q) = Some (content\<lparr>foAssignedAgent := who\<rparr>)"
    using decode_formula_fields [of "content\<lparr>foAssignedAgent := who\<rparr>"] assms(3) by simp
  moreover have "formulaCreate (\<lambda>_. Inr body) cl cx name path descr prio labels who w =
      and_then (wrap ''creating formula'' (call (clCreateBead cl ?q)))
        (\<lambda>b. if cxJson cx then printBeadJSON cx b
              else say (''Created formula '' @ bID b @ '': '' @ bTitle b @ nl
                     @ ''  Steps: '' @ show_nat (length (foSteps content)) @ nl
                     @ ''  Vars:  '' @ show_nat (length (list_of_slice (foVars content))) @ nl)) w"
    using assms by (simp add: formulaCreate_def and_then_def wrap_def lift_res_def andthen_def)
  ultimately show ?thesis
    by (intro exI [of _ ?q] exI) (simp add: no_create_def)
qed

lemma formula_stored_is_read_witness:
  "\<exists>q out. formulaCreate (\<lambda>_. Inr (Raw (JObj [(''steps'', JArr [JObj [(''id'', JStr ''a''), (''title'', JStr ''A'')]])])))
      refusing sample_ctx ''Flow'' ''f.json'' [] 2 [] ''ada'' (fresh_kd ()) =
      and_then (wrap ''creating formula'' (call (clCreateBead refusing q))) out (fresh_kd ())
    \<and> iTitle q = ''Flow'' \<and> iType q = ''formula''
    \<and> decode_formula (iFields q) = Some (no_formula\<lparr>foSteps := [no_step\<lparr>fsID := ''a'', fsTitle := ''A''\<rparr>],
        foAssignedAgent := ''ada''\<rparr>)"
proof -
  let ?c = "no_formula\<lparr>foSteps := [no_step\<lparr>fsID := ''a'', fsTitle := ''A''\<rparr>]\<rparr>"
  let ?b = "Raw (JObj [(''steps'', JArr [JObj [(''id'', JStr ''a''), (''title'', JStr ''A'')]])])"
  have d: "decode_struct content_field ?b no_formula = Some ?c"
    by (simp add: decode_struct_def content_field_def vars_steps_field_def step_field_def key_simps
        decode_list_def decode_string_def list_of_slice_def)
  have "check_steps (foSteps ?c) = Inr ()" "\<forall>s \<in> set (foSteps ?c). step_int64 s"
    by (simp_all add: check_steps_def no_step_def step_int64_def)
  from formula_stored_is_read [OF d this, of "''f.json''" refusing sample_ctx "''Flow''" "[]" 2 "[]" "''ada''" "fresh_kd ()"]
  show ?thesis by simp
qed

end
