(* ===== verification/Work.thy ===== *)
theory Work
  imports Formula
begin

text \<open>
  The commands on single beads (\<open>show.go\<close>, \<open>list.go\<close>, \<open>search.go\<close>, \<open>create.go\<close>, \<open>update.go\<close>,
  \<open>delete.go\<close>, \<open>label.go\<close>, \<open>comment.go\<close>, \<open>dep.go\<close>), the workflow commands (\<open>claim.go\<close>,
  \<open>unclaim.go\<close>, \<open>close.go\<close>, \<open>reopen.go\<close>, \<open>done.go\<close>, \<open>defer.go\<close>) and those on the service
  (\<open>status.go\<close>, \<open>health.go\<close>, \<open>config.go\<close>). Flags are arguments; \<open>None\<close> is a flag that was not
  given where the code asks whether it was.
\<close>

subsection \<open>Reading\<close>

text \<open>Here the times are printed as they are, the zero time too.\<close>

definition show_lines :: "kd_ctx \<Rightarrow> bead \<Rightarrow> string" where
  "show_lines cx b =
     (if bDependencies b = [] then []
      else nl @ ''Depends On:'' @ nl
        @ concat (map (\<lambda>d. ''  '' @ dDependsOnID d @ '' ('' @ dType d @ '')'' @ nl) (bDependencies b)))
     @ (if bComments b = [] then []
        else nl @ ''Comments:'' @ nl
          @ concat (map (\<lambda>c. ''  ['' @ cxStamp cx (cCreatedAt c) @ ''] '' @ cAuthor c @ '': '' @ cText c @ nl)
              (bComments b)))"

definition showCmd :: "'s client \<Rightarrow> kd_ctx \<Rightarrow> string \<Rightarrow> ('s kd, unit) op" where
  "showCmd cl cx i =
     and_then (wrap (''getting bead '' @ i) (call (clGetBead cl i))) (\<lambda>b.
     if cxJson cx then printBeadJSON cx b
     else andthen (printBeadTable cx b) (say (show_lines cx b)))"

record list_opts =
  loStatus :: "string list"
  loType :: "string list"
  loKind :: "string list"
  loLimit :: int
  loAssignee :: string
  loOffset :: int
  loFields :: "string list"
  loNoBlockers :: bool
  loSort :: string
  loAllTypes :: bool
  loLabels :: "string list"
  loProject :: string
  loAllProjects :: bool

fun field_pairs :: "string list \<Rightarrow> (string \<times> string) list \<Rightarrow> string + (string \<times> string) list" where
  "field_pairs [] m = Inr m"
| "field_pairs (f # fs) m =
     (case splitField f of None \<Rightarrow> Inl f | Some (k, v) \<Rightarrow> field_pairs fs (AList.update k v m))"

definition list_req :: "list_opts \<Rightarrow> (string \<times> string) list \<Rightarrow> list_request" where
  "list_req a flds =
     no_list\<lparr>lqStatus := loStatus a, lqType := loType a,
       lqKind := (if \<not> loAllTypes a \<and> loType a = [] \<and> loKind a = [] then [''issue''] else loKind a),
       lqLimit := loLimit a, lqAssignee := loAssignee a, lqOffset := loOffset a,
       lqNoOpenDeps := loNoBlockers a, lqSort := loSort a,
       lqLabels := (if \<not> loAllProjects a \<and> loProject a \<noteq> [] then [''project:'' @ loProject a] else []) @ loLabels a,
       lqFields := flds\<rparr>"

definition listCmd :: "'s client \<Rightarrow> kd_ctx \<Rightarrow> list_opts \<Rightarrow> ('s kd, unit) op" where
  "listCmd cl cx a =
     (case field_pairs (loFields a) [] of
        Inl f \<Rightarrow>
          andthen (eprint (''Error: invalid field filter '' @ go_quote f @ '' (expected key=value)'' @ nl)) os_exit
      | Inr flds \<Rightarrow>
          and_then (wrap ''listing beads'' (call (clListBeads cl (list_req a flds)))) (\<lambda>(bs, tot). print_beads cx bs tot))"

definition searchCmd ::
  "'s client \<Rightarrow> kd_ctx \<Rightarrow> string list \<Rightarrow> string list \<Rightarrow> string list \<Rightarrow> string list \<Rightarrow> int \<Rightarrow> ('s kd, unit) op" where
  "searchCmd cl cx args status types kinds lim =
     and_then (wrap ''searching beads'' (call (clListBeads cl
       (no_list\<lparr>lqSearch := join_str '' '' args, lqStatus := status, lqType := types, lqKind := kinds,
          lqLimit := lim\<rparr>)))) (\<lambda>(bs, tot). print_beads cx bs tot)"

subsection \<open>Creating and updating\<close>

definition agentRequiredFields :: "string list" where
  "agentRequiredFields = [''agent'', ''role'', ''project'']"

definition has_key :: "string \<Rightarrow> string list \<Rightarrow> bool" where
  "has_key k pairs \<longleftrightarrow> list_ex (\<lambda>p. case splitField p of Some (k', _) \<Rightarrow> k' = k | None \<Rightarrow> False) pairs"

definition validateAgentFields :: "string list \<Rightarrow> unit res" where
  "validateAgentFields pairs =
     (let missing = filter (\<lambda>f. \<not> has_key f pairs) agentRequiredFields in
      if missing = [] then Inr ()
      else Inl (OtherError (''type=agent requires fields: '' @ show_strings missing @ nl
        @ ''provide them with -f flags (or --role for the role field), e.g.:'' @ nl
        @ ''  kd create <title> --type agent --role crew -f agent=<name> -f project=<project>'')))"

record create_opts =
  coTitle :: string
  coDescription :: string
  coType :: string
  coKind :: string
  coPriority :: int
  coLabels :: "string list"
  coAssignee :: string
  coOwner :: string
  coRole :: string
  coFields :: "string list"
  coProject :: string
  coForce :: bool

definition role_pairs :: "create_opts \<Rightarrow> string list" where
  "role_pairs a =
     coFields a @ (if coRole a \<noteq> [] \<and> coType a = ''agent'' \<and> \<not> has_key ''role'' (coFields a)
                   then [''role='' @ coRole a] else [])"

definition create_labels :: "create_opts \<Rightarrow> string list" where
  "create_labels a =
     coLabels a @ (if coRole a \<noteq> [] then [''role:'' @ coRole a] else [])
     @ (if coProject a \<noteq> [] then [''project:'' @ coProject a] else [])"

definition emdash :: string where "emdash = [CHR 0xE2, CHR 0x80, CHR 0x94]"

definition cross_project :: "kd_ctx \<Rightarrow> create_opts \<Rightarrow> unit res" where
  "cross_project cx a =
     (let ap = agentProject (cxEnv cx) in
      if coProject a \<noteq> [] \<and> \<not> coForce a \<and> ap \<noteq> [] \<and> ap \<noteq> coProject a then
        Inl (OtherError (''cross-project create: you are in project '' @ go_quote ap @ '' but creating in ''
          @ go_quote (coProject a) @ '' '' @ emdash @ '' use --force to override''))
      else Inr ())"

definition create_req :: "kd_ctx \<Rightarrow> create_opts \<Rightarrow> raw \<Rightarrow> create_request" where
  "create_req cx a flds =
     no_create\<lparr>iTitle := coTitle a, iDescription := coDescription a, iType := coType a, iKind := coKind a,
       iPriority := coPriority a, iLabels := create_labels a, iAssignee := coAssignee a, iOwner := coOwner a,
       iCreatedBy := cxActor cx, iFields := flds\<rparr>"

definition createCmd ::
  "(string \<Rightarrow> json option) \<Rightarrow> 's client \<Rightarrow> kd_ctx \<Rightarrow> create_opts \<Rightarrow> ('s kd, unit) op" where
  "createCmd parse cl cx a =
     andthen (lift_res (if coType a = ''agent'' then validateAgentFields (role_pairs a) else Inr ()))
    (andthen (lift_res (cross_project cx a))
    (and_then (wrap ''parsing fields'' (lift_res (parseFields parse (role_pairs a)))) (\<lambda>flds.
     and_then (wrap ''creating bead'' (call (clCreateBead cl (create_req cx a flds)))) (\<lambda>b. print_bead cx b))))"

record update_opts =
  uoTitle :: "string option"
  uoDescription :: "string option"
  uoStatus :: "string option"
  uoPriority :: "int option"
  uoAssignee :: "string option"
  uoOwner :: "string option"
  uoNotes :: "string option"
  uoFields :: "string list option"

definition updateCmd ::
  "(string \<Rightarrow> json option) \<Rightarrow> 's client \<Rightarrow> kd_ctx \<Rightarrow> string \<Rightarrow> update_opts \<Rightarrow> ('s kd, unit) op" where
  "updateCmd parse cl cx i a =
     and_then (case uoFields a of
                 None \<Rightarrow> ret RawNil
               | Some pairs \<Rightarrow> wrap ''parsing fields'' (lift_res (parseFields parse pairs))) (\<lambda>flds.
     and_then (wrap (''updating bead '' @ i) (call (clUpdateBead cl i
       (no_update_request\<lparr>uqTitle := uoTitle a, uqDescription := uoDescription a, uqStatus := uoStatus a,
          uqPriority := uoPriority a, uqAssignee := uoAssignee a, uqOwner := uoOwner a, uqNotes := uoNotes a,
          uqFields := flds\<rparr>)))) (\<lambda>b. print_bead cx b))"

definition deleteCmd :: "'s client \<Rightarrow> string list \<Rightarrow> ('s kd, unit) op" where
  "deleteCmd cl ids =
     for_each (\<lambda>i. andthen (wrap (''deleting '' @ i) (call (clDeleteBead cl i))) (println (''Deleted '' @ i))) ids"

subsection \<open>Labels, comments, dependencies\<close>

definition labelAdd :: "'s client \<Rightarrow> string \<Rightarrow> string list \<Rightarrow> ('s kd, unit) op" where
  "labelAdd cl i ls =
     andthen (for_each (\<lambda>l. andthen (wrap (''adding label '' @ go_quote l) (call (clAddLabel cl i l))) (ret ())) ls)
       (println (''Added label(s) to '' @ i))"

definition labelRemove :: "'s client \<Rightarrow> string \<Rightarrow> string list \<Rightarrow> ('s kd, unit) op" where
  "labelRemove cl i ls =
     andthen (for_each (\<lambda>l. wrap (''removing label '' @ go_quote l) (call (clRemoveLabel cl i l))) ls)
       (println (''Removed label(s) from '' @ i))"

definition comment_table :: "kd_ctx \<Rightarrow> comment \<Rightarrow> string" where
  "comment_table cx c =
     ''ID:         '' @ show_int (cID c) @ nl @ ''Bead:       '' @ cBeadID c @ nl
     @ ''Author:     '' @ cAuthor c @ nl @ ''Text:       '' @ cText c @ nl
     @ time_line cx ''Created At: '' (cCreatedAt c)"

definition commentAdd :: "'s client \<Rightarrow> kd_ctx \<Rightarrow> string \<Rightarrow> string list \<Rightarrow> ('s kd, unit) op" where
  "commentAdd cl cx i args =
     and_then (wrap ''adding comment'' (call (clAddComment cl i (cxActor cx) (join_str '' '' args)))) (\<lambda>c.
     if cxJson cx then emit (PrettyJson (comment_json (cxFmt cx) c)) else say (comment_table cx c))"

definition stamp :: "kd_ctx \<Rightarrow> time \<Rightarrow> string" where
  "stamp cx t = (if t = 0 then [] else cxStamp cx t)"

definition comment_block :: "kd_ctx \<Rightarrow> comment \<Rightarrow> string" where
  "comment_block cx c = ''['' @ stamp cx (cCreatedAt c) @ ''] '' @ cAuthor c @ '':'' @ nl @ ''  '' @ cText c @ nl"

definition commentList :: "'s client \<Rightarrow> kd_ctx \<Rightarrow> string \<Rightarrow> ('s kd, unit) op" where
  "commentList cl cx i =
     and_then (wrap ''listing comments'' (call (clGetComments cl i))) (\<lambda>cs.
     if cxJson cx then emit (PrettyJson (JArr (map (comment_json (cxFmt cx)) cs)))
     else if cs = [] then println ''No comments found.''
     else say (join_str (''---'' @ nl) (map (comment_block cx) cs)))"

definition dependency_table :: "kd_ctx \<Rightarrow> dependency \<Rightarrow> string" where
  "dependency_table cx d =
     ''Bead:        '' @ dBeadID d @ nl @ ''Depends On:  '' @ dDependsOnID d @ nl
     @ ''Type:        '' @ dType d @ nl @ ''Created By:  '' @ dCreatedBy d @ nl
     @ time_line cx ''Created At:  '' (dCreatedAt d)"

definition depAdd :: "'s client \<Rightarrow> kd_ctx \<Rightarrow> string \<Rightarrow> string \<Rightarrow> string \<Rightarrow> ('s kd, unit) op" where
  "depAdd cl cx i on ty =
     and_then (wrap ''adding dependency'' (call (clAddDependency cl i on ty (cxActor cx)))) (\<lambda>d.
     if cxJson cx then emit (PrettyJson (dependency_json (cxFmt cx) d)) else say (dependency_table cx d))"

definition depRemove :: "'s client \<Rightarrow> string \<Rightarrow> string \<Rightarrow> string \<Rightarrow> ('s kd, unit) op" where
  "depRemove cl i on ty =
     andthen (wrap ''removing dependency'' (call (clRemoveDependency cl i on ty))) (println ''Removed dependency'')"

definition depList :: "'s client \<Rightarrow> kd_ctx \<Rightarrow> string \<Rightarrow> ('s kd, unit) op" where
  "depList cl cx i =
     and_then (wrap ''listing dependencies'' (call (clGetDependencies cl i))) (\<lambda>ds.
     if cxJson cx then emit (PrettyJson (JArr (map (dependency_json (cxFmt cx)) ds)))
     else if ds = [] then println ''No dependencies found.''
     else emit (Table (line_of [''DEPENDS_ON'', ''TYPE'', ''CREATED_BY'', ''CREATED_AT'']
       @ concat (map (\<lambda>d. line_of [dDependsOnID d, dType d, dCreatedBy d, stamp cx (dCreatedAt d)]) ds))))"

subsection \<open>Claiming (\<open>claim.go\<close>, \<open>advice_diff.go\<close>)\<close>

definition checkNoClaimed :: "'s client \<Rightarrow> kd_ctx \<Rightarrow> ('s kd, unit) op" where
  "checkNoClaimed cl cx =
     attempt (call (clListBeads cl
       (no_list\<lparr>lqStatus := [''in_progress''], lqAssignee := cxActor cx, lqLimit := 5\<rparr>))) (\<lambda>r.
     case r of
       Inl _ \<Rightarrow> ret ()
     | Inr (bs, _) \<Rightarrow>
         (case List.find (\<lambda>b. bKind b = ''issue'') bs of
            None \<Rightarrow> ret ()
          | Some b \<Rightarrow> errorf (''you already have claimed bead '' @ bID b @ '' '' @ go_quote (bTitle b) @ '' '' @ emdash
              @ '' unclaim it first with `kd unclaim '' @ bID b @ ''`, or use --force to override'')))"

definition checkNotEpic :: "'s client \<Rightarrow> string \<Rightarrow> ('s kd, unit) op" where
  "checkNotEpic cl i =
     and_then (try_call (clGetBead cl i)) (\<lambda>x. case x of
       None \<Rightarrow> ret ()
     | Some b \<Rightarrow>
         (if bType b = ''epic'' then
            errorf (''cannot claim an epic '' @ emdash @ '' epics are planning containers, not actionable work.'' @ nl
              @ ''Claim an individual task, feature, or bug from this epic instead.'' @ nl
              @ ''Use `kd dep list '' @ i @ ''` to see the child work items, or `--force` to override.'')
          else ret ()))"

definition bead_project :: "bead \<Rightarrow> string" where
  "bead_project b =
     (case List.find (\<lambda>l. has_prefix l ''project:'') (bLabels b) of
        None \<Rightarrow> [] | Some l \<Rightarrow> trim_prefix l ''project:'')"

definition checkProjectMatch :: "'s client \<Rightarrow> kd_ctx \<Rightarrow> string \<Rightarrow> ('s kd, unit) op" where
  "checkProjectMatch cl cx i =
     (let ap = agentProject (cxEnv cx) in
      if ap = [] then ret ()
      else and_then (try_call (clGetBead cl i)) (\<lambda>x. case x of
        None \<Rightarrow> ret ()
      | Some b \<Rightarrow>
          (if bead_project b \<noteq> [] \<and> bead_project b \<noteq> ap then
             errorf (''bead '' @ i @ '' belongs to project '' @ go_quote (bead_project b) @ '', but you are in project ''
               @ go_quote ap @ '' '' @ emdash @ '' only claim beads in your own project, or use --force to override'')
           else ret ())))"

definition buildAgentSubscriptions :: "(string \<Rightarrow> string) \<Rightarrow> string list" where
  "buildAgentSubscriptions env = kd_buildAgentSubscriptions (env ''BOAT_AGENT'') (agentProject env) (env ''BOAT_ROLE'')"

definition advice_request :: list_request where
  "advice_request = no_list\<lparr>lqType := [''advice''], lqStatus := [''open''], lqLimit := 500\<rparr>"

definition clipboard :: string where "clipboard = [CHR 0xF0, CHR 0x9F, CHR 0x93, CHR 0x8B]"

definition advice_notice :: "bead list \<Rightarrow> string" where
  "advice_notice diff =
     (if diff = [] then []
      else nl @ clipboard @ '' '' @ show_nat (length diff)
        @ '' new advice item(s) from claimed bead'' @ [CHR 0x27] @ ''s labels:'' @ nl @ nl
        @ concat (map (\<lambda>a. concat (map (\<lambda>l. l @ nl) (adviceDiffLines a))) diff) @ nl)"

text \<open>The listing is asked for only when the bead's labels add a subscription.\<close>

definition printAdviceDiff :: "'s client \<Rightarrow> kd_ctx \<Rightarrow> bead \<Rightarrow> ('s kd, unit) op" where
  "printAdviceDiff cl cx b =
     (if filter isTargetingLabel (bLabels b) = [] then ret ()
      else and_then (try_call (clListBeads cl advice_request)) (\<lambda>r.
        eprint (advice_notice
          (adviceDiff (buildAgentSubscriptions (cxEnv cx)) (bLabels b) (map_option fst r)))))"

definition claimCmd :: "'s client \<Rightarrow> kd_ctx \<Rightarrow> bool \<Rightarrow> string \<Rightarrow> ('s kd, unit) op" where
  "claimCmd cl cx force i =
     andthen (only_if (\<not> force)
       (andthen (checkNoClaimed cl cx) (andthen (checkNotEpic cl i) (checkProjectMatch cl cx i))))
    (and_then (wrap (''claiming bead '' @ i) (call (clUpdateBead cl i
        (no_update_request\<lparr>uqAssignee := Some (cxActor cx), uqStatus := Some ''in_progress''\<rparr>)))) (\<lambda>b.
     andthen (print_bead cx b) (printAdviceDiff cl cx b)))"

subsection \<open>The other workflow commands\<close>

definition print_one :: "kd_ctx \<Rightarrow> bool \<Rightarrow> string \<Rightarrow> bead \<Rightarrow> ('s kd, unit) op" where
  "print_one cx many verb b =
     (if cxJson cx then printBeadJSON cx b
      else if many then println (verb @ '' '' @ bID b)
      else printBeadTable cx b)"

definition unclaimCmd :: "'s client \<Rightarrow> kd_ctx \<Rightarrow> string list \<Rightarrow> ('s kd, unit) op" where
  "unclaimCmd cl cx ids =
     for_each (\<lambda>i. and_then (wrap (''unclaiming '' @ i) (call (clUpdateBead cl i
         (no_update_request\<lparr>uqAssignee := Some [], uqStatus := Some ''open''\<rparr>))))
       (\<lambda>b. print_one cx (length ids > 1) ''Unclaimed'' b)) ids"

definition closeCmd :: "'s client \<Rightarrow> kd_ctx \<Rightarrow> string list \<Rightarrow> ('s kd, unit) op" where
  "closeCmd cl cx ids =
     for_each (\<lambda>i. and_then (wrap (''closing '' @ i) (call (clCloseBead cl i (cxActor cx))))
       (\<lambda>b. print_one cx (length ids > 1) ''Closed'' b)) ids"

definition reopenCmd :: "'s client \<Rightarrow> kd_ctx \<Rightarrow> string list \<Rightarrow> ('s kd, unit) op" where
  "reopenCmd cl cx ids =
     for_each (\<lambda>i. and_then (wrap (''reopening '' @ i) (call (clUpdateBead cl i
         (no_update_request\<lparr>uqStatus := Some ''open''\<rparr>))))
       (\<lambda>b. print_one cx (length ids > 1) ''Reopened'' b)) ids"

definition doneCmd :: "'s client \<Rightarrow> kd_ctx \<Rightarrow> string \<Rightarrow> string list \<Rightarrow> ('s kd, unit) op" where
  "doneCmd cl cx cmt ids =
     for_each (\<lambda>i.
       andthen (only_if (cmt \<noteq> []) (andthen (wrap (''adding comment to '' @ i)
           (call (clAddComment cl i (cxActor cx) cmt))) (ret ())))
      (and_then (wrap (''closing '' @ i) (call (clCloseBead cl i (cxActor cx))))
         (\<lambda>b. print_one cx (length ids > 1) ''Done'' b))) ids"

definition print_spaced :: "kd_ctx \<Rightarrow> bool \<Rightarrow> bead \<Rightarrow> ('s kd, unit) op" where
  "print_spaced cx many b =
     (if cxJson cx then printBeadJSON cx b
      else andthen (printBeadTable cx b) (only_if many (println [])))"

definition defer_all ::
  "'s client \<Rightarrow> kd_ctx \<Rightarrow> string \<Rightarrow> string \<Rightarrow> time option \<Rightarrow> string list \<Rightarrow> ('s kd, unit) op" where
  "defer_all cl cx verb status until ids =
     for_each (\<lambda>i. and_then (wrap (verb @ '' '' @ i) (call (clUpdateBead cl i
         (no_update_request\<lparr>uqStatus := Some status, uqDeferUntil := until\<rparr>))))
       (\<lambda>b. print_spaced cx (length ids > 1) b)) ids"

definition deferCmd :: "'s client \<Rightarrow> kd_ctx \<Rightarrow> string \<Rightarrow> string list \<Rightarrow> ('s kd, unit) op" where
  "deferCmd cl cx until ids =
     (if until = [] then defer_all cl cx ''deferring'' ''deferred'' None ids
      else case parse_time until of
        None \<Rightarrow> fail (WrapErr ''parsing --until'' (OtherError ''parsing time''))
      | Some t \<Rightarrow> defer_all cl cx ''deferring'' ''deferred'' (Some t) ids)"

definition undeferCmd :: "'s client \<Rightarrow> kd_ctx \<Rightarrow> string list \<Rightarrow> ('s kd, unit) op" where
  "undeferCmd cl cx ids = defer_all cl cx ''undeferring'' ''open'' (Some 0) ids"

subsection \<open>The service\<close>

definition status_total :: "'s client \<Rightarrow> string \<Rightarrow> ('s kd, int) op" where
  "status_total cl s =
     and_then (wrap (''querying '' @ s @ '' beads'') (call (clListBeads cl (no_list\<lparr>lqStatus := [s]\<rparr>))))
       (\<lambda>(_, tot). ret tot)"

definition status_names :: "string list" where
  "status_names = [''open'', ''in_progress'', ''blocked'', ''deferred'', ''closed'']"

definition status_counts :: "string list \<Rightarrow> int list \<Rightarrow> string \<Rightarrow> int" where
  "status_counts names ns s = (case map_of (zip names ns) s of Some n \<Rightarrow> n | None \<Rightarrow> 0)"

definition status_text :: "(string \<Rightarrow> int) \<Rightarrow> int \<Rightarrow> string" where
  "status_text n tot =
     ''Beads Status'' @ nl @ ''  Open:        '' @ show_int (n ''open'') @ nl
     @ ''  In Progress: '' @ show_int (n ''in_progress'') @ nl @ ''  Deferred:    '' @ show_int (n ''deferred'') @ nl
     @ ''  Closed:      '' @ show_int (n ''closed'') @ nl @ ''  Total:       '' @ show_int tot @ nl"

definition statusCmd :: "'s client \<Rightarrow> kd_ctx \<Rightarrow> ('s kd, unit) op" where
  "statusCmd cl cx =
     and_then (collect (status_total cl) status_names) (\<lambda>ns.
     let n = status_counts status_names ns; tot = sum_list ns in
     if cxJson cx then
       emit (PrettyJson (JObj [(''closed'', JInt (n ''closed'')), (''deferred'', JInt (n ''deferred'')),
         (''in_progress'', JInt (n ''in_progress'')), (''open'', JInt (n ''open'')), (''total'', JInt tot)]))
     else say (status_text n tot))"

definition healthCmd :: "'s client \<Rightarrow> kd_ctx \<Rightarrow> ('s kd, unit) op" where
  "healthCmd cl cx =
     and_then (wrap ''checking health'' (call (clHealth cl))) (\<lambda>st.
     andthen (if cxJson cx then emit (PrettyJson (JObj [(''status'', JStr st)])) else println (''Health: '' @ st))
       (if st \<noteq> ''ok'' then errorf (''unhealthy: '' @ st) else ret ()))"

text \<open>
  \<open>config.go\<close>: \<open>cxStamp\<close> stands here for the layout it prints times in, and the keys of nested
  objects keep their order.
\<close>

definition config_out :: "kd_ctx \<Rightarrow> config \<Rightarrow> json" where
  "config_out cx k = JObj (
     (if kCreatedAt k = 0 then [] else [(''created_at'', JStr (cxStamp cx (kCreatedAt k)))])
     @ [(''key'', JStr (kKey k))]
     @ (if kUpdatedAt k = 0 then [] else [(''updated_at'', JStr (cxStamp cx (kUpdatedAt k)))])
     @ [(''value'', case kValue k of Raw j \<Rightarrow> decode_any j | _ \<Rightarrow> JNull)])"

definition printConfigJSON :: "kd_ctx \<Rightarrow> config \<Rightarrow> ('s kd, unit) op" where
  "printConfigJSON cx k = emit (PrettyJson (config_out cx k))"

definition configCreate ::
  "(string \<Rightarrow> json option) \<Rightarrow> 's client \<Rightarrow> kd_ctx \<Rightarrow> string \<Rightarrow> string \<Rightarrow> ('s kd, unit) op" where
  "configCreate parse cl cx key val =
     (case parse val of
        None \<Rightarrow> errorf ''value must be valid JSON''
      | Some j \<Rightarrow> and_then (wrap (''setting config '' @ go_quote key) (call (clSetConfig cl key (Raw j))))
          (printConfigJSON cx))"

definition configGet :: "'s client \<Rightarrow> kd_ctx \<Rightarrow> string \<Rightarrow> ('s kd, unit) op" where
  "configGet cl cx key =
     and_then (wrap (''getting config '' @ go_quote key) (call (clGetConfig cl key))) (printConfigJSON cx)"

definition configList :: "'s client \<Rightarrow> kd_ctx \<Rightarrow> string list \<Rightarrow> ('s kd, unit) op" where
  "configList cl cx args =
     (case args of
        ns # _ \<Rightarrow>
          (if ns = [] then errorf ''namespace argument is required''
           else and_then (wrap (''listing configs in '' @ go_quote ns) (call (clListConfigs cl ns))) (\<lambda>ks.
             andthen (for_each (printConfigJSON cx) ks) (only_if (ks = []) (println ''No configs found.''))))
      | [] \<Rightarrow> errorf ''namespace argument is required'')"

definition configDelete :: "'s client \<Rightarrow> string \<Rightarrow> ('s kd, unit) op" where
  "configDelete cl key =
     andthen (wrap (''deleting config '' @ go_quote key) (call (clDeleteConfig cl key)))
       (println (''Deleted config '' @ go_quote key))"

end
