(* ===== verification/Molecule.thy ===== *)
theory Molecule
  imports Formula
begin

text \<open>
  Molecules: the beads and dependencies that applying a formula creates, and the commands on
  them (\<open>cmd/kd/mol_*.go\<close>). What a client needs to promise about dependencies is a locale; the
  HTTP client in front of the model's server keeps the promise.
\<close>

subsection \<open>The contract\<close>

locale link_service =
  fixes cl :: "'s client"
    and links :: "'s \<Rightarrow> (string \<times> string \<times> string) set"
  assumes get_links: "clGetBead cl i s = (r, s') \<Longrightarrow> links s' = links s"
    and create_links: "clCreateBead cl q s = (r, s') \<Longrightarrow> links s' = links s"
    and add_links: "clAddDependency cl b on ty who s = (Inr d, s') \<Longrightarrow> links s' = insert (b, on, ty) (links s)"
begin

lemma call_Inr: "call f w = (Inr x, w') \<longleftrightarrow> f (kdNet w) = (Inr x, kdNet w') \<and> w' = w\<lparr>kdNet := kdNet w'\<rparr>"
  by (cases w, cases w') (auto simp: call_def map_sum_def split: prod.splits sum.splits)

lemma call_create:
  "wrap p (call (clCreateBead cl q)) w = (Inr b, w') \<Longrightarrow> links (kdNet w') = links (kdNet w)"
  by (auto simp: wrap_Inr call_Inr dest: create_links)

lemma call_get:
  "wrap p (call (clGetBead cl i)) w = (Inr b, w') \<Longrightarrow> links (kdNet w') = links (kdNet w)"
  by (auto simp: wrap_Inr call_Inr dest: get_links)

lemma call_add:
  "wrap p (call (clAddDependency cl b on ty who)) w = (Inr d, w') \<Longrightarrow>
   links (kdNet w') = insert (b, on, ty) (links (kdNet w))"
  by (auto simp: wrap_Inr call_Inr dest: add_links)

lemma create_steps_links:
  assumes "create_steps cl cx opts p mol ss ids w = (Inr ids', w')"
    and "distinct (map fsID ss)" "fst ` set ids \<inter> fsID ` set ss = {}"
  shows "links (kdNet w') = links (kdNet w) \<union> {(id_of ids' (fsID s), mol, ''parent-child'') |s. s \<in> set ss}
    \<and> dom (map_of ids') = dom (map_of ids) \<union> fsID ` set ss
    \<and> (\<forall>k. k \<notin> fsID ` set ss \<longrightarrow> map_of ids' k = map_of ids k)"
  using assms
proof (induction ss arbitrary: ids w)
  case Nil
  then show ?case by (simp add: ret_Inr)
next
  case (Cons s ss)
  obtain b w1 d w2 where
    c: "wrap (''creating step '' @ go_quote (fsID s)) (call (clCreateBead cl (step_request cx opts p s))) w = (Inr b, w1)"
    and a: "wrap (''linking step '' @ go_quote (fsID s) @ '' to '' @ phase opts)
        (call (clAddDependency cl (bID b) mol ''parent-child'' (cxActor cx))) w1 = (Inr d, w2)"
    and r: "create_steps cl cx opts p mol ss (AList.update (fsID s) (bID b) ids) w2 = (Inr ids', w')"
    using Cons.prems(1) by (auto simp: and_then_Inr)
  let ?ids = "AList.update (fsID s) (bID b) ids"
  have keys: "fst ` set ?ids \<inter> fsID ` set ss = {}" "distinct (map fsID ss)" "fsID s \<notin> fsID ` set ss"
    using Cons.prems(2,3) by (auto simp: dom_update)
  have IH: "links (kdNet w') = links (kdNet w2) \<union> {(id_of ids' (fsID s), mol, ''parent-child'') |s. s \<in> set ss}"
    "dom (map_of ids') = dom (map_of ?ids) \<union> fsID ` set ss"
    "\<forall>k. k \<notin> fsID ` set ss \<longrightarrow> map_of ids' k = map_of ?ids k"
    using Cons.IH [OF r keys(2,1)] by blast+
  have here: "id_of ids' (fsID s) = bID b"
    using IH(3) keys(3) by (simp add: id_of_def update_conv')
  have "links (kdNet w2) = insert (bID b, mol, ''parent-child'') (links (kdNet w))"
    using call_create [OF c] call_add [OF a] by simp
  then have "links (kdNet w') = links (kdNet w)
      \<union> insert (id_of ids' (fsID s), mol, ''parent-child'') {(id_of ids' (fsID t), mol, ''parent-child'') |t. t \<in> set ss}"
    using IH(1) here by simp
  moreover have "insert (id_of ids' (fsID s), mol, ''parent-child'') {(id_of ids' (fsID t), mol, ''parent-child'') |t. t \<in> set ss}
      = {(id_of ids' (fsID t), mol, ''parent-child'') |t. t \<in> set (s # ss)}"
    by auto
  moreover have "dom (map_of ids') = dom (map_of ids) \<union> fsID ` set (s # ss)"
    using IH(2) by (auto simp: update_conv')
  moreover have "\<forall>k. k \<notin> fsID ` set (s # ss) \<longrightarrow> map_of ids' k = map_of ids k"
    using IH(3) by (auto simp: update_conv')
  ultimately show ?case by simp
qed

lemma for_each_links:
  assumes "\<And>x w w'. f x w = (Inr (), w') \<Longrightarrow> links (kdNet w') = links (kdNet w) \<union> A x"
  shows "for_each f xs w = (Inr (), w') \<Longrightarrow> links (kdNet w') = links (kdNet w) \<union> (\<Union>x \<in> set xs. A x)"
proof (induction xs arbitrary: w)
  case (Cons x xs)
  obtain w1 where "f x w = (Inr (), w1)" "for_each f xs w1 = (Inr (), w')"
    using Cons.prems by (auto simp: and_then_Inr)
  then show ?case using assms Cons.IH by (simp add: Un_assoc)
qed (simp add: ret_Inr)

lemma link_step_links:
  assumes "link_step cl cx ids s w = (Inr (), w')"
  shows "links (kdNet w') = links (kdNet w)
    \<union> {(id_of ids (fsID s), id_of ids d, ''blocks'') |d. d \<in> set (fsDependsOn s) \<and> d \<in> dom (map_of ids)}"
proof -
  let ?f = "\<lambda>d. case map_of ids d of
         None \<Rightarrow> ret ()
       | Some on \<Rightarrow>
           and_then (wrap (''adding dependency '' @ fsID s @ arrow @ d)
             (call (clAddDependency cl (id_of ids (fsID s)) on ''blocks'' (cxActor cx)))) (\<lambda>_. ret ())"
  let ?A = "\<lambda>d. if d \<in> dom (map_of ids) then {(id_of ids (fsID s), id_of ids d, ''blocks'')} else {}"
  have "links (kdNet w') = links (kdNet w) \<union> (\<Union>d \<in> set (fsDependsOn s). ?A d)"
  proof (rule for_each_links)
    fix d w w' assume f: "?f d w = (Inr (), w')"
    show "links (kdNet w') = links (kdNet w) \<union> ?A d"
    proof (cases "map_of ids d")
      case None
      then show ?thesis using f by (simp add: ret_Inr domIff)
    next
      case (Some on)
      then obtain x where "wrap (''adding dependency '' @ fsID s @ arrow @ d)
             (call (clAddDependency cl (id_of ids (fsID s)) on ''blocks'' (cxActor cx))) w = (Inr x, w')"
        using f by (auto simp: and_then_Inr ret_Inr)
      from call_add [OF this] show ?thesis using Some by (simp add: domIff id_of_def)
    qed
  qed (use assms in \<open>simp add: link_step_def\<close>)
  then show ?thesis by auto
qed

lemma create_molecule_links:
  assumes "create_molecule cl cx opts p w = (Inr (mol, ids), w')" "distinct (map fsID (plSteps p))"
  shows "links (kdNet w') = links (kdNet w)
      \<union> {(id_of ids (fsID s), bID mol, ''parent-child'') |s. s \<in> set (plSteps p)}
      \<union> {(id_of ids (fsID s), id_of ids d, ''blocks'') |s d.
           s \<in> set (plSteps p) \<and> d \<in> set (fsDependsOn s) \<and> d \<in> fsID ` set (plSteps p)}"
proof -
  obtain w1 w2 w3 where
    c: "wrap (''creating '' @ phase opts) (call (clCreateBead cl (mol_request cx opts p))) w = (Inr mol, w1)"
    and s: "create_steps cl cx opts p (bID mol) (plSteps p) [] w1 = (Inr ids, w2)"
    and l: "for_each (link_step cl cx ids) (plSteps p) w2 = (Inr (), w')"
    using assms(1) by (auto simp: create_molecule_def and_then_Inr andthen_def ret_Inr)
  have st: "links (kdNet w2) = links (kdNet w1)
      \<union> {(id_of ids (fsID s), bID mol, ''parent-child'') |s. s \<in> set (plSteps p)}"
    "dom (map_of ids) = fsID ` set (plSteps p)"
    using create_steps_links [OF s assms(2)] by simp_all
  have "links (kdNet w') = links (kdNet w2) \<union> (\<Union>s \<in> set (plSteps p).
      {(id_of ids (fsID s), id_of ids d, ''blocks'') |d. d \<in> set (fsDependsOn s) \<and> d \<in> fsID ` set (plSteps p)})"
    by (rule for_each_links [OF _ l]) (use link_step_links [where ids = ids] st(2) in simp)
  also have "(\<Union>s \<in> set (plSteps p).
      {(id_of ids (fsID s), id_of ids d, ''blocks'') |d. d \<in> set (fsDependsOn s) \<and> d \<in> fsID ` set (plSteps p)})
      = {(id_of ids (fsID s), id_of ids d, ''blocks'') |s d.
           s \<in> set (plSteps p) \<and> d \<in> set (fsDependsOn s) \<and> d \<in> fsID ` set (plSteps p)}"
    by blast
  finally show ?thesis by (simp only: st(1) call_create [OF c])
qed

end

end
