(* ===== verification/MolServer.thy ===== *)
theory MolServer
  imports Molecule
begin

text \<open>
  The HTTP client of \<open>kd\<close> in front of the model's server: a provider of the contract of
  dependencies, so that what applying a formula creates is known down to the tables.
\<close>

subsection \<open>The HTTP client in front of the server\<close>

text \<open>
  Requests served one after the other; each finds the outcome of \<open>idgen.Generate()\<close> it may need
  at the head of a list.
\<close>

definition serve_http :: "string \<Rightarrow> 'w env \<Rightarrow> (string res list \<times> 'w server) http_net" where
  "serve_http tk e rq v =
     (case v of (gens, s) \<Rightarrow>
        (case NewHTTPHandler tk (case gens of [] \<Rightarrow> e | g # gs \<Rightarrow> e\<lparr>evGen := g\<rparr>) rq s of
           (x, s') \<Rightarrow> (x, (tl gens, s'))))"

definition server_links :: "string res list \<times> 'w server \<Rightarrow> (string \<times> string \<times> string) set" where
  "server_links v = dep_key ` set (tDeps (db (snd v)))"

definition same_links :: "'w server \<Rightarrow> 'w server \<Rightarrow> bool" where
  "same_links s s' \<longleftrightarrow> tDeps (db s') = tDeps (db s)"

interpretation same_links: state_relation same_links
  by unfold_locales (auto simp: same_links_def)

lemma same_links_stmt: "(\<And>t. tDeps (snd (f t)) = tDeps t) \<Longrightarrow> keeps same_links (stmt f)"
  by (auto simp: keeps_def stmt_def run_sql_def same_links_def
      split: prod.splits list.splits option.splits) (metis snd_conv)+

lemma same_links_select: "keeps same_links (select g)"
  unfolding select_def by (rule same_links_stmt) simp

lemma same_links_queryGetBead: "keeps same_links (queryGetBead i)"
  unfolding queryGetBead_def fetch_relations_def queryGetLabels_def queryGetDependencies_def
    queryGetComments_def
  by (intro same_links.keeps_ops same_links_select same_links_stmt)
    (simp add: sql_select_bead_def split: option.split)

lemma same_links_resolve: "keeps same_links (resolveTypeConfig ty :: ('w server, type_config option) op)"
proof -
  have "keeps read_step (resolveTypeConfig ty :: ('w server, type_config option) op)"
    by (rule reads_resolveTypeConfig)
  then show ?thesis by (simp add: keeps_def read_step_def same_links_def)
qed

lemma same_links_insert: "keeps same_links (insert_with_labels b)"
  unfolding insert_with_labels_def queryCreateBead_def queryAddLabel_def
  by (intro same_links.keeps_ops same_links_stmt)
    (auto simp: sql_insert_bead_def sql_insert_label_def split: option.split)

lemma same_rows_deps: "same_rows t t' \<Longrightarrow> tDeps t' = tDeps t"
  by (cases t, cases t') (simp add: same_rows_def)

lemma same_links_transaction:
  fixes fn :: "('w server, 'a) op"
  assumes "keeps same_links fn"
  shows "keeps same_links (RunInTransaction fn)"
proof -
  have "tDeps (db (snd (RunInTransaction fn s))) = tDeps (db s)" for s :: "'w server"
  proof (cases "RunInTransaction fn s")
    case (Pair r s')
    have k: "tDeps (db (snd (fn u))) = tDeps (db u)" for u
      using assms by (simp add: keeps_def same_links_def)
    show ?thesis
      using RunInTransaction_outcome [where fn = fn and s = s] k by (cases r) (auto simp: Pair dest: same_rows_deps)
  qed
  then show ?thesis by (simp add: keeps_def same_links_def)
qed

lemma same_but_events_deps: "same_but_events t t' \<Longrightarrow> tDeps t' = tDeps t"
  by (cases t, cases t') (simp add: same_but_events_def)

lemma same_links_announce: "keeps same_links (recordAndPublish tp i a ev)"
  by (simp add: keeps_def same_links_def same_but_events_deps [OF recordAndPublish_effect(1)])

lemma same_links_createBead: "keeps same_links (createBead gen inp)"
  unfolding createBead_def Let_def announce_created_def
  by (auto intro!: same_links.keeps_ops same_links_resolve same_links_transaction same_links_insert
      same_links_announce split: sum.split option.split)

text \<open>What the requests reach.\<close>

lemma mux_get_bead:
  "i \<noteq> [] \<Longrightarrow> serve_mux e (request_of tk ''GET'' [''v1'', ''beads'', i] q body) s = handleGetBead i s"
  by (simp add: serve_mux_def routes_def bead_routes_def takes_def request_of_def v1_def arg_def)

lemma mux_add_dependency:
  "i \<noteq> [] \<Longrightarrow> serve_mux e (request_of tk ''POST'' [''v1'', ''beads'', i, ''dependencies''] q body) s
     = handleAddDependency i body s"
  by (simp add: serve_mux_def routes_def bead_routes_def takes_def request_of_def v1_def arg_def)

lemma mux_nothing:
  "\<exists>st. serve_mux e (request_of tk ''GET'' [''v1'', ''beads'', []] q body) s = (Resp st NoBody, s) \<and> st \<ge> 400"
  "\<exists>st. serve_mux e (request_of tk ''POST'' [''v1'', ''beads'', [], ''dependencies''] q body) s
     = (Resp st NoBody, s) \<and> st \<ge> 400"
  by (auto simp: serve_mux_def routes_def bead_routes_def view_routes_def event_routes_def takes_def
      request_of_def v1_def)

lemma serve_http_run:
  "serve_http tk e (request_of tk meth p q body) (gens, s) =
     (case serve_mux (case gens of [] \<Rightarrow> e | g # gs \<Rightarrow> e\<lparr>evGen := g\<rparr>) (request_of tk meth p q body) s of
        (x, s') \<Rightarrow> (x, (tl gens, s')))"
  by (simp add: serve_http_def accepted)

lemma doJSON_state:
  "doJSON tk get meth p q body net s = (r, s') \<Longrightarrow>
     s' = s \<or> (\<exists>b x. body = Some b \<and> net (request_of tk meth p q b) s = (x, s'))"
  by (auto simp: doJSON_def split: option.splits prod.splits resp.splits)

lemma serve_same_links:
  fixes v :: "string res list \<times> 'w server"
  assumes "serve_http tk e (request_of tk meth p q body) v = (x, v')"
    and "\<And>(e :: 'w env) s. same_links s (snd (serve_mux e (request_of tk meth p q body) s))"
  shows "server_links v' = server_links v"
proof (cases v)
  case (Pair gens s)
  then show ?thesis
    using assms(1) assms(2) [of s "case gens of [] \<Rightarrow> e | g # gs \<Rightarrow> e\<lparr>evGen := g\<rparr>"]
    by (auto simp: serve_http_run server_links_def same_links_def split: prod.splits)
qed

lemma respond_same_links: "keeps same_links m \<Longrightarrow> same_links s (snd (respond m bad good s))"
  by (auto simp: keeps_def respond_def split: prod.split sum.split) (metis snd_conv)+

lemma get_same_links: "same_links s (snd (serve_mux e (request_of tk ''GET'' [''v1'', ''beads'', i] q body) s))"
proof (cases "i = []")
  case True
  then show ?thesis using mux_nothing(1) [of e tk q body s] by (auto simp: same_links.refl)
next
  case False
  then show ?thesis
    by (simp add: mux_get_bead handleGetBead_def respond_same_links same_links_queryGetBead)
qed

lemma create_same_links: "same_links s (snd (serve_mux e (request_of tk ''POST'' [''v1'', ''beads''] q body) s))"
  by (auto simp: mux_create handleCreateBead_def reply_def same_links.refl
      intro!: respond_same_links same_links_createBead split: option.split)

lemma dependency_body: "decode_dependency (Raw (JObj [(''created_by'', JStr who), (''depends_on_id'', JStr on),
    (''type'', JStr ty)])) = Some (on, ty, who)"
  by (simp add: decode_dependency_def decode_struct_def key_simps decode_string_def)

lemma add_dependency_links:
  assumes "add_dependency b on ty who s = (Inr d, s')"
  shows "dep_key ` set (tDeps (db s')) = insert (b, on, ty) (dep_key ` set (tDeps (db s)))"
proof -
  let ?d = "new_dependency (now s) b on ty who"
  obtain s1 where q: "queryAddDependency ?d s = (Inr (), s1)"
    and r: "s' = snd (recordAndPublish TopicDependencyAdded b who (DependencyAdded ?d) s1)"
    using assms by (auto simp: add_dependency_def and_then_def get_state_def Let_def ret_def
        split: prod.splits sum.splits)
  have "tDeps (db s1) = tDeps (db s) @ [?d\<lparr>dCreatedAt := pg_time (dCreatedAt ?d)\<rparr>]"
    using q by (auto simp: queryAddDependency_def stmt_def run_sql_def sql_insert_dep_def
        split: list.splits option.splits prod.splits if_splits)
  moreover have "tDeps (db s') = tDeps (db s1)"
    unfolding r by (rule same_but_events_deps [OF recordAndPublish_effect(1)])
  ultimately show ?thesis by (simp add: new_dependency_def dep_key_def)
qed

lemma http_get_links:
  fixes e :: "'w env"
  assumes "http_GetBead tk i (serve_http tk e) v = (r, v')"
  shows "server_links v' = server_links v"
proof -
  have "v' = v \<or> (\<exists>b x. serve_http tk e (request_of tk ''GET'' (bead_path i []) [] b) v = (x, v'))"
    using doJSON_state [OF assms [unfolded http_GetBead_def]] by blast
  then show ?thesis
    using serve_same_links [where e = e and v = v] get_same_links [where i = i]
    unfolding bead_path_def by blast
qed

lemma http_create_links:
  fixes e :: "'w env"
  assumes "http_CreateBead tk fmt q (serve_http tk e) v = (r, v')"
  shows "server_links v' = server_links v"
proof -
  have "v' = v \<or> (\<exists>b x. serve_http tk e (request_of tk ''POST'' (v1_path [''beads'']) [] b) v = (x, v'))"
    using doJSON_state [OF assms [unfolded http_CreateBead_def]] by blast
  then show ?thesis
    using serve_same_links [where e = e and v = v] create_same_links
    unfolding v1_path_def by blast
qed

lemma http_add_links:
  fixes e :: "'w env"
  assumes "http_AddDependency tk b on ty who (serve_http tk e) v = (Inr d, v')"
  shows "server_links v' = insert (b, on, ty) (server_links v)"
proof -
  obtain gens s where v: "v = (gens, s)" by (cases v)
  let ?body = "Raw (JObj [(''created_by'', JStr who), (''depends_on_id'', JStr on), (''type'', JStr ty)])"
  let ?e = "case gens of [] \<Rightarrow> e | g # gs \<Rightarrow> e\<lparr>evGen := g\<rparr>"
  obtain st x s' where m: "serve_mux ?e (request_of tk ''POST'' [''v1'', ''beads'', b, ''dependencies''] [] ?body) s
      = (Resp st x, s')" and ok: "\<not> (st \<noteq> 204 \<and> st \<ge> 400)" and s': "v' = (tl gens, s')"
    using assms by (auto simp: http_AddDependency_def doJSON_def plain_def bead_path_def v
        serve_http_run split: prod.splits resp.splits if_splits)
  have b: "b \<noteq> []"
  proof
    assume "b = []"
    then show False using m ok mux_nothing(2) [of ?e tk "[]" ?body s] by auto
  qed
  obtain d' where "add_dependency b on ty who s = (Inr d', s')"
    using m ok b by (auto simp: mux_add_dependency [OF b] handleAddDependency_def dependency_body
        bad_request_def reply_def error_resp_def respond_def http_fail_def
        split: if_splits prod.splits sum.splits)
  from add_dependency_links [OF this] show ?thesis by (simp add: v s' server_links_def)
qed

interpretation http_links: link_service "NewHTTPClient tk fmt (serve_http tk e)" server_links
  by unfold_locales
    (auto simp: NewHTTPClient_def dest: http_get_links http_create_links http_add_links)

subsection \<open>Requests that succeed\<close>

text \<open>What a creation needs of the configuration: a known type and a valid bead.\<close>

definition request_ok :: "tables \<Rightarrow> create_request \<Rightarrow> bool" where
  "request_ok t q \<longleftrightarrow>
     (case effective t (''type:'' @ resolve_alias (iType q)) of
        None \<Rightarrow> False
      | Some c \<Rightarrow>
          (case decode_type_config (kValue c) of
             None \<Rightarrow> False
           | Some tc \<Rightarrow>
               bead_valid (new_bead 0 [] (resolve_alias (iType q)) (tcKind tc) q)
               \<and> ValidateFields (bFields (new_bead 0 [] (resolve_alias (iType q)) (tcKind tc) q)) (tcFields tc) = []))"

text \<open>A server whose database does not fail, with the given beads, dependencies and configuration.\<close>

definition live :: "config list \<Rightarrow> 'w server \<Rightarrow> string set \<Rightarrow> (string \<times> string \<times> string) set \<Rightarrow> bool" where
  "live cs s B D \<longleftrightarrow> faults s = [] \<and> tConfigs (db s) = cs \<and> bead_ids (db s) = B
     \<and> dep_key ` set (tDeps (db s)) = D"

lemma request_ok_configs: "tConfigs t' = tConfigs t \<Longrightarrow> request_ok t' q = request_ok t q"
  by (simp add: request_ok_def effective_def find_config_def)

lemma valid_any_id: "bead_valid (new_bead tm i ty kind q) = bead_valid (new_bead 0 [] ty kind q)"
  by (simp add: bead_valid_def new_bead_def)

lemma labels_run:
  "faults s = [] \<Longrightarrow> i \<in> bead_ids (db s) \<Longrightarrow>
   \<exists>L. for_each (\<lambda>l. wrap (p l) (queryAddLabel i l)) ls s = (Inr (), s\<lparr>db := (db s)\<lparr>tLabels := L\<rparr>\<rparr>)"
proof (induction ls arbitrary: s)
  case Nil
  have "for_each (\<lambda>l. wrap (p l) (queryAddLabel i l)) [] s = (Inr (), s\<lparr>db := (db s)\<lparr>tLabels := tLabels (db s)\<rparr>\<rparr>)"
    by (simp add: ret_def)
  then show ?case by blast
next
  case (Cons l ls)
  obtain L where l: "wrap (p l) (queryAddLabel i l) s = (Inr (), s\<lparr>db := (db s)\<lparr>tLabels := L\<rparr>\<rparr>)"
  proof -
    have "wrap (p l) (queryAddLabel i l) s = (Inr (), s\<lparr>db := (db s)\<lparr>tLabels :=
        (if (i, l) \<in> set (tLabels (db s)) then tLabels (db s) else tLabels (db s) @ [(i, l)])\<rparr>\<rparr>)"
      using Cons.prems by (simp add: wrap_def queryAddLabel_def stmt_def run_sql_def sql_insert_label_def)
    then show thesis using that by blast
  qed
  let ?s = "s\<lparr>db := (db s)\<lparr>tLabels := L\<rparr>\<rparr>"
  have "faults ?s = []" "i \<in> bead_ids (db ?s)" using Cons.prems by (simp_all add: bead_ids_def)
  from Cons.IH [OF this] show ?case by (auto simp: and_then_def l)
qed

lemma announce_faults: "faults s = [] \<Longrightarrow> faults (snd (recordAndPublish tp i a ev s)) = []"
  by (auto simp: recordAndPublish_def Let_def queryRecordEvent_def stmt_now_def stmt_def run_sql_def
      split: option.split prod.split)

lemma announce_live:
  assumes "live cs s B D" shows "live cs (snd (recordAndPublish tp i a ev s)) B D"
proof -
  have "same_but_events (db s) (db (snd (recordAndPublish tp i a ev s)))"
    by (rule recordAndPublish_effect)
  then have "tConfigs (db (snd (recordAndPublish tp i a ev s))) = tConfigs (db s)"
    "tBeads (db (snd (recordAndPublish tp i a ev s))) = tBeads (db s)"
    by (auto simp: same_but_events_def) (metis tables.select_convs tables.surjective tables.update_convs)+
  then show ?thesis
    using assms announce_faults [of s tp i a ev]
      same_but_events_deps [OF recordAndPublish_effect(1) [of s tp i a ev]]
    by (simp add: live_def bead_ids_def)
qed

lemma insert_run:
  assumes "live cs s B D" "bID b \<notin> B" "bFields b \<noteq> RawBad"
  shows "\<exists>s'. RunInTransaction (insert_with_labels b) s = (Inr (), s') \<and> live cs s' (insert (bID b) B) D"
proof -
  obtain f where f: "jsonb_store (bFields b) = Some f"
    using assms(3) by (cases "bFields b") (auto simp: jsonb_store_def)
  let ?s = "s\<lparr>db := (db s)\<lparr>tBeads := tBeads (db s) @ [bead_row b f]\<rparr>\<rparr>"
  have i: "queryCreateBead b s = (Inr (), ?s)"
    using assms(1,2) f by (simp add: queryCreateBead_def stmt_def run_sql_def sql_insert_bead_def live_def)
  have row: "bID (bead_row b f) = bID b" by (simp add: bead_row_def)
  have "faults ?s = []" "bID b \<in> bead_ids (db ?s)"
    using assms(1) row by (simp_all add: live_def bead_ids_def)
  from labels_run [OF this, where p = "\<lambda>l. ''failed to add label '' @ go_quote l" and ls = "bLabels b"]
  obtain L where
    l: "for_each (\<lambda>l. wrap (''failed to add label '' @ go_quote l) (queryAddLabel (bID b) l)) (bLabels b) ?s
      = (Inr (), ?s\<lparr>db := (db ?s)\<lparr>tLabels := L\<rparr>\<rparr>)" by blast
  have "insert_with_labels b s = (Inr (), ?s\<lparr>db := (db ?s)\<lparr>tLabels := L\<rparr>\<rparr>)"
    using i l by (simp add: insert_with_labels_def and_then_def wrap_def)
  moreover have "live cs (?s\<lparr>db := (db ?s)\<lparr>tLabels := L\<rparr>\<rparr>) (insert (bID b) B) D"
    using assms(1) row by (auto simp: live_def bead_ids_def)
  ultimately show ?thesis
    using assms(1) by (auto simp: RunInTransaction_def wrap_def stmt_def run_sql_def live_def)
qed

lemma create_run:
  assumes "live cs s B D" "i \<notin> B" "request_ok (db s) q"
  shows "\<exists>b s'. createBead (Inr i) q s = (Inr b, s') \<and> bID b = i \<and> raw_ok (bFields b)
           \<and> live cs s' (insert i B) D"
proof -
  let ?ty = "resolve_alias (iType q)"
  obtain c tc where c: "effective (db s) (''type:'' @ ?ty) = Some c" "decode_type_config (kValue c) = Some tc"
    and v0: "bead_valid (new_bead 0 [] ?ty (tcKind tc) q)"
    and f0: "ValidateFields (bFields (new_bead 0 [] ?ty (tcKind tc) q)) (tcFields tc) = []"
    using assms(3) by (auto simp: request_ok_def split: option.splits)
  define b where "b = new_bead (now s) i ?ty (tcKind tc) q"
  have v: "bead_valid b" unfolding b_def valid_any_id [of "now s" i] by (rule v0)
  have f: "ValidateFields (bFields b) (tcFields tc) = []" using f0 by (simp add: b_def new_bead_def)
  have b: "bID b = i" "bTitle b = iTitle q" by (simp_all add: b_def new_bead_def)
  have b': "bFields b \<noteq> RawBad" "trim_space (bTitle b) \<noteq> []" using v by (simp_all add: bead_valid_def)
  then have title: "iTitle q \<noteq> []" unfolding b(2) by (metis trim_space_Nil)
  have r: "resolveTypeConfig ?ty s = (Inr (Some tc), s)"
    using assms(1) c by (simp add: resolve_run live_def)
  obtain s1 where t: "RunInTransaction (insert_with_labels b) s = (Inr (), s1)" "live cs s1 (insert i B) D"
    using insert_run [OF assms(1), of b] assms(2) b(1) b'(1) by auto
  have run: "createBead (Inr i) q s = announce_created b s1"
    using title v f t(1)
    by (simp add: createBead_def Let_def and_then_def wrap_def r get_state_def
        b_def [symmetric] ValidateBead_Nil)
  have "\<exists>s'. announce_created b s1 = (Inr b, s') \<and> live cs s' (insert i B) D"
    using announce_live [OF t(2)] announce_live [OF announce_live [OF t(2)]]
    by (auto simp: announce_created_def and_then_def ret_def recordAndPublish_ok prod_eq_iff
        split: prod.splits sum.splits)
  then show ?thesis using run b(1) b'(1) by (auto simp: raw_ok_def)
qed

lemma http_create_run:
  assumes "live cs s B D" "i \<notin> B" "request_ok (db s) q" "create_sendable fmt q"
  shows "\<exists>b s'. http_CreateBead tk fmt q (serve_http tk e) (Inr i # gens, s) = (Inr b, (gens, s'))
           \<and> bID b = i \<and> live cs s' (insert i B) D"
proof -
  obtain body where body: "encode_create fmt q = Some body" "decode_create body = Some q"
    using create_over_json [OF assms(4)] by blast
  obtain b s' where run: "createBead (Inr i) q s = (Inr b, s')" "bID b = i" "raw_ok (bFields b)"
    "live cs s' (insert i B) D" using create_run [OF assms(1-3)] by blast
  have "http_CreateBead tk fmt q (serve_http tk e) (Inr i # gens, s)
      = (Inr (b\<lparr>bFields := wire_bytes (bFields b)\<rparr>), (gens, s'))"
    using run by (simp add: http_CreateBead_def doJSON_def body v1_path_def serve_http_run mux_create
        handleCreateBead_def respond_def json_bead_def)
  then show ?thesis using run by auto
qed

lemma http_add_run:
  fixes s :: "'w server"
  assumes "live cs s B D" "b \<in> B" "on \<in> B" "b \<noteq> []" "on \<noteq> []" "(b, on, ty) \<notin> D"
  shows "\<exists>d s'. http_AddDependency tk b on ty who (serve_http tk e) (gens, s) = (Inr d, (tl gens, s'))
           \<and> live cs s' B (insert (b, on, ty) D)"
proof -
  let ?d = "new_dependency (now s) b on ty who"
  let ?s = "s\<lparr>db := (db s)\<lparr>tDeps := tDeps (db s) @ [?d\<lparr>dCreatedAt := pg_time (dCreatedAt ?d)\<rparr>]\<rparr>\<rparr>"
  let ?r = "recordAndPublish TopicDependencyAdded b who (DependencyAdded ?d)"
  have k: "dep_key ?d = (b, on, ty)" "dBeadID ?d = b" "dDependsOnID ?d = on"
    by (simp_all add: new_dependency_def dep_key_def)
  have q: "queryAddDependency ?d s = (Inr (), ?s)"
    using assms k by (auto simp: queryAddDependency_def stmt_def run_sql_def sql_insert_dep_def live_def)
  have l: "live cs ?s B (insert (b, on, ty) D)"
    using assms(1) k by (auto simp: live_def bead_ids_def dep_key_def)
  have "add_dependency b on ty who s = (Inr ?d, snd (?r ?s))"
    using recordAndPublish_ok [of TopicDependencyAdded b who "DependencyAdded ?d" ?s]
    by (cases "?r ?s") (simp add: add_dependency_def and_then_def get_state_def Let_def q ret_def)
  then have "http_AddDependency tk b on ty who (serve_http tk e) (gens, s) = (Inr ?d, (tl gens, snd (?r ?s)))"
    using assms(4,5) by (simp add: http_AddDependency_def doJSON_def plain_def bead_path_def serve_http_run
        mux_add_dependency handleAddDependency_def dependency_body respond_def)
  then show ?thesis using announce_live [OF l] by blast
qed

lemma call_run: "f (kdNet w) = (Inr x, n) \<Longrightarrow> wrap p (call f) w = (Inr x, w\<lparr>kdNet := n\<rparr>)"
  by (simp add: call_def wrap_def)

subsection \<open>Applying a formula succeeds\<close>

definition steps_sendable :: "tables \<Rightarrow> (time \<Rightarrow> string) \<Rightarrow> kd_ctx \<Rightarrow> apply_opts \<Rightarrow> plan \<Rightarrow> formula_step list \<Rightarrow> bool" where
  "steps_sendable t fmt cx opts p ss \<longleftrightarrow>
     (\<forall>s \<in> set ss. request_ok t (step_request cx opts p s) \<and> create_sendable fmt (step_request cx opts p s))"

lemma create_steps_run:
  fixes e :: "'w env"
  assumes "kdNet w = (concat (map (\<lambda>i. [Inr i, u]) bids) @ rest, s)" "live cs s B D" "length bids = length ss"
    "distinct bids" "set bids \<inter> B = {}" "[] \<notin> set bids" "mol \<in> B" "mol \<noteq> []" "fst ` D \<subseteq> B"
    "steps_sendable t fmt cx opts p ss" "tConfigs t = cs" "distinct (map fsID ss)"
  shows "\<exists>ids' w' s'. create_steps (NewHTTPClient tk fmt (serve_http tk e)) cx opts p mol ss ids w = (Inr ids', w')
     \<and> kdNet w' = (rest, s') \<and> live cs s' (B \<union> set bids) (D \<union> (\<lambda>i. (i, mol, ''parent-child'')) ` set bids)
     \<and> map (map_of ids') (map fsID ss) = map Some bids
     \<and> (\<forall>k. k \<notin> fsID ` set ss \<longrightarrow> map_of ids' k = map_of ids k)"
  using assms
proof (induction ss arbitrary: bids w s B D ids)
  case Nil
  then show ?case by (auto simp: ret_def)
next
  case (Cons st ss)
  let ?cl = "NewHTTPClient tk fmt (serve_http tk e)"
  obtain i js where bids: "bids = i # js" using Cons.prems(3) by (cases bids) auto
  let ?rest = "concat (map (\<lambda>i. [Inr i, u]) js) @ rest"
  have q: "request_ok (db s) (step_request cx opts p st)" "create_sendable fmt (step_request cx opts p st)"
    using Cons.prems(2,10,11) request_ok_configs [of "db s" t]
    by (auto simp: steps_sendable_def live_def)
  obtain b s1 where c: "http_CreateBead tk fmt (step_request cx opts p st) (serve_http tk e) (Inr i # u # ?rest, s)
      = (Inr b, (u # ?rest, s1))" "bID b = i" "live cs s1 (insert i B) D"
    using http_create_run [OF Cons.prems(2) _ q, of i tk e "u # ?rest"] Cons.prems(5) bids by auto
  have "(i, mol, ''parent-child'') \<notin> D" using Cons.prems(5,9) bids by force
  then obtain d s2 where a: "http_AddDependency tk i mol ''parent-child'' (cxActor cx) (serve_http tk e) (u # ?rest, s1)
      = (Inr d, (?rest, s2))" "live cs s2 (insert i B) (insert (i, mol, ''parent-child'') D)"
    using http_add_run [OF c(3), of i mol "''parent-child''" tk "cxActor cx" e "u # ?rest"]
      Cons.prems(6,7,8) bids by auto
  let ?w1 = "w\<lparr>kdNet := (u # ?rest, s1)\<rparr>" and ?w2 = "w\<lparr>kdNet := (?rest, s2)\<rparr>"
  let ?ids = "AList.update (fsID st) i ids"
  have r: "create_steps ?cl cx opts p mol (st # ss) ids w = create_steps ?cl cx opts p mol ss ?ids ?w2"
    using c(1,2) a(1) Cons.prems(1) bids
    by (simp add: NewHTTPClient_def and_then_def call_def wrap_def)
  have "\<exists>ids' w' s'. create_steps ?cl cx opts p mol ss ?ids ?w2 = (Inr ids', w')
     \<and> kdNet w' = (rest, s')
     \<and> live cs s' (insert i B \<union> set js) (insert (i, mol, ''parent-child'') D \<union> (\<lambda>i. (i, mol, ''parent-child'')) ` set js)
     \<and> map (map_of ids') (map fsID ss) = map Some js
     \<and> (\<forall>k. k \<notin> fsID ` set ss \<longrightarrow> map_of ids' k = map_of ?ids k)"
    by (rule Cons.IH) (use Cons.prems a(2) bids in \<open>auto simp: steps_sendable_def\<close>)
  then obtain ids' w' s' where IH: "create_steps ?cl cx opts p mol ss ?ids ?w2 = (Inr ids', w')"
    "kdNet w' = (rest, s')"
    "live cs s' (insert i B \<union> set js) (insert (i, mol, ''parent-child'') D \<union> (\<lambda>i. (i, mol, ''parent-child'')) ` set js)"
    "map (map_of ids') (map fsID ss) = map Some js"
    "\<forall>k. k \<notin> fsID ` set ss \<longrightarrow> map_of ids' k = map_of ?ids k"
    by blast
  have "map_of ids' (fsID st) = Some i" using IH(5) Cons.prems(12) by (simp add: update_conv')
  then show ?case
    unfolding r using IH by (intro exI [of _ ids'] exI [of _ w'] exI [of _ s']) (auto simp: bids update_conv')
qed

lemma for_each_adds:
  assumes "\<And>x gens (s :: 'w server) D w. x \<in> set xs \<Longrightarrow> kdNet w = (gens, s) \<Longrightarrow> live cs s B D \<Longrightarrow> K x \<inter> D = {} \<Longrightarrow>
      \<exists>w' gens' s'. f x w = (Inr (), w') \<and> kdNet w' = (gens', s') \<and> live cs s' B (D \<union> K x)"
    and "kdNet w = (gens, s)" "live cs s B D" "\<forall>x \<in> set xs. K x \<inter> D = {}"
    and "distinct xs" "\<forall>x \<in> set xs. \<forall>y \<in> set xs. x \<noteq> y \<longrightarrow> K x \<inter> K y = {}"
  shows "\<exists>w' gens' s'. for_each f xs w = (Inr (), w') \<and> kdNet w' = (gens', s')
    \<and> live cs s' B (D \<union> (\<Union>x \<in> set xs. K x))"
  using assms
proof (induction xs arbitrary: w gens s D)
  case Nil
  then show ?case by (auto simp: ret_def)
next
  case (Cons x xs)
  obtain w1 g1 s1 where x: "f x w = (Inr (), w1)" "kdNet w1 = (g1, s1)" "live cs s1 B (D \<union> K x)"
    using Cons.prems(1) [of x w gens s D] Cons.prems(2-4) by auto
  have "\<exists>w' gens' s'. for_each f xs w1 = (Inr (), w') \<and> kdNet w' = (gens', s')
      \<and> live cs s' B ((D \<union> K x) \<union> (\<Union>x \<in> set xs. K x))"
  proof (rule Cons.IH [OF _ x(2,3)])
    show "\<forall>y \<in> set xs. K y \<inter> (D \<union> K x) = {}"
      using Cons.prems(4,5,6) by (auto simp: Int_Un_distrib)
    show "\<forall>x \<in> set xs. \<forall>y \<in> set xs. x \<noteq> y \<longrightarrow> K x \<inter> K y = {}" "distinct xs"
      using Cons.prems(5,6) by auto
    show "\<exists>w' gens' s'. f y w = (Inr (), w') \<and> kdNet w' = (gens', s') \<and> live cs s' B (D \<union> K y)"
      if "y \<in> set xs" "kdNet w = (gens, s)" "live cs s B D" "K y \<inter> D = {}" for y gens s D w
      using Cons.prems(1) [of y w gens s D] that by simp
  qed
  then show ?case using x(1) by (auto simp: and_then_def Un_assoc)
qed

lemma link_step_run:
  fixes e :: "'w env"
  assumes w: "kdNet w = (gens, s)" "live cs s B D"
    and ids: "fsID st \<in> dom (map_of ids)" "set (fsDependsOn st) \<subseteq> dom (map_of ids)"
      "inj_on (id_of ids) (dom (map_of ids))" "id_of ids ` dom (map_of ids) \<subseteq> B" "[] \<notin> id_of ids ` dom (map_of ids)"
    and deps: "distinct (fsDependsOn st)"
      "(\<lambda>d. (id_of ids (fsID st), id_of ids d, ''blocks'')) ` set (fsDependsOn st) \<inter> D = {}"
  shows "\<exists>w' gens' s'. link_step (NewHTTPClient tk fmt (serve_http tk e)) cx ids st w = (Inr (), w')
    \<and> kdNet w' = (gens', s')
    \<and> live cs s' B (D \<union> (\<lambda>d. (id_of ids (fsID st), id_of ids d, ''blocks'')) ` set (fsDependsOn st))"
proof -
  let ?K = "\<lambda>d. {(id_of ids (fsID st), id_of ids d, ''blocks'')}"
  let ?f = "\<lambda>d. case map_of ids d of
         None \<Rightarrow> ret ()
       | Some on \<Rightarrow>
           and_then (wrap (''adding dependency '' @ fsID st @ arrow @ d)
             (call (clAddDependency (NewHTTPClient tk fmt (serve_http tk e)) (id_of ids (fsID st)) on ''blocks''
               (cxActor cx)))) (\<lambda>_. ret ())"
  have "\<exists>w' gens' s'. for_each ?f (fsDependsOn st) w = (Inr (), w') \<and> kdNet w' = (gens', s')
      \<and> live cs s' B (D \<union> (\<Union>d \<in> set (fsDependsOn st). ?K d))"
  proof (rule for_each_adds [OF _ w _ deps(1)])
    show "\<forall>d \<in> set (fsDependsOn st). ?K d \<inter> D = {}" using deps(2) by auto
    show "\<forall>x \<in> set (fsDependsOn st). \<forall>y \<in> set (fsDependsOn st). x \<noteq> y \<longrightarrow> ?K x \<inter> ?K y = {}"
      using ids(2,3) by (auto dest: inj_onD)
    fix d and gens and s :: "'w server" and D and w :: "(string res list \<times> 'w server) kd"
    assume d: "d \<in> set (fsDependsOn st)" and wk: "kdNet w = (gens, s)" "live cs s B D" "?K d \<inter> D = {}"
    then obtain on where on: "map_of ids d = Some on" "id_of ids d = on"
      using ids(2) by (auto simp: id_of_def)
    have "on \<in> B" "id_of ids (fsID st) \<in> B" "on \<noteq> []" "id_of ids (fsID st) \<noteq> []"
      using ids(1,4,5) on by (auto simp: image_iff) (metis domI)+
    then obtain x s' where "http_AddDependency tk (id_of ids (fsID st)) on ''blocks'' (cxActor cx) (serve_http tk e) (gens, s)
        = (Inr x, (tl gens, s'))" "live cs s' B (insert (id_of ids (fsID st), on, ''blocks'') D)"
      using http_add_run [OF wk(2)] wk(3) on by blast
    then show "\<exists>w' gens' s'. ?f d w = (Inr (), w') \<and> kdNet w' = (gens', s') \<and> live cs s' B (D \<union> ?K d)"
      using on wk(1) by (simp add: NewHTTPClient_def and_then_def call_def wrap_def ret_def)
  qed
  moreover have "(\<Union>d \<in> set (fsDependsOn st). ?K d)
      = (\<lambda>d. (id_of ids (fsID st), id_of ids d, ''blocks'')) ` set (fsDependsOn st)" by blast
  ultimately show ?thesis by (simp only: link_step_def)
qed

text \<open>The generated ids a run draws: one request each, the others unused.\<close>

definition drawn :: "string res \<Rightarrow> string \<Rightarrow> string list \<Rightarrow> string res list" where
  "drawn u mol bids = u # Inr mol # concat (map (\<lambda>i. [Inr i, u]) bids)"

definition plan_ok :: "tables \<Rightarrow> (time \<Rightarrow> string) \<Rightarrow> kd_ctx \<Rightarrow> apply_opts \<Rightarrow> plan \<Rightarrow> bool" where
  "plan_ok t fmt cx opts p \<longleftrightarrow>
     request_ok t (mol_request cx opts p) \<and> create_sendable fmt (mol_request cx opts p)
     \<and> steps_sendable t fmt cx opts p (plSteps p)
     \<and> distinct (map fsID (plSteps p))
     \<and> (\<forall>s \<in> set (plSteps p). set (fsDependsOn s) \<subseteq> fsID ` set (plSteps p) \<and> distinct (fsDependsOn s))"

lemma ids_facts:
  assumes "map (map_of ids) (map fsID ss) = map Some bids"
    and "\<forall>k. k \<notin> fsID ` set ss \<longrightarrow> map_of ids k = None"
  shows "map (id_of ids) (map fsID ss) = bids" "dom (map_of ids) = fsID ` set ss"
    "id_of ids ` fsID ` set ss = set bids"
proof -
  have "map (id_of ids) (map fsID ss) =
      map (\<lambda>x. case x of Some i \<Rightarrow> i | None \<Rightarrow> []) (map (map_of ids) (map fsID ss))"
    by (simp add: id_of_def)
  then show m: "map (id_of ids) (map fsID ss) = bids" unfolding assms(1) by (simp add: comp_def)
  have "map_of ids k \<noteq> None" if "k \<in> set (map fsID ss)" for k
  proof -
    have "map_of ids k \<in> set (map (map_of ids) (map fsID ss))"
      using that by (simp only: set_map [of "map_of ids"] imageI)
    then show ?thesis unfolding assms(1) by auto
  qed
  then show "dom (map_of ids) = fsID ` set ss" using assms(2) by (auto simp: dom_def)
  show "id_of ids ` fsID ` set ss = set bids" using m by (metis image_set)
qed

lemma create_molecule_run:
  fixes e :: "'w env"
  assumes "kdNet w = (tl (drawn u mol bids), s)" "live cs s B D" "fst ` D \<subseteq> B" "tConfigs t = cs"
    and "plan_ok t fmt cx opts p" "length bids = length (plSteps p)"
    and "distinct (mol # bids)" "set (mol # bids) \<inter> B = {}" "[] \<notin> set (mol # bids)"
  shows "\<exists>r w' gens' s'. create_molecule (NewHTTPClient tk fmt (serve_http tk e)) cx opts p w = (Inr r, w')
     \<and> kdNet w' = (gens', s') \<and> live cs s' (B \<union> set (mol # bids))
        (D \<union> (\<lambda>i. (i, mol, ''parent-child'')) ` set bids
         \<union> (\<Union>st \<in> set (plSteps p). (\<lambda>d. (id_of (snd r) (fsID st), id_of (snd r) d, ''blocks'')) ` set (fsDependsOn st)))
     \<and> bID (fst r) = mol \<and> map (id_of (snd r)) (map fsID (plSteps p)) = bids"
proof -
  let ?cl = "NewHTTPClient tk fmt (serve_http tk e)"
  have q: "request_ok (db s) (mol_request cx opts p)" "create_sendable fmt (mol_request cx opts p)"
    using assms(2,4,5) request_ok_configs [of "db s" t] by (auto simp: plan_ok_def live_def)
  let ?rest = "concat (map (\<lambda>i. [Inr i, u]) bids) @ []"
  obtain m s1 where c: "http_CreateBead tk fmt (mol_request cx opts p) (serve_http tk e) (Inr mol # ?rest, s)
      = (Inr m, (?rest, s1))" "bID m = mol" "live cs s1 (insert mol B) D"
    using http_create_run [OF assms(2) _ q] assms(8) by fastforce
  let ?w1 = "w\<lparr>kdNet := (?rest, s1)\<rparr>"
  have c': "wrap (''creating '' @ phase opts) (call (clCreateBead ?cl (mol_request cx opts p))) w = (Inr m, ?w1)"
    using c(1) assms(1) by (simp add: NewHTTPClient_def call_def wrap_def drawn_def)
  have "\<exists>ids w2 s2. create_steps ?cl cx opts p mol (plSteps p) [] ?w1 = (Inr ids, w2)
     \<and> kdNet w2 = ([], s2)
     \<and> live cs s2 (insert mol B \<union> set bids) (D \<union> (\<lambda>i. (i, mol, ''parent-child'')) ` set bids)
     \<and> map (map_of ids) (map fsID (plSteps p)) = map Some bids
     \<and> (\<forall>k. k \<notin> fsID ` set (plSteps p) \<longrightarrow> map_of ids k = map_of [] k)"
    by (rule create_steps_run [OF _ c(3), where t = t])
      (use assms in \<open>auto simp: plan_ok_def\<close>)
  then obtain ids w2 s2 where st: "create_steps ?cl cx opts p mol (plSteps p) [] ?w1 = (Inr ids, w2)"
    "kdNet w2 = ([], s2)"
    "live cs s2 (insert mol B \<union> set bids) (D \<union> (\<lambda>i. (i, mol, ''parent-child'')) ` set bids)"
    "map (map_of ids) (map fsID (plSteps p)) = map Some bids"
    "\<forall>k. k \<notin> fsID ` set (plSteps p) \<longrightarrow> map_of ids k = None"
    by auto
  note f = ids_facts [OF st(4,5)]
  have inj: "inj_on (id_of ids) (fsID ` set (plSteps p))"
    using assms(7) f(1) by (metis distinct.simps(2) distinct_map image_set)
  let ?K = "\<lambda>st. (\<lambda>d. (id_of ids (fsID st), id_of ids d, ''blocks'')) ` set (fsDependsOn st)"
  let ?D = "D \<union> (\<lambda>i. (i, mol, ''parent-child'')) ` set bids"
  have new: "fst x \<in> set bids" if "x \<in> ?K st'" "st' \<in> set (plSteps p)" for x st'
    using that f(3) by auto
  have "\<exists>w' gens' s'. for_each (link_step ?cl cx ids) (plSteps p) w2 = (Inr (), w') \<and> kdNet w' = (gens', s')
      \<and> live cs s' (insert mol B \<union> set bids) (?D \<union> (\<Union>st \<in> set (plSteps p). ?K st))"
  proof (rule for_each_adds [OF _ st(2,3)])
    show "\<forall>x \<in> set (plSteps p). ?K x \<inter> ?D = {}"
      using new assms(3,8) by fastforce
    show "distinct (plSteps p)" using assms(5) by (simp add: plan_ok_def distinct_map)
    show "\<forall>x \<in> set (plSteps p). \<forall>y \<in> set (plSteps p). x \<noteq> y \<longrightarrow> ?K x \<inter> ?K y = {}"
      using assms(5) inj by (auto simp: plan_ok_def distinct_map inj_on_def)
    fix st' and gens and s :: "'w server" and D and w :: "(string res list \<times> 'w server) kd"
    assume "st' \<in> set (plSteps p)" "kdNet w = (gens, s)" "live cs s (insert mol B \<union> set bids) D" "?K st' \<inter> D = {}"
    then show "\<exists>w' gens' s'. link_step ?cl cx ids st' w = (Inr (), w') \<and> kdNet w' = (gens', s')
        \<and> live cs s' (insert mol B \<union> set bids) (D \<union> ?K st')"
      by (intro link_step_run) (use assms(5,9) f inj in \<open>auto simp: plan_ok_def\<close>)
  qed
  then obtain w' gens' s' where l: "for_each (link_step ?cl cx ids) (plSteps p) w2 = (Inr (), w')"
    "kdNet w' = (gens', s')"
    "live cs s' (insert mol B \<union> set bids) (?D \<union> (\<Union>st \<in> set (plSteps p). ?K st))" by blast
  have "create_molecule ?cl cx opts p w = (Inr (m, ids), w')"
    using c' c(2) st(1) l(1) by (simp add: create_molecule_def and_then_def andthen_def ret_def)
  then show ?thesis
    using l(2,3) c(2) f(1) by (intro exI [of _ "(m, ids)"] exI [of _ w'] exI [of _ gens'] exI [of _ s']) simp
qed

lemma print_created_ok: "\<exists>w'. print_created cx opts p m ids w = (Inr (), w') \<and> kdNet w' = kdNet w"
  by (auto simp: print_created_def println_def emit_def split: option.split)

subsection \<open>An example\<close>

definition sample_formula :: formula where
  "sample_formula = no_formula\<lparr>foVars := Some [no_var\<lparr>fvName := ''x'', fvRequired := True\<rparr>],
     foSteps := sample_steps\<rparr>"

definition formula_bead :: bead where
  "formula_bead = sample_bead\<lparr>bID := ''kd-f'', bType := ''formula'', bTitle := ''Flow'',
     bFields := formula_fields sample_formula\<rparr>"

definition formula_tables :: tables where
  "formula_tables = no_tables\<lparr>tBeads := [formula_bead]\<rparr>"

definition sample_opts :: apply_opts where
  "sample_opts = \<lparr>aoFormulaID = ''kd-f'', aoVarPairs = [''x=db''], aoLabels = [], aoAssignee = [],
     aoDryRun = False, aoEphemeral = False\<rparr>"

definition sample_active :: "formula_step list" where
  "sample_active =
     [no_step\<lparr>fsID := ''a'', fsTitle := ''Design db''\<rparr>,
      no_step\<lparr>fsID := ''c'', fsTitle := ''Ship'', fsDependsOn := [''a'']\<rparr>]"

definition sample_plan :: plan where
  "sample_plan = \<lparr>plBead = formula_bead, plFormula = sample_formula, plVars = [(''x'', ''db'')],
     plSteps = sample_active, plAssignee = []\<rparr>"

definition sample_draws :: "string res list" where
  "sample_draws = drawn (Inr []) ''kd-m'' [''kd-a'', ''kd-c'']"

lemma sample_active_steps: "active_steps [(''x'', ''db'')] sample_steps = sample_active"
proof -
  have "evaluateCondition [(''x'', ''db'')] ''{{x}} == ui'' = Some False"
    by (subst evaluateCondition.simps)
      (simp add: trim_space_def is_space_rune_def has_prefix_def condition_leaf_def substituteVars.simps
        placeholder_def word_char_def is_digit_def)
  then show ?thesis
    by (simp add: active_steps_def sample_steps_def no_step_def step_skipped_def skipped_ids_def
        expand_step_def sample_active_def substituteVars.simps placeholder_def word_char_def is_digit_def
        has_prefix_def)
qed

lemma sample_plan_of: "plan_of sample_opts formula_bead = Inr sample_plan"
proof -
  have "decode_formula (bFields formula_bead) = Some sample_formula"
    using decode_formula_fields [of sample_formula]
    by (simp add: formula_bead_def sample_formula_def sample_steps_def no_step_def step_int64_def no_formula_def)
  then show ?thesis
    by (simp add: plan_of_def formula_bead_def formula_fields_def sample_opts_def sample_formula_def
        no_formula_def splitField_def with_default_def enum_ok_def no_var_def list_of_slice_def
        sample_active_steps sample_plan_def or_default_def)
      (simp add: sample_steps_def sample_active_def)
qed

lemma formula_tables_simps: "tBeads formula_tables = [formula_bead]" "tLabels formula_tables = []"
  "tDeps formula_tables = []" "tComments formula_tables = []" "tConfigs formula_tables = []"
  by (simp_all add: formula_tables_def no_tables_def)

lemma formula_sample_get:
  "http_GetBead ''t0'' (aoFormulaID sample_opts) (serve_http ''t0'' no_env) (sample_draws, idle_server formula_tables)
     = (Inr formula_bead, (tl sample_draws, idle_server formula_tables))"
proof -
  have i: "bID formula_bead = ''kd-f''" "bLabels formula_bead = []" "bDependencies formula_bead = []"
    "bComments formula_bead = []" "json_bead formula_bead = Some formula_bead"
    by (simp_all add: formula_bead_def sample_bead_def json_bead_def raw_ok_def formula_fields_def)
  have "queryGetBead ''kd-f'' (idle_server formula_tables) = (Inr formula_bead, idle_server formula_tables)"
    using i by (simp add: queryGetBead_no_faults find_bead_def formula_tables_simps labels_of_def deps_of_def comments_of_def)
  then show ?thesis
    using i by (simp add: http_GetBead_def doJSON_def bead_path_def sample_opts_def serve_http_run mux_get_bead
        handleGetBead_def respond_def)
qed

lemma sample_types:
  "effective formula_tables ''type:molecule'' = find_builtin ''type:molecule''"
  "effective formula_tables ''type:task'' = find_builtin ''type:task''"
  by (simp_all add: effective_def find_config_def formula_tables_simps)

lemma request_okI:
  assumes "resolve_alias (iType q) = ty" "effective t (''type:'' @ ty) = Some c"
    "decode_type_config (kValue c) = Some tc" "bead_valid (new_bead 0 [] ty (tcKind tc) q)"
    "ValidateFields (bFields (new_bead 0 [] ty (tcKind tc) q)) (tcFields tc) = []"
  shows "request_ok t q"
  using assms by (simp add: request_ok_def)

lemma task_type:
  "\<exists>c. effective formula_tables (''type:'' @ ''task'') = Some c
     \<and> decode_type_config (kValue c) = Some \<lparr>tcKind = ''issue'', tcFields = []\<rparr>"
  by (simp add: sample_types find_builtin_def builtinConfigs_def builtin_def decode_type_json)

lemma molecule_type:
  "\<exists>c. effective formula_tables (''type:'' @ ''molecule'') = Some c
     \<and> decode_type_config (kValue c) = Some \<lparr>tcKind = ''issue'', tcFields =
         [\<lparr>fdName = ''formula_id'', fdType = ''string'', fdRequired = False, fdValues = []\<rparr>,
          \<lparr>fdName = ''applied_vars'', fdType = ''json'', fdRequired = False, fdValues = []\<rparr>,
          \<lparr>fdName = ''ephemeral'', fdType = ''boolean'', fdRequired = False, fdValues = []\<rparr>]\<rparr>"
  by (simp add: sample_types find_builtin_def builtinConfigs_def builtin_def decode_type_json decode_field_json)

definition sample_mol_request :: create_request where
  "sample_mol_request = no_create\<lparr>iTitle := ''Flow'', iType := ''molecule'', iPriority := 2, iCreatedBy := ''ada'',
     iFields := Raw (JObj [(''applied_vars'', JObj [(''x'', JStr ''db'')]), (''formula_id'', JStr ''kd-f'')])\<rparr>"

lemma sample_requests:
  "mol_request sample_ctx sample_opts sample_plan = sample_mol_request"
  "step_request sample_ctx sample_opts sample_plan (no_step\<lparr>fsID := ''a'', fsTitle := ''Design db''\<rparr>)
     = no_create\<lparr>iTitle := ''Design db'', iType := ''task'', iPriority := 2, iCreatedBy := ''ada''\<rparr>"
  "step_request sample_ctx sample_opts sample_plan (no_step\<lparr>fsID := ''c'', fsTitle := ''Ship'', fsDependsOn := [''a'']\<rparr>)
     = no_create\<lparr>iTitle := ''Ship'', iType := ''task'', iPriority := 2, iCreatedBy := ''ada''\<rparr>"
  by (simp_all add: mol_request_def step_request_def sample_mol_request_def sample_plan_def sample_opts_def
      sample_ctx_def formula_bead_def sample_bead_def mol_fields_def mol_labels_def mergeLabels_def
      substituteVars.simps placeholder_def has_prefix_def no_create_def no_step_def step_type_def or_default_def
      priorityOrDefault_def step_roles_def sample_formula_def no_formula_def)

lemma sample_mol_ok: "request_ok formula_tables sample_mol_request"
proof -
  obtain c where c: "effective formula_tables (''type:'' @ ''molecule'') = Some c"
    "decode_type_config (kValue c) = Some \<lparr>tcKind = ''issue'', tcFields =
         [\<lparr>fdName = ''formula_id'', fdType = ''string'', fdRequired = False, fdValues = []\<rparr>,
          \<lparr>fdName = ''applied_vars'', fdType = ''json'', fdRequired = False, fdValues = []\<rparr>,
          \<lparr>fdName = ''ephemeral'', fdType = ''boolean'', fdRequired = False, fdValues = []\<rparr>]\<rparr>"
    using molecule_type by blast
  show ?thesis
  proof (rule request_okI [OF _ c])
    show "resolve_alias (iType sample_mol_request) = ''molecule''"
      by (simp add: sample_mol_request_def resolve_alias_def TypeAliases_def)
  qed (simp_all add: sample_mol_request_def no_create_def new_bead_def bead_valid_def trim_space_def
      is_space_rune_def rune_count_def Status_IsValid_def Kind_IsValid_def ValidateFields_def
      unknown_keys_def check_def_def validateFieldValue_def)
qed

lemma sample_task_ok:
  "x \<in> {''Design db'', ''Ship''} \<Longrightarrow>
   request_ok formula_tables (no_create\<lparr>iTitle := x, iType := ''task'', iPriority := 2, iCreatedBy := ''ada''\<rparr>)"
proof -
  assume x: "x \<in> {''Design db'', ''Ship''}"
  obtain c where c: "effective formula_tables (''type:'' @ ''task'') = Some c"
    "decode_type_config (kValue c) = Some \<lparr>tcKind = ''issue'', tcFields = []\<rparr>"
    using task_type by blast
  show ?thesis
    by (rule request_okI [OF _ c])
      (use x in \<open>auto simp: resolve_alias_def TypeAliases_def no_create_def new_bead_def bead_valid_def
         trim_space_def is_space_rune_def rune_count_def Status_IsValid_def Kind_IsValid_def ValidateFields_def\<close>)
qed

lemma sample_plan_ok: "plan_ok formula_tables (\<lambda>_. ''T'') sample_ctx sample_opts sample_plan"
proof -
  have steps: "plSteps sample_plan = sample_active" by (simp add: sample_plan_def)
  have "create_sendable (\<lambda>_. ''T'') sample_mol_request"
    "create_sendable (\<lambda>_. ''T'') (no_create\<lparr>iTitle := x, iType := ''task'', iPriority := 2, iCreatedBy := ''ada''\<rparr>)" for x
    by (simp_all add: create_sendable_def sample_mol_request_def no_create_def)
  then have "steps_sendable formula_tables (\<lambda>_. ''T'') sample_ctx sample_opts sample_plan sample_active"
    by (simp add: steps_sendable_def sample_active_def sample_requests sample_task_ok)
  then show ?thesis
    using sample_mol_ok \<open>create_sendable (\<lambda>_. ''T'') sample_mol_request\<close>
    by (simp add: plan_ok_def sample_requests steps) (simp add: sample_active_def no_step_def)
qed

lemma sample_live: "live [] (idle_server formula_tables) {''kd-f''} {}"
  by (simp add: live_def formula_tables_simps bead_ids_def formula_bead_def)

lemma runFormulaApply_run:
  assumes "http_GetBead tk (aoFormulaID opts) (serve_http tk e) (kdNet w) = (Inr b, n)"
    "plan_of opts b = Inr p" "\<not> aoDryRun opts"
    "create_molecule (NewHTTPClient tk fmt (serve_http tk e)) cx opts p (w\<lparr>kdNet := n\<rparr>) = (Inr r, w1)"
  shows "\<exists>w'. runFormulaApply (NewHTTPClient tk fmt (serve_http tk e)) cx opts w = (Inr (), w')
    \<and> kdNet w' = kdNet w1"
proof -
  obtain w' where "print_created cx opts p (fst r) (snd r) w1 = (Inr (), w')" "kdNet w' = kdNet w1"
    using print_created_ok by blast
  then show ?thesis
    using assms by (cases r) (simp add: runFormulaApply_def NewHTTPClient_def call_def wrap_def and_then_def lift_res_def)
qed

text \<open>
  C3: applying a formula through the HTTP client to a server whose database does not fail, with
  fresh ids, and with requests the server accepts, ends in success: the molecule and one bead per
  step that remains are added, each step is a child of the molecule, and it is blocked by the
  steps it depends on; no other dependency changes.
\<close>

theorem formula_apply_total:
  fixes e :: "'w env"
  assumes "kdNet w = (drawn u mol bids, s)" "live cs s B D" "fst ` D \<subseteq> B" "tConfigs t = cs"
    and "http_GetBead tk (aoFormulaID opts) (serve_http tk e) (drawn u mol bids, s)
           = (Inr b, (tl (drawn u mol bids), s))"
    and "plan_of opts b = Inr p" "\<not> aoDryRun opts" "plan_ok t fmt cx opts p"
    and "length bids = length (plSteps p)" "distinct (mol # bids)" "set (mol # bids) \<inter> B = {}"
    and "[] \<notin> set (mol # bids)"
  shows "\<exists>w' gens s' f. runFormulaApply (NewHTTPClient tk fmt (serve_http tk e)) cx opts w = (Inr (), w')
    \<and> kdNet w' = (gens, s') \<and> bead_ids (db s') = B \<union> {mol} \<union> set bids
    \<and> map f (map fsID (plSteps p)) = bids
    \<and> server_links (kdNet w') = D \<union> {(f (fsID st), mol, ''parent-child'') | st. st \<in> set (plSteps p)}
        \<union> {(f (fsID st), f d, ''blocks'') | st d. st \<in> set (plSteps p) \<and> d \<in> set (fsDependsOn st)}"
proof -
  let ?cl = "NewHTTPClient tk fmt (serve_http tk e)"
  let ?w = "w\<lparr>kdNet := (tl (drawn u mol bids), s)\<rparr>"
  obtain m ids w1 gens s' where run: "create_molecule ?cl cx opts p ?w = (Inr (m, ids), w1)"
    "kdNet w1 = (gens, s')" "map (id_of ids) (map fsID (plSteps p)) = bids"
    "live cs s' (B \<union> set (mol # bids)) (D \<union> (\<lambda>i. (i, mol, ''parent-child'')) ` set bids
       \<union> (\<Union>st \<in> set (plSteps p). (\<lambda>d. (id_of ids (fsID st), id_of ids d, ''blocks'')) ` set (fsDependsOn st)))"
    using create_molecule_run [of ?w u mol bids s cs B D t fmt cx opts p tk e] assms by fastforce
  obtain w' where "runFormulaApply ?cl cx opts w = (Inr (), w')" and pr: "kdNet w' = kdNet w1"
    using runFormulaApply_run [OF _ assms(6,7) run(1)] assms(1,5) by auto
  moreover have "(\<lambda>i. (i, mol, ''parent-child'')) ` set bids
      = {(id_of ids (fsID st), mol, ''parent-child'') | st. st \<in> set (plSteps p)}"
    using run(3) by auto
  moreover have "(\<Union>st \<in> set (plSteps p). (\<lambda>d. (id_of ids (fsID st), id_of ids d, ''blocks'')) ` set (fsDependsOn st))
      = {(id_of ids (fsID st), id_of ids d, ''blocks'') | st d. st \<in> set (plSteps p) \<and> d \<in> set (fsDependsOn st)}"
    by blast
  ultimately show ?thesis
    using run(2,3,4) pr by (intro exI [of _ w'] exI [of _ gens] exI [of _ s'] exI [of _ "id_of ids"])
      (simp add: live_def server_links_def)
qed

lemma formula_apply_total_witness:
  "\<exists>w' gens s' f. runFormulaApply (NewHTTPClient ''t0'' (\<lambda>_. ''T'') (serve_http ''t0'' no_env)) sample_ctx sample_opts
      (fresh_kd (sample_draws, idle_server formula_tables)) = (Inr (), w')
    \<and> kdNet w' = (gens, s') \<and> bead_ids (db s') = {''kd-f'', ''kd-m'', ''kd-a'', ''kd-c''}
    \<and> f ''a'' = ''kd-a'' \<and> f ''c'' = ''kd-c''
    \<and> (''kd-c'', ''kd-a'', ''blocks'') \<in> server_links (kdNet w')"
proof -
  have st: "plSteps sample_plan = sample_active" by (simp add: sample_plan_def)
  have dry: "\<not> aoDryRun sample_opts" by (simp add: sample_opts_def)
  have len: "length [''kd-a'', ''kd-c''] = length (plSteps sample_plan)" by (simp add: st sample_active_def)
  have net: "kdNet (fresh_kd (sample_draws, idle_server formula_tables))
      = (drawn (Inr []) ''kd-m'' [''kd-a'', ''kd-c''], idle_server formula_tables)"
    by (simp add: fresh_kd_def sample_draws_def)
  have t: "tConfigs formula_tables = []" by (rule formula_tables_simps)
  obtain w' gens s' f where run: "runFormulaApply (NewHTTPClient ''t0'' (\<lambda>_. ''T'') (serve_http ''t0'' no_env))
      sample_ctx sample_opts (fresh_kd (sample_draws, idle_server formula_tables)) = (Inr (), w')"
    "kdNet w' = (gens, s')" "bead_ids (db s') = {''kd-f''} \<union> {''kd-m''} \<union> set [''kd-a'', ''kd-c'']"
    "map f (map fsID (plSteps sample_plan)) = [''kd-a'', ''kd-c'']"
    "server_links (kdNet w') = {} \<union> {(f (fsID st), ''kd-m'', ''parent-child'') | st. st \<in> set (plSteps sample_plan)}
        \<union> {(f (fsID st), f d, ''blocks'') | st d. st \<in> set (plSteps sample_plan) \<and> d \<in> set (fsDependsOn st)}"
    using formula_apply_total [OF net sample_live _ t formula_sample_get [unfolded sample_draws_def] sample_plan_of dry sample_plan_ok len]
    by auto
  have f: "f ''a'' = ''kd-a''" "f ''c'' = ''kd-c''"
    using run(4) by (simp_all add: st sample_active_def no_step_def)
  have "(f ''c'', f ''a'', ''blocks'') \<in> server_links (kdNet w')"
    unfolding run(5) st
    by (intro UnI2 CollectI exI [of _ "no_step\<lparr>fsID := ''c'', fsTitle := ''Ship'', fsDependsOn := [''a'']\<rparr>"]
        exI [of _ "''a''"]) (simp add: sample_active_def no_step_def)
  then show ?thesis using run(1,2,3) f by auto
qed

text \<open>
  C4: whatever the server does, when applying a formula whose steps were checked succeeds, the
  dependencies it has added are those of the formula: each step that remains is a child of the
  molecule, and is blocked by exactly the steps that remain of those it depends on.
\<close>

theorem molecule_mirrors_formula:
  fixes e :: "'w env"
  assumes "runFormulaApply (NewHTTPClient tk fmt (serve_http tk e)) cx opts w = (Inr (), w')"
    and "\<not> aoDryRun opts"
  shows "\<exists>b n p mol f. clGetBead (NewHTTPClient tk fmt (serve_http tk e)) (aoFormulaID opts) (kdNet w) = (Inr b, n)
    \<and> plan_of opts b = Inr p
    \<and> (steps_ok (foSteps (plFormula p)) \<longrightarrow>
        server_links (kdNet w') = server_links (kdNet w)
          \<union> {(f (fsID st), mol, ''parent-child'') | st. st \<in> set (plSteps p)}
          \<union> {(f (fsID st), f d, ''blocks'') | st d. st \<in> set (plSteps p) \<and> d \<in> set (fsDependsOn st)})"
proof -
  let ?cl = "NewHTTPClient tk fmt (serve_http tk e)"
  obtain b w1 p m ids w2 where
    g: "wrap ''resolving formula'' (call (clGetBead ?cl (aoFormulaID opts))) w = (Inr b, w1)"
    and p: "plan_of opts b = Inr p"
    and c: "create_molecule ?cl cx opts p w1 = (Inr (m, ids), w2)"
    and o: "print_created cx opts p m ids w2 = (Inr (), w')"
    using assms by (auto simp: runFormulaApply_def and_then_Inr lift_res_def)
  obtain n where b: "clGetBead ?cl (aoFormulaID opts) (kdNet w) = (Inr b, n)"
    using g by (cases "fst (clGetBead ?cl (aoFormulaID opts) (kdNet w))") (auto simp: wrap_def call_def split: prod.splits)
  have k: "kdNet w' = kdNet w2" using print_created_ok [of cx opts p m ids w2] o by auto
  have st: "plSteps p = active_steps (plVars p) (foSteps (plFormula p))"
    using p by (auto simp: plan_of_def Let_def split: if_splits option.splits sum.splits)
  have "server_links (kdNet w') = server_links (kdNet w)
      \<union> {(id_of ids (fsID st), bID m, ''parent-child'') |st. st \<in> set (plSteps p)}
      \<union> {(id_of ids (fsID st), id_of ids d, ''blocks'') |st d. st \<in> set (plSteps p) \<and> d \<in> set (fsDependsOn st)}"
    if ok: "steps_ok (foSteps (plFormula p))"
  proof -
    have "distinct (map fsID (plSteps p))" unfolding st by (rule active_distinct [OF ok])
    note l = http_links.create_molecule_links [OF c this]
    have g': "server_links (kdNet w1) = server_links (kdNet w)" by (rule http_links.call_get [OF g])
    have "\<forall>s \<in> set (plSteps p). set (fsDependsOn s) \<subseteq> fsID ` set (plSteps p)"
      unfolding st using active_deps_known [OF ok] by blast
    then have d: "{(id_of ids (fsID s), id_of ids d, ''blocks'') |s d. s \<in> set (plSteps p)
          \<and> d \<in> set (fsDependsOn s) \<and> d \<in> fsID ` set (plSteps p)}
        = {(id_of ids (fsID st), id_of ids d, ''blocks'') |st d. st \<in> set (plSteps p) \<and> d \<in> set (fsDependsOn st)}"
      by blast
    show ?thesis unfolding k l g' d ..
  qed
  then show ?thesis
    using b p by (intro exI [of _ b] exI [of _ n] exI [of _ p] exI [of _ "bID m"] exI [of _ "id_of ids"]) simp
qed

lemma molecule_mirrors_formula_witness:
  "\<exists>w'. runFormulaApply (NewHTTPClient ''t0'' (\<lambda>_. ''T'') (serve_http ''t0'' no_env)) sample_ctx sample_opts
      (fresh_kd (sample_draws, idle_server formula_tables)) = (Inr (), w')
    \<and> (\<exists>mol f. server_links (kdNet w') =
        {(f (fsID st), mol, ''parent-child'') | st. st \<in> set sample_active}
        \<union> {(f (fsID st), f d, ''blocks'') | st d. st \<in> set sample_active \<and> d \<in> set (fsDependsOn st)})"
proof -
  let ?w = "fresh_kd (tl sample_draws, idle_server formula_tables)"
  let ?fresh = "fresh_kd (sample_draws, idle_server formula_tables)"
  have st: "plSteps sample_plan = sample_active" by (simp add: sample_plan_def)
  have "\<exists>r w1 gens s'. create_molecule (NewHTTPClient ''t0'' (\<lambda>_. ''T'') (serve_http ''t0'' no_env))
      sample_ctx sample_opts sample_plan ?w = (Inr r, w1)"
    using create_molecule_run [OF _ sample_live _ _ sample_plan_ok, of ?w "Inr []" "''kd-m''" "[''kd-a'', ''kd-c'']"]
    by (fastforce simp: fresh_kd_def sample_draws_def formula_tables_simps st sample_active_def)
  moreover have "?fresh\<lparr>kdNet := (tl sample_draws, idle_server formula_tables)\<rparr> = ?w"
    by (simp add: fresh_kd_def)
  ultimately obtain w' where run: "runFormulaApply (NewHTTPClient ''t0'' (\<lambda>_. ''T'') (serve_http ''t0'' no_env))
      sample_ctx sample_opts ?fresh = (Inr (), w')"
    using runFormulaApply_run [of "''t0''" sample_opts no_env ?fresh formula_bead
        "(tl sample_draws, idle_server formula_tables)"] formula_sample_get sample_plan_of
    by (fastforce simp: fresh_kd_def sample_opts_def)
  have dry: "\<not> aoDryRun sample_opts" by (simp add: sample_opts_def)
  have none: "server_links (kdNet ?fresh) = {}"
    by (simp add: fresh_kd_def server_links_def formula_tables_simps)
  have g: "clGetBead (NewHTTPClient ''t0'' (\<lambda>_. ''T'') (serve_http ''t0'' no_env)) (aoFormulaID sample_opts) (kdNet ?fresh)
      = (Inr formula_bead, (tl sample_draws, idle_server formula_tables))"
    using formula_sample_get by (simp add: fresh_kd_def NewHTTPClient_def)
  obtain b n p mol f where m: "clGetBead (NewHTTPClient ''t0'' (\<lambda>_. ''T'') (serve_http ''t0'' no_env)) (aoFormulaID sample_opts) (kdNet ?fresh) = (Inr b, n)
    \<and> plan_of sample_opts b = Inr p
    \<and> (steps_ok (foSteps (plFormula p)) \<longrightarrow>
        server_links (kdNet w') = server_links (kdNet ?fresh)
          \<union> {(f (fsID st), mol, ''parent-child'') | st. st \<in> set (plSteps p)}
          \<union> {(f (fsID st), f d, ''blocks'') | st d. st \<in> set (plSteps p) \<and> d \<in> set (fsDependsOn st)})"
    using molecule_mirrors_formula [OF run dry] by (elim exE) (rule that)
  have "b = formula_bead" using g m by simp
  then have p: "p = sample_plan" using m sample_plan_of by simp
  have ok: "steps_ok (foSteps (plFormula p))"
    by (simp add: p sample_plan_def sample_formula_def sample_steps_ok)
  show ?thesis
    using run mp [OF conjunct2 [OF conjunct2 [OF m]] ok] unfolding p st none Un_empty_left by blast
qed

end
