(* ===== verification/WorkServer.thy ===== *)
theory WorkServer
  imports Work MolServer
begin

text \<open>
  The workflow commands in front of the model's server. Closing beads is a contract of the
  client (a locale), which the HTTP client keeps; what \<open>kd close\<close> and \<open>kd done\<close> leave behind
  follows from it.
\<close>

subsection \<open>The contract of closing\<close>

locale close_service =
  fixes cl :: "'s client"
    and closed :: "'s \<Rightarrow> string set"
  assumes close_one: "clCloseBead cl i who s = (Inr b, s') \<Longrightarrow> closed s' = insert i (closed s)"
    and comment_keeps: "clAddComment cl i who txt s = (Inr c, s') \<Longrightarrow> closed s' = closed s"
begin

lemma call_result: "wrap p (call f) w = (Inr x, w') \<Longrightarrow> f (kdNet w) = (Inr x, kdNet w')"
  by (auto simp: wrap_Inr call_def map_sum_def split: prod.splits sum.splits)

lemma print_keeps: "print_one cx many verb b w = (r, w') \<Longrightarrow> kdNet w' = kdNet w"
  by (auto simp: print_one_def printBeadJSON_def print_json_def printBeadTable_def println_def emit_def eprint_def
      split: if_splits option.splits)

lemma close_step:
  assumes "and_then (wrap p (call (clCloseBead cl i who))) (\<lambda>b. print_one cx many verb b) w = (Inr (), w')"
  shows "closed (kdNet w') = insert i (closed (kdNet w))"
proof -
  obtain b w1 where c: "wrap p (call (clCloseBead cl i who)) w = (Inr b, w1)"
    and p: "print_one cx many verb b w1 = (Inr (), w')"
    using assms by (auto simp: and_then_Inr)
  show ?thesis using close_one [OF call_result [OF c]] print_keeps [OF p] by simp
qed

lemma comment_step:
  assumes "only_if c (andthen (wrap p (call (clAddComment cl i who txt))) (ret ())) w = (Inr (), w')"
  shows "closed (kdNet w') = closed (kdNet w)"
proof (cases c)
  case True
  then obtain x where "wrap p (call (clAddComment cl i who txt)) w = (Inr x, w')"
    using assms by (auto simp: only_if_def andthen_def and_then_Inr ret_Inr)
  from call_result [OF this] show ?thesis by (rule comment_keeps)
next
  case False
  then show ?thesis using assms by (simp add: only_if_def ret_Inr)
qed

lemma each_closes:
  assumes "\<And>i w w'. f i w = (Inr (), w') \<Longrightarrow> closed (kdNet w') = insert i (closed (kdNet w))"
    and "for_each f ids w = (Inr (), w')"
  shows "closed (kdNet w') = closed (kdNet w) \<union> set ids"
  using assms(2)
proof (induction ids arbitrary: w)
  case Nil
  then show ?case by (simp add: ret_Inr)
next
  case (Cons i ids)
  obtain w1 where "f i w = (Inr (), w1)" and "for_each f ids w1 = (Inr (), w')"
    using Cons.prems by (auto simp: and_then_Inr)
  then show ?case using assms(1) Cons.IH by fastforce
qed

lemma close_closes: "closeCmd cl cx ids w = (Inr (), w') \<Longrightarrow> closed (kdNet w') = closed (kdNet w) \<union> set ids"
  unfolding closeCmd_def by (rule each_closes) (auto dest: close_step)

lemma done_closes: "doneCmd cl cx cmt ids w = (Inr (), w') \<Longrightarrow> closed (kdNet w') = closed (kdNet w) \<union> set ids"
  unfolding doneCmd_def
proof (rule each_closes)
  fix i w w'
  assume "andthen (only_if (cmt \<noteq> []) (andthen (wrap (''adding comment to '' @ i)
        (call (clAddComment cl i (cxActor cx) cmt))) (ret ())))
      (and_then (wrap (''closing '' @ i) (call (clCloseBead cl i (cxActor cx))))
        (\<lambda>b. print_one cx (length ids > 1) ''Done'' b)) w = (Inr (), w')"
  then obtain w1 where "only_if (cmt \<noteq> []) (andthen (wrap (''adding comment to '' @ i)
        (call (clAddComment cl i (cxActor cx) cmt))) (ret ())) w = (Inr (), w1)"
    and "and_then (wrap (''closing '' @ i) (call (clCloseBead cl i (cxActor cx))))
        (\<lambda>b. print_one cx (length ids > 1) ''Done'' b) w1 = (Inr (), w')"
    by (auto simp: andthen_def [of "only_if _ _"] and_then_Inr)
  then show "closed (kdNet w') = insert i (closed (kdNet w))"
    using close_step comment_step by fastforce
qed

end

subsection \<open>The HTTP client keeps it\<close>

definition closed_ids :: "tables \<Rightarrow> string set" where
  "closed_ids t = bID ` {b \<in> set (tBeads t). bStatus b = StatusClosed}"

definition server_closed :: "string res list \<times> 'w server \<Rightarrow> string set" where
  "server_closed v = closed_ids (db (snd v))"

lemma same_but_events_beads: "same_but_events t t' \<Longrightarrow> tBeads t' = tBeads t"
  by (cases t, cases t') (simp add: same_but_events_def)

lemma closed_map_bead:
  assumes "find_bead i t = Some row"
  shows "closed_ids (map_bead i (closed_row tm who) t) = insert i (closed_ids t)"
proof -
  define g where "g b = (if bID b = i then closed_row tm who b else b)" for b
  have g: "bID (g b) = bID b" "bStatus (g b) = StatusClosed \<longleftrightarrow> bID b = i \<or> bStatus b = StatusClosed" for b
    by (simp_all add: g_def closed_row_def)
  have "closed_ids (map_bead i (closed_row tm who) t) = bID ` g ` {b \<in> set (tBeads t). bStatus (g b) = StatusClosed}"
    by (auto simp: closed_ids_def map_bead_def g_def)
  also have "\<dots> = bID ` {b \<in> set (tBeads t). bID b = i \<or> bStatus b = StatusClosed}"
    by (simp add: image_image g)
  also have "\<dots> = insert i (closed_ids t)"
    using find_bead_Some [OF assms] by (auto simp: closed_ids_def)
  finally show ?thesis .
qed

lemma close_steps_closed:
  assumes "and_then (ret ()) (\<lambda>_. and_then (queryCloseBead i who) (\<lambda>b. and_then (announce_closed who b) (\<lambda>_. ret b))) s
      = (Inr b, s')"
  shows "closed_ids (db s') = insert i (closed_ids (db s))"
proof -
  obtain b' s1 s2 where q: "stmt_now (\<lambda>tm. sql_close_bead tm i who) s = (Inr b', s1)"
    and f: "fetch_relations i b' s1 = (Inr b, s2)" and a: "s' = snd (announce_closed who b s2)"
    using assms by (auto simp: queryCloseBead_def and_then_def ret_def split: prod.splits sum.splits)
  obtain row where "find_bead i (db s) = Some row" "db s1 = map_bead i (closed_row (db_now s) who) (db s)"
    using q by (auto simp: stmt_now_def stmt_def run_sql_def sql_close_bead_def
        split: list.splits option.splits prod.splits if_splits)
  moreover have "db s2 = db s1" by (rule fetch_relations_db [OF f])
  moreover have "tBeads (db s') = tBeads (db s2)"
    unfolding a announce_closed_def by (rule same_but_events_beads [OF recordAndPublish_effect(1)])
  ultimately show ?thesis using closed_map_bead by (simp add: closed_ids_def)
qed

lemma add_comment_closed:
  assumes "add_comment i who txt s = (r, s')"
  shows "closed_ids (db s') = closed_ids (db s)"
proof -
  have q: "tBeads (db s1) = tBeads (db s)" if "queryAddComment c s = (x, s1)" for c x s1
    using that by (auto simp: queryAddComment_def stmt_now_def stmt_def run_sql_def sql_insert_comment_def Let_def
        split: list.splits option.splits prod.splits if_splits)
  let ?c = "\<lparr>cID = 0, cBeadID = i, cAuthor = who, cText = txt, cCreatedAt = now s\<rparr>"
  obtain x s1 where x: "queryAddComment ?c s = (x, s1)" by fastforce
  have "s' = s1 \<or> (\<exists>c r'. recordAndPublish TopicCommentAdded i who (CommentAdded c) s1 = (r', s'))"
    using assms x by (auto simp: add_comment_def and_then_def get_state_def ret_def split: prod.splits sum.splits)
  moreover have "tBeads (db s') = tBeads (db s1)"
    if "recordAndPublish TopicCommentAdded i who (CommentAdded c) s1 = (r', s')" for c r'
    using same_but_events_beads [OF recordAndPublish_effect(1) [of s1 TopicCommentAdded i who "CommentAdded c"]] that
    by simp
  ultimately have "tBeads (db s') = tBeads (db s)" using q [OF x] by auto
  then show ?thesis by (simp add: closed_ids_def)
qed

lemma mux_close:
  "i \<noteq> [] \<Longrightarrow> serve_mux e (request_of tk ''POST'' [''v1'', ''beads'', i, ''close''] q body) s = handleCloseBead i body s"
  "i \<noteq> [] \<Longrightarrow> serve_mux e (request_of tk ''POST'' [''v1'', ''beads'', i, ''comments''] q body) s = handleAddComment i body s"
  by (simp_all add: serve_mux_def routes_def bead_routes_def takes_def request_of_def v1_def arg_def)

lemma mux_close_nothing:
  "\<exists>st. serve_mux e (request_of tk ''POST'' [''v1'', ''beads'', [], ''close''] q body) s = (Resp st NoBody, s) \<and> st \<ge> 400"
  "\<exists>st. serve_mux e (request_of tk ''POST'' [''v1'', ''beads'', [], ''comments''] q body) s = (Resp st NoBody, s) \<and> st \<ge> 400"
  by (auto simp: serve_mux_def routes_def bead_routes_def view_routes_def event_routes_def takes_def
      request_of_def v1_def)

lemma close_body_plain:
  "close_body (Raw (JObj (map (\<lambda>(k, v). (k, JStr v)) (if who \<noteq> [] then [(''closed_by'', who)] else [])))) = (who, [])"
  by (simp add: close_body_def put_all_def)

lemma http_closes:
  fixes e :: "'w env"
  assumes "http_CloseBead tk i who (serve_http tk e) v = (Inr b, v')"
  shows "server_closed v' = insert i (server_closed v)"
proof -
  obtain gens s where v: "v = (gens, s)" by (cases v)
  let ?body = "Raw (JObj (map (\<lambda>(k, v). (k, JStr v)) (if who \<noteq> [] then [(''closed_by'', who)] else [])))"
  let ?e = "case gens of [] \<Rightarrow> e | g # gs \<Rightarrow> e\<lparr>evGen := g\<rparr>"
  obtain st x s' where m: "serve_mux ?e (request_of tk ''POST'' [''v1'', ''beads'', i, ''close''] [] ?body) s
      = (Resp st x, s')" and ok: "\<not> (st \<noteq> 204 \<and> st \<ge> 400)" and s': "v' = (tl gens, s')"
    using assms by (auto simp: http_CloseBead_def doJSON_def plain_def bead_path_def v
        serve_http_run split: prod.splits resp.splits if_splits)
  have i: "i \<noteq> []"
  proof
    assume "i = []"
    then show False using m ok mux_close_nothing(1) [of ?e tk "[]" ?body s] by auto
  qed
  have "handleCloseBead i ?body s = (Resp st x, s')" using m unfolding mux_close(1) [OF i] .
  then obtain b' where "and_then (ret ()) (\<lambda>_. and_then (queryCloseBead i who)
      (\<lambda>b. and_then (announce_closed who b) (\<lambda>_. ret b))) s = (Inr b', s')"
    using ok i unfolding handleCloseBead_def close_body_plain prod.case
    by (auto simp: bad_request_def reply_def error_resp_def respond_def bead_or_def http_fail_def
        split: if_splits prod.splits sum.splits)
  from close_steps_closed [OF this] show ?thesis by (simp add: v s' server_closed_def)
qed

lemma http_comment_closed:
  fixes e :: "'w env"
  assumes "http_AddComment tk i who txt (serve_http tk e) v = (Inr c, v')"
  shows "server_closed v' = server_closed v"
proof -
  obtain gens s where v: "v = (gens, s)" by (cases v)
  let ?body = "Raw (JObj (map (\<lambda>(k, v). (k, JStr v)) [(''author'', who), (''text'', txt)]))"
  let ?e = "case gens of [] \<Rightarrow> e | g # gs \<Rightarrow> e\<lparr>evGen := g\<rparr>"
  obtain st x s' where m: "serve_mux ?e (request_of tk ''POST'' [''v1'', ''beads'', i, ''comments''] [] ?body) s
      = (Resp st x, s')" and ok: "\<not> (st \<noteq> 204 \<and> st \<ge> 400)" and s': "v' = (tl gens, s')"
    using assms by (auto simp: http_AddComment_def doJSON_def plain_def bead_path_def v
        serve_http_run split: prod.splits resp.splits if_splits)
  have i: "i \<noteq> []"
  proof
    assume "i = []"
    then show False using m ok mux_close_nothing(2) [of ?e tk "[]" ?body s] by auto
  qed
  have "handleAddComment i ?body s = (Resp st x, s')" using m unfolding mux_close(2) [OF i] .
  then obtain author tx r where "add_comment i author tx s = (r, s')"
    using ok i
    by (auto simp: handleAddComment_def bad_request_def reply_def error_resp_def respond_def
        split: if_splits option.splits prod.splits sum.splits)
  from add_comment_closed [OF this] show ?thesis by (simp add: v s' server_closed_def)
qed

interpretation http_close: close_service "NewHTTPClient tk fmt (serve_http tk e)" server_closed
  by unfold_locales (simp_all add: NewHTTPClient_def http_closes http_comment_closed)


lemma sample_close:
  "\<exists>b v'. http_CloseBead ''t0'' ''kd-1'' ''ada'' (serve_http ''t0'' no_env) ([], idle_server sample_tables) = (Inr b, v')"
proof -
  have f: "find_bead ''kd-1'' sample_tables = Some sample_bead"
    by (simp add: find_bead_def sample_tables_def sample_bead_def)
  obtain b s1 where q: "queryCloseBead ''kd-1'' ''ada'' (idle_server sample_tables) = (Inr b, s1)"
    and b: "bFields b = RawNil"
    by (simp add: queryCloseBead_def and_then_def no_faults sql_close_bead_def f fetch_relations_def
        queryGetLabels_def queryGetDependencies_def queryGetComments_def ret_def closed_row_def sample_bead_def)
  obtain s2 where a: "announce_closed ''ada'' b s1 = (Inr (), s2)"
    using recordAndPublish_ok [of TopicBeadClosed "bID b" "''ada''" "BeadClosed b ''ada''" s1]
    unfolding announce_closed_def by (metis prod.collapse)
  let ?body = "Raw (JObj (map (\<lambda>(k, v). (k, JStr v)) (if ''ada'' \<noteq> [] then [(''closed_by'', ''ada'')] else [])))"
  have h: "handleCloseBead ''kd-1'' ?body (idle_server sample_tables) = (Resp 200 (BeadBody b), s2)"
    unfolding handleCloseBead_def close_body_plain prod.case
    by (simp add: respond_def and_then_def ret_def q a)
  have "json_bead b = Some b" using b by (simp add: json_bead_def raw_ok_def)
  then show ?thesis
    using h by (simp add: http_CloseBead_def doJSON_def plain_def bead_path_def serve_http_run mux_close)
qed


end
