(* ===== verification/Mol.thy ===== *)
theory Mol
  imports Formula
begin

text \<open>
  The commands on molecules (\<open>cmd/kd/mol_*.go\<close>) and the views of a bead's dependencies
  (\<open>tree.go\<close>, \<open>children.go\<close>): deleting a molecule with its children, linking two molecules,
  closing the children behind a digest, and the tree of what a bead depends on, which is bounded
  by its depth however the dependencies run in circles.
\<close>

subsection \<open>Children of a molecule\<close>

definition get_molecule :: "'s client \<Rightarrow> string \<Rightarrow> ('s kd, bead) op" where
  "get_molecule cl i =
     and_then (wrap ''getting molecule'' (call (clGetBead cl i))) (\<lambda>b.
     if bType b \<noteq> ''molecule'' then
       errorf (''bead '' @ i @ '' is type '' @ go_quote (bType b) @ '', not molecule'')
     else ret b)"

definition child_deps :: "dependency list \<Rightarrow> dependency list" where
  "child_deps deps = filter (\<lambda>d. dType d = ''parent-child'') deps"

definition get_children :: "'s client \<Rightarrow> string \<Rightarrow> ('s kd, dependency list) op" where
  "get_children cl i =
     and_then (wrap ''getting children'' (call (clGetReverseDependencies cl i))) (\<lambda>deps. ret (child_deps deps))"

text \<open>A call whose failure is printed and passed over.\<close>

definition or_warn :: "string \<Rightarrow> ('s \<Rightarrow> 'a cres \<times> 's) \<Rightarrow> ('s kd, bool) op" where
  "or_warn what f =
     attempt (call f) (\<lambda>r. case r of
       Inl e \<Rightarrow> andthen (println (''  warning: failed to '' @ what @ '': '' @ err_text e)) (ret False)
     | Inr _ \<Rightarrow> ret True)"

subsection \<open>Burning (\<open>mol_burn.go\<close>)\<close>

definition molBurn :: "'s client \<Rightarrow> string \<Rightarrow> bool \<Rightarrow> bool \<Rightarrow> ('s kd, unit) op" where
  "molBurn cl i dry force =
     and_then (get_molecule cl i) (\<lambda>b.
     and_then (get_children cl i) (\<lambda>deps.
     let kids = map dBeadID deps; n = show_nat (length kids) in
     if dry then
       say (''Would burn molecule '' @ i @ '': '' @ bTitle b @ nl @ ''  Children to delete: '' @ n @ nl
         @ concat (map (\<lambda>c. ''    '' @ c @ nl) kids))
     else if \<not> force \<and> kids \<noteq> [] then
       println (''About to delete molecule '' @ i @ '' and '' @ n @ '' children. Use --force to confirm.'')
     else
       andthen (collect (\<lambda>c. or_warn (''delete child '' @ c) (clDeleteBead cl c)) kids)
      (andthen (wrap ''deleting molecule'' (call (clDeleteBead cl i)))
         (println (''Burned molecule '' @ i @ '' ('' @ n @ '' children deleted)'')))))"

subsection \<open>Bonding (\<open>mol_bond.go\<close>)\<close>

definition bond_dep :: "string \<Rightarrow> string option" where
  "bond_dep ty =
     (if ty = ''sequential'' \<or> ty = [] then Some ''blocks''
      else if ty = ''parallel'' then Some ''related'' else None)"

definition molBond :: "'s client \<Rightarrow> kd_ctx \<Rightarrow> string \<Rightarrow> string \<Rightarrow> string \<Rightarrow> ('s kd, unit) op" where
  "molBond cl cx a b ty =
     (case bond_dep ty of
        None \<Rightarrow> errorf (''unknown bond type '' @ go_quote ty @ '' (use sequential or parallel)'')
      | Some dep \<Rightarrow>
          andthen (wrap ''bonding molecules'' (call (clAddDependency cl b a dep (cxActor cx))))
            (println (''Bonded '' @ a @ '' '' @ arrow @ '' '' @ b @ '' ('' @ dep @ '')'')))"

subsection \<open>Squashing (\<open>mol_squash.go\<close>)\<close>

text \<open>The children that can be read.\<close>

definition read_children :: "'s client \<Rightarrow> dependency list \<Rightarrow> ('s kd, bead list) op" where
  "read_children cl deps =
     and_then (collect (\<lambda>d. try_call (clGetBead cl (dBeadID d))) deps)
       (\<lambda>bs. ret (concat (map (\<lambda>b. case b of None \<Rightarrow> [] | Some c \<Rightarrow> [c]) bs)))"

definition squash_digest :: "bead \<Rightarrow> bead list \<Rightarrow> string \<Rightarrow> string" where
  "squash_digest b kids summary =
     (if summary \<noteq> [] then summary
      else ''Squash digest for '' @ bTitle b @ '':'' @ nl
        @ join_str nl (map (\<lambda>c. ''- ['' @ bStatus c @ ''] '' @ bTitle c) kids))"

definition close_children :: "'s client \<Rightarrow> kd_ctx \<Rightarrow> bead list \<Rightarrow> ('s kd, nat) op" where
  "close_children cl cx kids =
     and_then (collect (\<lambda>c. or_warn (''close '' @ bID c) (clCloseBead cl (bID c) (cxActor cx)))
        (filter (\<lambda>c. bStatus c \<noteq> ''closed'') kids))
       (\<lambda>oks. ret (length (filter id oks)))"

definition molSquash ::
  "'s client \<Rightarrow> kd_ctx \<Rightarrow> string \<Rightarrow> string \<Rightarrow> bool \<Rightarrow> bool \<Rightarrow> ('s kd, unit) op" where
  "molSquash cl cx i summary close_mol dry =
     and_then (get_molecule cl i) (\<lambda>b.
     and_then (get_children cl i) (\<lambda>deps.
     and_then (read_children cl deps) (\<lambda>kids.
     let digest = squash_digest b kids summary in
     if dry then
       say (''Would squash molecule '' @ i @ '': '' @ bTitle b @ nl
         @ ''  Children: '' @ show_nat (length kids) @ nl @ ''  Digest:'' @ nl @ digest @ nl
         @ opt_line close_mol ''  Would also close the molecule'')
     else
       andthen (wrap ''adding digest comment'' (call (clAddComment cl i (cxActor cx) digest)))
      (and_then (close_children cl cx kids) (\<lambda>n.
       andthen (only_if close_mol (andthen (wrap ''closing molecule'' (call (clCloseBead cl i (cxActor cx)))) (ret ())))
         (say (''Squashed molecule '' @ i @ '': '' @ show_nat n @ '' children closed'' @ nl
            @ opt_line close_mol ''  Molecule closed'')))))))"

subsection \<open>Listing and showing (\<open>mol_list.go\<close>, \<open>mol_show.go\<close>)\<close>

definition formula_id_field :: "string \<Rightarrow> json \<Rightarrow> string \<Rightarrow> string option" where
  "formula_id_field k j f = (if fold_eq k ''formula_id'' then decode_string j f else Some f)"

definition molFormulaID :: "bead \<Rightarrow> string" where
  "molFormulaID b =
     (if raw_empty (bFields b) then []
      else case decode_struct formula_id_field (bFields b) [] of Some f \<Rightarrow> f | None \<Rightarrow> [])"

definition mol_cells :: "bead \<Rightarrow> string" where
  "mol_cells b = line_of [bID b, bStatus b, clip 40 (bTitle b), molFormulaID b, bAssignee b]"

definition printMolList :: "bead list \<Rightarrow> int \<Rightarrow> ('s kd, unit) op" where
  "printMolList bs tot =
     (if bs = [] then println ''No molecules found.''
      else andthen (emit (Table (line_of [''ID'', ''STATUS'', ''TITLE'', ''FORMULA'', ''ASSIGNEE'']
               @ concat (map mol_cells bs))))
             (say (beads_footer (length bs) ''molecules'' tot)))"

definition molList :: "'s client \<Rightarrow> kd_ctx \<Rightarrow> string list \<Rightarrow> string list \<Rightarrow> ('s kd, unit) op" where
  "molList cl cx labels statuses =
     and_then (wrap ''listing molecules'' (call (clListBeads cl
       (no_list\<lparr>lqType := [''molecule''], lqStatus := or_default statuses [''open'', ''in_progress''],
          lqLabels := labels, lqLimit := 100\<rparr>)))) (\<lambda>(bs, tot).
     if cxJson cx then printBeadListJSON cx bs else printMolList bs tot)"

text \<open>
  \<open>mol show\<close> prints the variables in the order of the map, which Go leaves open: here it is the
  order of the list.
\<close>

definition applied_field :: "string \<Rightarrow> json \<Rightarrow> string \<times> raw \<Rightarrow> (string \<times> raw) option" where
  "applied_field k j x =
     (case x of (f, vs) \<Rightarrow>
        if fold_eq k ''formula_id'' then map_option (\<lambda>y. (y, vs)) (decode_string j f)
        else if fold_eq k ''applied_vars'' then Some (f, Raw j)
        else Some x)"

definition applied_text :: "bead \<Rightarrow> string" where
  "applied_text b =
     (if raw_empty (bFields b) then []
      else case decode_struct applied_field (bFields b) ([], RawNil) of
        None \<Rightarrow> []
      | Some (f, vs) \<Rightarrow>
          (if f \<noteq> [] then nl @ ''Formula:     '' @ f @ nl else [])
          @ (if raw_empty vs then []
             else case string_map vs of
               Some (kv # kvs) \<Rightarrow>
                 ''Variables:'' @ nl @ concat (map (\<lambda>(k, v). ''  '' @ k @ '' = '' @ v @ nl) (kv # kvs))
             | _ \<Rightarrow> []))"

definition dash :: string where "dash = [CHR 0xE2, CHR 0x80, CHR 0x94]"

definition child_line :: "dependency \<Rightarrow> bead option \<Rightarrow> string" where
  "child_line d x =
     (case x of
        None \<Rightarrow> ''  '' @ dBeadID d @ '' (could not resolve)'' @ nl
      | Some c \<Rightarrow> ''  '' @ bID c @ '' ['' @ bStatus c @ ''] '' @ bType c @ '' '' @ dash @ '' '' @ bTitle c @ nl)"

definition print_children :: "'s client \<Rightarrow> dependency list \<Rightarrow> ('s kd, unit) op" where
  "print_children cl deps =
     andthen (say (nl @ ''Steps:'' @ nl))
       (for_each (\<lambda>d. and_then (try_call (clGetBead cl (dBeadID d))) (\<lambda>c. say (child_line d c))) (child_deps deps))"

definition molShow :: "'s client \<Rightarrow> kd_ctx \<Rightarrow> string \<Rightarrow> ('s kd, unit) op" where
  "molShow cl cx i =
     and_then (get_molecule cl i) (\<lambda>b.
     if cxJson cx then printBeadJSON cx b
     else andthen (printBeadTable cx b) (andthen (say (applied_text b))
       (and_then (try_call (clGetReverseDependencies cl i)) (\<lambda>r.
          case r of
            None \<Rightarrow> ret ()
          | Some deps \<Rightarrow> only_if (deps \<noteq> []) (print_children cl deps)))))"

subsection \<open>The dependency tree (\<open>tree.go\<close>)\<close>

definition pipe :: string where "pipe = [CHR 0xE2, CHR 0x94, CHR 0x82]"
definition branch :: string where
  "branch = [CHR 0xE2, CHR 0x94, CHR 0x9C, CHR 0xE2, CHR 0x94, CHR 0x80, CHR 0xE2, CHR 0x94, CHR 0x80, CHR '' '']"
definition corner :: string where
  "corner = [CHR 0xE2, CHR 0x94, CHR 0x94, CHR 0xE2, CHR 0x94, CHR 0x80, CHR 0xE2, CHR 0x94, CHR 0x80, CHR '' '']"

definition tree_line :: "string \<Rightarrow> bool \<Rightarrow> dependency \<Rightarrow> bead option \<Rightarrow> string" where
  "tree_line pre last_one d x =
     pre @ (if last_one then corner else branch) @ dType d @ '': ''
     @ (case x of
          None \<Rightarrow> dDependsOnID d @ '' (error fetching)''
        | Some b \<Rightarrow> bID b @ '' ['' @ bStatus b @ ''] '' @ bTitle b) @ nl"

definition child_prefix :: "string \<Rightarrow> bool \<Rightarrow> string" where
  "child_prefix pre last_one = pre @ (if last_one then ''    '' else pipe @ ''   '')"

function printDepTree :: "'s client \<Rightarrow> dependency list \<Rightarrow> string \<Rightarrow> int \<Rightarrow> ('s kd, unit) op" where
  "printDepTree cl deps pre depth =
     (case deps of
        [] \<Rightarrow> ret ()
      | d # ds \<Rightarrow>
          and_then (try_call (clGetBead cl (dDependsOnID d))) (\<lambda>x.
          andthen (say (tree_line pre (ds = []) d x))
         (andthen
            (case x of
               None \<Rightarrow> ret ()
             | Some b \<Rightarrow>
                 (if depth > 0 then printDepTree cl (bDependencies b) (child_prefix pre (ds = [])) (depth - 1)
                  else ret ()))
            (printDepTree cl ds pre depth))))"
  by pat_completeness auto
termination
  by (relation "measures [\<lambda>(_, _, _, n). nat n, \<lambda>(_, ds, _, _). length ds]") auto

declare printDepTree.simps [simp del]

definition filterDepsByType :: "dependency list \<Rightarrow> string list \<Rightarrow> dependency list" where
  "filterDepsByType deps types = filter (\<lambda>d. dType d \<in> set types) deps"

text \<open>An error is printed and the process exits with status 1.\<close>

definition die :: "string \<Rightarrow> err \<Rightarrow> ('s kd, 'a) op" where
  "die what e = andthen (eprint (what @ '': '' @ err_text e @ nl)) os_exit"

definition or_die :: "('s kd, 'a) op \<Rightarrow> ('s kd, 'a) op" where
  "or_die m = attempt m (\<lambda>r. case r of Inl e \<Rightarrow> die ''Error'' e | Inr x \<Rightarrow> ret x)"

definition type_filter :: "string \<Rightarrow> string list" where
  "type_filter ty = (if ty = [] then [] else [ty])"

definition runTreeGraph :: "'s client \<Rightarrow> string \<Rightarrow> int \<Rightarrow> string \<Rightarrow> ('s kd, unit) op" where
  "runTreeGraph cl i depth ty =
     and_then (or_die (call (clGetBead cl i))) (\<lambda>b.
     andthen (println (bID b @ '' ['' @ bStatus b @ ''] '' @ bTitle b))
       (printDepTree cl (if ty = [] then bDependencies b else filterDepsByType (bDependencies b) [ty]) []
          (depth - 1)))"

text \<open>The flat form, and the beads that depend on one (\<open>children.go\<close>), show the same columns.\<close>

definition dep_json :: "string \<Rightarrow> (dependency \<Rightarrow> string) \<Rightarrow> resolved_dep \<Rightarrow> json" where
  "dep_json key end x =
     (case x of (d, b) \<Rightarrow> JObj (
        [(key, JStr (end d)), (''type'', JStr (dType d))]
        @ opt_str ''status'' (case b of None \<Rightarrow> [] | Some c \<Rightarrow> bStatus c)
        @ opt_str ''title'' (case b of None \<Rightarrow> [] | Some c \<Rightarrow> bTitle c)))"

definition dep_cells :: "(dependency \<Rightarrow> string) \<Rightarrow> resolved_dep \<Rightarrow> string" where
  "dep_cells end x =
     (case x of
        (d, None) \<Rightarrow> line_of [end d, dType d, ''(unknown)'', ''(error fetching)'']
      | (d, Some b) \<Rightarrow> line_of [end d, dType d, bStatus b, clip 50 (bTitle b)])"

definition runTreeFlat :: "'s client \<Rightarrow> kd_ctx \<Rightarrow> string \<Rightarrow> string \<Rightarrow> ('s kd, unit) op" where
  "runTreeFlat cl cx i ty =
     and_then (or_die (fetchAndResolveDeps cl i (type_filter ty))) (\<lambda>deps.
     if deps = [] then println ''No dependencies found.''
     else if cxJson cx then emit (PrettyJson (JArr (map (dep_json ''depends_on_id'' dDependsOnID) deps)))
     else emit (Table (line_of [''DEPENDS_ON'', ''TYPE'', ''STATUS'', ''TITLE'']
            @ concat (map (dep_cells dDependsOnID) deps))))"

definition treeCmd :: "'s client \<Rightarrow> kd_ctx \<Rightarrow> string \<Rightarrow> int \<Rightarrow> bool \<Rightarrow> string \<Rightarrow> ('s kd, unit) op" where
  "treeCmd cl cx i depth flat ty = (if flat then runTreeFlat cl cx i ty else runTreeGraph cl i depth ty)"

definition childrenCmd :: "'s client \<Rightarrow> kd_ctx \<Rightarrow> string \<Rightarrow> string \<Rightarrow> ('s kd, unit) op" where
  "childrenCmd cl cx i ty =
     and_then (wrap ''fetching reverse dependencies'' (call (clGetReverseDependencies cl i))) (\<lambda>deps.
     and_then (collect (\<lambda>d. and_then (try_call (clGetBead cl (dBeadID d))) (\<lambda>b. ret (d, b)))
        (filter (\<lambda>d. type_filter ty = [] \<or> dType d \<in> set (type_filter ty)) deps)) (\<lambda>xs.
     if xs = [] then println ''No dependents found.''
     else if cxJson cx then emit (PrettyJson (JArr (map (dep_json ''bead_id'' dBeadID) xs)))
     else emit (Table (line_of [''BEAD_ID'', ''TYPE'', ''STATUS'', ''TITLE''] @ concat (map (dep_cells dBeadID) xs)))))"

subsection \<open>The tree is bounded\<close>

text \<open>Lines of a tree of the given depth whose beads have at most \<open>k\<close> dependencies, per root.\<close>

fun tree_bound :: "nat \<Rightarrow> nat \<Rightarrow> nat" where
  "tree_bound k 0 = 1"
| "tree_bound k (Suc n) = 1 + k * tree_bound k n"

lemma tree_bound_pos: "0 < tree_bound k n"
  by (cases n) auto

lemma printDepTree_bounded:
  assumes "\<forall>i s b s'. clGetBead cl i s = (Inr b, s') \<longrightarrow> length (bDependencies b) \<le> k"
  shows "\<exists>w'. printDepTree cl deps pre depth w = (Inr (), w')
    \<and> length (kdOut w') \<le> length (kdOut w) + length deps * tree_bound k (nat depth)"
  using assms
proof (induction cl deps pre depth arbitrary: w rule: printDepTree.induct)
  case (1 cl deps pre depth)
  show ?case
  proof (cases deps)
    case Nil
    then show ?thesis by (simp add: printDepTree.simps ret_def)
  next
    case (Cons d ds)
    obtain r s where c: "clGetBead cl (dDependsOnID d) (kdNet w) = (r, s)" by fastforce
    define x where "x = (case r of Inl _ \<Rightarrow> None | Inr b \<Rightarrow> Some b)"
    have t: "try_call (clGetBead cl (dDependsOnID d)) w = (Inr x, w\<lparr>kdNet := s\<rparr>)"
      using c by (auto simp: try_call_def call_def attempt_def ret_def x_def split: sum.splits)
    define w1 where "w1 = w\<lparr>kdNet := s, kdOut := kdOut w @ [Text (tree_line pre (ds = []) d x)]\<rparr>"
    define sub where "sub = (case x of None \<Rightarrow> ret () | Some b \<Rightarrow>
        if depth > 0 then printDepTree cl (bDependencies b) (child_prefix pre (ds = [])) (depth - 1) else ret ())"
    have "\<exists>w2. sub w1 = (Inr (), w2)
      \<and> length (kdOut w2) + 1 \<le> length (kdOut w1) + tree_bound k (nat depth)"
    proof (cases "\<exists>b. x = Some b \<and> depth > 0")
      case True
      then obtain b where b: "x = Some b" "depth > 0" by blast
      have le: "length (bDependencies b) \<le> k"
        using 1(3) c b(1) by (auto simp: x_def split: sum.splits)
      obtain w2 where w2: "printDepTree cl (bDependencies b) (child_prefix pre (ds = [])) (depth - 1) w1 = (Inr (), w2)"
        "length (kdOut w2) \<le> length (kdOut w1) + length (bDependencies b) * tree_bound k (nat (depth - 1))"
        using 1(1) [OF Cons b(1) b(2) 1(3), where w = w1] by blast
      have "nat depth = Suc (nat (depth - 1))" using b(2) by simp
      then show ?thesis
        using w2(1) b order_trans [OF w2(2) add_mono [OF order_refl mult_le_mono1 [OF le]]] by (auto simp: sub_def)
    next
      case False
      then have "sub = ret ()" by (auto simp: sub_def split: option.splits)
      then show ?thesis using tree_bound_pos [of k "nat depth"] by (auto simp: ret_def)
    qed
    then obtain w2 where w2: "sub w1 = (Inr (), w2)"
      "length (kdOut w2) + 1 \<le> length (kdOut w1) + tree_bound k (nat depth)" by blast
    obtain w3 where w3: "printDepTree cl ds pre depth w2 = (Inr (), w3)"
      "length (kdOut w3) \<le> length (kdOut w2) + length ds * tree_bound k (nat depth)"
      using 1(2) [OF Cons 1(3), where w = w2] by blast
    have "printDepTree cl deps pre depth w = (Inr (), w3)"
      using t w2(1) w3(1) unfolding sub_def w1_def
      by (subst printDepTree.simps) (simp add: Cons and_then_def andthen_def emit_def)
    moreover have "length (kdOut w1) = length (kdOut w) + 1" by (simp add: w1_def)
    ultimately show ?thesis using w2(2) w3(2) Cons by simp
  qed
qed

text \<open>
  C40: The tree of a bead is printed and is bounded by its depth, however the dependencies run in
  circles: when no bead has more than \<open>k\<close> dependencies, it has at most one line for the bead and
  \<open>k * (1 + k + ... + k ^ (depth - 1))\<close> for what it depends on, one per bead that is read.
\<close>

theorem tree_bounded:
  assumes "clGetBead cl i (kdNet w) = (Inr b, s)"
    and "\<And>j t c t'. clGetBead cl j t = (Inr c, t') \<Longrightarrow> length (bDependencies c) \<le> k"
  shows "\<exists>w'. runTreeGraph cl i depth ty w = (Inr (), w')
    \<and> length (kdOut w') \<le> length (kdOut w) + 1 + k * tree_bound k (nat (depth - 1))"
proof -
  define w1 where "w1 = w\<lparr>kdNet := s, kdOut := kdOut w @ [Text (bID b @ '' ['' @ bStatus b @ ''] '' @ bTitle b @ nl)]\<rparr>"
  define deps where "deps = (if ty = [] then bDependencies b else filterDepsByType (bDependencies b) [ty])"
  have "length deps \<le> length (bDependencies b)" by (simp add: deps_def filterDepsByType_def)
  then have le: "length deps * tree_bound k (nat (depth - 1)) \<le> k * tree_bound k (nat (depth - 1))"
    using assms(2) [OF assms(1)] by (intro mult_le_mono1) simp
  obtain w' where w': "printDepTree cl deps [] (depth - 1) w1 = (Inr (), w')"
    "length (kdOut w') \<le> length (kdOut w1) + length deps * tree_bound k (nat (depth - 1))"
    using printDepTree_bounded [of cl k deps "[]" "depth - 1" w1] assms(2) by blast
  have "runTreeGraph cl i depth ty w = (Inr (), w')"
    using assms(1) w'(1) unfolding deps_def w1_def
    by (simp add: runTreeGraph_def or_die_def attempt_def call_def and_then_def andthen_def ret_def println_def emit_def)
  moreover have "length (kdOut w1) = length (kdOut w) + 1" by (simp add: w1_def)
  ultimately show ?thesis using w'(2) order_trans [OF w'(2) add_mono [OF order_refl le]] by auto
qed

text \<open>A bead that depends on itself.\<close>

definition looping :: "unit client" where
  "looping = refusing\<lparr>clGetBead := \<lambda>i s. (Inr (sample_bead\<lparr>bID := i, bDependencies :=
     [\<lparr>dBeadID = i, dDependsOnID = i, dType = ''blocks'', dCreatedAt = 0, dCreatedBy = [], dMetadata = []\<rparr>]\<rparr>), s)\<rparr>"

lemma tree_bounded_witness:
  "\<exists>w'. runTreeGraph looping ''kd-1'' 3 [] (fresh_kd ()) = (Inr (), w') \<and> length (kdOut w') \<le> 4"
  using tree_bounded [of looping "''kd-1''" "fresh_kd ()" _ "()" 1 3 "[]"]
  by (simp add: looping_def fresh_kd_def numeral_2_eq_2 numeral_eq_Suc)

end
