(* ===== verification/ViewCmds.thy ===== *)
theory ViewCmds
  imports Mol
begin

text \<open>
  Saved views (\<open>view.go\<close>), contexts composed of views (\<open>context_cmd.go\<close>), watching a view for
  changes (\<open>watch.go\<close>) and the beads that commits mention but nobody closed (\<open>orphans.go\<close>).
\<close>

subsection \<open>View configurations\<close>

record dep_config =
  dcTypes :: "string list"
  dcFields :: "string list"

record view_filter =
  vfStatus :: "string list"
  vfType :: "string list"
  vfKind :: "string list"
  vfLabels :: "string list"
  vfAssignee :: string
  vfSearch :: string
  vfPriority :: "int option"
  vfFields :: "(string \<times> string) list"

record view_config =
  vcFilter :: view_filter
  vcSort :: string
  vcColumns :: "string list"
  vcLimit :: int
  vcDeps :: "dep_config option"

definition no_view :: view_config where
  "no_view = \<lparr>vcFilter = \<lparr>vfStatus = [], vfType = [], vfKind = [], vfLabels = [], vfAssignee = [],
       vfSearch = [], vfPriority = None, vfFields = []\<rparr>,
     vcSort = [], vcColumns = [], vcLimit = 0, vcDeps = None\<rparr>"

definition dep_config_field :: "string \<Rightarrow> json \<Rightarrow> dep_config \<Rightarrow> dep_config option" where
  "dep_config_field k j d =
     (if fold_eq k ''types'' then map_option (\<lambda>x. d\<lparr>dcTypes := x\<rparr>) (decode_strings j)
      else if fold_eq k ''fields'' then map_option (\<lambda>x. d\<lparr>dcFields := x\<rparr>) (decode_strings j)
      else Some d)"

definition string_map_into :: "json \<Rightarrow> (string \<times> string) list \<Rightarrow> (string \<times> string) list option" where
  "string_map_into j m =
     (case j of
        JNull \<Rightarrow> Some []
      | JObj kvs \<Rightarrow>
          map_option (\<lambda>vs. put_all vs m) (those (map (\<lambda>(k, v). map_option (Pair k) (decode_string v [])) kvs))
      | _ \<Rightarrow> None)"

definition view_filter_field :: "string \<Rightarrow> json \<Rightarrow> view_filter \<Rightarrow> view_filter option" where
  "view_filter_field k j f =
     (if fold_eq k ''status'' then map_option (\<lambda>x. f\<lparr>vfStatus := x\<rparr>) (decode_strings j)
      else if fold_eq k ''type'' then map_option (\<lambda>x. f\<lparr>vfType := x\<rparr>) (decode_strings j)
      else if fold_eq k ''kind'' then map_option (\<lambda>x. f\<lparr>vfKind := x\<rparr>) (decode_strings j)
      else if fold_eq k ''labels'' then map_option (\<lambda>x. f\<lparr>vfLabels := x\<rparr>) (decode_strings j)
      else if fold_eq k ''assignee'' then map_option (\<lambda>x. f\<lparr>vfAssignee := x\<rparr>) (decode_string j (vfAssignee f))
      else if fold_eq k ''search'' then map_option (\<lambda>x. f\<lparr>vfSearch := x\<rparr>) (decode_string j (vfSearch f))
      else if fold_eq k ''priority'' then map_option (\<lambda>x. f\<lparr>vfPriority := x\<rparr>) (decode_int_ptr j)
      else if fold_eq k ''fields'' then map_option (\<lambda>x. f\<lparr>vfFields := x\<rparr>) (string_map_into j (vfFields f))
      else Some f)"

definition view_config_field :: "string \<Rightarrow> json \<Rightarrow> view_config \<Rightarrow> view_config option" where
  "view_config_field k j v =
     (if fold_eq k ''filter'' then
        map_option (\<lambda>x. v\<lparr>vcFilter := x\<rparr>) (decode_struct view_filter_field (Raw j) (vcFilter v))
      else if fold_eq k ''sort'' then map_option (\<lambda>x. v\<lparr>vcSort := x\<rparr>) (decode_string j (vcSort v))
      else if fold_eq k ''columns'' then map_option (\<lambda>x. v\<lparr>vcColumns := x\<rparr>) (decode_strings j)
      else if fold_eq k ''limit'' then map_option (\<lambda>x. v\<lparr>vcLimit := x\<rparr>) (decode_int j (vcLimit v))
      else if fold_eq k ''deps'' then
        (if j = JNull then Some (v\<lparr>vcDeps := None\<rparr>)
         else map_option (\<lambda>x. v\<lparr>vcDeps := Some x\<rparr>)
           (decode_struct dep_config_field (Raw j)
              (case vcDeps v of Some d \<Rightarrow> d | None \<Rightarrow> \<lparr>dcTypes = [], dcFields = []\<rparr>)))
      else Some v)"

definition decode_view :: "raw \<Rightarrow> view_config option" where
  "decode_view r = decode_struct view_config_field r no_view"

text \<open>\<open>strings.ReplaceAll(s, old, new)\<close> for a non-empty \<open>old\<close>.\<close>

function replace_all :: "string \<Rightarrow> string \<Rightarrow> string \<Rightarrow> string" where
  "replace_all old new s =
     (case s of
        [] \<Rightarrow> []
      | c # cs \<Rightarrow>
          if old \<noteq> [] \<and> has_prefix s old then new @ replace_all old new (drop (length old) s)
          else c # replace_all old new cs)"
  by pat_completeness auto
termination
  by (relation "measure (\<lambda>(_, _, s). length s)") auto

declare replace_all.simps [simp del]

definition expandVar :: "kd_ctx \<Rightarrow> string \<Rightarrow> string" where
  "expandVar cx s = replace_all ''$BEADS_ACTOR'' (cxActor cx) s"

definition view_req :: "kd_ctx \<Rightarrow> view_config \<Rightarrow> list_request" where
  "view_req cx v =
     (let f = vcFilter v in
      no_list\<lparr>lqStatus := vfStatus f, lqType := vfType f, lqKind := vfKind f, lqLabels := vfLabels f,
        lqAssignee := expandVar cx (vfAssignee f), lqSearch := vfSearch f, lqSort := vcSort v,
        lqLimit := vcLimit v, lqPriority := vfPriority f\<rparr>)"

definition view_req_fields :: "kd_ctx \<Rightarrow> view_config \<Rightarrow> list_request" where
  "view_req_fields cx v = (view_req cx v)\<lparr>lqFields := vfFields (vcFilter v)\<rparr>"

definition get_view :: "'s client \<Rightarrow> string \<Rightarrow> ('s kd, view_config) op" where
  "get_view cl name =
     and_then (wrap (''getting view config '' @ go_quote name) (call (clGetConfig cl (''view:'' @ name)))) (\<lambda>k.
     case decode_view (kValue k) of
       None \<Rightarrow> fail (WrapErr (''parsing view config '' @ go_quote name) (OtherError ''json''))
     | Some v \<Rightarrow> ret v)"

subsection \<open>Showing a view\<close>

definition column_cells :: "string list \<Rightarrow> bead \<Rightarrow> string" where
  "column_cells cols b = line_of (map (beadField b) cols)"

definition printBeadListColumns :: "bead list \<Rightarrow> int \<Rightarrow> string list \<Rightarrow> ('s kd, unit) op" where
  "printBeadListColumns bs tot cols =
     andthen (emit (Table (line_of (map to_upper cols) @ concat (map (column_cells cols) bs))))
       (say (beads_footer (length bs) ''beads'' tot))"

definition view_deps_of :: "'s client \<Rightarrow> dep_config \<Rightarrow> bead \<Rightarrow> ('s kd, unit) op" where
  "view_deps_of cl dc b =
     attempt (fetchAndResolveDeps cl (bID b) (dcTypes dc)) (\<lambda>r. case r of
       Inl _ \<Rightarrow> ret ()
     | Inr deps \<Rightarrow>
         only_if (deps \<noteq> [])
           (andthen (println (''  '' @ bID b @ '' dependencies:''))
             (andthen (printDepSubSection deps (dcFields dc)) (println []))))"

definition printViewDeps :: "'s client \<Rightarrow> bead list \<Rightarrow> dep_config \<Rightarrow> ('s kd, unit) op" where
  "printViewDeps cl bs dc = andthen (println []) (for_each (view_deps_of cl dc) bs)"

definition view_deps :: "'s client \<Rightarrow> view_config \<Rightarrow> bead list \<Rightarrow> ('s kd, unit) op" where
  "view_deps cl v bs =
     (case vcDeps v of None \<Rightarrow> ret () | Some dc \<Rightarrow> only_if (bs \<noteq> []) (printViewDeps cl bs dc))"

definition viewCmd :: "'s client \<Rightarrow> kd_ctx \<Rightarrow> string \<Rightarrow> int \<Rightarrow> ('s kd, unit) op" where
  "viewCmd cl cx name lim =
     and_then (get_view cl name) (\<lambda>v.
     let rq = view_req_fields cx v in
     and_then (wrap (''querying view '' @ go_quote name)
        (call (clListBeads cl (if lim > 0 then rq\<lparr>lqLimit := lim\<rparr> else rq)))) (\<lambda>(bs, tot).
     if cxJson cx then printBeadListJSON cx bs
     else andthen
       (if vcColumns v \<noteq> [] then printBeadListColumns bs tot (vcColumns v) else printBeadListTable bs tot)
       (view_deps cl v bs)))"

subsection \<open>Contexts (\<open>context_cmd.go\<close>)\<close>

record context_section =
  csHeader :: string
  csView :: string
  csFormat :: string
  csFields :: "string list"
  csDepth :: int

definition section_field :: "string \<Rightarrow> json \<Rightarrow> context_section \<Rightarrow> context_section option" where
  "section_field k j c =
     (if fold_eq k ''header'' then map_option (\<lambda>x. c\<lparr>csHeader := x\<rparr>) (decode_string j (csHeader c))
      else if fold_eq k ''view'' then map_option (\<lambda>x. c\<lparr>csView := x\<rparr>) (decode_string j (csView c))
      else if fold_eq k ''format'' then map_option (\<lambda>x. c\<lparr>csFormat := x\<rparr>) (decode_string j (csFormat c))
      else if fold_eq k ''fields'' then map_option (\<lambda>x. c\<lparr>csFields := x\<rparr>) (decode_strings j)
      else if fold_eq k ''depth'' then map_option (\<lambda>x. c\<lparr>csDepth := x\<rparr>) (decode_int j (csDepth c))
      else Some c)"

definition sections_field :: "string \<Rightarrow> json \<Rightarrow> context_section list \<Rightarrow> context_section list option" where
  "sections_field k j cs =
     (if fold_eq k ''sections'' then
        map_option list_of_slice (decode_list section_field
          \<lparr>csHeader = [], csView = [], csFormat = [], csFields = [], csDepth = 0\<rparr> j)
      else Some cs)"

text \<open>A loop that does something before every element but the first.\<close>

fun between :: "('s, unit) op \<Rightarrow> ('a \<Rightarrow> ('s, unit) op) \<Rightarrow> 'a list \<Rightarrow> ('s, unit) op" where
  "between gap f [] = ret ()"
| "between gap f [x] = f x"
| "between gap f (x # y # ys) = andthen (f x) (andthen gap (between gap f (y # ys)))"

text \<open>A step whose failure is reported on the error output, and what follows it otherwise.\<close>

definition or_report :: "string \<Rightarrow> ('s kd, 'a) op \<Rightarrow> ('a \<Rightarrow> ('s kd, unit) op) \<Rightarrow> ('s kd, unit) op" where
  "or_report what m f =
     attempt m (\<lambda>r. case r of Inl e \<Rightarrow> eprint (''Error '' @ what @ '': '' @ err_text e @ nl) | Inr x \<Rightarrow> f x)"

definition printSectionList :: "bead list \<Rightarrow> string list \<Rightarrow> ('s kd, unit) op" where
  "printSectionList bs flds =
     say (concat (map (\<lambda>b. ''- '' @ join_str '' | '' (map (beadField b) (or_default flds [''id'', ''title'', ''status''])) @ nl)
       bs))"

definition printSectionTable :: "bead list \<Rightarrow> ('s kd, unit) op" where
  "printSectionTable bs = emit (Table (bead_header @ concat (map bead_cells bs)))"

definition detail_deps :: "'s client \<Rightarrow> dep_config option \<Rightarrow> bead \<Rightarrow> ('s kd, unit) op" where
  "detail_deps cl dc b =
     (case dc of
        None \<Rightarrow> ret ()
      | Some d \<Rightarrow>
          and_then (resolveBeadDeps cl (bDependencies b) (dcTypes d)) (\<lambda>deps.
          only_if (deps \<noteq> [])
            (andthen (say (nl @ ''  Dependencies:'' @ nl)) (printDepSubSection deps (dcFields d)))))"

definition printSectionDetail ::
  "'s client \<Rightarrow> kd_ctx \<Rightarrow> bead list \<Rightarrow> string list \<Rightarrow> dep_config option \<Rightarrow> ('s kd, unit) op" where
  "printSectionDetail cl cx bs flds dc =
     between (println ''---'')
       (\<lambda>b. or_report (''fetching '' @ bID b) (call (clGetBead cl (bID b))) (\<lambda>full.
          andthen (printBeadTableFiltered cx full flds)
            (andthen (printComments cx (bComments full)) (detail_deps cl dc full)))) bs"

definition printSectionTree :: "'s client \<Rightarrow> bead list \<Rightarrow> int \<Rightarrow> dep_config option \<Rightarrow> ('s kd, unit) op" where
  "printSectionTree cl bs depth dc =
     (let types = (case dc of None \<Rightarrow> [] | Some d \<Rightarrow> dcTypes d) in
      between (println [])
        (\<lambda>b. or_report (''fetching '' @ bID b) (call (clGetBead cl (bID b))) (\<lambda>full.
           andthen (println (bID full @ '' ['' @ bStatus full @ ''] '' @ bTitle full))
             (printDepTree cl (if types = [] then bDependencies full else filterDepsByType (bDependencies full) types)
                [] (depth - 1)))) bs)"

definition print_section ::
  "'s client \<Rightarrow> kd_ctx \<Rightarrow> context_section \<Rightarrow> view_config \<Rightarrow> bead list \<Rightarrow> int \<Rightarrow> ('s kd, unit) op" where
  "print_section cl cx c v bs tot =
     (if csFormat c = ''count'' then println (show_int tot @ '' beads'')
      else if csFormat c = ''list'' then printSectionList bs (csFields c)
      else if csFormat c = ''detail'' then printSectionDetail cl cx bs (csFields c) (vcDeps v)
      else if csFormat c = ''tree'' then
        printSectionTree cl bs (if csDepth c \<le> 0 then 3 else csDepth c) (vcDeps v)
      else andthen
        (if vcColumns v \<noteq> [] then printBeadListColumns bs tot (vcColumns v) else printSectionTable bs)
        (view_deps cl v bs))"

definition context_section_cmd :: "'s client \<Rightarrow> kd_ctx \<Rightarrow> context_section \<Rightarrow> ('s kd, unit) op" where
  "context_section_cmd cl cx c =
     andthen (only_if (csHeader c \<noteq> []) (say (csHeader c @ nl @ nl)))
       (or_report (''loading view '' @ go_quote (csView c)) (call (clGetConfig cl (''view:'' @ csView c))) (\<lambda>k.
        case decode_view (kValue k) of
          None \<Rightarrow> eprint (''Error parsing view '' @ go_quote (csView c) @ '': json'' @ nl)
        | Some v \<Rightarrow>
            or_report (''querying view '' @ go_quote (csView c)) (call (clListBeads cl (view_req cx v)))
              (\<lambda>(bs, tot). print_section cl cx c v bs tot)))"

definition contextCmd :: "'s client \<Rightarrow> kd_ctx \<Rightarrow> string \<Rightarrow> ('s kd, unit) op" where
  "contextCmd cl cx name =
     and_then (wrap (''getting context config '' @ go_quote name) (call (clGetConfig cl (''context:'' @ name)))) (\<lambda>k.
     case decode_struct sections_field (kValue k) [] of
       None \<Rightarrow> fail (WrapErr (''parsing context config '' @ go_quote name) (OtherError ''json''))
     | Some cs \<Rightarrow> between (println []) (context_section_cmd cl cx) cs)"

end
