(* ===== verification/Watch.thy ===== *)
theory Watch
  imports ViewCmds
begin

text \<open>
  Watching a view (\<open>watch.go\<close>): what has been seen is a map from bead ids to update times; each
  query prints what is new or was updated since. And the beads that commits mention but that are
  still open (\<open>orphans.go\<close>).
\<close>

subsection \<open>Differences\<close>

type_synonym seen = "string \<Rightarrow> time option"

text \<open>The loop of \<open>diffBeads\<close>, which changes the map it is given.\<close>

fun diffBeads :: "bead list \<Rightarrow> seen \<Rightarrow> bead list \<times> seen" where
  "diffBeads [] seen = ([], seen)"
| "diffBeads (b # bs) seen =
     (case diffBeads bs (seen(bID b \<mapsto> bUpdatedAt b)) of
        (changed, seen') \<Rightarrow>
          (if seen (bID b) = Some (bUpdatedAt b) then changed else b # changed, seen'))"

definition queryAndDiff :: "'s client \<Rightarrow> list_request \<Rightarrow> seen \<Rightarrow> ('s kd, bead list \<times> int \<times> seen) op" where
  "queryAndDiff cl rq seen =
     and_then (call (clListBeads cl rq)) (\<lambda>(bs, tot).
     case diffBeads bs seen of (changed, seen') \<Rightarrow> ret (changed, tot, seen'))"

text \<open>\<open>cancelled\<close>: the user has interrupted the command, which is why the query failed.\<close>

definition queryAndPrint ::
  "'s client \<Rightarrow> kd_ctx \<Rightarrow> bool \<Rightarrow> list_request \<Rightarrow> seen \<Rightarrow> ('s kd, seen) op" where
  "queryAndPrint cl cx cancelled rq seen =
     attempt (queryAndDiff cl rq seen) (\<lambda>r. case r of
       Inl e \<Rightarrow> (if cancelled then ret seen else fail (WrapErr ''querying beads'' e))
     | Inr (changed, tot, seen') \<Rightarrow>
         andthen (only_if (changed \<noteq> [])
             (if cxJson cx then printBeadListJSON cx changed else printBeadListTable changed tot))
           (ret seen'))"

text \<open>
  What wakes the loops: the user interrupts, a timer fires, an event of the stream arrives, the
  stream ends, the connection is made again. A timer that is not set does not fire. How long the
  timers wait is not represented.
\<close>

datatype wake = Interrupt | Fire | Event | Ended | Reconnect

fun watchPoll :: "'s client \<Rightarrow> kd_ctx \<Rightarrow> list_request \<Rightarrow> wake list \<Rightarrow> seen \<Rightarrow> ('s kd, unit) op" where
  "watchPoll cl cx rq [] seen = ret ()"
| "watchPoll cl cx rq (v # vs) seen =
     (if v = Interrupt then ret ()
      else if v = Fire then
        and_then (queryAndPrint cl cx (Interrupt \<in> set vs) rq seen) (watchPoll cl cx rq vs)
      else watchPoll cl cx rq vs seen)"

fun watchNATS :: "'s client \<Rightarrow> kd_ctx \<Rightarrow> list_request \<Rightarrow> wake list \<Rightarrow> bool \<Rightarrow> seen \<Rightarrow> ('s kd, unit) op" where
  "watchNATS cl cx rq [] armed seen = ret ()"
| "watchNATS cl cx rq (v # vs) armed seen =
     (case v of
        Interrupt \<Rightarrow> ret ()
      | Ended \<Rightarrow> ret ()
      | Event \<Rightarrow> watchNATS cl cx rq vs True seen
      | Reconnect \<Rightarrow> watchNATS cl cx rq vs True seen
      | Fire \<Rightarrow>
          (if armed then
             and_then (queryAndPrint cl cx (Interrupt \<in> set vs) rq seen) (watchNATS cl cx rq vs False)
           else watchNATS cl cx rq vs armed seen))"

definition watchCmd ::
  "'s client \<Rightarrow> kd_ctx \<Rightarrow> string \<Rightarrow> bool \<Rightarrow> bool \<Rightarrow> wake list \<Rightarrow> ('s kd, unit) op" where
  "watchCmd cl cx name once nats wakes =
     and_then (get_view cl name) (\<lambda>v.
     let rq = view_req_fields cx v in
     and_then (queryAndPrint cl cx (Interrupt \<in> set wakes) rq (\<lambda>_. None)) (\<lambda>seen.
     if once then ret ()
     else if nats then watchNATS cl cx rq wakes False seen
     else watchPoll cl cx rq wakes seen))"

subsection \<open>Orphans (\<open>orphans.go\<close>)\<close>

record orphan =
  obID :: string
  obTitle :: string
  obStatus :: string
  obCommit :: string
  obMessage :: string

definition ref_char :: "char \<Rightarrow> bool" where
  "ref_char c \<longleftrightarrow> is_digit c \<or> (97 \<le> byte c \<and> byte c \<le> 122) \<or> c = CHR ''.''"

text \<open>A match of \<open>(prefix-[a-z0-9.]+)\<close> in parentheses at the start: its text and what follows.\<close>

definition ref_at :: "string \<Rightarrow> string \<Rightarrow> (string \<times> string) option" where
  "ref_at pre s =
     (let start = ''('' @ pre @ ''-''; rest = drop (length start) s;
          run = takeWhile ref_char rest; after = dropWhile ref_char rest
      in if has_prefix s start \<and> run \<noteq> [] \<and> has_prefix after '')'' then Some (start @ run @ '')'', drop 1 after)
         else None)"

lemma ref_at_shorter: "ref_at pre s = Some (m, t) \<Longrightarrow> length t < length s"
proof -
  assume r: "ref_at pre s = Some (m, t)"
  let ?d = "drop (length (''('' @ pre @ ''-'')) s"
  have t: "t = drop 1 (dropWhile ref_char ?d)" and s: "has_prefix s (''('' @ pre @ ''-'')"
    using r by (auto simp: ref_at_def Let_def split: if_splits)
  have "length t \<le> length ?d"
    unfolding t using length_dropWhile_le [of ref_char ?d] by simp
  moreover have "s \<noteq> []" using s by (auto simp: has_prefix_def)
  ultimately show ?thesis by (cases s) auto
qed

function find_refs :: "string \<Rightarrow> string \<Rightarrow> string list" where
  "find_refs pre s =
     (case s of
        [] \<Rightarrow> []
      | c # cs \<Rightarrow>
          (case ref_at pre s of
             Some (m, t) \<Rightarrow> m # find_refs pre t
           | None \<Rightarrow> find_refs pre cs))"
  by pat_completeness auto
termination
  by (relation "measure (\<lambda>(_, s). length s)") (auto dest: ref_at_shorter)

declare find_refs.simps [simp del]

text \<open>\<open>strings.Trim(match, "()")\<close>.\<close>

definition trim_parens :: "string \<Rightarrow> string" where
  "trim_parens s =
     (let p = (\<lambda>c. c = CHR ''('' \<or> c = CHR '')'') in rev (dropWhile p (rev (dropWhile p s))))"

definition commit_parts :: "string \<Rightarrow> string \<times> string" where
  "commit_parts line = (case cut_byte (CHR '' '') line of Some p \<Rightarrow> p | None \<Rightarrow> (line, []))"

definition note_commit :: "string \<times> string \<Rightarrow> string list \<Rightarrow> orphan \<Rightarrow> orphan" where
  "note_commit c refs b =
     (if obID b \<in> set refs \<and> obCommit b = [] then b\<lparr>obCommit := fst c, obMessage := snd c\<rparr> else b)"

fun scan_log :: "string \<Rightarrow> string list \<Rightarrow> orphan list \<Rightarrow> orphan list" where
  "scan_log pre [] bs = bs"
| "scan_log pre (l # ls) bs =
     scan_log pre ls
       (if l = [] then bs
        else map (note_commit (commit_parts l) (map trim_parens (find_refs pre l))) bs)"

definition orphans_of :: "string \<Rightarrow> string \<Rightarrow> bead list \<Rightarrow> orphan list" where
  "orphans_of pre log bs =
     sort_key obID (filter (\<lambda>b. obCommit b \<noteq> [])
       (scan_log pre (split_byte (CHR 0x0A) log)
         (map (\<lambda>b. \<lparr>obID = bID b, obTitle = bTitle b, obStatus = bStatus b, obCommit = [], obMessage = []\<rparr>) bs)))"

definition orphan_json :: "orphan \<Rightarrow> json" where
  "orphan_json b = JObj (
     [(''id'', JStr (obID b)), (''title'', JStr (obTitle b)), (''status'', JStr (obStatus b))]
     @ opt_str ''latest_commit'' (obCommit b) @ opt_str ''latest_commit_message'' (obMessage b))"

text \<open>A slice that was never appended to is \<open>nil\<close>, and is written \<open>null\<close>.\<close>

definition orphans_json :: "orphan list \<Rightarrow> json" where
  "orphans_json bs = (if bs = [] then JNull else JArr (map orphan_json bs))"

definition orphan_text :: "bool \<Rightarrow> nat \<times> orphan \<Rightarrow> string" where
  "orphan_text details x =
     (case x of (n, b) \<Rightarrow>
        show_nat n @ ''. '' @ obID b @ '': '' @ obTitle b @ nl @ ''   Status: '' @ obStatus b @ nl
        @ opt_line (details \<and> obCommit b \<noteq> []) (''   Latest commit: '' @ obCommit b @ '' - '' @ obMessage b))"

definition close_orphan :: "'s client \<Rightarrow> kd_ctx \<Rightarrow> orphan \<Rightarrow> ('s kd, bool) op" where
  "close_orphan cl cx b =
     attempt (call (clCloseBead cl (obID b) (cxActor cx))) (\<lambda>r. case r of
       Inl e \<Rightarrow> andthen (eprint (''Error closing '' @ obID b @ '': '' @ err_text e @ nl)) (ret False)
     | Inr _ \<Rightarrow> andthen (println (''Closed '' @ obID b)) (ret True))"

definition confirmed :: "string \<Rightarrow> bool" where
  "confirmed typed = (to_lower (trim_space typed) \<in> {[], ''y'', ''yes''})"

definition fix_orphans :: "'s client \<Rightarrow> kd_ctx \<Rightarrow> string \<Rightarrow> orphan list \<Rightarrow> ('s kd, unit) op" where
  "fix_orphans cl cx typed bs =
     andthen (say (nl @ ''This will close '' @ show_nat (length bs) @ '' orphaned bead(s). Continue? (Y/n): ''))
       (if \<not> confirmed typed then println ''Canceled.''
        else and_then (collect (close_orphan cl cx) bs) (\<lambda>oks.
          say (nl @ ''Closed '' @ show_nat (length (filter id oks)) @ '' bead(s)'' @ nl)))"

definition open_request :: list_request where
  "open_request = no_list\<lparr>lqStatus := [''open'', ''in_progress''], lqLimit := 500\<rparr>"

text \<open>
  \<open>repo\<close>: whether this is a git repository; \<open>log\<close>: what \<open>git log --oneline --all\<close> wrote, if it
  succeeded; \<open>typed\<close>: what the user typed.
\<close>

definition runOrphans ::
  "bool \<Rightarrow> string option \<Rightarrow> string \<Rightarrow> 's client \<Rightarrow> kd_ctx \<Rightarrow> bool \<Rightarrow> bool \<Rightarrow> string \<Rightarrow> ('s kd, unit) op" where
  "runOrphans repo log typed cl cx fix_them details pre =
     (let none = (\<lambda>m. println (if cxJson cx then ''[]'' else m)) in
      if \<not> repo then none (''Not a git repository '' @ dash @ '' nothing to check.'')
      else and_then (wrap ''listing beads'' (call (clListBeads cl open_request))) (\<lambda>(bs, _).
        if bs = [] then none ''No open beads to check.''
        else case log of
          None \<Rightarrow> none (''Could not read git log '' @ dash @ '' skipping orphan check.'')
        | Some out \<Rightarrow>
            (let os = orphans_of pre out bs in
             if cxJson cx then emit (PrettyJson (orphans_json os))
             else if os = [] then println ''No orphaned beads found.''
             else andthen (say (nl @ ''Found '' @ show_nat (length os) @ '' orphaned bead(s):'' @ nl @ nl
                    @ concat (map (orphan_text details) (zip [1..<length os + 1] os))))
               (only_if fix_them (fix_orphans cl cx typed os)))))"

subsection \<open>What a watch prints\<close>

lemma diffBeads_Cons:
  "fst (diffBeads (b # bs) seen) =
     (if seen (bID b) = Some (bUpdatedAt b) then fst (diffBeads bs (seen(bID b \<mapsto> bUpdatedAt b)))
      else b # fst (diffBeads bs (seen(bID b \<mapsto> bUpdatedAt b))))"
  "snd (diffBeads (b # bs) seen) = snd (diffBeads bs (seen(bID b \<mapsto> bUpdatedAt b)))"
  by (simp_all split: prod.split)

lemma diffBeads_skip: "i \<notin> bID ` set bs \<Longrightarrow> snd (diffBeads bs seen) i = seen i"
  by (induction bs arbitrary: seen) (simp_all add: diffBeads_Cons del: diffBeads.simps(2))

lemma diffBeads_other:
  "\<forall>b \<in> set bs. seen (bID b) = seen' (bID b) \<Longrightarrow> fst (diffBeads bs seen) = fst (diffBeads bs seen')"
proof (induction bs arbitrary: seen seen')
  case (Cons b bs)
  have "fst (diffBeads bs (seen(bID b \<mapsto> bUpdatedAt b))) = fst (diffBeads bs (seen'(bID b \<mapsto> bUpdatedAt b)))"
    by (rule Cons.IH) (use Cons.prems in auto)
  then show ?case using Cons.prems by (simp add: diffBeads_Cons del: diffBeads.simps(2))
qed simp

text \<open>
  A watch prints a bead of the listing exactly when it has not been seen, or was updated
  since; then what has been seen is what was listed (and what had been seen of other beads), so
  that the same listing prints nothing.
\<close>

theorem watch_prints_changes:
  assumes "distinct (map bID bs)" and "diffBeads bs seen = (changed, seen')"
  shows "changed = filter (\<lambda>b. seen (bID b) \<noteq> Some (bUpdatedAt b)) bs
    \<and> seen' = (\<lambda>i. case List.find (\<lambda>b. bID b = i) bs of Some b \<Rightarrow> Some (bUpdatedAt b) | None \<Rightarrow> seen i)
    \<and> diffBeads bs seen' = ([], seen')"
proof -
  have c: "fst (diffBeads bs seen) = filter (\<lambda>b. seen (bID b) \<noteq> Some (bUpdatedAt b)) bs"
    if "distinct (map bID bs)" for bs and seen :: seen
    using that
  proof (induction bs arbitrary: seen)
    case (Cons b bs)
    have "fst (diffBeads bs (seen(bID b \<mapsto> bUpdatedAt b))) = fst (diffBeads bs seen)"
      by (rule diffBeads_other) (use Cons.prems in \<open>auto simp: image_iff\<close>)
    then show ?case using Cons by (simp add: diffBeads_Cons del: diffBeads.simps(2))
  qed simp
  have s: "snd (diffBeads bs seen) i
      = (case List.find (\<lambda>b. bID b = i) bs of Some b \<Rightarrow> Some (bUpdatedAt b) | None \<Rightarrow> seen i)"
    if "distinct (map bID bs)" for bs and seen :: seen and i
    using that
  proof (induction bs arbitrary: seen)
    case (Cons b bs)
    let ?s = "seen(bID b \<mapsto> bUpdatedAt b)"
    show ?case
    proof (cases "bID b = i")
      case True
      then show ?thesis
        using Cons.prems diffBeads_skip [of i bs ?s] by (auto simp: diffBeads_Cons simp del: diffBeads.simps(2))
    next
      case False
      then show ?thesis
        using Cons.prems by (subst diffBeads_Cons(2), subst Cons.IH) (auto split: option.split)
    qed
  qed simp
  have ch: "changed = filter (\<lambda>b. seen (bID b) \<noteq> Some (bUpdatedAt b)) bs" using c [OF assms(1), of seen] assms(2) by simp
  have i: "seen' i = (case List.find (\<lambda>b. bID b = i) bs of Some b \<Rightarrow> Some (bUpdatedAt b) | None \<Rightarrow> seen i)" for i
    using s [OF assms(1), of seen i] assms(2) by simp
  have "seen' (bID b) = Some (bUpdatedAt b)" if "b \<in> set bs" for b
    using find_unique [OF assms(1) that] by (simp add: i)
  then have "fst (diffBeads bs seen') = []" using c [OF assms(1), of seen'] by (simp add: filter_empty_conv)
  moreover have "snd (diffBeads bs seen') = seen'"
    using s [OF assms(1), of seen'] i by (auto simp: fun_eq_iff split: option.split)
  ultimately show ?thesis using ch i by (simp add: prod_eq_iff fun_eq_iff)
qed

lemma watch_prints_changes_witness:
  "diffBeads [sample_bead, sample_bead\<lparr>bID := ''kd-2''\<rparr>] [''kd-1'' \<mapsto> 1000]
     = ([sample_bead\<lparr>bID := ''kd-2''\<rparr>], [''kd-1'' \<mapsto> 1000, ''kd-2'' \<mapsto> 1000])
   \<and> diffBeads [sample_bead, sample_bead\<lparr>bID := ''kd-2''\<rparr>] [''kd-1'' \<mapsto> 1000, ''kd-2'' \<mapsto> 1000]
     = ([], [''kd-1'' \<mapsto> 1000, ''kd-2'' \<mapsto> 1000])"
proof -
  let ?bs = "[sample_bead, sample_bead\<lparr>bID := ''kd-2''\<rparr>]"
  have d: "distinct (map bID ?bs)" by (simp add: sample_bead_def)
  have r: "diffBeads ?bs [''kd-1'' \<mapsto> 1000]
      = ([sample_bead\<lparr>bID := ''kd-2''\<rparr>], [''kd-1'' \<mapsto> 1000, ''kd-2'' \<mapsto> 1000])"
    by (simp add: sample_bead_def)
  show ?thesis using conjunct2 [OF conjunct2 [OF watch_prints_changes [OF d r]]] r by (intro conjI)
qed

end
