(* ===== verification/GoDuration.thy ===== *)
theory GoDuration
  imports Clients
begin

text \<open>
  Durations as the Go library writes and reads them (\<open>time.ParseDuration\<close>,
  \<open>time.Duration.String\<close>, \<open>Truncate\<close>). A fraction is converted to nanoseconds exactly; the
  library's detour through \<open>float64\<close> gives the same for every duration it prints itself.
\<close>

definition wrap64 :: "int \<Rightarrow> int" where
  "wrap64 n = (n + 2 ^ 63) mod 2 ^ 64 - 2 ^ 63"

subsection \<open>Reading\<close>

definition digit_nat :: "char \<Rightarrow> nat" where "digit_nat c = byte c - 48"

fun leading_int :: "nat \<Rightarrow> string \<Rightarrow> (nat \<times> string) option" where
  "leading_int x [] = Some (x, [])"
| "leading_int x (c # cs) =
     (if \<not> is_digit c then Some (x, c # cs)
      else if x > 2 ^ 63 div 10 then None
      else if x * 10 + digit_nat c > 2 ^ 63 then None
      else leading_int (x * 10 + digit_nat c) cs)"

text \<open>Digits of a fraction that would overflow are read and dropped.\<close>

fun leading_frac :: "bool \<Rightarrow> nat \<Rightarrow> nat \<Rightarrow> string \<Rightarrow> nat \<times> nat \<times> string" where
  "leading_frac over x scale [] = (x, scale, [])"
| "leading_frac over x scale (c # cs) =
     (if \<not> is_digit c then (x, scale, c # cs)
      else if over \<or> x > (2 ^ 63 - 1) div 10 \<or> x * 10 + digit_nat c > 2 ^ 63 then leading_frac True x scale cs
      else leading_frac False (x * 10 + digit_nat c) (scale * 10) cs)"

definition unit_of :: "string \<Rightarrow> nat option" where
  "unit_of u =
     (if u = ''ns'' then Some 1
      else if u = ''us'' \<or> u = [CHR 0xC2, CHR 0xB5, CHR ''s''] \<or> u = [CHR 0xCE, CHR 0xBC, CHR ''s''] then Some 1000
      else if u = ''ms'' then Some 1000000
      else if u = ''s'' then Some 1000000000
      else if u = ''m'' then Some 60000000000
      else if u = ''h'' then Some 3600000000000
      else None)"

definition number_char :: "char \<Rightarrow> bool" where
  "number_char c \<longleftrightarrow> c = CHR ''.'' \<or> is_digit c"

text \<open>One number with its unit: the nanoseconds and what follows.\<close>

definition dur_fraction :: "string \<Rightarrow> nat \<times> nat \<times> string \<times> bool" where
  "dur_fraction s =
     (if has_prefix s ''.'' then
        (case leading_frac False 0 1 (tl s) of (f, scale, t) \<Rightarrow> (f, scale, t, length t \<noteq> length (tl s)))
      else (0, 1, s, False))"

definition dur_part :: "string \<Rightarrow> (nat \<times> string) option" where
  "dur_part s =
     (if s = [] \<or> \<not> number_char (hd s) then None
      else case leading_int 0 s of
        None \<Rightarrow> None
      | Some (v, s1) \<Rightarrow>
          (case dur_fraction s1 of
             (f, scale, s2, post) \<Rightarrow>
               (let u = takeWhile (\<lambda>c. \<not> number_char c) s2; rest = dropWhile (\<lambda>c. \<not> number_char c) s2 in
                if length s1 = length s \<and> \<not> post then None
                else if u = [] then None
                else case unit_of u of
                  None \<Rightarrow> None
                | Some n \<Rightarrow>
                    (if v > 2 ^ 63 div n then None
                     else if v * n + f * n div scale > 2 ^ 63 then None
                     else Some (v * n + f * n div scale, rest)))))"

lemma leading_int_length: "leading_int x s = Some (v, t) \<Longrightarrow> length t \<le> length s"
  by (induction x s rule: leading_int.induct) (auto split: if_splits)

lemma leading_frac_length: "leading_frac b x sc s = (f, sc', t) \<Longrightarrow> length t \<le> length s"
  by (induction b x sc s rule: leading_frac.induct) (auto split: if_splits)

lemma dur_part_shorter:
  assumes "dur_part s = Some (n, rest)"
  shows "length rest < length s"
proof -
  obtain v s1 f scale s2 post where i: "leading_int 0 s = Some (v, s1)"
    and f: "dur_fraction s1 = (f, scale, s2, post)"
    and r: "rest = dropWhile (\<lambda>c. \<not> number_char c) s2" "takeWhile (\<lambda>c. \<not> number_char c) s2 \<noteq> []"
    using assms by (auto simp: dur_part_def Let_def split: if_splits option.splits prod.splits)
  have "length s2 \<le> length s1"
    using f leading_frac_length by (fastforce simp: dur_fraction_def split: if_splits prod.splits)
  moreover have "length rest < length s2"
    using r by (cases s2) (auto split: if_splits intro: le_imp_less_Suc length_dropWhile_le)
  ultimately show ?thesis using leading_int_length [OF i] by simp
qed

function dur_loop :: "string \<Rightarrow> nat \<Rightarrow> nat option" where
  "dur_loop s d =
     (if s = [] then Some d
      else case dur_part s of
        None \<Rightarrow> None
      | Some (n, rest) \<Rightarrow>
          (if (d + n) mod 2 ^ 64 > 2 ^ 63 then None else dur_loop rest ((d + n) mod 2 ^ 64)))"
  by pat_completeness auto
termination
  by (relation "measure (\<lambda>(s, _). length s)") (auto dest: dur_part_shorter)

declare dur_loop.simps [simp del]

definition ParseDuration :: "string \<Rightarrow> duration option" where
  "ParseDuration s =
     (let neg = has_prefix s ''-''; t = (if neg \<or> has_prefix s ''+'' then tl s else s) in
      if t = ''0'' then Some 0
      else if t = [] then None
      else case dur_loop t 0 of
        None \<Rightarrow> None
      | Some d \<Rightarrow> if neg then Some (- int d) else if d > 2 ^ 63 - 1 then None else Some (int d))"

subsection \<open>Writing\<close>

fun frac_digits :: "nat \<Rightarrow> nat \<Rightarrow> string" where
  "frac_digits 0 v = []"
| "frac_digits (Suc p) v = frac_digits p (v div 10) @ [digit_char (v mod 10)]"

definition trim_zeros :: "string \<Rightarrow> string" where
  "trim_zeros s = rev (dropWhile (\<lambda>c. c = CHR ''0'') (rev s))"

definition show_frac :: "nat \<Rightarrow> nat \<Rightarrow> string" where
  "show_frac p v = (let t = trim_zeros (frac_digits p v) in if t = [] then [] else CHR ''.'' # t)"

definition show_seconds :: "nat \<Rightarrow> string" where
  "show_seconds u =
     (let sec = u div 1000000000; mins = sec div 60; hours = mins div 60 in
      (if hours > 0 then show_nat hours @ ''h'' else [])
      @ (if mins > 0 then show_nat (mins mod 60) @ ''m'' else [])
      @ show_nat (sec mod 60) @ show_frac 9 u @ ''s'')"

definition show_unsigned :: "nat \<Rightarrow> string" where
  "show_unsigned u =
     (if u = 0 then ''0s''
      else if u < 1000 then show_nat u @ ''ns''
      else if u < 1000000 then show_nat (u div 1000) @ show_frac 3 u @ [CHR 0xC2, CHR 0xB5, CHR ''s'']
      else if u < 1000000000 then show_nat (u div 1000000) @ show_frac 6 u @ ''ms''
      else show_seconds u)"

definition show_duration :: "duration \<Rightarrow> string" where
  "show_duration d = (if d < 0 then ''-'' else []) @ show_unsigned (nat \<bar>d\<bar>)"

text \<open>\<open>d.Truncate(m)\<close> rounds towards zero.\<close>

definition truncate_dur :: "duration \<Rightarrow> duration \<Rightarrow> duration" where
  "truncate_dur d m = (if m \<le> 0 then d else sgn d * (\<bar>d\<bar> div m * m))"

subsection \<open>What is written is read back\<close>

definition dval :: "nat \<Rightarrow> string \<Rightarrow> nat" where
  "dval x ds = foldl (\<lambda>x c. x * 10 + digit_nat c) x ds"

lemma dval_simps [simp]:
  "dval x [] = x" "dval x (c # cs) = dval (x * 10 + digit_nat c) cs"
  "dval x (ds @ es) = dval (dval x ds) es"
  by (simp_all add: dval_def)

lemma dval_ge: "x \<le> dval x ds"
proof (induction ds arbitrary: x)
  case (Cons c ds)
  have "x \<le> x * 10 + digit_nat c" by simp
  then show ?case using Cons.IH [of "x * 10 + digit_nat c"] by simp
qed simp

lemma digit_nat_char: "n < 10 \<Longrightarrow> digit_nat (digit_char n) = n"
  by (simp add: digit_nat_def byte_digit_char)

definition no_digit :: "string \<Rightarrow> bool" where
  "no_digit r \<longleftrightarrow> (case r of [] \<Rightarrow> True | c # _ \<Rightarrow> \<not> is_digit c)"

lemma leading_int_digits:
  "list_all is_digit ds \<Longrightarrow> dval x ds \<le> 2 ^ 63 \<Longrightarrow> leading_int x (ds @ r) = leading_int (dval x ds) r"
proof (induction ds arbitrary: x)
  case (Cons c ds)
  have "x * 10 + digit_nat c \<le> 2 ^ 63"
    using Cons.prems(2) dval_ge [of "x * 10 + digit_nat c" ds] by simp
  moreover from this have "x \<le> 2 ^ 63 div 10" by simp
  ultimately show ?case using Cons by simp
qed simp

lemma leading_int_stops: "no_digit r \<Longrightarrow> leading_int x r = Some (x, r)"
  by (cases r) (auto simp: no_digit_def)

lemma show_nat_dval: "list_all is_digit (show_nat n) \<and> dval 0 (show_nat n) = n"
proof (induction n rule: show_nat.induct)
  case (1 n)
  then show ?case
    by (cases "n < 10") (simp_all add: show_nat.simps [of n] digit_char_digit digit_nat_char)
qed

lemma leading_int_show: "n \<le> 2 ^ 63 \<Longrightarrow> no_digit r \<Longrightarrow> leading_int 0 (show_nat n @ r) = Some (n, r)"
  using show_nat_dval [of n] by (simp add: leading_int_digits leading_int_stops)

lemma leading_frac_digits:
  "list_all is_digit ds \<Longrightarrow> dval x ds \<le> 2 ^ 63 - 1 \<Longrightarrow>
   leading_frac False x sc (ds @ r) = leading_frac False (dval x ds) (sc * 10 ^ length ds) r"
proof (induction ds arbitrary: x sc)
  case (Cons c ds)
  have "x * 10 + digit_nat c \<le> 2 ^ 63 - 1"
    using Cons.prems(2) dval_ge [of "x * 10 + digit_nat c" ds] by simp
  moreover from this have "x \<le> (2 ^ 63 - 1) div 10" by simp
  ultimately show ?case using Cons by (simp add: mult.assoc)
qed simp

lemma leading_frac_stops: "no_digit r \<Longrightarrow> leading_frac b x sc r = (x, sc, r)"
  by (cases r) (auto simp: no_digit_def)

lemma frac_digits_facts:
  "length (frac_digits p v) = p \<and> list_all is_digit (frac_digits p v) \<and> dval 0 (frac_digits p v) = v mod 10 ^ p"
proof (induction p arbitrary: v)
  case (Suc p)
  have "v div 10 mod 10 ^ p * 10 + v mod 10 = v mod 10 ^ Suc p"
    using mod_mult2_eq [of v 10 "10 ^ p"] by (simp add: mult.commute)
  then show ?case using Suc by (simp add: digit_char_digit digit_nat_char)
qed simp

lemma dval_zeros: "dval x (replicate k (CHR ''0'')) = x * 10 ^ k"
  by (induction k arbitrary: x) (simp_all add: digit_nat_def byte_def)

lemma trim_zeros_split: "\<exists>k. s = trim_zeros s @ replicate k (CHR ''0'')"
proof -
  let ?z = "\<lambda>c. c = CHR ''0''"
  have "rev s = takeWhile ?z (rev s) @ dropWhile ?z (rev s)" by simp
  then have "s = rev (dropWhile ?z (rev s)) @ rev (takeWhile ?z (rev s))" by (metis rev_append rev_rev_ident)
  moreover have "rev (takeWhile ?z (rev s)) = replicate (length (takeWhile ?z (rev s))) (CHR ''0'')"
    by (intro replicate_eqI) (auto dest: set_takeWhileD)
  ultimately show ?thesis unfolding trim_zeros_def by metis
qed

lemma unit_part:
  "u \<noteq> [] \<Longrightarrow> list_all (\<lambda>c. \<not> number_char c) u \<Longrightarrow> rest = [] \<or> number_char (hd rest) \<Longrightarrow>
   takeWhile (\<lambda>c. \<not> number_char c) (u @ rest) = u \<and> dropWhile (\<lambda>c. \<not> number_char c) (u @ rest) = rest"
  by (cases rest) (auto simp: list_all_iff takeWhile_append dropWhile_append)

lemma dur_fraction_show:
  assumes "p \<le> 9" "no_digit r" "\<not> has_prefix r ''.''"
  shows "\<exists>f sc b. dur_fraction (show_frac p v @ r) = (f, sc, r, b) \<and> f * 10 ^ p div sc = v mod 10 ^ p"
proof -
  define t where "t = trim_zeros (frac_digits p v)"
  obtain k where k: "frac_digits p v = t @ replicate k (CHR ''0'')"
    using trim_zeros_split unfolding t_def by blast
  have len: "p = length t + k" and dig: "list_all is_digit t" and val: "dval 0 t * 10 ^ k = v mod 10 ^ p"
    using frac_digits_facts [of p v] unfolding k by (simp_all add: dval_zeros)
  show ?thesis
  proof (cases "t = []")
    case True
    then show ?thesis using assms(3) val by (auto simp: show_frac_def t_def [symmetric] dur_fraction_def)
  next
    case False
    have "dval 0 t \<le> v mod 10 ^ p" using val by (metis le_square mult_le_mono2 nat_mult_1_right one_le_numeral one_le_power)
    also have "\<dots> < 10 ^ p" by simp
    also have "\<dots> \<le> 10 ^ 9" using assms(1) by (intro power_increasing) auto
    finally have "leading_frac False 0 1 (t @ r) = (dval 0 t, 10 ^ length t, r)"
      using dig assms(2) by (simp add: leading_frac_digits leading_frac_stops)
    then have "dur_fraction (show_frac p v @ r) = (dval 0 t, 10 ^ length t, r, length r \<noteq> length (t @ r))"
      using False by (simp add: show_frac_def t_def [symmetric] dur_fraction_def has_prefix_def)
    moreover have "dval 0 t * 10 ^ p div 10 ^ length t = v mod 10 ^ p"
    proof -
      have "dval 0 t * 10 ^ p = 10 ^ length t * (dval 0 t * 10 ^ k)"
        by (simp add: len power_add mult.left_commute)
      then show ?thesis by (simp add: val)
    qed
    ultimately show ?thesis by blast
  qed
qed

text \<open>A unit and what follows it.\<close>

definition unit_ok :: "string \<Rightarrow> nat \<Rightarrow> string \<Rightarrow> bool" where
  "unit_ok u n rest \<longleftrightarrow> unit_of u = Some n \<and> u \<noteq> [] \<and> list_all (\<lambda>c. \<not> number_char c) u
     \<and> (rest = [] \<or> number_char (hd rest))"

lemma unit_ok_start:
  "unit_ok u n rest \<Longrightarrow> no_digit (u @ rest) \<and> \<not> has_prefix (u @ rest) ''.''"
  by (cases u) (auto simp: unit_ok_def no_digit_def number_char_def has_prefix_def)

lemma show_nat_start: "show_nat n \<noteq> [] \<and> is_digit (hd (show_nat n))"
  using show_nat_digits [of n] by (cases "show_nat n") auto

lemma show_frac_stops: "no_digit r \<Longrightarrow> no_digit (show_frac p v @ r)"
  by (cases "trim_zeros (frac_digits p v)") (auto simp: show_frac_def no_digit_def is_digit_def byte_def)

lemma dur_part_show:
  assumes "unit_ok u n rest" "p \<le> 9" "a * n + v mod 10 ^ p \<le> 2 ^ 63" "p = 0 \<or> n = 10 ^ p" "0 < n"
  shows "dur_part (show_nat a @ show_frac p v @ u @ rest) = Some (a * n + v mod 10 ^ p, rest)"
proof -
  note r = unit_ok_start [OF assms(1)]
  obtain f sc b where f: "dur_fraction (show_frac p v @ u @ rest) = (f, sc, u @ rest, b)" "f * 10 ^ p div sc = v mod 10 ^ p"
    using dur_fraction_show [OF assms(2), of "u @ rest" v] r by blast
  have fr: "f * n div sc = v mod 10 ^ p"
  proof (cases "p = 0")
    case True
    then have "dur_fraction (show_frac p v @ u @ rest) = (0, 1, u @ rest, False)"
      using r by (simp add: show_frac_def trim_zeros_def dur_fraction_def)
    then have "f = 0" using f(1) by simp
    then show ?thesis using True by simp
  qed (use f assms(4) in auto)
  have "a * n \<le> 2 ^ 63" using assms(3) by simp
  then have a: "a \<le> 2 ^ 63 div n" using assms(5) by (simp add: less_eq_div_iff_mult_less_eq)
  have "a \<le> a * n" using assms(5) by simp
  have i: "leading_int 0 (show_nat a @ show_frac p v @ u @ rest) = Some (a, show_frac p v @ u @ rest)"
    using r show_frac_stops order_trans [OF \<open>a \<le> a * n\<close> \<open>a * n \<le> 2 ^ 63\<close>] by (intro leading_int_show) auto
  have h: "number_char (hd (show_nat a @ show_frac p v @ u @ rest))" "show_nat a \<noteq> []"
    using show_nat_start [of a] by (auto simp: number_char_def)
  have u: "takeWhile (\<lambda>c. \<not> number_char c) (u @ rest) = u" "dropWhile (\<lambda>c. \<not> number_char c) (u @ rest) = rest"
    "unit_of u = Some n" "u \<noteq> []"
    using unit_part [of u rest] assms(1) by (auto simp: unit_ok_def)
  show ?thesis
    using h a assms(3) by (simp add: dur_part_def i f(1) Let_def u fr)
qed

lemma dur_part_whole:
  "unit_ok u n rest \<Longrightarrow> a * n \<le> 2 ^ 63 \<Longrightarrow> 0 < n \<Longrightarrow> dur_part (show_nat a @ u @ rest) = Some (a * n, rest)"
  using dur_part_show [of u n rest 0 a 0] by (simp add: show_frac_def trim_zeros_def)

lemma dur_loop_step:
  "dur_part s = Some (n, rest) \<Longrightarrow> s \<noteq> [] \<Longrightarrow> d + n \<le> 2 ^ 63 \<Longrightarrow> dur_loop s d = dur_loop rest (d + n)"
  by (subst dur_loop.simps) simp

lemma dur_loop_end [simp]: "dur_loop [] d = Some d"
  by (subst dur_loop.simps) simp

lemma dur_loop_last:
  assumes "unit_ok u n []" "p \<le> 9" "d + (a * n + v mod 10 ^ p) \<le> 2 ^ 63" "p = 0 \<or> n = 10 ^ p" "0 < n"
  shows "dur_loop (show_nat a @ show_frac p v @ u) d = Some (d + (a * n + v mod 10 ^ p))"
proof -
  have "dur_part (show_nat a @ show_frac p v @ u) = Some (a * n + v mod 10 ^ p, [])"
    using dur_part_show [of u n "[]" p a v] assms by simp
  from dur_loop_step [OF this _ assms(3)] show ?thesis using show_nat_start [of a] by auto
qed

lemma dur_loop_more:
  assumes "unit_ok u n rest" "d + a * n \<le> 2 ^ 63" "0 < n"
  shows "dur_loop (show_nat a @ u @ rest) d = dur_loop rest (d + a * n)"
proof -
  have "dur_part (show_nat a @ u @ rest) = Some (a * n, rest)"
    using dur_part_whole [of u n rest a] assms by simp
  from dur_loop_step [OF this _ assms(2)] show ?thesis using show_nat_start [of a] by auto
qed

lemma units [simp]:
  "unit_ok ''ns'' 1 []" "unit_ok [CHR 0xC2, CHR 0xB5, CHR ''s''] 1000 []" "unit_ok ''ms'' 1000000 []"
  "unit_ok ''s'' 1000000000 []"
  "unit_ok ''m'' 60000000000 (show_nat a @ r)" "unit_ok ''h'' 3600000000000 (show_nat a @ r)"
  using show_nat_start [of a]
  by (auto simp: unit_ok_def unit_of_def number_char_def is_digit_def byte_def)

lemma read_seconds:
  assumes "1000000000 \<le> u" "u \<le> 2 ^ 63"
  shows "dur_loop (show_seconds u) 0 = Some u"
proof -
  define sec where "sec = u div 1000000000"
  define mins where "mins = sec div 60"
  define hours where "hours = mins div 60"
  have u: "u = sec * 1000000000 + u mod 1000000000" by (simp add: sec_def)
  have s: "sec = mins * 60 + sec mod 60" by (simp add: mins_def)
  have m: "mins = hours * 60 + mins mod 60" by (simp add: hours_def)
  have whole: "hours * 3600000000000 + (mins mod 60) * 60000000000 + ((sec mod 60) * 1000000000 + u mod 10 ^ 9) = u"
  proof -
    have "sec = (hours * 60 + mins mod 60) * 60 + sec mod 60" using s m by simp
    then have "u = ((hours * 60 + mins mod 60) * 60 + sec mod 60) * 1000000000 + u mod 1000000000" using u by simp
    then show ?thesis by (simp add: algebra_simps)
  qed
  have last: "dur_loop (show_nat (sec mod 60) @ show_frac 9 u @ ''s'') d = Some (d + ((sec mod 60) * 1000000000 + u mod 10 ^ 9))"
    if "d + ((sec mod 60) * 1000000000 + u mod 10 ^ 9) \<le> 2 ^ 63" for d
    using that by (intro dur_loop_last) auto
  have mid: "dur_loop (show_nat (mins mod 60) @ ''m'' @ show_nat (sec mod 60) @ show_frac 9 u @ ''s'') d
      = Some (d + (mins mod 60) * 60000000000 + ((sec mod 60) * 1000000000 + u mod 10 ^ 9))"
    if "d + (mins mod 60) * 60000000000 + ((sec mod 60) * 1000000000 + u mod 10 ^ 9) \<le> 2 ^ 63" for d
    using that last by (subst dur_loop_more [where n = 60000000000 and u = "''m''"]) auto
  show ?thesis
  proof (cases "hours > 0")
    case True
    then have "mins > 0" using m by auto
    have "dur_loop (show_seconds u) 0
        = dur_loop (show_nat (mins mod 60) @ ''m'' @ show_nat (sec mod 60) @ show_frac 9 u @ ''s'') (0 + hours * 3600000000000)"
      using True \<open>mins > 0\<close> whole assms(2)
      by (subst dur_loop_more [where n = 3600000000000 and u = "''h''", symmetric]) (auto simp: show_seconds_def Let_def sec_def mins_def hours_def)
    then show ?thesis using mid [of "hours * 3600000000000"] whole assms(2) by simp
  next
    case False
    then show ?thesis
      using mid [of 0] last [of 0] whole assms(2)
      by (cases "mins > 0") (auto simp: show_seconds_def Let_def sec_def [symmetric] mins_def [symmetric] hours_def [symmetric])
  qed
qed

lemma read_unsigned: "u \<le> 2 ^ 63 \<Longrightarrow> dur_loop (show_unsigned u) 0 = Some u"
proof -
  assume u: "u \<le> 2 ^ 63"
  have ns: "dur_loop (show_nat u @ ''ns'') 0 = Some u"
    using dur_loop_last [OF units(1), of 0 0 u 0] u by (simp add: show_frac_def trim_zeros_def)
  have us: "dur_loop (show_nat (u div 1000) @ show_frac 3 u @ [CHR 0xC2, CHR 0xB5, CHR ''s'']) 0 = Some u"
    using dur_loop_last [of "[CHR 0xC2, CHR 0xB5, CHR ''s'']" 1000 3 0 "u div 1000" u] u by simp
  have ms: "dur_loop (show_nat (u div 1000000) @ show_frac 6 u @ ''ms'') 0 = Some u"
    using dur_loop_last [of "''ms''" 1000000 6 0 "u div 1000000" u] u by simp
  have "digit_char 0 = CHR ''0''" by code_simp
  then have z: "dur_loop ''0s'' 0 = Some 0"
    using dur_loop_more [of "''s''" 1000000000 "[]" 0 0] by (simp add: show_nat.simps [of 0])
  show ?thesis using u read_seconds [of u] by (auto simp: show_unsigned_def ns us ms z)
qed

lemma show_unsigned_shape:
  "\<exists>c cs. show_unsigned u = c # cs \<and> is_digit c \<and> cs \<noteq> []"
proof -
  have n: "\<exists>c cs. show_nat a @ r = c # cs \<and> is_digit c \<and> cs \<noteq> []" if "r \<noteq> []" for a r
    using show_nat_start [of a] that by (cases "show_nat a") auto
  have z: "is_digit (CHR ''0'')" by (simp add: is_digit_def byte_def)
  have m: "\<exists>c cs. (show_nat a @ q) @ r = c # cs \<and> is_digit c \<and> cs \<noteq> []" if "r \<noteq> []" for a q r
    using n [of "q @ r" a] that by simp
  show ?thesis
    unfolding show_unsigned_def show_seconds_def Let_def
    by (auto simp: z intro: n m simp del: append_assoc split: if_splits)
qed

text \<open>Reading what was written, over the whole range of a \<open>time.Duration\<close>.\<close>

lemma read_show_duration: "int64_ok d \<Longrightarrow> ParseDuration (show_duration d) = Some d"
proof -
  assume d: "int64_ok d"
  define u where "u = nat \<bar>d\<bar>"
  have u: "u \<le> 2 ^ 63" "0 \<le> d \<Longrightarrow> u \<le> 2 ^ 63 - 1" "int u = \<bar>d\<bar>" using d by (auto simp: u_def int64_ok_def)
  obtain c cs where s: "show_unsigned u = c # cs" "is_digit c" "cs \<noteq> []" using show_unsigned_shape by blast
  have sg: "c \<noteq> CHR ''-''" "c \<noteq> CHR ''+''" using s(2) by (auto simp: is_digit_def byte_def)
  have l: "dur_loop (c # cs) 0 = Some u" using read_unsigned [OF u(1)] s(1) by simp
  show ?thesis
  proof (cases "d < 0")
    case True
    then have "show_duration d = CHR ''-'' # c # cs" using s(1) by (simp add: show_duration_def u_def)
    then show ?thesis using True l s(3) u(3) by (simp add: ParseDuration_def has_prefix_def)
  next
    case False
    then have "show_duration d = c # cs" using s(1) by (simp add: show_duration_def u_def)
    then show ?thesis using False l s(3) sg u(2,3) by (simp add: ParseDuration_def has_prefix_def)
  qed
qed

end
