(* ===== verification/Jack.thy ===== *)
theory Jack
  imports Formula GoDuration
begin

text \<open>
  Jacks (\<open>cmd/kd/jack_*.go\<close>, \<open>internal/model/jack.go\<close>): permits for changes outside the
  pipeline, kept as beads with fields. A jack has a time to live that can be extended a few times,
  and a log of changes. \<open>rfc\<close> writes a time by \<open>time.RFC3339\<close>, \<open>clock\<close> its hours, minutes and
  seconds.
\<close>

subsection \<open>Bounds (\<open>internal/model/jack.go\<close>)\<close>

abbreviation JackMaxCumulativeTTL :: duration where "JackMaxCumulativeTTL \<equiv> 7 * 24 * hour"
abbreviation JackMaxChangeFieldSize :: nat where "JackMaxChangeFieldSize \<equiv> 5 * 1024"

record jack_change =
  jcTimestamp :: string
  jcAction :: string
  jcTarget :: string
  jcBefore :: string
  jcAfter :: string
  jcCmd :: string
  jcAgent :: string
  jcSensitive :: bool

definition change_json :: "jack_change \<Rightarrow> json" where
  "change_json c = JObj (
     [(''timestamp'', JStr (jcTimestamp c)), (''action'', JStr (jcAction c))]
     @ opt_str ''target'' (jcTarget c) @ opt_str ''before'' (jcBefore c) @ opt_str ''after'' (jcAfter c)
     @ opt_str ''cmd'' (jcCmd c) @ opt_str ''agent'' (jcAgent c)
     @ (if jcSensitive c then [(''sensitive'', JBool True)] else []))"

subsection \<open>The fields of a jack\<close>

text \<open>What is not an object is passed over, and reads as no fields at all.\<close>

definition jack_fields :: "bead \<Rightarrow> gomap" where
  "jack_fields b = (if raw_empty (bFields b) then None else fst (unmarshal_map (bFields b) None))"

definition field_at :: "gomap \<Rightarrow> string \<Rightarrow> json option" where
  "field_at m k = map_of (gomap_list m) k"

definition str_at :: "gomap \<Rightarrow> string \<Rightarrow> string" where
  "str_at m k = (case field_at m k of Some (JStr s) \<Rightarrow> s | _ \<Rightarrow> [])"

text \<open>\<open>int(v)\<close> of a \<open>float64\<close>; where the value does not fit an \<open>int\<close>, Go leaves the result open.\<close>

definition int_at :: "gomap \<Rightarrow> string \<Rightarrow> int" where
  "int_at m k = (case field_at m k of Some (JInt n) \<Rightarrow> n | Some (JFloat n e) \<Rightarrow> float_trunc n e | _ \<Rightarrow> 0)"

definition bool_at :: "gomap \<Rightarrow> string \<Rightarrow> bool" where
  "bool_at m k = (field_at m k = Some (JBool True))"

definition list_at :: "gomap \<Rightarrow> string \<Rightarrow> json list" where
  "list_at m k = (case field_at m k of Some (JArr xs) \<Rightarrow> xs | _ \<Rightarrow> [])"

definition set_fields :: "(string \<times> json) list \<Rightarrow> gomap \<Rightarrow> gomap" where
  "set_fields kvs m = Some (put_all kvs (gomap_list m))"

definition get_jack :: "'s client \<Rightarrow> (bead \<Rightarrow> string) \<Rightarrow> string \<Rightarrow> ('s kd, bead) op" where
  "get_jack cl complaint i =
     and_then (wrap (''getting jack '' @ i) (call (clGetBead cl i))) (\<lambda>b.
     if bType b \<noteq> ''jack'' then errorf (complaint b) else ret b)"

definition not_closed :: "string \<Rightarrow> bead \<Rightarrow> ('s kd, unit) op" where
  "not_closed i b = (if bStatus b = ''closed'' then errorf (''jack '' @ i @ '' is already closed'') else ret ())"

definition patch_jack :: "'s client \<Rightarrow> string \<Rightarrow> gomap \<Rightarrow> ('s kd, bead) op" where
  "patch_jack cl i m = call (clUpdateBead cl i (no_update_request\<lparr>uqFields := marshal_map m\<rparr>))"

text \<open>The bead is read again to be printed; a \<open>nil\<close> bead is written \<open>null\<close>.\<close>

definition print_again :: "'s client \<Rightarrow> kd_ctx \<Rightarrow> string \<Rightarrow> ('s kd, unit) op" where
  "print_again cl cx i =
     and_then (try_call (clGetBead cl i)) (\<lambda>x. case x of
       Some b \<Rightarrow> printBeadJSON cx b | None \<Rightarrow> emit (PrettyJson JNull))"

subsection \<open>\<open>kd jack up\<close>\<close>

record jack_up =
  juTarget :: string
  juReason :: string
  juRevertPlan :: string
  juTTL :: string
  juBlocks :: string
  juLabels :: "string list"
  juPriority :: int

definition check_ttl :: "string \<Rightarrow> duration res" where
  "check_ttl s =
     (case ParseDuration s of
        None \<Rightarrow> Inl (WrapErr (''invalid TTL '' @ go_quote s) (OtherError ''time: invalid duration''))
      | Some d \<Rightarrow> Inr d)"

definition check_up :: "jack_up \<Rightarrow> duration res" where
  "check_up a =
     (if juReason a = [] then Inl (OtherError ''--reason is required'')
      else if juRevertPlan a = [] then Inl (OtherError ''--revert-plan is required'')
      else case check_ttl (juTTL a) of
        Inl e \<Rightarrow> Inl e
      | Inr d \<Rightarrow>
          if d > JackMaxTTL then
            Inl (OtherError (''TTL '' @ show_duration d @ '' exceeds maximum '' @ show_duration JackMaxTTL))
          else Inr d)"

definition jack_labels :: "string list \<Rightarrow> string list" where
  "jack_labels ls = (if list_ex (\<lambda>l. has_prefix l ''jack:'') ls then ls else ls @ [''jack:general''])"

definition up_fields :: "(time \<Rightarrow> string) \<Rightarrow> time \<Rightarrow> jack_up \<Rightarrow> duration \<Rightarrow> gomap" where
  "up_fields rfc tm a ttl = Some
     [(''jack_target'', JStr (juTarget a)), (''jack_reason'', JStr (juReason a)),
      (''jack_revert_plan'', JStr (juRevertPlan a)), (''jack_ttl'', JStr (juTTL a)),
      (''jack_expires_at'', JStr (rfc (tm + ttl))), (''jack_extension_count'', JInt 0),
      (''jack_cumulative_ttl'', JStr (juTTL a)), (''jack_reverted'', JBool False),
      (''jack_escalated'', JBool False), (''jack_changes'', JArr [])]"

definition up_request :: "(time \<Rightarrow> string) \<Rightarrow> kd_ctx \<Rightarrow> jack_up \<Rightarrow> duration \<Rightarrow> create_request" where
  "up_request rfc cx a ttl =
     no_create\<lparr>iTitle := ''Jack: '' @ juTarget a, iDescription := juReason a, iType := ''jack'',
       iPriority := juPriority a, iLabels := jack_labels (juLabels a), iCreatedBy := cxActor cx,
       iFields := marshal_map (up_fields rfc (cxNow cx) a ttl)\<rparr>"

definition warn_on_failure :: "string \<Rightarrow> ('s \<Rightarrow> 'a cres \<times> 's) \<Rightarrow> ('s kd, unit) op" where
  "warn_on_failure what f =
     attempt (call f) (\<lambda>r. case r of
       Inl e \<Rightarrow> eprint (''Warning: '' @ what @ '': '' @ err_text e @ nl) | Inr _ \<Rightarrow> ret ())"

definition jackUp ::
  "(time \<Rightarrow> string) \<Rightarrow> (time \<Rightarrow> string) \<Rightarrow> 's client \<Rightarrow> kd_ctx \<Rightarrow> jack_up \<Rightarrow> ('s kd, unit) op" where
  "jackUp rfc clock cl cx a =
     and_then (lift_res (check_up a)) (\<lambda>ttl.
     and_then (wrap ''creating jack'' (call (clCreateBead cl (up_request rfc cx a ttl)))) (\<lambda>b.
     andthen (warn_on_failure ''created jack but failed to set in_progress''
       (clUpdateBead cl (bID b) (no_update_request\<lparr>uqStatus := Some ''in_progress''\<rparr>)))
    (andthen (only_if (juBlocks a \<noteq> []) (warn_on_failure ''jack created but failed to add blocks dependency''
       (clAddDependency cl (juBlocks a) (bID b) ''blocks'' (cxActor cx))))
       (if cxJson cx then printBeadJSON cx b
        else say (''Jack activated: '' @ bID b @ nl @ ''  Target:  '' @ juTarget a @ nl
               @ ''  TTL:     '' @ juTTL a @ '' (expires '' @ clock (cxNow cx + ttl) @ '')'' @ nl
               @ ''  Revert:  '' @ juRevertPlan a @ nl)))))"

subsection \<open>\<open>kd jack extend\<close>\<close>

text \<open>What an extension writes, or why it is refused.\<close>

definition extend_fields :: "(time \<Rightarrow> string) \<Rightarrow> time \<Rightarrow> duration \<Rightarrow> gomap \<Rightarrow> gomap res" where
  "extend_fields rfc tm ttl m =
     (let n = int_at m ''jack_extension_count'';
          cum = (case ParseDuration (str_at m ''jack_cumulative_ttl'') of Some d \<Rightarrow> d | None \<Rightarrow> 0);
          tot = wrap64 (cum + ttl)
      in if n \<ge> JackMaxExtensions then
           Inl (OtherError (''jack has reached maximum '' @ show_int JackMaxExtensions @ '' extensions''))
         else if tot > JackMaxCumulativeTTL then
           Inl (OtherError (''cumulative TTL '' @ show_duration cum @ '' + '' @ show_duration ttl
             @ '' exceeds maximum '' @ show_duration JackMaxCumulativeTTL))
         else Inr (set_fields
           ((case field_at m ''jack_ttl'' of Some v \<Rightarrow> if n = 0 then [(''jack_original_ttl'', v)] else [] | None \<Rightarrow> [])
            @ [(''jack_expires_at'', JStr (rfc (tm + ttl))), (''jack_extension_count'', JInt (n + 1)),
               (''jack_cumulative_ttl'', JStr (show_duration tot))]) m))"

definition check_extension :: "string \<Rightarrow> duration res" where
  "check_extension s =
     (if s = [] then Inl (OtherError ''--ttl is required'')
      else case check_ttl s of
        Inl e \<Rightarrow> Inl e
      | Inr d \<Rightarrow>
          if d > JackMaxSingleExtension then
            Inl (OtherError (''single extension '' @ show_duration d @ '' exceeds maximum ''
              @ show_duration JackMaxSingleExtension))
          else Inr d)"

definition jackExtend ::
  "(time \<Rightarrow> string) \<Rightarrow> 's client \<Rightarrow> kd_ctx \<Rightarrow> string \<Rightarrow> string \<Rightarrow> string \<Rightarrow> ('s kd, unit) op" where
  "jackExtend rfc cl cx i ttls reason =
     and_then (lift_res (check_extension ttls)) (\<lambda>ttl.
     and_then (get_jack cl (\<lambda>_. i @ '' is not a jack'') i) (\<lambda>b.
     andthen (not_closed i b)
    (and_then (lift_res (extend_fields rfc (cxNow cx) ttl (jack_fields b))) (\<lambda>m.
     let n = show_int (int_at m ''jack_extension_count''); most = show_int JackMaxExtensions in
     andthen (wrap (''updating jack '' @ i) (patch_jack cl i m))
    (andthen (try_call (clAddComment cl i (cxActor cx)
        (''Extended TTL by '' @ ttls @ '' (extension '' @ n @ ''/'' @ most @ '')''
         @ (if reason \<noteq> [] then '': '' @ reason else []))))
       (if cxJson cx then print_again cl cx i
        else say (''Jack extended: '' @ i @ nl @ ''  New expiry: '' @ cxStamp cx (cxNow cx + ttl) @ nl
               @ ''  Extensions: '' @ n @ ''/'' @ most @ nl)))))))"

subsection \<open>\<open>kd jack log\<close>\<close>

record jack_log =
  jlAction :: string
  jlTarget :: string
  jlBefore :: string
  jlAfter :: string
  jlCmd :: string

definition log_change :: "(time \<Rightarrow> string) \<Rightarrow> kd_ctx \<Rightarrow> jack_log \<Rightarrow> gomap \<Rightarrow> jack_change" where
  "log_change rfc cx a m =
     \<lparr>jcTimestamp = rfc (cxNow cx), jcAction = jlAction a,
      jcTarget = or_default (jlTarget a) (str_at m ''jack_target''),
      jcBefore = take JackMaxChangeFieldSize (jlBefore a), jcAfter = take JackMaxChangeFieldSize (jlAfter a),
      jcCmd = jlCmd a, jcAgent = cxActor cx, jcSensitive = False\<rparr>"

definition log_fields :: "jack_change \<Rightarrow> gomap \<Rightarrow> gomap res" where
  "log_fields c m =
     (let cs = list_at m ''jack_changes'' in
      if length cs \<ge> JackMaxChanges then
        Inl (OtherError (''jack has reached maximum '' @ show_nat JackMaxChanges @ '' change records''))
      else Inr (set_fields [(''jack_changes'', JArr (cs @ [change_json c]))] m))"

definition jackLog :: "(time \<Rightarrow> string) \<Rightarrow> 's client \<Rightarrow> kd_ctx \<Rightarrow> string \<Rightarrow> jack_log \<Rightarrow> ('s kd, unit) op" where
  "jackLog rfc cl cx i a =
     (if jlAction a = [] then errorf ''--action is required''
      else if \<not> IsValidJackAction (jlAction a) then
        errorf (''invalid action '' @ go_quote (jlAction a) @ '' (must be one of '' @ show_strings ValidJackActions @ '')'')
      else and_then (get_jack cl (\<lambda>_. i @ '' is not a jack'') i) (\<lambda>b.
        andthen (not_closed i b)
          (let m = jack_fields b; c = log_change rfc cx a m in
           and_then (lift_res (log_fields c m)) (\<lambda>m'.
           let n = length (list_at m' ''jack_changes'') in
           andthen (wrap (''updating jack '' @ i) (patch_jack cl i m'))
             (if cxJson cx then emit (PrettyJson (change_json c))
              else andthen
                (say (''Logged change #'' @ show_nat n @ '' on '' @ i @ nl @ ''  Action: '' @ jlAction a @ nl
                   @ opt_line (jcTarget c \<noteq> []) (''  Target: '' @ jcTarget c)))
                (only_if (n \<ge> JackMaxChanges * 80 div 100)
                   (eprint (''Warning: '' @ show_nat n @ ''/'' @ show_nat JackMaxChanges @ '' change records used'' @ nl))))))))"

subsection \<open>\<open>kd jack down\<close> and \<open>kd jack check\<close>\<close>

definition jackDown ::
  "(time \<Rightarrow> string) \<Rightarrow> 's client \<Rightarrow> kd_ctx \<Rightarrow> string \<Rightarrow> string \<Rightarrow> bool \<Rightarrow> ('s kd, unit) op" where
  "jackDown rfc cl cx i reason skip =
     (if reason = [] then errorf ''--reason is required''
      else if skip \<and> length reason < 10 then
        errorf ''--skip-revert-check requires a reason of at least 10 characters''
      else and_then (get_jack cl (\<lambda>b. i @ '' is not a jack (type='' @ bType b @ '')'') i) (\<lambda>b.
        andthen (wrap ''updating jack fields'' (patch_jack cl i (set_fields
            [(''jack_reverted'', JBool (\<not> skip)), (''jack_closed_reason'', JStr reason),
             (''jack_closed_at'', JStr (rfc (cxNow cx)))] (jack_fields b))))
       (andthen (wrap (''closing jack '' @ i) (call (clCloseBead cl i (cxActor cx))))
          (if cxJson cx then print_again cl cx i
           else say (''Jack closed: '' @ i @ nl @ ''  Reason: '' @ reason @ nl
                  @ (if skip then ''  Revert check: skipped'' else ''  Reverted: yes'') @ nl)))))"

text \<open>Whether a jack is past its expiry, when its fields say when that is.\<close>

definition jack_expired :: "time \<Rightarrow> gomap \<Rightarrow> (bool \<times> duration) option" where
  "jack_expired tm m =
     (case parse_time (str_at m ''jack_expires_at'') of
        None \<Rightarrow> None
      | Some t \<Rightarrow> Some (if tm > t then (True, time_sub tm t) else (False, time_sub t tm)))"

definition short_dur :: "duration \<Rightarrow> string" where
  "short_dur d = show_duration (truncate_dur d second)"

definition escalate :: "(time \<Rightarrow> string) \<Rightarrow> 's client \<Rightarrow> kd_ctx \<Rightarrow> bead \<Rightarrow> ('s kd, unit) op" where
  "escalate rfc cl cx b =
     (let m = jack_fields b in
      if bool_at m ''jack_escalated'' then ret ()
      else andthen (try_call (clUpdateBead cl (bID b) (no_update_request\<lparr>uqFields := marshal_map (set_fields
             [(''jack_escalated'', JBool True), (''jack_escalated_at'', JStr (rfc (cxNow cx)))] m)\<rparr>)))
        (say (''  '' @ arrow @ '' Escalated (marked jack_escalated=true)'' @ nl)))"

definition check_jack :: "(time \<Rightarrow> string) \<Rightarrow> 's client \<Rightarrow> kd_ctx \<Rightarrow> bool \<Rightarrow> bead \<Rightarrow> ('s kd, bool option) op" where
  "check_jack rfc cl cx auto_escalate b =
     (let m = jack_fields b; head = bID b @ ''  target='' @ str_at m ''jack_target'' in
      case jack_expired (cxNow cx) m of
        None \<Rightarrow> ret None
      | Some (True, d) \<Rightarrow>
          andthen (say (''EXPIRED  '' @ head @ ''  expired='' @ short_dur d @ '' ago'' @ nl))
         (andthen (only_if auto_escalate (escalate rfc cl cx b)) (ret (Some True)))
      | Some (False, d) \<Rightarrow>
          andthen (say (''ACTIVE   '' @ head @ ''  remaining='' @ short_dur d @ nl)) (ret (Some False)))"

definition jack_listing :: "string list \<Rightarrow> list_request" where
  "jack_listing statuses = no_list\<lparr>lqType := [''jack''], lqStatus := statuses, lqLimit := 100\<rparr>"

definition jackCheck :: "(time \<Rightarrow> string) \<Rightarrow> 's client \<Rightarrow> kd_ctx \<Rightarrow> bool \<Rightarrow> ('s kd, unit) op" where
  "jackCheck rfc cl cx auto_escalate =
     and_then (wrap ''listing jacks'' (call (clListBeads cl (jack_listing [''in_progress''])))) (\<lambda>(bs, _).
     and_then (collect (check_jack rfc cl cx auto_escalate) bs) (\<lambda>xs.
       say (nl @ ''Summary: '' @ show_nat (length (filter (\<lambda>x. x = Some True) xs)) @ '' expired, ''
         @ show_nat (length (filter (\<lambda>x. x = Some False) xs)) @ '' active'' @ nl)))"

subsection \<open>\<open>kd jack list\<close> and \<open>kd jack show\<close>\<close>

definition filterJackLabels :: "string list \<Rightarrow> string list" where
  "filterJackLabels ls = filter (\<lambda>l. has_prefix l ''jack:'') ls"

definition jack_cells :: "time \<Rightarrow> bead \<Rightarrow> string" where
  "jack_cells tm b =
     (let m = jack_fields b in
      line_of [bID b, bStatus b, clip 30 (str_at m ''jack_target''), str_at m ''jack_ttl'',
        (case jack_expired tm m of
           None \<Rightarrow> ''?'' | Some (True, _) \<Rightarrow> ''EXPIRED'' | Some (False, d) \<Rightarrow> short_dur d),
        show_nat (length (list_at m ''jack_changes'')) @ ''/'' @ show_nat JackMaxChanges,
        join_str '','' (filterJackLabels (bLabels b))])"

definition listed_jack :: "bool \<Rightarrow> time \<Rightarrow> bead \<Rightarrow> bool" where
  "listed_jack expired_only tm b \<longleftrightarrow>
     \<not> expired_only \<or> (case jack_expired tm (jack_fields b) of Some (e, _) \<Rightarrow> e | None \<Rightarrow> False)"

definition jackList :: "'s client \<Rightarrow> kd_ctx \<Rightarrow> bool \<Rightarrow> bool \<Rightarrow> ('s kd, unit) op" where
  "jackList cl cx all_jacks expired_only =
     and_then (wrap ''listing jacks'' (call (clListBeads cl (jack_listing
       (if all_jacks then [''open'', ''in_progress'', ''closed''] else [''in_progress'']))))) (\<lambda>(bs, _).
     if cxJson cx then
       (case beads_json (cxFmt cx) bs of None \<Rightarrow> println [] | Some j \<Rightarrow> emit (PrettyJson j))
     else andthen
       (emit (Table (line_of [''ID'', ''STATUS'', ''TARGET'', ''TTL'', ''EXPIRY'', ''CHANGES'', ''LABELS'']
          @ concat (map (jack_cells (cxNow cx)) (filter (listed_jack expired_only (cxNow cx)) bs)))))
       (say (nl @ show_nat (length bs) @ '' jacks'' @ nl)))"

definition change_text :: "nat \<times> json \<Rightarrow> string" where
  "change_text x =
     (case x of
        (n, JObj kvs) \<Rightarrow>
          (let at = str_at (Some kvs) in
           ''  '' @ show_nat n @ ''. ['' @ at ''timestamp'' @ ''] '' @ at ''action''
           @ (if at ''target'' \<noteq> [] then '' '' @ at ''target'' else []) @ nl
           @ opt_line (at ''cmd'' \<noteq> []) (''     cmd: '' @ at ''cmd'')
           @ opt_line (at ''before'' \<noteq> []) (''     before: '' @ at ''before'')
           @ opt_line (at ''after'' \<noteq> []) (''     after:  '' @ at ''after''))
      | _ \<Rightarrow> [])"

definition jack_text :: "kd_ctx \<Rightarrow> bead \<Rightarrow> string" where
  "jack_text cx b =
     (let m = jack_fields b; cs = list_at m ''jack_changes'' in
      ''ID:         '' @ bID b @ '' [JACK]'' @ nl @ ''Title:      '' @ bTitle b @ nl
      @ ''Status:     '' @ bStatus b @ nl @ ''Priority:   '' @ show_int (bPriority b) @ nl
      @ ''Target:     '' @ str_at m ''jack_target'' @ nl @ ''TTL:        '' @ str_at m ''jack_ttl'' @ nl
      @ (case jack_expired (cxNow cx) m of
           None \<Rightarrow> []
         | Some (True, d) \<Rightarrow> ''Expiry:     EXPIRED ('' @ short_dur d @ '' ago)'' @ nl
         | Some (False, d) \<Rightarrow>
             ''Expiry:     '' @ cxStamp cx (the (parse_time (str_at m ''jack_expires_at''))) @ '' (''
             @ short_dur d @ '' remaining)'' @ nl)
      @ opt_line (int_at m ''jack_extension_count'' > 0)
          (''Extensions: '' @ show_int (int_at m ''jack_extension_count'') @ ''/5'')
      @ opt_line (str_at m ''jack_reason'' \<noteq> []) (''Reason:     '' @ str_at m ''jack_reason'')
      @ (if bool_at m ''jack_reverted'' then ''Revert Plan [REVERTED]'' else ''Revert Plan'') @ '': ''
      @ str_at m ''jack_revert_plan'' @ nl
      @ opt_line (str_at m ''jack_closed_reason'' \<noteq> []) (''Close Reason: '' @ str_at m ''jack_closed_reason'')
      @ opt_line (bLabels b \<noteq> []) (''Labels:     '' @ join_str '', '' (bLabels b))
      @ (if cs = [] then []
         else nl @ ''Changes ('' @ show_nat (length cs) @ ''):'' @ nl
           @ concat (map change_text (zip [1..<length cs + 1] cs)))
      @ nl @ ''Created By: '' @ bCreatedBy b @ nl @ time_line cx ''Created At: '' (bCreatedAt b))"

definition jackShow :: "'s client \<Rightarrow> kd_ctx \<Rightarrow> string \<Rightarrow> ('s kd, unit) op" where
  "jackShow cl cx i =
     and_then (wrap (''getting jack '' @ i) (call (clGetBead cl i))) (\<lambda>b.
     if cxJson cx then printBeadJSON cx b else say (jack_text cx b))"

subsection \<open>The budget of a jack\<close>

lemma field_at_jack: "field_at (jack_fields b) k = raw_field (bFields b) k"
  by (cases "bFields b") (simp_all add: field_at_def jack_fields_def raw_field_def)

lemma distinct_jack: "distinct (map fst (gomap_list (jack_fields b)))"
  by (simp add: jack_fields_def distinct_unmarshal_map)

lemma raw_field_set:
  assumes "distinct (map fst kvs)" "map_of kvs k = Some v"
  shows "raw_field (marshal_map (set_fields kvs (jack_fields b))) k = Some (decode_any v)"
proof -
  have "map_of (put_all kvs (gomap_list (jack_fields b))) k = Some v"
    using assms by (simp add: map_of_put_all map_of_rev_distinct [OF assms(1)])
  then show ?thesis
    using raw_field_marshal [OF distinct_put_all [OF distinct_jack]] by (simp add: set_fields_def)
qed

text \<open>How many extensions the fields count, and the time they add up to.\<close>

definition jack_budget :: "raw \<Rightarrow> int \<Rightarrow> duration \<Rightarrow> bool" where
  "jack_budget f n tot \<longleftrightarrow> raw_field f ''jack_extension_count'' = Some (JInt n)
     \<and> (\<exists>s. raw_field f ''jack_cumulative_ttl'' = Some (JStr s) \<and> ParseDuration s = Some tot)"

lemma wrap64_small: "0 \<le> n \<Longrightarrow> n < 2 ^ 63 \<Longrightarrow> wrap64 n = n"
  by (simp add: wrap64_def)

lemma check_extension_Inr:
  "check_extension s = Inr ttl \<Longrightarrow> ParseDuration s = Some ttl \<and> ttl \<le> JackMaxSingleExtension"
  by (auto simp: check_extension_def check_ttl_def split: if_splits option.splits)

lemma extend_step:
  assumes "jack_budget (bFields b) n tot" "0 \<le> tot" "tot \<le> JackMaxCumulativeTTL"
    and "0 \<le> ttl" "ttl \<le> JackMaxSingleExtension"
    and "extend_fields rfc tm ttl (jack_fields b) = Inr m"
    and "merge_fields (bFields b) (marshal_map m) = Inr f"
  shows "jack_budget f (n + 1) (tot + ttl) \<and> n < JackMaxExtensions \<and> tot + ttl \<le> JackMaxCumulativeTTL"
proof -
  have small: "tot + ttl < 2 ^ 63"
    using assms(3,5) by (simp add: duration_defs)
  then have w: "wrap64 (tot + ttl) = tot + ttl" using assms(2,4) by (intro wrap64_small) auto
  have n: "int_at (jack_fields b) ''jack_extension_count'' = n"
    and p: "ParseDuration (str_at (jack_fields b) ''jack_cumulative_ttl'') = Some tot"
    using assms(1) by (auto simp: jack_budget_def int_at_def str_at_def field_at_jack)
  define kvs where "kvs = (case field_at (jack_fields b) ''jack_ttl'' of
      Some v \<Rightarrow> if n = 0 then [(''jack_original_ttl'', v)] else [] | None \<Rightarrow> [])
      @ [(''jack_expires_at'', JStr (rfc (tm + ttl))), (''jack_extension_count'', JInt (n + 1)),
         (''jack_cumulative_ttl'', JStr (show_duration (tot + ttl)))]"
  have m: "m = set_fields kvs (jack_fields b)" "n < JackMaxExtensions" "tot + ttl \<le> JackMaxCumulativeTTL"
    using assms(6) by (auto simp: extend_fields_def Let_def n p w kvs_def split: if_splits)
  have d: "distinct (map fst kvs)" "map_of kvs ''jack_extension_count'' = Some (JInt (n + 1))"
    "map_of kvs ''jack_cumulative_ttl'' = Some (JStr (show_duration (tot + ttl)))"
    by (auto simp: kvs_def split: option.split)
  have "ParseDuration (show_duration (tot + ttl)) = Some (tot + ttl)"
    using assms(2,4) small by (intro read_show_duration) (simp add: int64_ok_def)
  then have "jack_budget f (n + 1) (tot + ttl)"
    unfolding jack_budget_def merge_fields_law [OF assms(7)] m(1) raw_field_set [OF d(1,2)] raw_field_set [OF d(1,3)]
    by simp
  then show ?thesis using m by simp
qed

text \<open>
  A jack's fields after extensions at the given times, each read from the fields as they are and
  merged into them by the server.
\<close>

fun extend_run :: "(time \<Rightarrow> string) \<Rightarrow> (time \<times> string) list \<Rightarrow> bead \<Rightarrow> raw res" where
  "extend_run rfc [] b = Inr (bFields b)"
| "extend_run rfc ((tm, s) # xs) b =
     (case check_extension s of
        Inl e \<Rightarrow> Inl e
      | Inr ttl \<Rightarrow>
          (case extend_fields rfc tm ttl (jack_fields b) of
             Inl e \<Rightarrow> Inl e
           | Inr m \<Rightarrow>
               (case merge_fields (bFields b) (marshal_map m) of
                  Inl e \<Rightarrow> Inl e
                | Inr f \<Rightarrow> extend_run rfc xs (b\<lparr>bFields := f\<rparr>))))"

definition granted :: "string \<Rightarrow> duration" where
  "granted s = (case ParseDuration s of Some d \<Rightarrow> d | None \<Rightarrow> 0)"

lemma extend_run_budget:
  assumes "extend_run rfc xs b = Inr f" "\<forall>(t, s) \<in> set xs. 0 \<le> granted s"
    and "jack_budget (bFields b) n tot" "0 \<le> tot" "tot \<le> JackMaxCumulativeTTL" "n \<le> JackMaxExtensions"
  shows "jack_budget f (n + int (length xs)) (tot + (\<Sum>(t, s) \<leftarrow> xs. granted s))
    \<and> n + int (length xs) \<le> JackMaxExtensions \<and> tot + (\<Sum>(t, s) \<leftarrow> xs. granted s) \<le> JackMaxCumulativeTTL"
  using assms
proof (induction xs arbitrary: b n tot)
  case Nil
  then show ?case by simp
next
  case (Cons x xs)
  obtain tm s where x: "x = (tm, s)" by (cases x)
  obtain ttl m f' where c: "check_extension s = Inr ttl" and e: "extend_fields rfc tm ttl (jack_fields b) = Inr m"
    and g: "merge_fields (bFields b) (marshal_map m) = Inr f'" and r: "extend_run rfc xs (b\<lparr>bFields := f'\<rparr>) = Inr f"
    using Cons.prems(1) by (auto simp: x split: sum.splits)
  have ttl: "granted s = ttl" "ttl \<le> JackMaxSingleExtension" using check_extension_Inr [OF c] by (auto simp: granted_def)
  have pos: "0 \<le> ttl" using Cons.prems(2) ttl(1) by (simp add: x)
  have step: "jack_budget f' (n + 1) (tot + ttl)" "n < JackMaxExtensions" "tot + ttl \<le> JackMaxCumulativeTTL"
    using extend_step [OF Cons.prems(3,4,5) pos ttl(2) e g] by auto
  have "jack_budget f (n + 1 + int (length xs)) (tot + ttl + (\<Sum>(t, s) \<leftarrow> xs. granted s))
    \<and> n + 1 + int (length xs) \<le> JackMaxExtensions \<and> tot + ttl + (\<Sum>(t, s) \<leftarrow> xs. granted s) \<le> JackMaxCumulativeTTL"
    by (rule Cons.IH [OF r]) (use Cons.prems(2,4) step pos in \<open>auto simp: x\<close>)
  then show ?case by (simp add: x ttl(1) algebra_simps)
qed

lemma jack_budget_up:
  assumes "check_up a = Inr ttl" "bFields b = marshal_map (up_fields rfc tm a ttl)"
  shows "jack_budget (bFields b) 0 ttl \<and> ttl \<le> JackMaxTTL"
proof -
  have p: "ParseDuration (juTTL a) = Some ttl" "ttl \<le> JackMaxTTL"
    using assms(1) by (auto simp: check_up_def check_ttl_def split: if_splits option.splits)
  have "distinct (map fst (the (up_fields rfc tm a ttl)))" by (simp add: up_fields_def)
  then have "raw_field (bFields b) k = map_option decode_any (map_of (the (up_fields rfc tm a ttl)) k)" for k
    using raw_field_marshal [of "the (up_fields rfc tm a ttl)" k] assms(2) by (simp add: up_fields_def)
  then show ?thesis using p by (simp add: jack_budget_def up_fields_def)
qed


definition hour_jack :: jack_up where
  "hour_jack = \<lparr>juTarget = ''db'', juReason = ''repair'', juRevertPlan = ''undo'', juTTL = ''1h'',
     juBlocks = [], juLabels = [], juPriority = 2\<rparr>"

definition fresh_jack :: bead where
  "fresh_jack = sample_bead\<lparr>bType := ''jack'', bFields := marshal_map (up_fields (\<lambda>_. ''later'') 0 hour_jack hour)\<rparr>"

lemma parse_1h: "ParseDuration ''1h'' = Some hour"
  and parse_30m: "ParseDuration ''30m'' = Some (30 * minute)"
  by (simp_all add: ParseDuration_def dur_loop.simps dur_part_def dur_fraction_def number_char_def unit_of_def
      is_digit_def digit_nat_def byte_def has_prefix_def duration_defs Let_def)

lemma extend_goes_on:
  assumes "jack_budget (bFields b) n tot" "0 \<le> tot" "0 \<le> ttl" "ttl \<le> JackMaxSingleExtension"
    and "n < JackMaxExtensions" "tot + ttl \<le> JackMaxCumulativeTTL"
  shows "\<exists>m f. extend_fields rfc tm ttl (jack_fields b) = Inr m \<and> merge_fields (bFields b) (marshal_map m) = Inr f"
proof -
  have n: "int_at (jack_fields b) ''jack_extension_count'' = n"
    and p: "ParseDuration (str_at (jack_fields b) ''jack_cumulative_ttl'') = Some tot"
    using assms(1) by (auto simp: jack_budget_def int_at_def str_at_def field_at_jack)
  have w: "wrap64 (tot + ttl) = tot + ttl"
    using assms(2,3,6) by (intro wrap64_small) (simp_all add: duration_defs)
  obtain kvs where e: "extend_fields rfc tm ttl (jack_fields b) = Inr (set_fields kvs (jack_fields b))"
    using assms(5,6) by (auto simp: extend_fields_def Let_def n p w)
  have "existing_fields (bFields b) \<noteq> None"
    using assms(1) by (cases "bFields b") (auto simp: jack_budget_def raw_field_def existing_fields_def unmarshal_map_def split: json.splits)
  then have "\<exists>f. merge_fields (bFields b) (marshal_map (set_fields kvs (jack_fields b))) = Inr f"
    by (auto simp: merge_fields_def set_fields_def marshal_map_def)
  then show ?thesis using e by blast
qed


end
