(* ===== verification/Remote.thy ===== *)
theory Remote
  imports Kd
begin

text \<open>
  Named servers (\<open>cmd/kd/remote.go\<close>): a TOML file in the home directory holds the remotes and
  which of them is active. The TOML library is a parameter: \<open>read_toml\<close> decodes a document,
  \<open>write_toml\<close> encodes the remotes. The commands run without a client; what they change is the
  file.
\<close>

subsection \<open>The file\<close>

record remote =
  rmURL :: string
  rmToken :: string
  rmNATSURL :: string
  rmDescription :: string

record remotes_config =
  rcActive :: string
  rcRemotes :: "(string \<times> remote) list option"

text \<open>
  \<open>dkHome\<close>: whether the directory of the file can be found and made; \<open>dkReadable\<close>,
  \<open>dkWritable\<close>: whether the file can be read and opened for writing; \<open>dkFull\<close>: whether writing it
  fails once it has been opened, and so emptied.
\<close>

record disk =
  dkHome :: bool
  dkReadable :: bool
  dkWritable :: bool
  dkFull :: bool
  dkFile :: "string option"

type_synonym toml_reader = "string \<Rightarrow> remotes_config option"
type_synonym toml_writer = "remotes_config \<Rightarrow> string"

definition io_fault :: "string \<Rightarrow> err" where
  "io_fault m = OtherError m"

definition remoteConfigPath :: "(disk kd, unit) op" where
  "remoteConfigPath w = (if dkHome (kdNet w) then Inr () else Inl (io_fault ''no state directory''), w)"

text \<open>The map of remotes is never \<open>nil\<close> once it has been loaded.\<close>

definition decode_file :: "toml_reader \<Rightarrow> disk \<Rightarrow> remotes_config res" where
  "decode_file read_toml d =
     (case dkFile d of
        None \<Rightarrow> Inr \<lparr>rcActive = [], rcRemotes = Some []\<rparr>
      | Some s \<Rightarrow>
          (if \<not> dkReadable d then Inl (io_fault ''read'')
           else case read_toml s of
             None \<Rightarrow> Inl (io_fault ''toml'')
           | Some c \<Rightarrow> Inr (case rcRemotes c of None \<Rightarrow> c\<lparr>rcRemotes := Some []\<rparr> | Some _ \<Rightarrow> c)))"

definition loadRemotesConfig :: "toml_reader \<Rightarrow> (disk kd, remotes_config) op" where
  "loadRemotesConfig read_toml =
     andthen remoteConfigPath (\<lambda>w. (decode_file read_toml (kdNet w), w))"

definition write_disk :: "string \<Rightarrow> (disk kd, unit) op" where
  "write_disk s w =
     (let d = kdNet w in
      if \<not> dkWritable d then (Inl (io_fault ''open''), w)
      else if dkFull d then (Inl (io_fault ''write''), w\<lparr>kdNet := d\<lparr>dkFile := Some []\<rparr>\<rparr>)
      else (Inr (), w\<lparr>kdNet := d\<lparr>dkFile := Some s\<rparr>\<rparr>))"

definition saveRemotesConfig :: "toml_writer \<Rightarrow> remotes_config \<Rightarrow> (disk kd, unit) op" where
  "saveRemotesConfig write_toml c = andthen remoteConfigPath (write_disk (write_toml c))"

definition remotes :: "remotes_config \<Rightarrow> (string \<times> remote) list" where
  "remotes c = (case rcRemotes c of None \<Rightarrow> [] | Some rs \<Rightarrow> rs)"

text \<open>What \<open>loadActiveRemoteOnce\<close> keeps: the URL, the NATS URL and the token, empty without an
  active remote.\<close>

definition active_remote :: "toml_reader \<Rightarrow> disk \<Rightarrow> string \<times> string \<times> string" where
  "active_remote read_toml d =
     (case (if dkHome d then decode_file read_toml d else Inl (io_fault ''no state directory'')) of
        Inl _ \<Rightarrow> ([], [], [])
      | Inr c \<Rightarrow>
          (if rcActive c = [] then ([], [], [])
           else case map_of (remotes c) (rcActive c) of
             None \<Rightarrow> ([], [], [])
           | Some r \<Rightarrow> (rmURL r, rmNATSURL r, rmToken r)))"

definition activeRemoteURL :: "toml_reader \<Rightarrow> disk \<Rightarrow> string" where
  "activeRemoteURL rd d = fst (active_remote rd d)"
definition activeRemoteNATSURL :: "toml_reader \<Rightarrow> disk \<Rightarrow> string" where
  "activeRemoteNATSURL rd d = fst (snd (active_remote rd d))"
definition activeRemoteToken :: "toml_reader \<Rightarrow> disk \<Rightarrow> string" where
  "activeRemoteToken rd d = snd (snd (active_remote rd d))"

subsection \<open>The commands\<close>

definition remoteAdd ::
  "toml_reader \<Rightarrow> toml_writer \<Rightarrow> string \<Rightarrow> string \<Rightarrow> string \<Rightarrow> string \<Rightarrow> string \<Rightarrow> (disk kd, unit) op" where
  "remoteAdd rd wr name url token natsURL desc =
     and_then (loadRemotesConfig rd) (\<lambda>c.
     andthen (saveRemotesConfig wr (c\<lparr>rcRemotes := Some (AList.update name
         \<lparr>rmURL = url, rmToken = token, rmNATSURL = natsURL, rmDescription = desc\<rparr> (remotes c))\<rparr>))
       (println (''remote '' @ go_quote name @ '' added ('' @ url @ '')'')))"

definition not_found :: "string \<Rightarrow> err" where
  "not_found name = OtherError (''remote '' @ go_quote name @ '' not found'')"

definition remoteRemove :: "toml_reader \<Rightarrow> toml_writer \<Rightarrow> string \<Rightarrow> (disk kd, unit) op" where
  "remoteRemove rd wr name =
     and_then (loadRemotesConfig rd) (\<lambda>c.
     if map_of (remotes c) name = None then fail (not_found name)
     else andthen (saveRemotesConfig wr
         \<lparr>rcActive = (if rcActive c = name then [] else rcActive c),
          rcRemotes = Some (AList.delete name (remotes c))\<rparr>)
       (println (''remote '' @ go_quote name @ '' removed'')))"

definition short_token :: "string \<Rightarrow> string" where
  "short_token t = (if length t > 8 then take 8 t @ ''...'' else t)"

definition remote_row :: "string \<Rightarrow> string \<times> remote \<Rightarrow> string" where
  "remote_row active x =
     (case x of (name, r) \<Rightarrow>
        line_of [(if name = active then ''* '' else ''  '') @ name, rmURL r, short_token (rmToken r), rmDescription r])"

text \<open>The rows come in the order of the map, which Go leaves open: here it is that of the list.\<close>

definition remoteList :: "toml_reader \<Rightarrow> (disk kd, unit) op" where
  "remoteList rd =
     and_then (loadRemotesConfig rd) (\<lambda>c.
     if remotes c = [] then println ''no remotes configured''
     else emit (Table (line_of [''  NAME'', ''URL'', ''TOKEN'', ''DESCRIPTION'']
       @ concat (map (remote_row (rcActive c)) (remotes c)))))"

definition remoteUse :: "toml_reader \<Rightarrow> toml_writer \<Rightarrow> string option \<Rightarrow> (disk kd, unit) op" where
  "remoteUse rd wr given =
     and_then (loadRemotesConfig rd) (\<lambda>c.
     case given of
       None \<Rightarrow> andthen (saveRemotesConfig wr (c\<lparr>rcActive := []\<rparr>)) (println ''active remote cleared'')
     | Some name \<Rightarrow>
         (if map_of (remotes c) name = None then fail (not_found name)
          else andthen (saveRemotesConfig wr (c\<lparr>rcActive := name\<rparr>))
            (println (''active remote set to '' @ go_quote name))))"

definition masked :: "string \<Rightarrow> string" where
  "masked t = (if length t > 8 then take 8 t @ replicate (length t - 8) (CHR ''*'') else t)"

definition remote_text :: "string \<Rightarrow> string \<Rightarrow> remote \<Rightarrow> string" where
  "remote_text active name r =
     line_of [''name:'', name @ (if name = active then '' (active)'' else [])]
     @ (if rmDescription r \<noteq> [] then line_of [''description:'', rmDescription r] else [])
     @ line_of [''url:'', rmURL r]
     @ (if rmToken r \<noteq> [] then line_of [''token:'', masked (rmToken r)] else [])
     @ (if rmNATSURL r \<noteq> [] then line_of [''nats_url:'', rmNATSURL r] else [])"

definition remoteShow :: "toml_reader \<Rightarrow> string option \<Rightarrow> (disk kd, unit) op" where
  "remoteShow rd given =
     and_then (loadRemotesConfig rd) (\<lambda>c.
     let name = (case given of Some n \<Rightarrow> n | None \<Rightarrow> rcActive c) in
     if name = [] then errorf (''no active remote; specify a name or run '' @ [CHR 0x27] @ ''kd remote use <name>'' @ [CHR 0x27])
     else case map_of (remotes c) name of
       None \<Rightarrow> fail (not_found name)
     | Some r \<Rightarrow> emit (Table (remote_text (rcActive c) name r)))"

subsection \<open>The active remote exists\<close>

datatype remote_cmd =
    AddRemote string string string string string
  | RemoveRemote string
  | ListRemotes
  | UseRemote "string option"
  | ShowRemote "string option"

fun run_remote :: "toml_reader \<Rightarrow> toml_writer \<Rightarrow> remote_cmd \<Rightarrow> (disk kd, unit) op" where
  "run_remote rd wr (AddRemote n u t ns d) = remoteAdd rd wr n u t ns d"
| "run_remote rd wr (RemoveRemote n) = remoteRemove rd wr n"
| "run_remote rd wr ListRemotes = remoteList rd"
| "run_remote rd wr (UseRemote a) = remoteUse rd wr a"
| "run_remote rd wr (ShowRemote a) = remoteShow rd a"

text \<open>
  The states of the disk: no file at first; the commands run one after another, and in between
  what can be read or written changes, but nobody else writes the file.
\<close>

inductive remote_state :: "toml_reader \<Rightarrow> toml_writer \<Rightarrow> disk \<Rightarrow> bool" for rd wr where
  no_file: "dkFile d = None \<Longrightarrow> remote_state rd wr d"
| command: "remote_state rd wr (kdNet w) \<Longrightarrow> run_remote rd wr c w = (r, w') \<Longrightarrow> remote_state rd wr (kdNet w')"
| circumstances: "remote_state rd wr d \<Longrightarrow> dkFile d' = dkFile d \<Longrightarrow> remote_state rd wr d'"

definition active_known :: "remotes_config \<Rightarrow> bool" where
  "active_known c \<longleftrightarrow> rcActive c = [] \<or> rcActive c \<in> fst ` set (remotes c)"

text \<open>
  The TOML library reads back what it wrote, and an empty document as the empty configuration.
\<close>

definition toml_ok :: "toml_reader \<Rightarrow> toml_writer \<Rightarrow> bool" where
  "toml_ok rd wr \<longleftrightarrow> (\<forall>c. rcRemotes c \<noteq> None \<longrightarrow> distinct (map fst (remotes c)) \<longrightarrow>
       (\<exists>c'. rd (wr c) = Some c' \<and> rcActive c' = rcActive c \<and> map_of (remotes c') = map_of (remotes c)
          \<and> distinct (map fst (remotes c'))))
     \<and> rd [] = Some \<lparr>rcActive = [], rcRemotes = None\<rparr>"

definition file_ok :: "toml_reader \<Rightarrow> disk \<Rightarrow> bool" where
  "file_ok rd d \<longleftrightarrow> (\<forall>s. dkFile d = Some s \<longrightarrow>
     (\<exists>c. rd s = Some c \<and> active_known c \<and> distinct (map fst (remotes c))))"

lemma file_ok_decode:
  "file_ok rd d \<Longrightarrow> decode_file rd d = Inr c \<Longrightarrow>
     rcRemotes c \<noteq> None \<and> active_known c \<and> distinct (map fst (remotes c))"
  by (auto simp: file_ok_def decode_file_def active_known_def remotes_def
      split: option.splits if_splits)

lemma load_Inr:
  "loadRemotesConfig rd w = (Inr c, w') \<longleftrightarrow> w' = w \<and> dkHome (kdNet w) \<and> decode_file rd (kdNet w) = Inr c"
  by (auto simp: loadRemotesConfig_def andthen_def and_then_def remoteConfigPath_def)

lemma load_Inl: "loadRemotesConfig rd w = (Inl e, w') \<Longrightarrow> w' = w"
  by (auto simp: loadRemotesConfig_def andthen_def and_then_def remoteConfigPath_def split: if_splits)

lemma known_written:
  assumes "toml_ok rd wr" "active_known c" "rcRemotes c \<noteq> None" "distinct (map fst (remotes c))"
  shows "\<exists>c'. rd (wr c) = Some c' \<and> active_known c' \<and> distinct (map fst (remotes c'))"
proof -
  obtain c' where c': "rd (wr c) = Some c'" "rcActive c' = rcActive c"
    "map_of (remotes c') = map_of (remotes c)" "distinct (map fst (remotes c'))"
    using assms(1,3,4) unfolding toml_ok_def by blast
  have "fst ` set (remotes c') = fst ` set (remotes c)"
    using c'(3) by (metis dom_map_of_conv_image_fst)
  then show ?thesis using c' assms(2) by (auto simp: active_known_def)
qed

text \<open>A command that saves a good configuration and prints something.\<close>

lemma save_ok:
  assumes "toml_ok rd wr" "file_ok rd (kdNet w)"
    and "active_known c" "rcRemotes c \<noteq> None" "distinct (map fst (remotes c))"
    and "andthen (saveRemotesConfig wr c) (println m) w = (r, w')"
  shows "file_ok rd (kdNet w')"
proof -
  have e: "rd [] = Some \<lparr>rcActive = [], rcRemotes = None\<rparr>" using assms(1) by (simp add: toml_ok_def)
  have n: "active_known \<lparr>rcActive = [], rcRemotes = None\<rparr>"
    "distinct (map fst (remotes \<lparr>rcActive = [], rcRemotes = None\<rparr>))" by (simp_all add: active_known_def remotes_def)
  have "dkFile (kdNet w') \<in> {dkFile (kdNet w), Some [], Some (wr c)}"
    using assms(6)
    by (auto simp: saveRemotesConfig_def andthen_def and_then_def remoteConfigPath_def write_disk_def Let_def
        println_def emit_def split: if_splits)
  then show ?thesis
    using assms(2) known_written [OF assms(1,3,4,5)] e n unfolding file_ok_def by fastforce
qed

lemma deleted_keys: "fst ` set (AList.delete k kvs) = fst ` set kvs - {k}"
  by (metis AList.delete_keys list.set_map set_removeAll)

lemma run_remote_ok:
  assumes "toml_ok rd wr" "file_ok rd (kdNet w)" "run_remote rd wr c w = (r, w')"
  shows "file_ok rd (kdNet w')"
proof -
  have step: "file_ok rd (kdNet w')"
    if "and_then (loadRemotesConfig rd) f w = (r, w')"
      and "\<And>x. rcRemotes x \<noteq> None \<Longrightarrow> active_known x \<Longrightarrow> distinct (map fst (remotes x)) \<Longrightarrow> f x w = (r, w')
        \<Longrightarrow> file_ok rd (kdNet w')" for f :: "remotes_config \<Rightarrow> (disk kd, unit) op"
  proof (cases "loadRemotesConfig rd w")
    case (Pair s w1)
    show ?thesis
    proof (cases s)
      case (Inl e)
      then show ?thesis using Pair that(1) load_Inl assms(2) by (auto simp: and_then_def)
    next
      case (Inr x)
      then have x: "w1 = w" "decode_file rd (kdNet w) = Inr x" using Pair by (auto simp: load_Inr)
      then show ?thesis
        using that(1) Pair Inr by (intro that(2)) (auto simp: and_then_def dest: file_ok_decode [OF assms(2)])
    qed
  qed
  note saved = save_ok [OF assms(1,2)]
  show ?thesis
  proof (cases c)
    case (AddRemote n u t ns d)
    show ?thesis
      using assms(3) unfolding AddRemote run_remote.simps remoteAdd_def
      by (rule step, elim saved [rotated -1])
        (auto simp: active_known_def remotes_def dom_update distinct_update split: option.splits)
  next
    case (RemoveRemote n)
    show ?thesis
      using assms(3) unfolding RemoveRemote run_remote.simps remoteRemove_def
    proof (rule step)
      fix x assume x: "active_known x" "distinct (map fst (remotes x))"
        "(if map_of (remotes x) n = None then fail (not_found n) else andthen (saveRemotesConfig wr
            \<lparr>rcActive = (if rcActive x = n then [] else rcActive x), rcRemotes = Some (AList.delete n (remotes x))\<rparr>)
            (println (''remote '' @ go_quote n @ '' removed''))) w = (r, w')"
      show "file_ok rd (kdNet w')"
      proof (cases "map_of (remotes x) n = None")
        case True
        then show ?thesis using x(3) assms(2) by (auto simp: fail_def)
      next
        case False
        then have s: "andthen (saveRemotesConfig wr
            \<lparr>rcActive = (if rcActive x = n then [] else rcActive x), rcRemotes = Some (AList.delete n (remotes x))\<rparr>)
            (println (''remote '' @ go_quote n @ '' removed'')) w = (r, w')" using x(3) by (simp only: False if_False)
        show ?thesis
          by (rule saved [OF _ _ _ s])
            (use x(1,2) in \<open>auto simp: active_known_def remotes_def deleted_keys AList.distinct_delete split: option.splits\<close>)
      qed
    qed
  next
    case ListRemotes
    show ?thesis
      using assms(3) unfolding ListRemotes run_remote.simps remoteList_def
      by (rule step) (use assms(2) in \<open>auto simp: println_def emit_def split: if_splits\<close>)
  next
    case (UseRemote a)
    show ?thesis
      using assms(3) unfolding UseRemote run_remote.simps remoteUse_def
    proof (rule step)
      fix x assume x: "rcRemotes x \<noteq> None" "active_known x" "distinct (map fst (remotes x))"
        "(case a of None \<Rightarrow> andthen (saveRemotesConfig wr (x\<lparr>rcActive := []\<rparr>)) (println ''active remote cleared'')
          | Some name \<Rightarrow> if map_of (remotes x) name = None then fail (not_found name)
              else andthen (saveRemotesConfig wr (x\<lparr>rcActive := name\<rparr>))
                (println (''active remote set to '' @ go_quote name))) w = (r, w')"
      show "file_ok rd (kdNet w')"
      proof (cases a)
        case None
        then have s: "andthen (saveRemotesConfig wr (x\<lparr>rcActive := []\<rparr>)) (println ''active remote cleared'') w = (r, w')"
          using x(4) by simp
        show ?thesis by (rule saved [OF _ _ _ s]) (use x in \<open>auto simp: active_known_def remotes_def\<close>)
      next
        case (Some n)
        show ?thesis
        proof (cases "map_of (remotes x) n = None")
          case True
          then show ?thesis using x(4) Some assms(2) by (auto simp: fail_def)
        next
          case False
          then have s: "andthen (saveRemotesConfig wr (x\<lparr>rcActive := n\<rparr>))
              (println (''active remote set to '' @ go_quote n)) w = (r, w')"
            using x(4) by (simp only: Some option.case False if_False)
          have "n \<in> fst ` set (remotes x)" using False by (meson map_of_eq_None_iff)
          then show ?thesis by - (rule saved [OF _ _ _ s], use x in \<open>auto simp: active_known_def remotes_def\<close>)
        qed
      qed
    qed
  next
    case (ShowRemote a)
    show ?thesis
      using assms(3) unfolding ShowRemote run_remote.simps remoteShow_def
      by (rule step) (use assms(2) in \<open>auto simp: errorf_def fail_def emit_def Let_def split: if_splits option.splits\<close>)
  qed
qed


subsection \<open>An example\<close>

text \<open>A reader and a writer that stand for the TOML library: strings of escaped characters.\<close>

definition escaped :: "string \<Rightarrow> string" where
  "escaped s = concat (map (\<lambda>c. [CHR ''.'', c]) s) @ [CHR '';'']"

fun unescape :: "string \<Rightarrow> string \<Rightarrow> string list" where
  "unescape acc [] = []"
| "unescape acc [a] = [acc]"
| "unescape acc (a # c # cs) =
     (if a = CHR ''.'' then unescape (acc @ [c]) cs else acc # unescape [] (c # cs))"

lemma unescape_escaped: "unescape acc (escaped s @ t) = (acc @ s) # unescape [] t"
proof (induction s arbitrary: acc)
  case Nil
  then show ?case by (cases t) (simp_all add: escaped_def)
next
  case (Cons c s)
  then show ?case by (simp add: escaped_def)
qed

lemma unescape_all: "unescape [] (concat (map escaped xs)) = xs"
  by (induction xs) (simp_all add: unescape_escaped)

fun grouped :: "string list \<Rightarrow> (string \<times> remote) list" where
  "grouped (n # u # t # ns # d # xs) =
     (n, \<lparr>rmURL = u, rmToken = t, rmNATSURL = ns, rmDescription = d\<rparr>) # grouped xs"
| "grouped _ = []"

definition flat :: "string \<times> remote \<Rightarrow> string list" where
  "flat x = [fst x, rmURL (snd x), rmToken (snd x), rmNATSURL (snd x), rmDescription (snd x)]"

definition sample_writer :: toml_writer where
  "sample_writer c = concat (map escaped (rcActive c # concat (map flat (remotes c))))"

definition sample_reader :: toml_reader where
  "sample_reader s =
     (case unescape [] s of
        [] \<Rightarrow> Some \<lparr>rcActive = [], rcRemotes = None\<rparr>
      | a # xs \<Rightarrow> Some \<lparr>rcActive = a, rcRemotes = Some (grouped xs)\<rparr>)"

lemma grouped_flat: "grouped (concat (map flat rs)) = rs"
proof (induction rs)
  case (Cons x rs)
  obtain n r where "x = (n, r)" by fastforce
  then show ?case using Cons by (cases r) (simp add: flat_def)
qed simp

lemma sample_read_back:
  "sample_reader (sample_writer c) = Some \<lparr>rcActive = rcActive c, rcRemotes = Some (remotes c)\<rparr>"
  unfolding sample_reader_def sample_writer_def unescape_all by (simp add: grouped_flat)

lemma sample_toml_ok: "toml_ok sample_reader sample_writer"
  by (simp add: toml_ok_def sample_read_back) (simp add: sample_reader_def remotes_def)

definition empty_disk :: disk where
  "empty_disk = \<lparr>dkHome = True, dkReadable = True, dkWritable = True, dkFull = False, dkFile = None\<rparr>"

definition added :: "disk kd" where
  "added = snd (run_remote sample_reader sample_writer (AddRemote ''prod'' ''https://kd'' ''t'' [] []) (fresh_kd empty_disk))"

definition in_use :: "disk kd" where
  "in_use = snd (run_remote sample_reader sample_writer (UseRemote (Some ''prod'')) added)"


end
