(* ===== verification/Sync.thy ===== *)
theory Sync
  imports Kd GoDuration
begin

text \<open>
  The backup of the database (\<open>internal/sync\<close>): the export as JSON lines, the destinations it
  is written to and the scheduler that writes it; the settings of the server
  (\<open>internal/config\<close>) and the ids of new beads (\<open>internal/idgen\<close>). A line is the JSON value on
  it. Git, S3, nanoid and the environment are parameters.
\<close>

subsection \<open>The export (\<open>export.go\<close>)\<close>

definition config_json :: "(time \<Rightarrow> string) \<Rightarrow> config \<Rightarrow> json option" where
  "config_json fmt k =
     (let rest = [(''created_at'', JStr (fmt (kCreatedAt k))), (''updated_at'', JStr (fmt (kUpdatedAt k)))] in
      case kValue k of
        RawNil \<Rightarrow> Some (JObj ([(''key'', JStr (kKey k)), (''value'', JNull)] @ rest))
      | Raw j \<Rightarrow> Some (JObj ([(''key'', JStr (kKey k)), (''value'', j)] @ rest))
      | _ \<Rightarrow> None)"

definition header_line :: "(time \<Rightarrow> string) \<Rightarrow> time \<Rightarrow> nat \<Rightarrow> nat \<Rightarrow> json" where
  "header_line fmt tm beads configs = JObj
     [(''version'', JStr ''1''), (''type'', JStr ''header''), (''timestamp'', JStr (fmt tm)),
      (''bead_count'', JInt (int beads)), (''config_count'', JInt (int configs))]"

definition record_line :: "string \<Rightarrow> json \<Rightarrow> json" where
  "record_line ty j = JObj [(''type'', JStr ty), (''data'', j)]"

text \<open>What has been encoded before a failure is in a buffer that the caller drops.\<close>

fun encode_all :: "string \<Rightarrow> ('a \<Rightarrow> string) \<Rightarrow> ('a \<Rightarrow> json option) \<Rightarrow> 'a list \<Rightarrow> json list res" where
  "encode_all ty key enc [] = Inr []"
| "encode_all ty key enc (x # xs) =
     (case enc x of
        None \<Rightarrow> Inl (WrapErr (''encode '' @ ty @ '' '' @ key x) (OtherError ''json''))
      | Some j \<Rightarrow> map_sum (\<lambda>e. e) (\<lambda>ls. record_line ty j # ls) (encode_all ty key enc xs))"

definition export_lines :: "(time \<Rightarrow> string) \<Rightarrow> time \<Rightarrow> bead list \<Rightarrow> config list \<Rightarrow> json list res" where
  "export_lines fmt tm bs ks =
     (case encode_all ''bead'' bID (bead_json fmt) bs of
        Inl e \<Rightarrow> Inl e
      | Inr xs \<Rightarrow>
          (case encode_all ''config'' kKey (config_json fmt) ks of
             Inl e \<Rightarrow> Inl e
           | Inr ys \<Rightarrow> Inr (header_line fmt tm (length bs) (length ks) # xs @ ys)))"

definition populate :: "bead \<Rightarrow> (pg, bead) op" where
  "populate b =
     and_then (wrap (''get labels for '' @ bID b) (queryGetLabels (bID b))) (\<lambda>labels.
     and_then (wrap (''get dependencies for '' @ bID b) (queryGetDependencies (bID b))) (\<lambda>deps.
     and_then (wrap (''get comments for '' @ bID b) (queryGetComments (bID b))) (\<lambda>comments.
     ret (b\<lparr>bLabels := labels, bDependencies := deps, bComments := comments\<rparr>))))"

definition ExportJSONL :: "(time \<Rightarrow> string) \<Rightarrow> (pg, json list) op" where
  "ExportJSONL fmt =
     and_then (wrap ''list beads'' (queryListBeads (no_filter\<lparr>fSort := ''created_at''\<rparr>))) (\<lambda>(bs, _).
     and_then (collect populate bs) (\<lambda>full.
     and_then (wrap ''list configs'' queryListAllConfigs) (\<lambda>ks.
     and_then get_state (\<lambda>s.
     lift_res (export_lines fmt (now s) (sort_key bID full) ks)))))"

subsection \<open>Destinations (\<open>git.go\<close>, \<open>s3.go\<close>)\<close>

type_synonym 'w destination = "json list \<Rightarrow> ('w, unit) op"

text \<open>
  What a git destination uses of its surroundings: \<open>gwGit\<close> runs git in the clone, \<open>gwMkdir\<close> makes
  the directory of the file, \<open>gwWriteFile\<close> writes it.
\<close>

record 'w git_world =
  gwGit :: "string list \<Rightarrow> ('w, unit) op"
  gwMkdir :: "string \<Rightarrow> string \<Rightarrow> ('w, unit) op"
  gwWriteFile :: "string \<Rightarrow> string \<Rightarrow> json list \<Rightarrow> ('w, unit) op"

record git_destination =
  gdRepo :: string
  gdFile :: string
  gdBranch :: string

definition git_commit_push :: "'w git_world \<Rightarrow> git_destination \<Rightarrow> ('w, unit) op" where
  "git_commit_push g d =
     andthen (wrap ''git commit'' (gwGit g [''commit'', ''-m'', ''sync: update beads export'']))
       (wrap ''git push'' (gwGit g [''push'', ''origin'', gdBranch d]))"

definition git_write :: "'w git_world \<Rightarrow> git_destination \<Rightarrow> 'w destination" where
  "git_write g d data =
     andthen (wrap ''git checkout'' (gwGit g [''checkout'', gdBranch d]))
    (andthen (attempt (gwGit g [''pull'', ''--ff-only'', ''origin'', gdBranch d]) (\<lambda>_. ret ()))
    (andthen (wrap ''mkdir'' (gwMkdir g (gdRepo d) (gdFile d)))
    (andthen (wrap ''write file'' (gwWriteFile g (gdRepo d) (gdFile d) data))
    (andthen (wrap ''git add'' (gwGit g [''add'', gdFile d]))
       (attempt (gwGit g [''diff'', ''--cached'', ''--quiet'']) (\<lambda>r. case r of
          Inr _ \<Rightarrow> ret ()
        | Inl _ \<Rightarrow> git_commit_push g d))))))"

definition s3_write :: "(string \<Rightarrow> string \<Rightarrow> json list \<Rightarrow> ('w, unit) op) \<Rightarrow> string \<Rightarrow> string \<Rightarrow> 'w destination" where
  "s3_write put bucket key data = wrap ''s3 put object'' (put bucket key data)"

subsection \<open>The scheduler (\<open>sync.go\<close>)\<close>

datatype sync_log = ExportFailed err | WriteFailed nat err | Completed nat

record 'w scheduler =
  scStore :: pg
  scWorld :: 'w
  scLog :: "sync_log list"

fun write_all :: "nat \<Rightarrow> 'w destination list \<Rightarrow> json list \<Rightarrow> 'w \<Rightarrow> sync_log list \<times> 'w" where
  "write_all i [] data w = ([], w)"
| "write_all i (d # ds) data w =
     (case d data w of (r, w1) \<Rightarrow>
        (case write_all (Suc i) ds data w1 of (msgs, w2) \<Rightarrow>
           ((case r of Inl e \<Rightarrow> [WriteFailed i e] | Inr _ \<Rightarrow> []) @ msgs, w2)))"

definition syncOnce :: "(time \<Rightarrow> string) \<Rightarrow> 'w destination list \<Rightarrow> 'w scheduler \<Rightarrow> 'w scheduler" where
  "syncOnce fmt dests sc =
     (case ExportJSONL fmt (scStore sc) of
        (Inl e, s) \<Rightarrow> sc\<lparr>scStore := s, scLog := scLog sc @ [ExportFailed e]\<rparr>
      | (Inr data, s) \<Rightarrow>
          (case write_all 0 dests data (scWorld sc) of (msgs, w) \<Rightarrow>
             sc\<lparr>scStore := s, scWorld := w, scLog := scLog sc @ msgs @ [Completed (length dests)]\<rparr>))"

text \<open>
  What wakes the loop: a tick, before which others have changed the store and the world, or the
  end. How long a tick takes is not represented.
\<close>

datatype 'w wakeup = Stopped | Tick "'w scheduler \<Rightarrow> 'w scheduler"

fun sync_loop :: "(time \<Rightarrow> string) \<Rightarrow> 'w destination list \<Rightarrow> 'w wakeup list \<Rightarrow> 'w scheduler \<Rightarrow> 'w scheduler" where
  "sync_loop fmt dests [] sc = sc"
| "sync_loop fmt dests (Stopped # vs) sc = sc"
| "sync_loop fmt dests (Tick f # vs) sc = sync_loop fmt dests vs (syncOnce fmt dests (f sc))"

definition sync_run :: "(time \<Rightarrow> string) \<Rightarrow> 'w destination list \<Rightarrow> 'w wakeup list \<Rightarrow> 'w scheduler \<Rightarrow> 'w scheduler" where
  "sync_run fmt dests vs sc = sync_loop fmt dests vs (syncOnce fmt dests sc)"

subsection \<open>Settings (\<open>internal/config\<close>)\<close>

record server_config =
  DatabaseURL :: string
  GRPCAddr :: string
  HTTPAddr :: string
  NATSURL :: string
  AuthToken :: string
  SyncInterval :: duration
  SyncS3Bucket :: string
  SyncS3Endpoint :: string
  SyncS3Region :: string
  SyncS3Key :: string
  SyncGitRepo :: string
  SyncGitFile :: string
  SyncGitBranch :: string

definition envOrDefault :: "(string \<Rightarrow> string) \<Rightarrow> string \<Rightarrow> string \<Rightarrow> string" where
  "envOrDefault env key fallback = (if env key \<noteq> [] then env key else fallback)"

definition sync_interval :: "(string \<Rightarrow> string) \<Rightarrow> duration res" where
  "sync_interval env =
     (let s = envOrDefault env ''BEADS_SYNC_INTERVAL'' ''3m'' in
      if s = [] then Inr 0
      else case ParseDuration s of
        None \<Rightarrow> Inl (WrapErr ''BEADS_SYNC_INTERVAL'' (OtherError ''time: invalid duration''))
      | Some d \<Rightarrow> Inr d)"

definition load_config :: "(string \<Rightarrow> string) \<Rightarrow> server_config res" where
  "load_config env =
     (if env ''BEADS_DATABASE_URL'' = [] then Inl (OtherError ''BEADS_DATABASE_URL is required'')
      else case sync_interval env of
        Inl e \<Rightarrow> Inl e
      | Inr d \<Rightarrow> Inr
          \<lparr>DatabaseURL = env ''BEADS_DATABASE_URL'', GRPCAddr = envOrDefault env ''BEADS_GRPC_ADDR'' '':9090'',
           HTTPAddr = envOrDefault env ''BEADS_HTTP_ADDR'' '':8080'', NATSURL = env ''BEADS_NATS_URL'',
           AuthToken = env ''BEADS_AUTH_TOKEN'', SyncInterval = d, SyncS3Bucket = env ''BEADS_SYNC_S3_BUCKET'',
           SyncS3Endpoint = env ''BEADS_SYNC_S3_ENDPOINT'',
           SyncS3Region = envOrDefault env ''BEADS_SYNC_S3_REGION'' ''us-east-1'',
           SyncS3Key = envOrDefault env ''BEADS_SYNC_S3_KEY'' ''beads/backup.jsonl'',
           SyncGitRepo = env ''BEADS_SYNC_GIT_REPO'',
           SyncGitFile = envOrDefault env ''BEADS_SYNC_GIT_FILE'' ''beads.jsonl'',
           SyncGitBranch = envOrDefault env ''BEADS_SYNC_GIT_BRANCH'' ''main''\<rparr>)"

text \<open>
  The destinations \<open>kd serve\<close> sets up; \<open>s3\<close> is the S3 client, if the settings gave one. The
  scheduler runs when there is one of them.
\<close>

definition sync_destinations ::
  "server_config \<Rightarrow> (string \<Rightarrow> string \<Rightarrow> json list \<Rightarrow> ('w, unit) op) option \<Rightarrow> 'w git_world \<Rightarrow> 'w destination list" where
  "sync_destinations c s3 g =
     (if SyncInterval c \<le> 0 then []
      else (case s3 of
              Some put \<Rightarrow> if SyncS3Bucket c \<noteq> [] then [s3_write put (SyncS3Bucket c) (SyncS3Key c)] else []
            | None \<Rightarrow> [])
        @ (if SyncGitRepo c \<noteq> [] then
             [git_write g \<lparr>gdRepo = SyncGitRepo c, gdFile = SyncGitFile c, gdBranch = SyncGitBranch c\<rparr>]
           else []))"

subsection \<open>Ids (\<open>internal/idgen\<close>)\<close>

definition DefaultPrefix :: string where "DefaultPrefix = ''kd-''"

definition Alphabet :: string where
  "Alphabet = ''abcdefghijklmnopqrstuvwxyzABCDEFGHIJKLMNOPQRSTUVWXYZ0123456789''"

definition id_length :: nat where "id_length = 10"

definition GenerateWithPrefix :: "(string \<Rightarrow> nat \<Rightarrow> string res) \<Rightarrow> string \<Rightarrow> string res" where
  "GenerateWithPrefix nanoid pre =
     (case nanoid Alphabet id_length of Inl e \<Rightarrow> Inl (WrapErr ''idgen'' e) | Inr i \<Rightarrow> Inr (pre @ i))"

definition Generate :: "(string \<Rightarrow> nat \<Rightarrow> string res) \<Rightarrow> string res" where
  "Generate nanoid = GenerateWithPrefix nanoid DefaultPrefix"

subsection \<open>The export is complete\<close>

lemma map_sum_Inr_iff: "map_sum f g s = Inr y \<longleftrightarrow> (\<exists>x. s = Inr x \<and> y = g x)"
  by (cases s) auto

lemma encode_all_Inr:
  "encode_all ty key enc xs = Inr ls \<longleftrightarrow>
     (\<forall>x \<in> set xs. enc x \<noteq> None) \<and> ls = map (\<lambda>x. record_line ty (the (enc x))) xs"
  by (induction xs arbitrary: ls) (auto simp: map_sum_Inr_iff split: option.split)

lemma encode_all_total: "(\<And>x. x \<in> set xs \<Longrightarrow> enc x \<noteq> None) \<Longrightarrow> \<exists>js. encode_all ty key enc xs = Inr js"
  by (simp only: encode_all_Inr) blast

definition full_bead :: "tables \<Rightarrow> bead \<Rightarrow> bead" where
  "full_bead t b = b\<lparr>bLabels := labels_of (bID b) t, bDependencies := deps_of (bID b) t,
     bComments := comments_of (bID b) t\<rparr>"

lemma populate_Inr: "populate b s = (Inr b', s') \<Longrightarrow> b' = full_bead (db s) b \<and> db s' = db s"
  by (auto simp: populate_def run_simps queryGetLabels_def queryGetDependencies_def queryGetComments_def
      full_bead_def dest!: select_Inr)

lemma populate_all:
  "collect populate bs s = (Inr full, s') \<Longrightarrow> full = map (full_bead (db s)) bs \<and> db s' = db s"
proof (induction bs arbitrary: s full)
  case (Cons b bs)
  obtain b' s1 full' where p: "populate b s = (Inr b', s1)" and c: "collect populate bs s1 = (Inr full', s')"
    and f: "full = b' # full'"
    using Cons.prems by (auto simp: run_simps)
  show ?case using populate_Inr [OF p] Cons.IH [OF c] f by simp
qed (simp add: ret_Inr)

text \<open>The listing without a filter has every bead once.\<close>

lemma list_everything:
  assumes "db_wf (db s)" and "queryListBeads (no_filter\<lparr>fSort := srt\<rparr>) s = (Inr (bs, n), s')"
  shows "db s' = db s" "distinct (map bID bs)"
    "(\<lambda>b. b\<lparr>bLabels := []\<rparr>) ` set bs = set (tBeads (db s))"
proof -
  let ?f = "no_filter\<lparr>fSort := srt\<rparr>"
  obtain page where pg: "(page, n) = list_rows (render s) ?f (db s)"
    and b: "bs = map (with_labels (db s)) page" and d: "db s' = db s"
    using queryListBeads_eq [OF assms(2)] by blast
  note p = list_rows_page [OF assms(1) pg]
  show "db s' = db s" by (rule d)
  have bid: "map bID bs = map bID page" by (simp add: b with_labels_def)
  show "distinct (map bID bs)" unfolding bid by (rule p(2))
  have all: "found (render s) ?f (db s) = tBeads (db s)"
    by (simp add: found_def where_ok_def opt_ok_def no_filter_def)
  have dt: "distinct (map bID (tBeads (db s)))" using assms(1) by (simp add: db_wf_def keys_ok_def)
  have "length page = length (tBeads (db s))" using p(4) unfolding all by (simp add: no_filter_def)
  moreover have "distinct page" "distinct (tBeads (db s))" using p(2) dt by (simp_all add: distinct_map)
  ultimately have "set page = set (tBeads (db s))"
    using p(1) unfolding all by (metis card_subset_eq distinct_card finite_set)
  moreover have "with_labels (db s) x\<lparr>bLabels := []\<rparr> = x" if "x \<in> set (tBeads (db s))" for x
    using assms(1) that by (cases x) (auto simp: with_labels_def db_wf_def rows_ok_def row_ok_def)
  ultimately show "(\<lambda>b. b\<lparr>bLabels := []\<rparr>) ` set bs = set (tBeads (db s))"
    by (force simp: b image_image)
qed

text \<open>What a bead's row is without what other tables say of it.\<close>

definition bare :: "bead \<Rightarrow> bead" where
  "bare b = b\<lparr>bLabels := [], bDependencies := [], bComments := []\<rparr>"

lemma full_bead_facts:
  "bID (full_bead t b) = bID b" "bare (full_bead t b) = bare b"
  "bLabels (full_bead t b) = labels_of (bID b) t" "bDependencies (full_bead t b) = deps_of (bID b) t"
  "bComments (full_bead t b) = comments_of (bID b) t"
  by (simp_all add: full_bead_def bare_def)

text \<open>Every row of another table belongs to a bead.\<close>

lemma grouped_cover: "f ` set xs \<subseteq> g ` B \<Longrightarrow> (\<Union>b \<in> B. {x \<in> set xs. f x = g b}) = set xs"
  by blast

lemma relations_covered:
  assumes "db_wf t" "bID ` B = bead_ids t"
  shows "(\<Union>b \<in> B. (\<lambda>l. (bID b, l)) ` set (labels_of (bID b) t)) = set (tLabels t)"
    "(\<Union>b \<in> B. set (deps_of (bID b) t)) = set (tDeps t)"
    "(\<Union>b \<in> B. set (comments_of (bID b) t)) = set (tComments t)"
proof -
  note refs = assms(1) [unfolded db_wf_def refs_ok_def]
  have "(\<lambda>l. (i, l)) ` set (labels_of i t) = {x \<in> set (tLabels t). fst x = i}" for i
    by (auto simp: labels_of_def image_iff)
  then show "(\<Union>b \<in> B. (\<lambda>l. (bID b, l)) ` set (labels_of (bID b) t)) = set (tLabels t)"
    using grouped_cover [of fst "tLabels t" bID B] refs assms(2) by simp
  show "(\<Union>b \<in> B. set (deps_of (bID b) t)) = set (tDeps t)"
    using grouped_cover [of dBeadID "tDeps t" bID B] refs assms(2) by (simp add: deps_of_def)
  show "(\<Union>b \<in> B. set (comments_of (bID b) t)) = set (tComments t)"
    using grouped_cover [of cBeadID "tComments t" bID B] refs assms(2) by (simp add: comments_of_def)
qed

lemma sort_key_strict: "distinct (map f xs) \<Longrightarrow> sorted_wrt (\<lambda>x y. f x < f y) (sort_key f xs)"
  for f :: "'a \<Rightarrow> 'b :: linorder"
proof -
  assume "distinct (map f xs)"
  then have "distinct (map f (sort_key f xs))" by (simp add: distinct_map)
  then have "sorted_wrt (<) (map f (sort_key f xs))"
    using sorted_sort_key [of f xs] by (simp add: strict_sorted_iff)
  then show ?thesis by (simp add: sorted_wrt_map)
qed


text \<open>Without faults the export succeeds.\<close>

lemma list_no_faults:
  assumes "faults s = []"
  shows "\<exists>bs n. queryListBeads f s = (Inr (bs, n), s)"
proof -
  obtain page n where "list_rows (render s) f (db s) = (page, n)" by fastforce
  then show ?thesis
    by (cases "page = []") (auto simp: queryListBeads_def list_beads_def op_defs no_faults [OF assms])
qed

lemma export_succeeds:
  assumes "db_wf (db s)" "faults s = []"
  shows "\<exists>ls. ExportJSONL fmt s = (Inr ls, s)"
proof -
  have pop: "populate b s = (Inr (full_bead (db s) b), s)" for b
    by (simp add: populate_def queryGetLabels_def queryGetDependencies_def queryGetComments_def op_defs
        no_faults [OF assms(2)] full_bead_def)
  have col: "collect populate bs s = (Inr (map (full_bead (db s)) bs), s)" for bs
    by (induction bs) (simp_all add: pop op_defs)
  obtain bs n where q: "queryListBeads (no_filter\<lparr>fSort := ''created_at''\<rparr>) s = (Inr (bs, n), s)"
    using list_no_faults [OF assms(2)] by blast
  have b: "bead_json fmt b \<noteq> None" if m: "b \<in> set (sort_key bID (map (full_bead (db s)) bs))" for b
  proof -
    obtain x where x: "x \<in> set bs" "b = full_bead (db s) x" using m by auto
    then have "x\<lparr>bLabels := []\<rparr> \<in> set (tBeads (db s))" using list_everything(3) [OF assms(1) q] by blast
    then have "bFields (x\<lparr>bLabels := []\<rparr>) \<noteq> RawBad" using assms(1) by (auto simp: db_wf_def rows_ok_def row_ok_def)
    then show ?thesis by (auto simp: x(2) full_bead_def bead_json_def split: raw.splits)
  qed
  have k: "config_json fmt k \<noteq> None" if "k \<in> set (sort_key kKey (tConfigs (db s)))" for k
  proof -
    have "json_valid (kValue k)" using assms(1) that by (auto simp: db_wf_def rows_ok_def)
    then show ?thesis by (cases "kValue k") (auto simp: config_json_def)
  qed
  obtain js js' where "encode_all ''bead'' bID (bead_json fmt) (sort_key bID (map (full_bead (db s)) bs)) = Inr js"
    "encode_all ''config'' kKey (config_json fmt) (sort_key kKey (tConfigs (db s))) = Inr js'"
    using encode_all_total [where enc = "bead_json fmt", OF b] encode_all_total [where enc = "config_json fmt", OF k] by blast
  then have "\<exists>ls. export_lines fmt (now s) (sort_key bID (map (full_bead (db s)) bs)) (sort_key kKey (tConfigs (db s))) = Inr ls"
    by (simp add: export_lines_def)
  then show ?thesis
    by (auto simp: ExportJSONL_def op_defs q col queryListAllConfigs_def no_faults [OF assms(2)] lift_res_def)
qed


subsection \<open>What the scheduler does\<close>

text \<open>Every destination is given the same export; one that fails does not keep it from the others.\<close>

lemma write_all_world: "snd (write_all i dests data w) = fold (\<lambda>d w. snd (d data w)) dests w"
  by (induction dests arbitrary: i w) (simp_all add: case_prod_unfold)

text \<open>
  Two exports at different times are never the same, because the header has the time: the git
  destination's ``no changes'' does not happen.
\<close>

lemma export_header: "export_lines fmt tm bs ks = Inr ls \<Longrightarrow> \<exists>rest. ls = header_line fmt tm (length bs) (length ks) # rest"
  by (cases "encode_all ''bead'' bID (bead_json fmt) bs"; cases "encode_all ''config'' kKey (config_json fmt) ks")
    (auto simp: export_lines_def)

lemma exports_differ:
  assumes "inj fmt" "ExportJSONL fmt s = (Inr ls, s1)" "ExportJSONL fmt t = (Inr ls', t1)" "now s1 \<noteq> now t1"
  shows "ls \<noteq> ls'"
proof -
  have "\<exists>n m rest. ls = header_line fmt (now s') n m # rest" if "ExportJSONL fmt s = (Inr ls, s')" for s ls s'
    using that by (auto simp: ExportJSONL_def run_simps get_state_def lift_res_def
        split: prod.splits dest!: export_header)
  from this [OF assms(2)] this [OF assms(3)] show ?thesis
    using assms(1,4) by (auto simp: header_line_def inj_def)
qed

end
