(* ===== verification/Serve.thy ===== *)
theory Serve
  imports Sync
begin

text \<open>
  The life of the server process (\<open>cmd/kd/serve.go\<close>, \<open>New\<close> of
  \<open>internal/store/postgres/postgres.go\<close>): what \<open>kd serve\<close> starts, in what order, what it does
  when one of them cannot be started, and how it shuts down on a signal. The trace says what was
  acquired and released; what each of them does is in the other theories.
\<close>

subsection \<open>Starting\<close>

datatype resource = Database | Publisher | GrpcServer | HttpServer | SyncScheduler | HooksSubscriber | Reaper

datatype act = Acquire resource | Release resource | EnableJetStream | LoadHandlers

text \<open>
  What may fail while starting, and with what error: opening the database, its \<open>Ping\<close>, its
  migrations; connecting the publisher to NATS, its JetStream context, the streams; listing the
  configs; listening; the S3 client; connecting the subscriber.
\<close>

record boot =
  btOpen :: "err option"
  btPing :: "err option"
  btMigrate :: "err option"
  btPublisher :: "err option"
  btJetStream :: "err option"
  btStreams :: "err option"
  btConfigs :: "err option"
  btListen :: "err option"
  btS3 :: "err option"
  btSubscriber :: "err option"

definition open_store :: "boot \<Rightarrow> unit res \<times> act list" where
  "open_store b =
     (case btOpen b of
        Some e \<Rightarrow> (Inl (WrapErr ''open database'' e), [])
      | None \<Rightarrow>
          (case btPing b of
             Some e \<Rightarrow> (Inl (WrapErr ''ping database'' e), [Acquire Database, Release Database])
           | None \<Rightarrow>
               (case btMigrate b of
                  Some e \<Rightarrow> (Inl (WrapErr ''run migrations'' e), [Acquire Database, Release Database])
                | None \<Rightarrow> (Inr (), [Acquire Database]))))"

text \<open>Without NATS the publisher does nothing; it is closed all the same.\<close>

definition open_publisher :: "boot \<Rightarrow> server_config \<Rightarrow> unit res \<times> act list" where
  "open_publisher b c =
     (if NATSURL c = [] then (Inr (), [Acquire Publisher])
      else case btPublisher b of
        Some e \<Rightarrow> (Inl e, [Release Database])
      | None \<Rightarrow> (Inr (), [Acquire Publisher]))"

definition prepare_bus :: "boot \<Rightarrow> server_config \<Rightarrow> act list" where
  "prepare_bus b c =
     (if NATSURL c \<noteq> [] \<and> btJetStream b = None \<and> btStreams b = None then [EnableJetStream] else [])
     @ (if btConfigs b = None then [LoadHandlers] else [])"

text \<open>Whether a destination was set up: one that cannot be is only logged.\<close>

definition wants_sync :: "boot \<Rightarrow> server_config \<Rightarrow> bool" where
  "wants_sync b c \<longleftrightarrow>
     0 < SyncInterval c \<and> ((SyncS3Bucket c \<noteq> [] \<and> btS3 b = None) \<or> SyncGitRepo c \<noteq> [])"

definition wants_hooks :: "boot \<Rightarrow> server_config \<Rightarrow> bool" where
  "wants_hooks b c \<longleftrightarrow> NATSURL c \<noteq> [] \<and> btSubscriber b = None"

text \<open>Everything after the listener: none of it stops the server when it fails.\<close>

definition start_services :: "boot \<Rightarrow> server_config \<Rightarrow> act list" where
  "start_services b c =
     [Acquire GrpcServer, Acquire HttpServer]
     @ (if wants_sync b c then [Acquire SyncScheduler] else [])
     @ (if wants_hooks b c then [Acquire HooksSubscriber] else [])
     @ [Acquire Reaper]"

text \<open>
  On \<open>SIGINT\<close> or \<open>SIGTERM\<close>. An error of a step of the shutdown is logged and the next one taken.
  Releasing the subscriber is asking it to stop: its goroutine is not waited for; releasing the HTTP
  server is \<open>Shutdown\<close>, which gives up on open connections after ten seconds.
\<close>

definition shut_down :: "boot \<Rightarrow> server_config \<Rightarrow> act list" where
  "shut_down b c =
     [Release Reaper]
     @ (if wants_hooks b c then [Release HooksSubscriber] else [])
     @ (if wants_sync b c then [Release SyncScheduler] else [])
     @ [Release GrpcServer, Release HttpServer, Release Publisher, Release Database]"

text \<open>The command, from its settings to the end of the shutdown that the signal starts.\<close>

definition serve :: "boot \<Rightarrow> (string \<Rightarrow> string) \<Rightarrow> unit res \<times> act list" where
  "serve b env =
     (case load_config env of
        Inl e \<Rightarrow> (Inl e, [])
      | Inr c \<Rightarrow>
          (case open_store b of
             (Inl e, tr) \<Rightarrow> (Inl e, tr)
           | (Inr _, tr) \<Rightarrow>
               (case open_publisher b c of
                  (Inl e, tr1) \<Rightarrow> (Inl e, tr @ tr1)
                | (Inr _, tr1) \<Rightarrow>
                    (case btListen b of
                       Some e \<Rightarrow> (Inl e, tr @ tr1 @ prepare_bus b c @ [Release Publisher, Release Database])
                     | None \<Rightarrow> (Inr (), tr @ tr1 @ prepare_bus b c @ start_services b c @ shut_down b c)))))"

subsection \<open>Nothing is leaked, nothing outlives the database\<close>

text \<open>
  What is held after a trace; \<open>None\<close> when something is acquired that is held, released that is not,
  used without the database, or the database or the publisher is released before what uses it.
\<close>

fun held :: "act list \<Rightarrow> resource set \<Rightarrow> resource set option" where
  "held [] H = Some H"
| "held (Acquire x # tr) H =
     (if x \<in> H \<or> (x \<noteq> Database \<and> Database \<notin> H) then None else held tr (insert x H))"
| "held (Release x # tr) H =
     (if x \<notin> H \<or> (x = Database \<and> H \<noteq> {Database}) \<or> (x = Publisher \<and> H \<noteq> {Database, Publisher})
      then None else held tr (H - {x}))"
| "held (EnableJetStream # tr) H = (if Publisher \<in> H then held tr H else None)"
| "held (LoadHandlers # tr) H = (if Database \<in> H then held tr H else None)"

lemma held_append: "held (xs @ ys) H = (case held xs H of None \<Rightarrow> None | Some H' \<Rightarrow> held ys H')"
  by (induction xs H rule: held.induct) auto

lemma held_prepare: "{Database, Publisher} \<subseteq> H \<Longrightarrow> held (prepare_bus b c) H = Some H"
  by (simp add: prepare_bus_def)

lemma held_services:
  "held (start_services b c @ shut_down b c) {Database, Publisher} = Some {}"
proof -
  have s: "{Publisher, Database} = {Database, Publisher}" by auto
  show ?thesis
    by (simp add: start_services_def shut_down_def insert_Diff_if s insert_commute)
qed


text \<open>A run with everything on, and one whose port is taken.\<close>

definition all_well :: boot where
  "all_well = \<lparr>btOpen = None, btPing = None, btMigrate = None, btPublisher = None, btJetStream = None,
     btStreams = None, btConfigs = None, btListen = None, btS3 = None, btSubscriber = None\<rparr>"

lemma port_taken:
  assumes "load_config env = Inr c" "NATSURL c = []"
  shows "serve (all_well\<lparr>btListen := Some (OtherError ''address already in use'')\<rparr>) env =
    (Inl (OtherError ''address already in use''),
     [Acquire Database, Acquire Publisher, LoadHandlers, Release Publisher, Release Database])"
  using assms by (simp add: serve_def all_well_def open_store_def open_publisher_def prepare_bus_def)

end
