(* ===== verification/SseClient.thy ===== *)
theory SseClient
  imports Clients
begin

text \<open>
  Server-sent events as text: what the event stream of the bus writes
  (\<open>internal/server/http_bus_sse.go\<close>) and how the client reads it
  (\<open>internal/eventbus/sse_client.go\<close>). \<open>enc\<close> is \<open>json.Marshal\<close> and \<open>parse\<close> reads JSON text; \<open>rfc\<close>
  writes a time by \<open>time.RFC3339\<close>.
\<close>

subsection \<open>Writing\<close>

definition LF :: string where "LF = [CHR 0x0A]"

definition frame :: "nat \<Rightarrow> string \<Rightarrow> string \<Rightarrow> string" where
  "frame n ev data =
     ''id:'' @ show_nat n @ LF @ ''event:'' @ ev @ LF @ ''data:'' @ data @ LF @ LF"

definition keepalive :: string where
  "keepalive = '':keepalive'' @ LF @ LF"

definition bus_event_json :: "(time \<Rightarrow> string) \<Rightarrow> busSSEEvent \<Rightarrow> json" where
  "bus_event_json rfc e = JObj
     [(''stream'', JStr (beStream e)), (''type'', JStr (beType e)), (''subject'', JStr (beSubject e)),
      (''seq'', JInt (int (beSeq e))), (''ts'', JStr (rfc (beTS e))), (''payload'', bePayload e)]"

text \<open>What the loop writes: a numbered event, or a comment when the timer fires.\<close>

datatype bus_item = Frame nat busSSEEvent | Keepalive

definition item_text :: "(json \<Rightarrow> string) \<Rightarrow> (time \<Rightarrow> string) \<Rightarrow> bus_item \<Rightarrow> string" where
  "item_text enc rfc x =
     (case x of
        Frame n e \<Rightarrow> frame n (beStream e) (enc (bus_event_json rfc e))
      | Keepalive \<Rightarrow> keepalive)"

subsection \<open>Reading\<close>

record received_event =
  evID :: string
  evSSEType :: string
  evStream :: string
  evType :: string
  evSubject :: string
  evSeq :: nat
  evTS :: string
  evPayload :: raw

definition no_event :: received_event where
  "no_event = \<lparr>evID = [], evSSEType = [], evStream = [], evType = [], evSubject = [], evSeq = 0,
     evTS = [], evPayload = RawNil\<rparr>"

definition decode_uint64 :: "json \<Rightarrow> nat \<Rightarrow> nat option" where
  "decode_uint64 j n =
     (case j of
        JNull \<Rightarrow> Some n
      | JInt i \<Rightarrow> if 0 \<le> i \<and> i < 2 ^ 64 then Some (nat i) else None
      | _ \<Rightarrow> None)"

definition event_field :: "string \<Rightarrow> json \<Rightarrow> received_event \<Rightarrow> received_event option" where
  "event_field k j e =
     (if fold_eq k ''stream'' then map_option (\<lambda>x. e\<lparr>evStream := x\<rparr>) (decode_string j (evStream e))
      else if fold_eq k ''type'' then map_option (\<lambda>x. e\<lparr>evType := x\<rparr>) (decode_string j (evType e))
      else if fold_eq k ''subject'' then map_option (\<lambda>x. e\<lparr>evSubject := x\<rparr>) (decode_string j (evSubject e))
      else if fold_eq k ''seq'' then map_option (\<lambda>x. e\<lparr>evSeq := x\<rparr>) (decode_uint64 j (evSeq e))
      else if fold_eq k ''ts'' then map_option (\<lambda>x. e\<lparr>evTS := x\<rparr>) (decode_string j (evTS e))
      else if fold_eq k ''payload'' then Some (e\<lparr>evPayload := Raw j\<rparr>)
      else Some e)"

text \<open>
  \<open>bufio.ScanLines\<close>: the lines without their ends; a line too long for the buffer stops the
  scan with an error.
\<close>

definition drop_cr :: "string \<Rightarrow> string" where
  "drop_cr s = (if s \<noteq> [] \<and> last s = CHR 0x0D then butlast s else s)"

definition MaxLine :: nat where "MaxLine = 1024 * 1024"

definition text_lines :: "string \<Rightarrow> string list" where
  "text_lines s = (let ls = split_byte (CHR 0x0A) s in if last ls = [] then butlast ls else ls)"

definition scan_lines :: "string \<Rightarrow> string list \<times> bool" where
  "scan_lines s =
     (let ls = text_lines s; fit = (\<lambda>l. length l < MaxLine) in
      (map drop_cr (takeWhile fit ls), \<not> list_all fit ls))"

record scan_state =
  ssID :: string
  ssEvent :: string
  ssData :: string

definition no_scan :: scan_state where
  "no_scan = \<lparr>ssID = [], ssEvent = [], ssData = []\<rparr>"

text \<open>The event at a boundary, when there are data that decode.\<close>

definition at_boundary :: "(string \<Rightarrow> json option) \<Rightarrow> scan_state \<Rightarrow> received_event list" where
  "at_boundary parse s =
     (if ssData s = [] then []
      else case parse (ssData s) of
        None \<Rightarrow> []
      | Some j \<Rightarrow>
          (case decode_struct event_field (Raw j) no_event of
             None \<Rightarrow> []
           | Some e \<Rightarrow> [e\<lparr>evID := ssID s, evSSEType := ssEvent s\<rparr>]))"

definition field_line :: "string \<Rightarrow> scan_state \<Rightarrow> scan_state" where
  "field_line l s =
     (if has_prefix l ''id:'' then s\<lparr>ssID := trim_space (trim_prefix l ''id:'')\<rparr>
      else if has_prefix l ''event:'' then s\<lparr>ssEvent := trim_space (trim_prefix l ''event:'')\<rparr>
      else if has_prefix l ''data:'' then
        (let d = trim_prefix l ''data:'' in
         s\<lparr>ssData := (if ssData s \<noteq> [] then ssData s @ LF @ d else d)\<rparr>)
      else s)"

fun read_lines :: "(string \<Rightarrow> json option) \<Rightarrow> string list \<Rightarrow> scan_state \<Rightarrow> received_event list" where
  "read_lines parse [] s = []"
| "read_lines parse (l # ls) s =
     (if l = [] then at_boundary parse s @ read_lines parse ls no_scan
      else read_lines parse ls (field_line l s))"

subsection \<open>The connection\<close>

record bus_options =
  boBaseURL :: string
  boToken :: string
  boStream :: string
  boFilter :: string

definition bus_url :: "bus_options \<Rightarrow> string" where
  "bus_url a =
     trim_suffix (boBaseURL a) ''/'' @ ''/v1/bus/events''
     @ (if boStream a \<noteq> [] then ''?stream='' @ boStream a else [])
     @ (if boFilter a \<noteq> [] then (if boStream a \<noteq> [] then ''&'' else ''?'') @ ''filter='' @ boFilter a else [])"

definition bus_headers :: "bus_options \<Rightarrow> (string \<times> string) list" where
  "bus_headers a =
     (''Accept'', ''text/event-stream'')
     # (if boToken a \<noteq> [] then [(''Authorization'', ''Bearer '' @ boToken a)] else [])"

text \<open>
  \<open>net\<close> answers the request, or fails: the status, the text that arrives before the stream ends
  and the error that ended it, if any. The result are the events sent on the channel and the error
  sent on the other; the consumer does not cancel.
\<close>

definition ConnectBusSSE ::
  "(string \<Rightarrow> json option) \<Rightarrow> (string \<Rightarrow> (string \<times> string) list \<Rightarrow> string + nat \<times> string \<times> string option)
   \<Rightarrow> bus_options \<Rightarrow> received_event list \<times> string option" where
  "ConnectBusSSE parse net a =
     (case net (bus_url a) (bus_headers a) of
        Inl e \<Rightarrow> ([], Some (''bus SSE connection failed: '' @ e))
      | Inr (st, t, broken) \<Rightarrow>
          (if st \<noteq> 200 then ([], Some (''bus SSE endpoint returned status '' @ show_nat st))
           else case scan_lines t of (ls, too_long) \<Rightarrow>
             (read_lines parse ls no_scan,
              if too_long then Some ''bus SSE stream error: bufio.Scanner: token too long''
              else map_option (\<lambda>e. ''bus SSE stream error: '' @ e) broken)))"

subsection \<open>What is sent is received\<close>

definition item_lines :: "(json \<Rightarrow> string) \<Rightarrow> (time \<Rightarrow> string) \<Rightarrow> bus_item \<Rightarrow> string list" where
  "item_lines enc rfc x =
     (case x of
        Frame n e \<Rightarrow> [''id:'' @ show_nat n, ''event:'' @ beStream e, ''data:'' @ enc (bus_event_json rfc e), []]
      | Keepalive \<Rightarrow> ['':keepalive'', []])"

lemma item_lines_simps:
  "item_lines enc rfc (Frame n e) = [''id:'' @ show_nat n, ''event:'' @ beStream e, ''data:'' @ enc (bus_event_json rfc e), []]"
  "item_lines enc rfc Keepalive = ['':keepalive'', []]"
  by (simp_all add: item_lines_def)

lemma item_text_lines: "item_text enc rfc x = concat (map (\<lambda>l. l @ LF) (item_lines enc rfc x))"
  by (cases x) (simp_all add: item_text_def item_lines_def frame_def keepalive_def)

lemma split_lines:
  "list_all (\<lambda>l. CHR 0x0A \<notin> set l) ls \<Longrightarrow> split_byte (CHR 0x0A) (concat (map (\<lambda>l. l @ LF) ls)) = ls @ [[]]"
  by (induction ls) (simp_all add: LF_def split_byte_append_sep)

lemma text_lines_unlines:
  "list_all (\<lambda>l. CHR 0x0A \<notin> set l) ls \<Longrightarrow> text_lines (concat (map (\<lambda>l. l @ LF) ls)) = ls"
  by (simp add: text_lines_def split_lines)

lemma runes_plain: "list_all (\<lambda>c. byte c < 128) s \<Longrightarrow> map fst (runes s) = map byte s"
  by (induction s) simp_all

text \<open>Trimming leaves text alone that has no white space.\<close>

lemma trim_space_solid:
  assumes "list_all (\<lambda>c. byte c < 128 \<and> \<not> is_space_rune (byte c)) s"
  shows "trim_space s = s"
proof -
  have r: "map fst (runes s) = map byte s" using assms by (intro runes_plain) (auto simp: list_all_iff)
  have n: "\<not> is_space_rune (fst x)" if "x \<in> set (runes s)" for x
  proof -
    have "fst x \<in> byte ` set s" using that r by (metis image_eqI list.set_map)
    then show ?thesis using assms by (auto simp: list_all_iff)
  qed
  have d: "dropWhile (is_space_rune \<circ> fst) xs = xs" if "\<forall>x \<in> set xs. \<not> is_space_rune (fst x)" for xs :: "(nat \<times> string) list"
    using that by (cases xs) auto
  show ?thesis by (simp add: trim_space_def d n concat_runes)
qed

lemma solid_trim:
  "list_all (\<lambda>c. byte c < 128 \<and> \<not> is_space_rune (byte c) \<and> c \<noteq> CHR 0x0A \<and> c \<noteq> CHR 0x0D) s \<Longrightarrow> trim_space s = s"
  by (rule trim_space_solid) (simp add: list_all_iff)

lemma digits_solid: "list_all (\<lambda>c. byte c < 128 \<and> \<not> is_space_rune (byte c) \<and> c \<noteq> CHR 0x0A \<and> c \<noteq> CHR 0x0D) (show_nat n)"
proof -
  have "list_all is_digit (show_nat n)" using show_nat_digits by blast
  then show ?thesis by (auto simp: list_all_iff is_digit_def is_space_rune_def byte_def)
qed

lemma stream_names: "StreamForSubject s \<in> {[], ''hooks'', ''decisions'', ''agents'', ''mail'', ''mutations'', ''config'', ''gate'',
     ''inbox'', ''jack''}"
  by (auto simp: StreamForSubject_def prefixToStream_def split: option.splits if_splits)

lemma stream_solid: "list_all (\<lambda>c. byte c < 128 \<and> \<not> is_space_rune (byte c) \<and> c \<noteq> CHR 0x0A \<and> c \<noteq> CHR 0x0D) (StreamForSubject s)"
  using stream_names [of s] by (auto simp: is_space_rune_def byte_def)

definition received :: "(time \<Rightarrow> string) \<Rightarrow> nat \<Rightarrow> busSSEEvent \<Rightarrow> received_event" where
  "received rfc n e =
     \<lparr>evID = show_nat n, evSSEType = beStream e, evStream = beStream e, evType = beType e,
      evSubject = beSubject e, evSeq = beSeq e, evTS = rfc (beTS e), evPayload = Raw (bePayload e)\<rparr>"

lemma decode_bus_event:
  "beSeq e < 2 ^ 64 \<Longrightarrow> decode_struct event_field (Raw (bus_event_json rfc e)) no_event
     = Some ((received rfc n e)\<lparr>evID := [], evSSEType := []\<rparr>)"
  by (simp add: decode_struct_def bus_event_json_def event_field_def key_simps decode_string_def decode_uint64_def
      received_def no_event_def)

text \<open>
  What the text of an event needs: it is not empty, has no line ends, fits the buffer and reads
  back as the JSON it was made from.
\<close>

definition sendable :: "(json \<Rightarrow> string) \<Rightarrow> (string \<Rightarrow> json option) \<Rightarrow> (time \<Rightarrow> string) \<Rightarrow> nat \<Rightarrow> busSSEEvent \<Rightarrow> bool" where
  "sendable enc parse rfc n e \<longleftrightarrow>
     (let j = bus_event_json rfc e; d = enc j in
      d \<noteq> [] \<and> CHR 0x0A \<notin> set d \<and> CHR 0x0D \<notin> set d \<and> length d + 5 < MaxLine \<and> parse d = Some j
      \<and> length (show_nat n) + 3 < MaxLine \<and> beSeq e < 2 ^ 64)"

fun frames :: "bus_item list \<Rightarrow> (nat \<times> busSSEEvent) list" where
  "frames [] = []"
| "frames (Frame n e # xs) = (n, e) # frames xs"
| "frames (Keepalive # xs) = frames xs"

lemma drop_cr_id: "CHR 0x0D \<notin> set l \<Longrightarrow> drop_cr l = l"
  by (metis drop_cr_def last_in_set)

lemma item_lines_clean:
  assumes "sendable enc parse rfc n e" "beStream e = StreamForSubject sub"
  shows "list_all (\<lambda>l. CHR 0x0A \<notin> set l \<and> CHR 0x0D \<notin> set l \<and> length l < MaxLine) (item_lines enc rfc (Frame n e))"
proof -
  have "CHR 0x0A \<notin> set (show_nat n)" "CHR 0x0D \<notin> set (show_nat n)"
    "CHR 0x0A \<notin> set (StreamForSubject sub)" "CHR 0x0D \<notin> set (StreamForSubject sub)"
    using digits_solid [of n] stream_solid [of sub] by (auto simp: list_all_iff)
  moreover have "length (StreamForSubject sub) \<le> 9" using stream_names [of sub] by auto
  moreover have "CHR 0x0A \<notin> set (enc (bus_event_json rfc e))" "CHR 0x0D \<notin> set (enc (bus_event_json rfc e))"
    "length (enc (bus_event_json rfc e)) + 5 < MaxLine" "length (show_nat n) + 3 < MaxLine"
    using assms(1) by (simp_all add: sendable_def Let_def)
  ultimately show ?thesis by (simp add: item_lines_simps assms(2) MaxLine_def)
qed

lemma read_frame:
  assumes "sendable enc parse rfc n e" "beStream e = StreamForSubject sub"
  shows "read_lines parse (item_lines enc rfc (Frame n e) @ ls) no_scan = received rfc n e # read_lines parse ls no_scan"
proof -
  have t: "trim_space (show_nat n) = show_nat n" "trim_space (beStream e) = beStream e"
    unfolding assms(2) by (rule solid_trim [OF digits_solid] solid_trim [OF stream_solid])+
  let ?d = "enc (bus_event_json rfc e)"
  have p: "parse ?d = Some (bus_event_json rfc e)" "?d \<noteq> []" "beSeq e < 2 ^ 64"
    using assms(1) by (auto simp: sendable_def Let_def)
  have "at_boundary parse \<lparr>ssID = show_nat n, ssEvent = beStream e, ssData = ?d\<rparr> = [received rfc n e]"
    by (simp add: at_boundary_def p decode_bus_event [OF p(3), of rfc n]) (simp add: received_def)
  then show ?thesis
    by (simp add: item_lines_simps field_line_def no_scan_def trim_prefix_def has_prefix_def t)
qed

lemma read_items:
  assumes "list_all (\<lambda>(n, e). sendable enc parse rfc n e \<and> (\<exists>sub. beStream e = StreamForSubject sub)) (frames xs)"
  shows "read_lines parse (concat (map (item_lines enc rfc) xs)) no_scan = map (\<lambda>(n, e). received rfc n e) (frames xs)"
    and "list_all (\<lambda>l. CHR 0x0A \<notin> set l \<and> CHR 0x0D \<notin> set l \<and> length l < MaxLine) (concat (map (item_lines enc rfc) xs))"
  using assms
proof (induction xs rule: frames.induct)
  case 1
  case 1 show ?case by simp
  case 2 show ?case by simp
next
  case (2 n e xs)
  case 1
  then show ?case using read_frame [of enc parse rfc n e] "2.IH"(1) by auto
  case 2
  then show ?case using item_lines_clean [of enc parse rfc n e] "2.IH"(2) by auto
next
  case (3 xs)
  case 1
  then show ?case using "3.IH"(1) by (simp add: item_lines_simps field_line_def has_prefix_def at_boundary_def no_scan_def)
  case 2
  then show ?case using "3.IH"(2) by (simp add: item_lines_simps MaxLine_def)
qed

lemma loop_streams: "(n, e) \<in> set (bus_sse_loop tm flt k msgs) \<Longrightarrow> \<exists>sub. beStream e = StreamForSubject sub"
  by (induction tm flt k msgs rule: bus_sse_loop.induct)
    (auto simp: bus_sse_event_def Let_def split: option.splits if_splits raw.splits)

text \<open>
  C14: a client of the bus stream receives exactly the events the server writes for the messages,
  in order, with their numbers and contents, however the keepalive comments fall between them.
\<close>

theorem bus_events_received:
  assumes "frames xs = bus_sse_loop tm flt 0 msgs"
    and "\<And>n e. (n, e) \<in> set (frames xs) \<Longrightarrow> sendable enc parse rfc n e"
    and "net (bus_url a) (bus_headers a) = Inr (200, concat (map (item_text enc rfc) xs), None)"
  shows "ConnectBusSSE parse net a = (map (\<lambda>(n, e). received rfc n e) (bus_sse_loop tm flt 0 msgs), None)"
proof -
  have ok: "list_all (\<lambda>(n, e). sendable enc parse rfc n e \<and> (\<exists>sub. beStream e = StreamForSubject sub)) (frames xs)"
    using assms(1,2) loop_streams by (fastforce simp: list_all_iff)
  note clean = read_items(2) [OF ok]
  let ?ls = "concat (map (item_lines enc rfc) xs)"
  have written: "concat (map (item_text enc rfc) xs) = concat (map (\<lambda>l. l @ LF) ?ls)"
    by (induction xs) (simp_all add: item_text_lines)
  have "text_lines (concat (map (item_text enc rfc) xs)) = ?ls" (is "text_lines ?t = _")
    unfolding written using clean by (intro text_lines_unlines) (auto simp: list_all_iff)
  moreover have "map drop_cr ?ls = ?ls"
    using clean by (intro map_idI drop_cr_id) (auto simp: list_all_iff)
  moreover have fit: "list_all (\<lambda>l. length l < MaxLine) ?ls" using clean by (auto simp: list_all_iff)
  moreover have "takeWhile (\<lambda>l. length l < MaxLine) ?ls = ?ls"
    by (rule takeWhile_eq_all_conv [THEN iffD2]) (use fit in \<open>simp add: list_all_iff\<close>)
  ultimately have "scan_lines ?t = (?ls, False)" by (simp only: scan_lines_def Let_def) simp
  then show ?thesis by (simp add: ConnectBusSSE_def assms(3) read_items(1) [OF ok] assms(1))
qed

definition stop_message :: nats_msg where
  "stop_message = \<lparr>nmSubject = ''hooks.Stop'', nmData = Raw (JObj []), nmMeta = Some (7, 0)\<rparr>"

definition stop_seen :: busSSEEvent where
  "stop_seen = \<lparr>beStream = ''hooks'', beType = ''Stop'', beSubject = ''hooks.Stop'', beSeq = 7,
     beTS = to_second 0, bePayload = JObj []\<rparr>"

lemma stop_loop: "bus_sse_loop 0 [] 0 [stop_message] = [(1, stop_seen)]"
  by (simp add: bus_sse_event_def stop_message_def stop_seen_def EventTypeFromSubject_def
      StreamForSubject_prefix [of "''hooks''" "''Stop''", simplified] prefixToStream_def)

lemma bus_events_received_witness:
  "ConnectBusSSE (\<lambda>s. if s = ''{}'' then Some (bus_event_json (\<lambda>_. ''T'') stop_seen) else None)
     (\<lambda>_ _. Inr (200, concat (map (item_text (\<lambda>_. ''{}'') (\<lambda>_. ''T'')) [Keepalive, Frame 1 stop_seen]), None))
     \<lparr>boBaseURL = ''http://kd/'', boToken = [], boStream = [], boFilter = []\<rparr>
   = ([received (\<lambda>_. ''T'') 1 stop_seen], None)"
proof -
  have f: "frames [Keepalive, Frame 1 stop_seen] = bus_sse_loop 0 [] 0 [stop_message]" by (simp only: stop_loop frames.simps)
  have "sendable (\<lambda>_. ''{}'') (\<lambda>s. if s = ''{}'' then Some (bus_event_json (\<lambda>_. ''T'') stop_seen) else None)
      (\<lambda>_. ''T'') 1 stop_seen"
    by (simp add: sendable_def MaxLine_def show_nat.simps stop_seen_def)
  then have s: "sendable (\<lambda>_. ''{}'') (\<lambda>s. if s = ''{}'' then Some (bus_event_json (\<lambda>_. ''T'') stop_seen) else None)
      (\<lambda>_. ''T'') n e" if "(n, e) \<in> set (frames [Keepalive, Frame 1 stop_seen])" for n e
    using that by simp
  show ?thesis using bus_events_received [OF f s refl] unfolding stop_loop by simp
qed

end
