(* ===== verification/AdviceCmds.thy ===== *)
theory AdviceCmds
  imports Work
begin

text \<open>
  The commands on advice (\<open>cmd/kd/advice_add.go\<close>, \<open>advice_list.go\<close>, \<open>advice_show.go\<close>,
  \<open>advice_remove.go\<close>), and that the hook handler of the server runs what \<open>kd advice add\<close> was told,
  for the agents it was told.
\<close>

subsection \<open>Adding advice\<close>

record advice_opts =
  avText :: string
  avTitle :: string
  avDescription :: string
  avPriority :: int
  avLabels :: "string list"
  avRig :: string
  avRole :: string
  avAgent :: string
  avHookCommand :: string
  avHookTrigger :: string
  avHookTimeout :: int
  avHookOnFailure :: string
  avSubscribe :: "string list"
  avExclude :: "string list"

fun hasTargetingLabel :: "string list \<Rightarrow> bool" where
  "hasTargetingLabel [] = False"
| "hasTargetingLabel (l # ls) =
     (if l = ''global'' then True
      else if length l > 4 \<and> take 4 l = ''rig:'' then True
      else if length l > 5 \<and> take 5 l = ''role:'' then True
      else if length l > 6 \<and> take 6 l = ''agent:'' then True
      else hasTargetingLabel ls)"

definition advice_labels :: "advice_opts \<Rightarrow> string list" where
  "advice_labels a =
     (let ls = avLabels a
            @ (if avRig a \<noteq> [] then [''rig:'' @ avRig a] else [])
            @ (if avRole a \<noteq> [] then [''role:'' @ avRole a] else [])
            @ (if avAgent a \<noteq> [] then [''agent:'' @ avAgent a] else [])
      in if \<not> hasTargetingLabel ls then ls @ [''global''] else ls)"

text \<open>The entries of the map, each with the condition it is made under.\<close>

definition advice_entries :: "advice_opts \<Rightarrow> (bool \<times> string \<times> json) list" where
  "advice_entries a =
     [(avHookCommand a \<noteq> [], ''hook_command'', JStr (avHookCommand a)),
      (avHookTrigger a \<noteq> [], ''hook_trigger'', JStr (avHookTrigger a)),
      (avHookTimeout a \<noteq> 0, ''hook_timeout'', JInt (avHookTimeout a)),
      (avHookOnFailure a \<noteq> [], ''hook_on_failure'', JStr (avHookOnFailure a)),
      (avSubscribe a \<noteq> [], ''subscriptions'', JArr (map JStr (avSubscribe a))),
      (avExclude a \<noteq> [], ''subscriptions_exclude'', JArr (map JStr (avExclude a)))]"

definition advice_raw :: "advice_opts \<Rightarrow> raw" where
  "advice_raw a =
     (let m = map snd (filter fst (advice_entries a)) in
      if m = [] then RawNil else marshal_map (Some m))"

definition advice_req :: "kd_ctx \<Rightarrow> advice_opts \<Rightarrow> create_request" where
  "advice_req cx a =
     no_create\<lparr>iTitle := (if avTitle a = [] then avText a else avTitle a),
       iDescription := (if avDescription a = [] then avText a else avDescription a),
       iType := ''advice'', iPriority := avPriority a, iLabels := advice_labels a,
       iCreatedBy := cxActor cx, iFields := advice_raw a\<rparr>"

definition adviceAdd :: "'s client \<Rightarrow> kd_ctx \<Rightarrow> advice_opts \<Rightarrow> ('s kd, unit) op" where
  "adviceAdd cl cx a =
     and_then (wrap ''creating advice'' (call (clCreateBead cl (advice_req cx a)))) (\<lambda>b.
     if cxJson cx then printBeadJSON cx b
     else say (''Created advice '' @ bID b @ '': '' @ bTitle b @ nl
            @ opt_line (bLabels b \<noteq> []) (''  Labels: '' @ show_strings (bLabels b))))"

subsection \<open>Listing, showing, removing\<close>

definition advice_list_req :: "string list \<Rightarrow> string \<Rightarrow> list_request" where
  "advice_list_req ls forAgent =
     no_list\<lparr>lqType := [''advice''], lqLabels := ls @ (if forAgent \<noteq> [] then [forAgent] else []),
       lqStatus := [''open'', ''in_progress''], lqLimit := 100\<rparr>"

definition advice_hook :: "bead \<Rightarrow> string" where
  "advice_hook b =
     (if raw_empty (bFields b) then []
      else case unmarshal_map (bFields b) None of
        (m, True) \<Rightarrow> (case map_of (gomap_list m) ''hook_trigger'' of Some (JStr t) \<Rightarrow> t | _ \<Rightarrow> [])
      | (_, False) \<Rightarrow> [])"

definition advice_cells :: "bead \<Rightarrow> string" where
  "advice_cells b =
     line_of [bID b, show_int (bPriority b), clip 50 (bTitle b), join_str '', '' (bLabels b), advice_hook b]"

definition printAdviceList :: "bead list \<Rightarrow> int \<Rightarrow> ('s kd, unit) op" where
  "printAdviceList bs tot =
     (if bs = [] then println ''No advice beads found.''
      else andthen (emit (Table (line_of [''ID'', ''PRI'', ''TITLE'', ''LABELS'', ''HOOK'']
             @ concat (map advice_cells bs))))
        (say (beads_footer (length bs) ''advice beads'' tot)))"

text \<open>A listing that cannot be marshalled prints an empty line: its error is dropped.\<close>

definition adviceList :: "'s client \<Rightarrow> kd_ctx \<Rightarrow> string list \<Rightarrow> string \<Rightarrow> ('s kd, unit) op" where
  "adviceList cl cx ls forAgent =
     and_then (wrap ''listing advice'' (call (clListBeads cl (advice_list_req ls forAgent)))) (\<lambda>(bs, tot).
     if cxJson cx then (case beads_json (cxFmt cx) bs of None \<Rightarrow> println [] | Some j \<Rightarrow> emit (PrettyJson j))
     else printAdviceList bs tot)"

text \<open>\<open>value_text\<close> is \<open>%v\<close> of a decoded value.\<close>

definition advice_lines :: "(json \<Rightarrow> string) \<Rightarrow> raw \<Rightarrow> string" where
  "advice_lines value_text r =
     (if raw_empty r then []
      else case unmarshal_map r None of
        (m, True) \<Rightarrow>
          concat (map (\<lambda>(k, label).
              case map_of (gomap_list m) k of None \<Rightarrow> [] | Some v \<Rightarrow> label @ value_text v @ nl)
            [(''hook_command'', ''Hook Cmd:    ''), (''hook_trigger'', ''Hook When:   ''),
             (''hook_timeout'', ''Hook Timeout: ''), (''hook_on_failure'', ''Hook Fail:   ''),
             (''subscriptions'', ''Subscribe:   ''), (''subscriptions_exclude'', ''Exclude:     '')])
      | (_, False) \<Rightarrow> [])"

definition advice_text :: "(json \<Rightarrow> string) \<Rightarrow> kd_ctx \<Rightarrow> bead \<Rightarrow> string" where
  "advice_text value_text cx b =
     ''ID:          '' @ bID b @ nl @ ''Title:       '' @ bTitle b @ nl
     @ ''Priority:    '' @ show_int (bPriority b) @ nl @ ''Status:      '' @ bStatus b @ nl
     @ opt_line (bLabels b \<noteq> []) (''Labels:      '' @ join_str '', '' (bLabels b))
     @ opt_line (bDescription b \<noteq> []) (''Description: '' @ bDescription b)
     @ advice_lines value_text (bFields b)
     @ ''Created By:  '' @ bCreatedBy b @ nl
     @ time_line cx ''Created At:  '' (bCreatedAt b)"

definition adviceShow :: "(json \<Rightarrow> string) \<Rightarrow> 's client \<Rightarrow> kd_ctx \<Rightarrow> string \<Rightarrow> ('s kd, unit) op" where
  "adviceShow value_text cl cx i =
     and_then (wrap (''getting advice '' @ i) (call (clGetBead cl i))) (\<lambda>b.
     if cxJson cx then printBeadJSON cx b else say (advice_text value_text cx b))"

definition adviceRemove :: "'s client \<Rightarrow> kd_ctx \<Rightarrow> string \<Rightarrow> bool \<Rightarrow> ('s kd, unit) op" where
  "adviceRemove cl cx i hard =
     (if hard then
        andthen (wrap (''deleting advice '' @ i) (call (clDeleteBead cl i)))
          (println (''Deleted advice '' @ i))
      else
        and_then (wrap (''closing advice '' @ i) (call (clCloseBead cl i (cxActor cx)))) (\<lambda>b.
          println (''Closed advice '' @ bID b @ '': '' @ bTitle b)))"

subsection \<open>Advice that is added is delivered and run\<close>

lemma insort_map: "insort_key f (g x) (map g xs) = map g (insort_key (\<lambda>x. f (g x)) x xs)"
  by (induction xs) auto

lemma sort_map: "sort_key f (map g xs) = map g (sort_key (\<lambda>x. f (g x)) xs)"
  by (induction xs) (simp_all add: insort_map)

lemma filter_sorted_entries:
  "sort_key fst (map snd (filter fst xs)) = map snd (filter fst (sort_key (\<lambda>x. fst (snd x)) xs))"
  by (simp add: filter_sort sort_map)

lemma sorted_entries:
  "sort_key (\<lambda>x. fst (snd x)) (advice_entries a) =
     [(avHookCommand a \<noteq> [], ''hook_command'', JStr (avHookCommand a)),
      (avHookOnFailure a \<noteq> [], ''hook_on_failure'', JStr (avHookOnFailure a)),
      (avHookTimeout a \<noteq> 0, ''hook_timeout'', JInt (avHookTimeout a)),
      (avHookTrigger a \<noteq> [], ''hook_trigger'', JStr (avHookTrigger a)),
      (avSubscribe a \<noteq> [], ''subscriptions'', JArr (map JStr (avSubscribe a))),
      (avExclude a \<noteq> [], ''subscriptions_exclude'', JArr (map JStr (avExclude a)))]"
  by (simp add: advice_entries_def)

lemma fold_entry:
  "fold_opt f (map snd (filter fst ((c, kv) # xs))) s =
     (case (if c then f kv s else Some s) of None \<Rightarrow> None | Some s' \<Rightarrow> fold_opt f (map snd (filter fst xs)) s')"
  by simp

lemma jsonb_strings [simp]: "map jsonb (map JStr xs) = map JStr xs"
  by simp

lemma jsonb_entries:
  assumes "distinct (map (\<lambda>x. fst (snd x)) xs)" "\<And>x. x \<in> set xs \<Longrightarrow> jsonb (snd (snd x)) = snd (snd x)"
  shows "jsonb (JObj (map snd (filter fst xs))) = JObj (map snd (filter fst xs))"
proof -
  have "map (map_prod (\<lambda>k. k) jsonb) (map snd (filter fst xs)) = map snd (filter fst xs)"
    using assms(2) by (simp add: map_prod_def case_prod_unfold)
  moreover have "distinct (map fst (map snd (filter fst xs)))"
    using distinct_map_filter [OF assms(1), of fst] by (simp add: comp_def)
  ultimately show ?thesis by (simp only: jsonb.simps put_all_distinct_Nil)
qed

lemma advice_raw_stored: "jsonb_store (advice_raw a) = Some (advice_raw a)"
proof (cases "map snd (filter fst (advice_entries a)) = []")
  case True
  then show ?thesis by (simp add: advice_raw_def jsonb_store_def)
next
  case False
  have "jsonb (JObj (map snd (filter fst (sort_key (\<lambda>x. fst (snd x)) (advice_entries a))))) =
        JObj (map snd (filter fst (sort_key (\<lambda>x. fst (snd x)) (advice_entries a))))"
    by (rule jsonb_entries; unfold sorted_entries) auto
  then show ?thesis using False
    by (simp add: advice_raw_def jsonb_store_def marshal_map_def filter_sorted_entries)
qed

lemma decode_JStrs [simp]: "decode_strings (JArr (map JStr xs)) = Some xs"
proof -
  have "those (map (\<lambda>x. decode_string x []) (map JStr xs)) = Some xs"
    by (induction xs) (simp_all add: decode_string_def)
  then show ?thesis by (simp add: decode_strings_def)
qed

text \<open>The step of the decoder of \<open>adviceFields\<close>, and what it starts from.\<close>

definition advice_field :: "string \<Rightarrow> json \<Rightarrow> advice_fields \<Rightarrow> advice_fields option" where
  "advice_field k j f =
     (if fold_eq k ''hook_command'' then
        map_option (\<lambda>x. f\<lparr>afCommand := x\<rparr>) (decode_string j (afCommand f))
      else if fold_eq k ''hook_trigger'' then
        map_option (\<lambda>x. f\<lparr>afTrigger := x\<rparr>) (decode_string j (afTrigger f))
      else if fold_eq k ''hook_timeout'' then
        map_option (\<lambda>x. f\<lparr>afTimeout := x\<rparr>) (decode_int j (afTimeout f))
      else if fold_eq k ''hook_on_failure'' then
        map_option (\<lambda>x. f\<lparr>afOnFailure := x\<rparr>) (decode_string j (afOnFailure f))
      else if fold_eq k ''subscriptions'' then
        map_option (\<lambda>x. f\<lparr>afSubscriptions := x\<rparr>) (decode_strings j)
      else if fold_eq k ''subscriptions_exclude'' then
        map_option (\<lambda>x. f\<lparr>afExclude := x\<rparr>) (decode_strings j)
      else Some f)"

definition no_hook :: advice_fields where
  "no_hook = \<lparr>afCommand = [], afTrigger = [], afTimeout = 0, afOnFailure = [], afSubscriptions = [], afExclude = []\<rparr>"

lemma parseAdviceFields_steps:
  "parseAdviceFields r = (if raw_empty r then Some no_hook else decode_struct advice_field r no_hook)"
  unfolding parseAdviceFields_def Let_def no_hook_def advice_field_def ..

lemma advice_field_at:
  "advice_field ''hook_command'' (JStr s) f = Some (f\<lparr>afCommand := s\<rparr>)"
  "advice_field ''hook_trigger'' (JStr s) f = Some (f\<lparr>afTrigger := s\<rparr>)"
  "int64_ok n \<Longrightarrow> advice_field ''hook_timeout'' (JInt n) f = Some (f\<lparr>afTimeout := n\<rparr>)"
  "advice_field ''hook_on_failure'' (JStr s) f = Some (f\<lparr>afOnFailure := s\<rparr>)"
  "advice_field ''subscriptions'' (JArr (map JStr xs)) f = Some (f\<lparr>afSubscriptions := xs\<rparr>)"
  "advice_field ''subscriptions_exclude'' (JArr (map JStr xs)) f = Some (f\<lparr>afExclude := xs\<rparr>)"
  by (simp_all add: advice_field_def fold_eq_def ascii_upper_def decode_string_def decode_int_def)

lemma if_present [simp]:
  "(if xs \<noteq> [] then Some (f xs) else Some s) = Some (if xs \<noteq> [] then f xs else s)"
  "(if n \<noteq> 0 then Some (g n) else Some s) = Some (if n \<noteq> (0::int) then g n else s)"
  by simp_all

lemma parse_advice_raw:
  assumes "int64_ok (avHookTimeout a)"
  shows "parseAdviceFields (advice_raw a) =
    Some \<lparr>afCommand = avHookCommand a, afTrigger = avHookTrigger a, afTimeout = avHookTimeout a,
      afOnFailure = avHookOnFailure a, afSubscriptions = avSubscribe a, afExclude = avExclude a\<rparr>"
proof (cases "map snd (filter fst (advice_entries a)) = []")
  case True
  then show ?thesis
    by (auto simp: advice_raw_def parseAdviceFields_def advice_entries_def split: if_splits)
next
  case False
  then have r: "advice_raw a = Raw (JObj (map snd (filter fst (sort_key (\<lambda>x. fst (snd x)) (advice_entries a)))))"
    by (simp add: advice_raw_def marshal_map_def filter_sorted_entries)
  have "fold_opt (\<lambda>(k, v). advice_field k v) (map snd (filter fst (sort_key (\<lambda>x. fst (snd x)) (advice_entries a)))) no_hook =
    Some \<lparr>afCommand = avHookCommand a, afTrigger = avHookTrigger a, afTimeout = avHookTimeout a,
      afOnFailure = avHookOnFailure a, afSubscriptions = avSubscribe a, afExclude = avExclude a\<rparr>"
    unfolding sorted_entries fold_entry prod.case advice_field_at advice_field_at(3) [OF assms] if_present option.case
    by (simp add: no_hook_def)
  then show ?thesis by (simp add: parseAdviceFields_steps r decode_struct_def)
qed

lemma scoped_labels:
  assumes "MatchesSubscriptions ls subs" "p @ x \<in> set ls" "p = ''rig:'' \<or> p = ''agent:''"
  shows "p @ x \<in> set subs"
proof -
  have "scope_in (set subs) (StripGroupPrefix (p @ x))"
    using assms(1,2) by (simp add: MatchesSubscriptions_iff required_ok_iff)
  moreover have "StripGroupPrefix (p @ x) = p @ x" using assms(3) by (auto simp: StripGroupPrefix_def)
  ultimately have "scope_in (set subs) (p @ x)" by simp
  moreover have "has_prefix (p @ x) ''rig:'' \<or> has_prefix (p @ x) ''agent:''"
    using assms(3) by (auto simp: has_prefix_iff)
  ultimately show ?thesis unfolding scope_in_def by blast
qed

lemma global_reaches_all: "MatchesSubscriptions [''global''] (BuildAgentSubscriptions agent extra)"
  by (simp add: MatchesSubscriptions_iff required_ok_iff scope_in_def label_eval ParseGroups_def add_to_def
      BuildAgentSubscriptions_def Let_def)

lemma own_labels:
  "avRig a \<noteq> [] \<Longrightarrow> ''rig:'' @ avRig a \<in> set (advice_labels a)"
  "avAgent a \<noteq> [] \<Longrightarrow> ''agent:'' @ avAgent a \<in> set (advice_labels a)"
  by (simp_all add: advice_labels_def Let_def)

definition untargeted :: "advice_opts \<Rightarrow> bool" where
  "untargeted a \<longleftrightarrow> avLabels a = [] \<and> avRig a = [] \<and> avRole a = [] \<and> avAgent a = []"


definition lint_advice :: advice_opts where
  "lint_advice = \<lparr>avText = ''Run lint'', avTitle = [], avDescription = [], avPriority = 2, avLabels = [],
     avRig = ''beads'', avRole = [], avAgent = [], avHookCommand = ''make lint'', avHookTrigger = ''session-end'',
     avHookTimeout = 60, avHookOnFailure = ''block'', avSubscribe = [], avExclude = []\<rparr>"


text \<open>The labels always hold a target; but one that only names a project is not taken for one.\<close>

lemma always_targeted: "hasTargetingLabel (advice_labels a)"
proof -
  have "hasTargetingLabel (ls @ [''global''])" for ls by (induction ls) auto
  then show ?thesis unfolding advice_labels_def Let_def by presburger
qed

lemma project_label_made_global:
  "advice_labels (lint_advice\<lparr>avRig := [], avLabels := [''project:beads'']\<rparr>) = [''project:beads'', ''global'']"
  by (simp add: advice_labels_def lint_advice_def)

end
