(* ===== verification/Rows.thy ===== *)
theory Rows
  imports Store
begin

text \<open>
  The rows under the tables (\<open>internal/store/postgres/scan.go\<close>): which columns may be
  \<open>NULL\<close>, what the queries send for a bead and what \<open>Scan\<close> makes of a row, an error of the
  driver included. The tables of beads are what a scan of these rows gives. Last, the store as
  the interface of \<open>internal/store/store.go\<close>, on the connection and inside a transaction.
\<close>

subsection \<open>Columns\<close>

text \<open>
  The columns of \<open>beadColumns\<close>; \<open>None\<close> is \<open>NULL\<close>. \<open>'f\<close> is the type of \<open>fields\<close>: bytes on the
  way in, a JSON value in the table.
\<close>

record 'f bead_columns =
  rwID :: string
  rwSlug :: "string option"
  rwKind :: string
  rwType :: string
  rwTitle :: string
  rwDescription :: "string option"
  rwNotes :: "string option"
  rwStatus :: string
  rwPriority :: int
  rwAssignee :: "string option"
  rwOwner :: "string option"
  rwCreatedAt :: time
  rwCreatedBy :: "string option"
  rwUpdatedAt :: time
  rwClosedAt :: "time option"
  rwClosedBy :: "string option"
  rwDueAt :: "time option"
  rwDeferUntil :: "time option"
  rwFields :: 'f

type_synonym bead_cols = "json option bead_columns"

text \<open>\<open>String\<close> of a \<open>sql.NullString\<close>, empty for \<open>NULL\<close>.\<close>

definition null_text :: "string option \<Rightarrow> string" where
  "null_text x = (case x of None \<Rightarrow> [] | Some s \<Rightarrow> s)"

definition nullString :: "string \<Rightarrow> string option" where
  "nullString s = (if s = [] then None else Some s)"

text \<open>A \<open>*time.Time\<close> and a \<open>sql.NullTime\<close> are both an optional time.\<close>

definition nullTimePtr :: "time option \<Rightarrow> time option" where
  "nullTimePtr t = (case t of None \<Rightarrow> None | Some x \<Rightarrow> Some x)"

definition jsonbBytes :: "raw \<Rightarrow> raw" where
  "jsonbBytes m = (if raw_empty m then RawNil else m)"

definition json_bytes :: "json option \<Rightarrow> raw" where
  "json_bytes j = (case j of None \<Rightarrow> RawNil | Some v \<Rightarrow> Raw v)"

subsection \<open>Scanning\<close>

text \<open>\<open>row.Scan\<close> gives the columns or an error; a scan error ends the loop over the rows.\<close>

definition row_bead :: "bead_cols \<Rightarrow> bead" where
  "row_bead r =
     \<lparr>bID = rwID r, bSlug = null_text (rwSlug r), bKind = rwKind r, bType = rwType r, bTitle = rwTitle r,
      bDescription = null_text (rwDescription r), bNotes = null_text (rwNotes r), bStatus = rwStatus r,
      bPriority = rwPriority r, bAssignee = null_text (rwAssignee r), bOwner = null_text (rwOwner r),
      bCreatedAt = rwCreatedAt r, bCreatedBy = null_text (rwCreatedBy r), bUpdatedAt = rwUpdatedAt r,
      bClosedAt = rwClosedAt r, bClosedBy = null_text (rwClosedBy r), bDueAt = rwDueAt r,
      bDeferUntil = rwDeferUntil r, bFields = json_bytes (rwFields r),
      bLabels = [], bDependencies = [], bComments = []\<rparr>"

definition scanBead :: "bead_cols res \<Rightarrow> bead res" where
  "scanBead row = (case row of Inl e \<Rightarrow> Inl e | Inr r \<Rightarrow> Inr (row_bead r))"

definition scanBeadWithTotal :: "(int \<times> bead_cols) res \<Rightarrow> (bead \<times> int) res" where
  "scanBeadWithTotal row = (case row of Inl e \<Rightarrow> Inl e | Inr (n, r) \<Rightarrow> Inr (row_bead r, n))"

record dep_columns =
  rdBeadID :: string
  rdDependsOnID :: string
  rdType :: string
  rdCreatedAt :: time
  rdCreatedBy :: "string option"
  rdMetadata :: "string option"

definition row_dependency :: "dep_columns \<Rightarrow> dependency" where
  "row_dependency r =
     \<lparr>dBeadID = rdBeadID r, dDependsOnID = rdDependsOnID r, dType = rdType r, dCreatedAt = rdCreatedAt r,
      dCreatedBy = null_text (rdCreatedBy r), dMetadata = null_text (rdMetadata r)\<rparr>"

definition scanDependency :: "dep_columns res \<Rightarrow> dependency res" where
  "scanDependency row = (case row of Inl e \<Rightarrow> Inl e | Inr r \<Rightarrow> Inr (row_dependency r))"

record comment_columns =
  rcID :: int
  rcBeadID :: string
  rcAuthor :: "string option"
  rcText :: string
  rcCreatedAt :: time

definition row_comment :: "comment_columns \<Rightarrow> comment" where
  "row_comment r =
     \<lparr>cID = rcID r, cBeadID = rcBeadID r, cAuthor = null_text (rcAuthor r), cText = rcText r,
      cCreatedAt = rcCreatedAt r\<rparr>"

definition scanComment :: "comment_columns res \<Rightarrow> comment res" where
  "scanComment row = (case row of Inl e \<Rightarrow> Inl e | Inr r \<Rightarrow> Inr (row_comment r))"

record event_columns =
  reID :: int
  reTopic :: string
  reBeadID :: string
  reActor :: "string option"
  rePayload :: "json option"
  reCreatedAt :: time

definition row_event :: "event_columns \<Rightarrow> event" where
  "row_event r =
     \<lparr>eID = reID r, eTopic = reTopic r, eBeadID = reBeadID r, eActor = null_text (reActor r),
      ePayload = json_bytes (rePayload r), eCreatedAt = reCreatedAt r\<rparr>"

definition scanEvent :: "event_columns res \<Rightarrow> event res" where
  "scanEvent row = (case row of Inl e \<Rightarrow> Inl e | Inr r \<Rightarrow> Inr (row_event r))"

record config_columns =
  rkKey :: string
  rkValue :: json
  rkCreatedAt :: time
  rkUpdatedAt :: time

definition row_config :: "config_columns \<Rightarrow> config" where
  "row_config r =
     \<lparr>kKey = rkKey r, kValue = Raw (rkValue r), kCreatedAt = rkCreatedAt r, kUpdatedAt = rkUpdatedAt r\<rparr>"

definition scanConfig :: "config_columns res \<Rightarrow> config res" where
  "scanConfig row = (case row of Inl e \<Rightarrow> Inl e | Inr r \<Rightarrow> Inr (row_config r))"

text \<open>\<open>rows.Next\<close> yields the rows in turn; \<open>rows.Err\<close> is what ended them, if not their end.\<close>

fun scan_rows :: "('c res \<Rightarrow> 'a res) \<Rightarrow> 'c res list \<Rightarrow> err option \<Rightarrow> 'a list res" where
  "scan_rows scan [] broken = (case broken of None \<Rightarrow> Inr [] | Some e \<Rightarrow> Inl e)"
| "scan_rows scan (row # rows) broken =
     (case scan row of
        Inl e \<Rightarrow> Inl e
      | Inr x \<Rightarrow> (case scan_rows scan rows broken of Inl e \<Rightarrow> Inl e | Inr xs \<Rightarrow> Inr (x # xs)))"

definition scanDependencies :: "dep_columns res list \<Rightarrow> err option \<Rightarrow> dependency list res" where
  "scanDependencies = scan_rows scanDependency"

definition scanComments :: "comment_columns res list \<Rightarrow> err option \<Rightarrow> comment list res" where
  "scanComments = scan_rows scanComment"

definition scanEvents :: "event_columns res list \<Rightarrow> err option \<Rightarrow> event list res" where
  "scanEvents = scan_rows scanEvent"

definition scanConfigs :: "config_columns res list \<Rightarrow> err option \<Rightarrow> config list res" where
  "scanConfigs = scan_rows scanConfig"

subsection \<open>What the statements do to the rows\<close>

text \<open>The arguments of \<open>queryCreateBead\<close>, in the order of the columns.\<close>

definition create_args :: "bead \<Rightarrow> raw bead_columns" where
  "create_args b =
     \<lparr>rwID = bID b, rwSlug = nullString (bSlug b), rwKind = bKind b, rwType = bType b, rwTitle = bTitle b,
      rwDescription = Some (bDescription b), rwNotes = Some (bNotes b), rwStatus = bStatus b,
      rwPriority = bPriority b, rwAssignee = Some (bAssignee b), rwOwner = Some (bOwner b),
      rwCreatedAt = bCreatedAt b, rwCreatedBy = Some (bCreatedBy b), rwUpdatedAt = bUpdatedAt b,
      rwClosedAt = nullTimePtr (bClosedAt b), rwClosedBy = Some (bClosedBy b),
      rwDueAt = nullTimePtr (bDueAt b), rwDeferUntil = nullTimePtr (bDeferUntil b),
      rwFields = jsonbBytes (bFields b)\<rparr>"

text \<open>
  The database keeps microseconds of a time and the JSON value of bytes; bytes that are not JSON
  it refuses.
\<close>

definition jsonb_column :: "raw \<Rightarrow> json option option" where
  "jsonb_column r =
     (case r of RawNil \<Rightarrow> Some None | Raw j \<Rightarrow> Some (Some (jsonb j)) | _ \<Rightarrow> None)"

definition stored_columns :: "raw bead_columns \<Rightarrow> bead_cols option" where
  "stored_columns a =
     map_option (\<lambda>j.
       \<lparr>rwID = rwID a, rwSlug = rwSlug a, rwKind = rwKind a, rwType = rwType a, rwTitle = rwTitle a,
        rwDescription = rwDescription a, rwNotes = rwNotes a, rwStatus = rwStatus a,
        rwPriority = rwPriority a, rwAssignee = rwAssignee a, rwOwner = rwOwner a,
        rwCreatedAt = pg_time (rwCreatedAt a), rwCreatedBy = rwCreatedBy a,
        rwUpdatedAt = pg_time (rwUpdatedAt a), rwClosedAt = map_option pg_time (rwClosedAt a),
        rwClosedBy = rwClosedBy a, rwDueAt = map_option pg_time (rwDueAt a),
        rwDeferUntil = map_option pg_time (rwDeferUntil a), rwFields = j\<rparr>)
     (jsonb_column (rwFields a))"

definition insert_row :: "raw bead_columns \<Rightarrow> bead_cols list \<Rightarrow> unit res \<times> bead_cols list" where
  "insert_row a rows =
     (case stored_columns a of
        None \<Rightarrow> (Inl bad_json, rows)
      | Some r \<Rightarrow>
          if rwID a \<in> rwID ` set rows then (Inl (dup_key ''beads_pkey''), rows)
          else (Inr (), rows @ [r]))"

definition find_row :: "string \<Rightarrow> bead_cols list \<Rightarrow> bead_cols res" where
  "find_row i rows = (case List.find (\<lambda>r. rwID r = i) rows of None \<Rightarrow> Inl ErrNoRows | Some r \<Rightarrow> Inr r)"

text \<open>\<open>UPDATE\<close> with the arguments of \<open>queryUpdateBead\<close>: all columns but three, and \<open>updated_at\<close>.\<close>

definition set_columns :: "time \<Rightarrow> bead_cols \<Rightarrow> bead_cols \<Rightarrow> bead_cols" where
  "set_columns tm r old =
     r\<lparr>rwID := rwID old, rwCreatedAt := rwCreatedAt old, rwCreatedBy := rwCreatedBy old, rwUpdatedAt := tm\<rparr>"

definition update_row :: "time \<Rightarrow> raw bead_columns \<Rightarrow> bead_cols list \<Rightarrow> time res \<times> bead_cols list" where
  "update_row tm a rows =
     (case stored_columns a of
        None \<Rightarrow> (Inl bad_json, rows)
      | Some r \<Rightarrow>
          if rwID a \<notin> rwID ` set rows then (Inl ErrNoRows, rows)
          else (Inr tm, map (\<lambda>old. if rwID old = rwID a then set_columns tm r old else old) rows))"

subsection \<open>The tables are what a scan gives\<close>

lemma null_text_simps [simp]:
  "null_text None = []" "null_text (Some s) = s" "null_text (nullString s) = s"
  by (simp_all add: null_text_def nullString_def)

lemma nullTimePtr_id [simp]: "nullTimePtr t = t"
  by (cases t) (simp_all add: nullTimePtr_def)

lemma bID_row [simp]: "bID (row_bead r) = rwID r"
  by (simp add: row_bead_def)

lemma jsonb_column_store:
  "jsonb_store m = map_option json_bytes (jsonb_column (jsonbBytes m))"
  by (cases m) (simp_all add: jsonb_store_def jsonb_column_def jsonbBytes_def json_bytes_def raw_empty_def)

lemma row_of_create_args:
  "stored_columns (create_args b) = Some r \<Longrightarrow>
     \<exists>f. jsonb_store (bFields b) = Some f \<and> row_bead r = bead_row b f"
  by (auto simp: stored_columns_def create_args_def row_bead_def bead_row_def jsonb_column_store)

lemma stored_None: "stored_columns (create_args b) = None \<longleftrightarrow> jsonb_store (bFields b) = None"
  by (auto simp: stored_columns_def create_args_def jsonb_column_store)

lemma rwID_stored: "stored_columns a = Some r \<Longrightarrow> rwID r = rwID a"
  by (auto simp: stored_columns_def)

lemma find_row_bead: "List.find (\<lambda>b. bID b = i) (map row_bead rows) = map_option row_bead (List.find (\<lambda>r. rwID r = i) rows)"
  by (induction rows) auto

lemma row_bead_set_columns:
  "row_bead r = bead_row b f \<Longrightarrow> row_bead (set_columns tm r old) = updated_row tm b f (row_bead old)"
  unfolding updated_row_def by (drule sym) (simp add: row_bead_def set_columns_def)

definition holds_rows :: "tables \<Rightarrow> bead_cols list \<Rightarrow> bool" where
  "holds_rows t rows \<longleftrightarrow> tBeads t = map row_bead rows"

lemma holds_rows_ids: "holds_rows t rows \<Longrightarrow> bead_ids t = rwID ` set rows"
  by (simp add: holds_rows_def bead_ids_def image_image)

lemma scanned_row:
  "holds_rows t rows \<Longrightarrow> sql_select_bead i t = (scanBead (find_row i rows), t)"
  by (auto simp: holds_rows_def sql_select_bead_def find_bead_def find_row_bead find_row_def scanBead_def
      split: option.split)

lemma inserted_row:
  assumes "holds_rows t rows"
  shows "fst (sql_insert_bead b t) = fst (insert_row (create_args b) rows)
    \<and> holds_rows (snd (sql_insert_bead b t)) (snd (insert_row (create_args b) rows))"
proof (cases "stored_columns (create_args b)")
  case None
  with stored_None have "jsonb_store (bFields b) = None" by blast
  with None show ?thesis using assms by (simp add: sql_insert_bead_def insert_row_def)
next
  case (Some r)
  then obtain f where f: "jsonb_store (bFields b) = Some f" "row_bead r = bead_row b f"
    using row_of_create_args by blast
  have "rwID (create_args b) = bID b" by (simp add: create_args_def)
  then show ?thesis
    using assms f Some by (simp add: sql_insert_bead_def insert_row_def holds_rows_ids) (simp add: holds_rows_def)
qed

lemma updated_rows:
  assumes "holds_rows t rows"
  shows "fst (sql_update_bead tm b t) = fst (update_row tm (create_args b) rows)
    \<and> holds_rows (snd (sql_update_bead tm b t)) (snd (update_row tm (create_args b) rows))"
proof (cases "stored_columns (create_args b)")
  case None
  with stored_None have "jsonb_store (bFields b) = None" by blast
  with None show ?thesis using assms by (simp add: sql_update_bead_def update_row_def)
next
  case (Some r)
  then obtain f where f: "jsonb_store (bFields b) = Some f" "row_bead r = bead_row b f"
    using row_of_create_args by blast
  have i: "rwID (create_args b) = bID b" by (simp add: create_args_def)
  have found: "find_bead (bID b) t = None \<longleftrightarrow> bID b \<notin> rwID ` set rows"
    using assms by (force simp: find_bead_def holds_rows_def find_row_bead find_None_iff image_iff)
  show ?thesis
    using assms f Some found
    by (auto simp: sql_update_bead_def update_row_def i map_bead_def holds_rows_def
        row_bead_set_columns split: option.split)
qed

lemma read_back:
  assumes "fst (insert_row (create_args b) rows) = Inr ()"
  shows "\<exists>f. jsonb_store (bFields b) = Some f
    \<and> scanBead (find_row (bID b) (snd (insert_row (create_args b) rows))) = Inr (bead_row b f)"
proof -
  have i: "rwID (create_args b) = bID b" by (simp add: create_args_def)
  obtain r where r: "stored_columns (create_args b) = Some r" "bID b \<notin> rwID ` set rows"
    "snd (insert_row (create_args b) rows) = rows @ [r]"
    using assms by (auto simp: insert_row_def i split: option.splits if_splits)
  have "List.find (\<lambda>r. rwID r = bID b) rows = None" using r(2) by (force simp: find_None_iff)
  moreover have "rwID r = bID b" using rwID_stored [OF r(1)] i by simp
  ultimately have "find_row (bID b) (rows @ [r]) = Inr r" by (simp add: find_row_def find_append)
  then show ?thesis using row_of_create_args [OF r(1)] r(3) by (auto simp: scanBead_def)
qed

text \<open>
  C2: the tables of beads are what scanning the rows gives. Over rows whose scan is the table,
  inserting or updating a bead, with the \<open>NULL\<close>s its empty columns are sent as, has the result
  the model of the statement has and leaves rows whose scan is its table; reading a bead scans its
  row. So the bead read back after an insertion differs from the one inserted in the rounding of
  its times, the normal form of its fields and its relations only.
\<close>

theorem rows_refine_beads:
  assumes "holds_rows t rows"
  shows "fst (sql_insert_bead b t) = fst (insert_row (create_args b) rows)
    \<and> holds_rows (snd (sql_insert_bead b t)) (snd (insert_row (create_args b) rows))
    \<and> fst (sql_update_bead tm b t) = fst (update_row tm (create_args b) rows)
    \<and> holds_rows (snd (sql_update_bead tm b t)) (snd (update_row tm (create_args b) rows))
    \<and> sql_select_bead i t = (scanBead (find_row i rows), t)
    \<and> (fst (insert_row (create_args b) rows) = Inr () \<longrightarrow>
        (\<exists>f. jsonb_store (bFields b) = Some f
          \<and> scanBead (find_row (bID b) (snd (insert_row (create_args b) rows))) = Inr (bead_row b f)))"
  using inserted_row [OF assms] updated_rows [OF assms] scanned_row [OF assms] read_back by blast

definition sample_stored :: bead where
  "sample_stored = sample_bead\<lparr>bID := ''kd-7'', bCreatedAt := 1700, bFields := RawEmpty\<rparr>"

lemma rows_refine_beads_witness:
  "holds_rows no_tables []
   \<and> fst (insert_row (create_args sample_stored) []) = Inr ()
   \<and> scanBead (find_row ''kd-7'' (snd (insert_row (create_args sample_stored) [])))
       = Inr (bead_row sample_stored RawNil)
   \<and> sql_select_bead ''kd-7'' no_tables = (Inl ErrNoRows, no_tables)"
proof -
  have h: "holds_rows no_tables []" by (simp add: holds_rows_def no_tables_def)
  have f: "jsonb_store (bFields sample_stored) = Some f \<longleftrightarrow> f = RawNil" for f
    by (auto simp: sample_stored_def jsonb_store_def)
  have i: "bID sample_stored = ''kd-7''" by (simp add: sample_stored_def)
  have ok: "fst (insert_row (create_args sample_stored) []) = Inr ()"
    by (simp add: insert_row_def stored_columns_def create_args_def sample_stored_def jsonb_column_def jsonbBytes_def)
  show ?thesis
    using rows_refine_beads [OF h, of sample_stored 0 "''kd-7''"] h ok f i
    by (auto simp: find_row_def scanBead_def)
qed

subsection \<open>The store as an interface\<close>

text \<open>
  The operations of \<open>Store\<close>, but for \<open>RunInTransaction\<close> and \<open>Close\<close>. What a query writes into its
  argument is part of its result.
\<close>

record 's bead_store =
  stCreateBead :: "bead \<Rightarrow> ('s, unit) op"
  stGetBead :: "string \<Rightarrow> ('s, bead) op"
  stListBeads :: "bead_filter \<Rightarrow> ('s, bead list \<times> nat) op"
  stUpdateBead :: "bead \<Rightarrow> ('s, time) op"
  stCloseBead :: "string \<Rightarrow> string \<Rightarrow> ('s, bead) op"
  stDeleteBead :: "string \<Rightarrow> ('s, unit) op"
  stAddDependency :: "dependency \<Rightarrow> ('s, unit) op"
  stRemoveDependency :: "string \<Rightarrow> string \<Rightarrow> string \<Rightarrow> ('s, unit) op"
  stGetDependencies :: "string \<Rightarrow> ('s, dependency list) op"
  stGetReverseDependencies :: "string \<Rightarrow> ('s, dependency list) op"
  stGetDependenciesForBeads :: "string list \<Rightarrow> ('s, (string \<times> dependency list) list) op"
  stGetReverseDependenciesForBeads :: "string list \<Rightarrow> ('s, (string \<times> dependency list) list) op"
  stGetDependencyCounts :: "string list \<Rightarrow> ('s, (string \<times> dep_counts) list) op"
  stGetLabelsForBeads :: "string list \<Rightarrow> ('s, (string \<times> string list) list) op"
  stGetBlockedByForBeads :: "string list \<Rightarrow> ('s, (string \<times> string list) list) op"
  stGetBeadsByIDs :: "string list \<Rightarrow> ('s, bead list) op"
  stAddLabel :: "string \<Rightarrow> string \<Rightarrow> ('s, unit) op"
  stRemoveLabel :: "string \<Rightarrow> string \<Rightarrow> ('s, unit) op"
  stGetLabels :: "string \<Rightarrow> ('s, string list) op"
  stAddComment :: "comment \<Rightarrow> ('s, comment) op"
  stGetComments :: "string \<Rightarrow> ('s, comment list) op"
  stRecordEvent :: "event \<Rightarrow> ('s, event) op"
  stGetEvents :: "string \<Rightarrow> ('s, event list) op"
  stGetStats :: "('s, graph_stats) op"
  stSetConfig :: "config \<Rightarrow> ('s, config) op"
  stGetConfig :: "string \<Rightarrow> ('s, config) op"
  stListConfigs :: "string \<Rightarrow> ('s, config list) op"
  stListAllConfigs :: "('s, config list) op"
  stDeleteConfig :: "string \<Rightarrow> ('s, unit) op"
  stUpsertGate :: "string \<Rightarrow> string \<Rightarrow> ('s, unit) op"
  stMarkGateSatisfied :: "string \<Rightarrow> string \<Rightarrow> ('s, unit) op"
  stClearGate :: "string \<Rightarrow> string \<Rightarrow> ('s, unit) op"
  stIsGateSatisfied :: "string \<Rightarrow> string \<Rightarrow> ('s, bool) op"
  stListGates :: "string \<Rightarrow> ('s, gate_row list) op"

text \<open>
  \<open>PostgresStore\<close> sends each statement on the connection, \<open>txStore\<close> on the transaction: in both
  the state is that of the connection, and what a transaction undoes is \<open>RunInTransaction\<close>.
\<close>

definition pg_store :: "'z pg_scheme bead_store" where
  "pg_store =
     \<lparr>stCreateBead = queryCreateBead, stGetBead = queryGetBead, stListBeads = queryListBeads,
      stUpdateBead = queryUpdateBead, stCloseBead = queryCloseBead, stDeleteBead = queryDeleteBead,
      stAddDependency = queryAddDependency, stRemoveDependency = queryRemoveDependency,
      stGetDependencies = queryGetDependencies,
      stGetReverseDependencies = queryGetReverseDependencies,
      stGetDependenciesForBeads = queryGetDependenciesForBeads,
      stGetReverseDependenciesForBeads = queryGetReverseDependenciesForBeads,
      stGetDependencyCounts = queryGetDependencyCounts,
      stGetLabelsForBeads = queryGetLabelsForBeads,
      stGetBlockedByForBeads = queryGetBlockedByForBeads, stGetBeadsByIDs = queryGetBeadsByIDs,
      stAddLabel = queryAddLabel, stRemoveLabel = queryRemoveLabel, stGetLabels = queryGetLabels,
      stAddComment = queryAddComment, stGetComments = queryGetComments,
      stRecordEvent = queryRecordEvent, stGetEvents = queryGetEvents, stGetStats = queryGetStats,
      stSetConfig = querySetConfig, stGetConfig = queryGetConfig, stListConfigs = queryListConfigs,
      stListAllConfigs = queryListAllConfigs, stDeleteConfig = queryDeleteConfig,
      stUpsertGate = UpsertGate, stMarkGateSatisfied = MarkGateSatisfied, stClearGate = ClearGate,
      stIsGateSatisfied = IsGateSatisfied, stListGates = ListGates\<rparr>"

definition tx_store :: "'z pg_scheme bead_store" where
  "tx_store =
     \<lparr>stCreateBead = queryCreateBead, stGetBead = queryGetBead, stListBeads = queryListBeads,
      stUpdateBead = queryUpdateBead, stCloseBead = queryCloseBead, stDeleteBead = queryDeleteBead,
      stAddDependency = queryAddDependency, stRemoveDependency = queryRemoveDependency,
      stGetDependencies = queryGetDependencies,
      stGetReverseDependencies = queryGetReverseDependencies,
      stGetDependenciesForBeads = queryGetDependenciesForBeads,
      stGetReverseDependenciesForBeads = queryGetReverseDependenciesForBeads,
      stGetDependencyCounts = queryGetDependencyCounts,
      stGetLabelsForBeads = queryGetLabelsForBeads,
      stGetBlockedByForBeads = queryGetBlockedByForBeads, stGetBeadsByIDs = queryGetBeadsByIDs,
      stAddLabel = queryAddLabel, stRemoveLabel = queryRemoveLabel, stGetLabels = queryGetLabels,
      stAddComment = queryAddComment, stGetComments = queryGetComments,
      stRecordEvent = queryRecordEvent, stGetEvents = queryGetEvents, stGetStats = queryGetStats,
      stSetConfig = querySetConfig, stGetConfig = queryGetConfig, stListConfigs = queryListConfigs,
      stListAllConfigs = queryListAllConfigs, stDeleteConfig = queryDeleteConfig,
      stUpsertGate = UpsertGate, stMarkGateSatisfied = MarkGateSatisfied, stClearGate = ClearGate,
      stIsGateSatisfied = IsGateSatisfied, stListGates = ListGates\<rparr>"

definition pg_RunInTransaction :: "('z pg_scheme bead_store \<Rightarrow> ('z pg_scheme, 'a) op) \<Rightarrow> ('z pg_scheme, 'a) op" where
  "pg_RunInTransaction fn = RunInTransaction (fn tx_store)"

text \<open>In a transaction there is no other: the function runs on the store it is called on.\<close>

definition tx_RunInTransaction :: "('z pg_scheme bead_store \<Rightarrow> ('z pg_scheme, 'a) op) \<Rightarrow> ('z pg_scheme, 'a) op" where
  "tx_RunInTransaction fn = fn tx_store"

lemma same_operations: "tx_store = pg_store"
  by (simp add: tx_store_def pg_store_def)

text \<open>
  What a transaction inside another did stands when it fails and the outer one goes on: the outer
  commit keeps it, where a savepoint would have undone it.
\<close>

lemma inner_failure_kept:
  assumes f: "faults s = []"
  shows "db (snd (pg_RunInTransaction (\<lambda>tx. attempt (tx_RunInTransaction (\<lambda>tx'.
           and_then (stCreateBead tx' b) (\<lambda>_. fail e))) (\<lambda>_. ret ())) s))
         = db (snd (stCreateBead pg_store b s))"
proof -
  obtain r t where q: "sql_insert_bead b (db s) = (r, t)" by (cases "sql_insert_bead b (db s)")
  show ?thesis
    by (cases r) (simp_all add: pg_RunInTransaction_def tx_RunInTransaction_def RunInTransaction_def wrap_def
        stmt_def run_sql_def f q attempt_def and_then_def ret_def fail_def tx_store_def pg_store_def queryCreateBead_def)
qed

end
