(* ===== verification/Subscriber.thy ===== *)
theory Subscriber
  imports Prelude "HOL-Library.Sublist"
begin

text \<open>
  The subscriber of \<open>internal/events/nats.go\<close>: the callback the NATS client calls from its own
  goroutine, the channel it fills, the reader of the channel and the cancel function, which any
  number of goroutines may call, as a step relation whose steps are what one goroutine does without
  another seeing the middle of it. NATS is a parameter to this extent: it may call the callback at
  any time, after \<open>Unsubscribe\<close> too, for a message it has already taken.
\<close>

subsection \<open>The state\<close>

text \<open>
  How far \<open>Subscribe\<close> and the cancel function have come: the subscription made but not flushed;
  the caller has the channel; \<open>Unsubscribe\<close> done; \<open>closed\<close> set, draining; the channel found empty;
  the channel closed. \<open>Failed\<close>: the flush failed.
\<close>

datatype sub_phase = Flushing | Running | Unsubscribed | Draining | Emptied | Cancelled | Failed

text \<open>
  \<open>suDelivered\<close>, \<open>suReceived\<close>: the messages the callback was called with and those the reader has
  got, kept to state what becomes of them.
\<close>

record 'm subscriber =
  suQueue :: "'m list"
  suClosed :: bool
  suChannelClosed :: bool
  suPanicked :: bool
  suPhase :: sub_phase
  suDelivered :: "'m list"
  suReceived :: "'m list"

definition ChannelSize :: nat where "ChannelSize = 64"

definition NewSubscription :: "'m subscriber" where
  "NewSubscription = \<lparr>suQueue = [], suClosed = False, suChannelClosed = False, suPanicked = False,
     suPhase = Flushing, suDelivered = [], suReceived = []\<rparr>"

subsection \<open>The steps\<close>

text \<open>The callback, under the mutex; a send on a closed channel panics.\<close>

definition callback :: "'m \<Rightarrow> 'm subscriber \<Rightarrow> 'm subscriber" where
  "callback m s =
     (let s = s\<lparr>suDelivered := suDelivered s @ [m]\<rparr> in
      if suClosed s then s
      else if suChannelClosed s then s\<lparr>suPanicked := True\<rparr>
      else if length (suQueue s) < ChannelSize then s\<lparr>suQueue := suQueue s @ [m]\<rparr>
      else s)"

definition close_channel :: "'m subscriber \<Rightarrow> 'm subscriber" where
  "close_channel s = (if suChannelClosed s then s\<lparr>suPanicked := True\<rparr> else s\<lparr>suChannelClosed := True\<rparr>)"

text \<open>The flush, which registers the subscription on the server, and the return of \<open>Subscribe\<close>.\<close>

definition flushed :: "bool \<Rightarrow> 'm subscriber \<Rightarrow> 'm subscriber" where
  "flushed ok s =
     (if ok then s\<lparr>suPhase := Running\<rparr> else (close_channel s)\<lparr>suPhase := Failed\<rparr>)"

text \<open>
  One step of the cancel function: \<open>once.Do\<close> lets one call do the work, another finds it under way
  or done. The loop takes what is left in the channel and closes it when there is nothing left.
\<close>

definition cancel_step :: "'m subscriber \<Rightarrow> 'm subscriber" where
  "cancel_step s =
     (case suPhase s of
        Running \<Rightarrow> s\<lparr>suPhase := Unsubscribed\<rparr>
      | Unsubscribed \<Rightarrow> s\<lparr>suClosed := True, suPhase := Draining\<rparr>
      | Draining \<Rightarrow> (case suQueue s of [] \<Rightarrow> s\<lparr>suPhase := Emptied\<rparr> | _ # q \<Rightarrow> s\<lparr>suQueue := q\<rparr>)
      | Emptied \<Rightarrow> (close_channel s)\<lparr>suPhase := Cancelled\<rparr>
      | _ \<Rightarrow> s)"

inductive sub_step :: "'m subscriber \<Rightarrow> 'm subscriber \<Rightarrow> bool" where
  message: "sub_step s (callback m s)"
| flush: "suPhase s = Flushing \<Longrightarrow> sub_step s (flushed ok s)"
| receive: "suPhase s \<noteq> Flushing \<Longrightarrow> suQueue s = m # q \<Longrightarrow>
    sub_step s (s\<lparr>suQueue := q, suReceived := suReceived s @ [m]\<rparr>)"
| cancel: "sub_step s (cancel_step s)"

inductive sub_reachable :: "'m subscriber \<Rightarrow> bool" where
  start: "sub_reachable NewSubscription"
| step: "sub_reachable s \<Longrightarrow> sub_step s s' \<Longrightarrow> sub_reachable s'"

inductive_cases sub_stepE: "sub_step s s'"

subsection \<open>No send on a closed channel\<close>

text \<open>
  What holds of every state: the phase says what is closed, nothing has panicked but after a failed
  flush, the channel holds no more than its size and is empty once found empty, and what was
  received and is still queued came in this order.
\<close>

definition sub_inv :: "'m subscriber \<Rightarrow> bool" where
  "sub_inv s \<longleftrightarrow>
     length (suQueue s) \<le> ChannelSize
     \<and> subseq (suReceived s @ suQueue s) (suDelivered s)
     \<and> (suClosed s \<longleftrightarrow> suPhase s \<in> {Draining, Emptied, Cancelled})
     \<and> (suChannelClosed s \<longleftrightarrow> suPhase s \<in> {Cancelled, Failed})
     \<and> (suPanicked s \<longrightarrow> suPhase s = Failed)
     \<and> (suPhase s \<in> {Emptied, Cancelled} \<longrightarrow> suQueue s = [])"

lemma sub_inv_start: "sub_inv NewSubscription"
  by (simp add: sub_inv_def NewSubscription_def)

lemma subseq_snoc: "subseq xs ys \<Longrightarrow> subseq (xs @ [m]) (ys @ [m])"
  by (simp add: list_emb_append_mono)

lemma subseq_more: "subseq xs ys \<Longrightarrow> subseq xs (ys @ [m])"
  by (rule subseq_order.trans [OF _ list_emb_prefix]) (simp_all add: subseq_rev_drop_many)

lemma subseq_drop_mid: "subseq (xs @ m # q) ys \<Longrightarrow> subseq (xs @ q) ys"
  by (erule subseq_order.trans [rotated]) (intro list_emb_append_mono list_emb_Cons subseq_order.refl)

lemma sub_inv_callback: "sub_inv s \<Longrightarrow> sub_inv (callback m s)"
  using subseq_snoc [of "suReceived s @ suQueue s" "suDelivered s" m]
  by (auto simp: sub_inv_def callback_def Let_def intro: subseq_more)

lemma sub_inv_flushed: "sub_inv s \<Longrightarrow> suPhase s = Flushing \<Longrightarrow> sub_inv (flushed ok s)"
  by (auto simp: sub_inv_def flushed_def close_channel_def)

lemma sub_inv_cancel: "sub_inv s \<Longrightarrow> sub_inv (cancel_step s)"
  by (cases "suPhase s")
     (auto simp: sub_inv_def cancel_step_def close_channel_def split: list.split dest: subseq_drop_mid)

lemma sub_inv_step: "sub_step s s' \<Longrightarrow> sub_inv s \<Longrightarrow> sub_inv s'"
proof (induction rule: sub_step.induct)
  case (receive s m q)
  then show ?case by (auto simp: sub_inv_def)
qed (auto intro: sub_inv_callback sub_inv_flushed sub_inv_cancel)

lemma sub_inv_reachable: "sub_reachable s \<Longrightarrow> sub_inv s"
  by (induction rule: sub_reachable.induct) (auto intro: sub_inv_start sub_inv_step)

text \<open>
  C15: however messages, reads and cancels interleave, a subscription that was made never sends on
  its channel after closing it and closes it once; the channel never holds more than its 64 places;
  what the reader gets and what waits for it are delivered messages in their order; and after a
  cancel nothing waits.
\<close>

theorem subscription_safe:
  assumes "sub_reachable s" "suPhase s \<noteq> Failed"
  shows "\<not> suPanicked s \<and> length (suQueue s) \<le> 64
    \<and> subseq (suReceived s @ suQueue s) (suDelivered s)
    \<and> (suPhase s = Cancelled \<longrightarrow> suChannelClosed s \<and> suQueue s = [])"
  using sub_inv_reachable [OF assms(1)] assms(2) by (auto simp: sub_inv_def ChannelSize_def)

text \<open>Two messages, one read, then cancelled with the other still waiting, and a message too late.\<close>

definition cancelled_run :: "string subscriber" where
  "cancelled_run =
     callback ''c'' (cancel_step (cancel_step (cancel_step (cancel_step (cancel_step
       ((callback ''b'' (callback ''a'' (flushed True NewSubscription)))
         \<lparr>suQueue := [''b''], suReceived := [''a'']\<rparr>))))))"

lemma cancelled_run_reachable: "sub_reachable cancelled_run"
proof -
  let ?s = "callback ''b'' (callback ''a'' (flushed True NewSubscription))"
  have f: "sub_reachable (flushed True NewSubscription :: string subscriber)"
    by (rule step, rule start, rule flush) (simp add: NewSubscription_def)
  have s: "sub_reachable ?s"
    by (rule step, rule step, rule f) (rule message)+
  have "sub_step ?s (?s\<lparr>suQueue := [''b''], suReceived := suReceived ?s @ [''a'']\<rparr>)"
    by (rule receive) (simp_all add: callback_def Let_def flushed_def NewSubscription_def ChannelSize_def)
  moreover have "suReceived ?s = []" by (simp add: callback_def Let_def flushed_def NewSubscription_def)
  ultimately have "sub_reachable (?s\<lparr>suQueue := [''b''], suReceived := [''a'']\<rparr>)"
    using step [OF s] by simp
  then show ?thesis unfolding cancelled_run_def by (meson message cancel step)
qed

lemma subscription_safe_witness:
  "suPhase cancelled_run = Cancelled \<and> suDelivered cancelled_run = [''a'', ''b'', ''c'']
   \<and> suReceived cancelled_run = [''a''] \<and> \<not> suPanicked cancelled_run \<and> suQueue cancelled_run = []"
proof -
  have p: "suPhase cancelled_run = Cancelled" "suDelivered cancelled_run = [''a'', ''b'', ''c'']"
    "suReceived cancelled_run = [''a'']"
    by (simp_all add: cancelled_run_def callback_def Let_def cancel_step_def close_channel_def flushed_def
        NewSubscription_def ChannelSize_def)
  show ?thesis using subscription_safe [OF cancelled_run_reachable] p by simp
qed

text \<open>
  A failed flush closes the channel without setting \<open>closed\<close>: a message that NATS had already
  taken is then sent on the closed channel.
\<close>

lemma failed_flush_panics:
  "\<exists>s. sub_reachable s \<and> suPanicked (s :: string subscriber)"
proof -
  have "sub_reachable (callback ''m'' (flushed False NewSubscription) :: string subscriber)"
    by (rule step, rule step, rule start, rule flush) (simp add: NewSubscription_def, rule message)
  moreover have "suPanicked (callback ''m'' (flushed False NewSubscription) :: string subscriber)"
    by (simp add: callback_def flushed_def close_channel_def NewSubscription_def)
  ultimately show ?thesis by blast
qed

end
